(* ===== verification/Prelude.thy ===== *)
theory Prelude
  imports Main "HOL-Library.Product_Lexorder"
begin

text \<open>
  What every component of the development shares: the identifiers and instants of the program,
  \<open>Result\<close> as a sum type, and the SQL statements the repositories send, as operations on a table.

  \<^item> A \<open>Uuid\<close> is only ever compared and ordered by the code, so it is a number (PostgreSQL orders
    a \<open>uuid\<close> by its big-endian bytes, which is the order of the number they spell). A fresh one
    (\<open>gen_random_uuid()\<close>, \<open>Uuid::new_v4()\<close>) is an argument of the operation that draws it; an
    insert whose key is taken fails, as the primary key makes it fail.
  \<^item> A \<open>DateTime<Utc>\<close> is an instant in seconds; \<open>NOW()\<close> and \<open>Utc::now()\<close> are the argument
    \<open>now\<close> of the operation that reads a clock.
  \<^item> \<open>Result<T, E>\<close> is \<open>'e + 't\<close>, with \<open>Inl\<close> the error.
  \<^item> A table is the list of its rows in insertion order. \<open>UPDATE ... WHERE\<close>,
    \<open>DELETE ... WHERE\<close>, \<open>rows_affected()\<close>, \<open>INSERT\<close> under a unique key and \<open>ORDER BY\<close> are the
    operations below, with the lemmas that carry the component proofs collected in
    \<open>table_simps\<close>.
\<close>

type_synonym uuid = nat
type_synonym instant = int

named_theorems table_simps
named_theorems key_intros

text \<open>The causes the code wraps in its \<open>Internal\<close> variants: what the database refuses, and the rest.\<close>

datatype cause =
    UniqueViolation
  | ForeignKeyViolation
  | CheckViolation
  | IntegerOutOfRange
  | RowNotFound
  | OtherCause string


section \<open>Result\<close>

definition ok_or :: "'e \<Rightarrow> 'a option \<Rightarrow> 'e + 'a" where
  "ok_or e x = (case x of None \<Rightarrow> Inl e | Some a \<Rightarrow> Inr a)"

definition map_err :: "('e \<Rightarrow> 'f) \<Rightarrow> 'e + 'a \<Rightarrow> 'f + 'a" where
  "map_err f r = (case r of Inl e \<Rightarrow> Inl (f e) | Inr a \<Rightarrow> Inr a)"

text \<open>The \<open>?\<close> operator: stop at the first error.\<close>

definition and_then :: "'e + 'a \<Rightarrow> ('a \<Rightarrow> 'e + 'b) \<Rightarrow> 'e + 'b" where
  "and_then r f = (case r of Inl e \<Rightarrow> Inl e | Inr a \<Rightarrow> f a)"

text \<open>\<open>?\<close> in a function that also changes the state: an error returns the state as it is.\<close>

definition guard_st :: "'e + 'a \<Rightarrow> 's \<Rightarrow> ('a \<Rightarrow> ('e + 'b) \<times> 's) \<Rightarrow> ('e + 'b) \<times> 's" where
  "guard_st r s f = (case r of Inl e \<Rightarrow> (Inl e, s) | Inr a \<Rightarrow> f a)"

lemma ok_or_simps [simp]: "ok_or e None = Inl e" "ok_or e (Some a) = Inr a"
  by (simp_all add: ok_or_def)

lemma ok_or_Inr [simp]: "ok_or e x = Inr a \<longleftrightarrow> x = Some a"
  by (cases x) simp_all

lemma ok_or_Inl [simp]: "ok_or e x = Inl f \<longleftrightarrow> x = None \<and> e = f"
  by (cases x) auto

lemma map_err_simps [simp]: "map_err f (Inl e) = Inl (f e)" "map_err f (Inr a) = Inr a"
  by (simp_all add: map_err_def)

lemma map_err_Inr [simp]: "map_err f r = Inr a \<longleftrightarrow> r = Inr a"
  by (cases r) simp_all

lemma map_err_Inl [simp]: "map_err f r = Inl e \<longleftrightarrow> (\<exists>e'. r = Inl e' \<and> e = f e')"
  by (cases r) auto

lemma and_then_simps [simp]: "and_then (Inl e) f = Inl e" "and_then (Inr a) f = f a"
  by (simp_all add: and_then_def)

lemma and_then_Inr [simp]: "and_then r f = Inr b \<longleftrightarrow> (\<exists>a. r = Inr a \<and> f a = Inr b)"
  by (cases r) simp_all

lemma and_then_cong [fundef_cong]:
  "r = r' \<Longrightarrow> (\<And>a. r' = Inr a \<Longrightarrow> f a = g a) \<Longrightarrow> and_then r f = and_then r' g"
  by (cases r') simp_all

lemma guard_st_simps [simp]: "guard_st (Inl e) s f = (Inl e, s)" "guard_st (Inr a) s f = f a"
  by (simp_all add: guard_st_def)

lemma guard_st_Inr [simp]:
  "guard_st r s f = (Inr b, s') \<longleftrightarrow> (\<exists>a. r = Inr a \<and> f a = (Inr b, s'))"
  by (cases r) simp_all

lemma guard_st_Inl:
  "guard_st r s f = (Inl e, s') \<longleftrightarrow> (r = Inl e \<and> s' = s) \<or> (\<exists>a. r = Inr a \<and> f a = (Inl e, s'))"
  by (cases r) auto

text \<open>
  What a guard keeps of the state: if the error leaves it alone, a property of the state after the
  whole operation is a property of what runs behind the guard.
\<close>

lemma guard_st_snd:
  "P s \<Longrightarrow> (\<And>a. r = Inr a \<Longrightarrow> P (snd (f a))) \<Longrightarrow> P (snd (guard_st r s f))"
  by (cases r) simp_all

text \<open>A property of the state goes through the control flow of an operation.\<close>

lemma prod_snd:
  "P (snd p) \<Longrightarrow> (\<And>x s. p = (x, s) \<Longrightarrow> P s \<Longrightarrow> P (snd (f x s))) \<Longrightarrow> P (snd (case p of (x, s) \<Rightarrow> f x s))"
  by (cases p) auto

lemma sum_snd:
  "(\<And>x. r = Inl x \<Longrightarrow> P (snd (f x))) \<Longrightarrow> (\<And>x. r = Inr x \<Longrightarrow> P (snd (g x))) \<Longrightarrow>
   P (snd (case r of Inl x \<Rightarrow> f x | Inr x \<Rightarrow> g x))"
  by (cases r) auto

lemma option_snd:
  "P (snd p) \<Longrightarrow> (\<And>x. r = Some x \<Longrightarrow> P (snd (f x))) \<Longrightarrow> P (snd (case r of None \<Rightarrow> p | Some x \<Rightarrow> f x))"
  by (cases r) auto

lemma if_snd: "(c \<Longrightarrow> P (snd p)) \<Longrightarrow> (\<not> c \<Longrightarrow> P (snd q)) \<Longrightarrow> P (snd (if c then p else q))"
  by simp

lemma bool_snd: "(c \<Longrightarrow> P (snd p)) \<Longrightarrow> (\<not> c \<Longrightarrow> P (snd q)) \<Longrightarrow> P (snd (case c of True \<Rightarrow> p | False \<Rightarrow> q))"
  by (cases c) auto

lemma prod_state:
  "Q (snd p) \<Longrightarrow> (\<And>x s. p = (x, s) \<Longrightarrow> Q s \<Longrightarrow> P (snd (f x s))) \<Longrightarrow> P (snd (case p of (x, s) \<Rightarrow> f x s))"
  by (cases p) auto


text \<open>\<open>match\<close> on the result of a call that changes the state, with the error passed on.\<close>

lemma case_result_Inr:
  "(case p of (Inl e, s) \<Rightarrow> (Inl (g e), h e s) | (Inr a, s) \<Rightarrow> f a s) = (Inr b, s') \<longleftrightarrow>
   (\<exists>a s. p = (Inr a, s) \<and> f a s = (Inr b, s'))"
  by (cases p; cases "fst p") auto

lemma case_result_Inl:
  "(case p of (Inl e, s) \<Rightarrow> (Inl (g e), h e s) | (Inr a, s) \<Rightarrow> f a s) = (Inl e', s') \<longleftrightarrow>
   (\<exists>e s. p = (Inl e, s) \<and> e' = g e \<and> s' = h e s) \<or> (\<exists>a s. p = (Inr a, s) \<and> f a s = (Inl e', s'))"
  by (cases p; cases "fst p") auto

section \<open>Statements on a table\<close>

definition update_where :: "('r \<Rightarrow> bool) \<Rightarrow> ('r \<Rightarrow> 'r) \<Rightarrow> 'r list \<Rightarrow> 'r list" where
  "update_where p f t = map (\<lambda>r. if p r then f r else r) t"

definition delete_where :: "('r \<Rightarrow> bool) \<Rightarrow> 'r list \<Rightarrow> 'r list" where
  "delete_where p t = filter (\<lambda>r. \<not> p r) t"

definition rows_affected :: "('r \<Rightarrow> bool) \<Rightarrow> 'r list \<Rightarrow> nat" where
  "rows_affected p t = length (filter p t)"

text \<open>\<open>EXISTS (SELECT 1 FROM t WHERE p)\<close>.\<close>

definition exists_row :: "('r \<Rightarrow> bool) \<Rightarrow> 'r list \<Rightarrow> bool" where
  "exists_row p t = list_ex p t"

text \<open>\<open>LIMIT l OFFSET o\<close>, after an \<open>ORDER BY\<close>.\<close>

definition limit_offset :: "int \<Rightarrow> int \<Rightarrow> 'r list \<Rightarrow> 'r list" where
  "limit_offset l off t = take (nat l) (drop (nat off) t)"

text \<open>\<open>INSERT\<close> under a primary or unique key: \<open>None\<close> when the key is taken.\<close>

definition insert_unique :: "('r \<Rightarrow> 'k) \<Rightarrow> 'r \<Rightarrow> 'r list \<Rightarrow> 'r list option" where
  "insert_unique key r t = (if list_ex (\<lambda>r'. key r' = key r) t then None else Some (t @ [r]))"

lemma set_update_where [table_simps]:
  "set (update_where p f t) = (\<lambda>r. if p r then f r else r) ` set t"
  by (simp add: update_where_def)

lemma update_where_member:
  "r' \<in> set (update_where p f t) \<longleftrightarrow> (\<exists>r \<in> set t. r' = (if p r then f r else r))"
  unfolding update_where_def set_map image_iff by (rule refl)

lemma length_update_where [simp]: "length (update_where p f t) = length t"
  by (simp add: update_where_def)

lemma update_where_Nil [simp]: "update_where p f [] = []"
  by (simp add: update_where_def)

lemma update_where_Cons [simp]:
  "update_where p f (r # t) = (if p r then f r else r) # update_where p f t"
  by (simp add: update_where_def)

lemma update_where_append [simp]:
  "update_where p f (t @ t') = update_where p f t @ update_where p f t'"
  by (simp add: update_where_def)

lemma update_where_unchanged: "(\<And>r. r \<in> set t \<Longrightarrow> \<not> p r) \<Longrightarrow> update_where p f t = t"
  by (induction t) simp_all

lemma set_delete_where [table_simps]: "set (delete_where p t) = {r \<in> set t. \<not> p r}"
  by (auto simp: delete_where_def)

lemma delete_where_Nil [simp]: "delete_where p [] = []"
  by (simp add: delete_where_def)

lemma delete_where_Cons [simp]:
  "delete_where p (r # t) = (if p r then delete_where p t else r # delete_where p t)"
  by (simp add: delete_where_def)

lemma rows_affected_zero [table_simps]: "rows_affected p t = 0 \<longleftrightarrow> (\<forall>r \<in> set t. \<not> p r)"
  by (auto simp: rows_affected_def filter_empty_conv)

lemma rows_affected_pos [table_simps]: "0 < rows_affected p t \<longleftrightarrow> (\<exists>r \<in> set t. p r)"
  using rows_affected_zero [of p t] by auto

lemma exists_row_iff [table_simps]: "exists_row p t \<longleftrightarrow> (\<exists>r \<in> set t. p r)"
  by (simp add: exists_row_def list_ex_iff)

lemma insert_unique_Some [table_simps]:
  "insert_unique key r t = Some t' \<longleftrightarrow> key r \<notin> key ` set t \<and> t' = t @ [r]"
  by (force simp: insert_unique_def list_ex_iff image_iff)

lemma insert_unique_None [table_simps]:
  "insert_unique key r t = None \<longleftrightarrow> key r \<in> key ` set t"
  unfolding insert_unique_def list_ex_iff image_iff by (metis option.distinct(1))

text \<open>A statement that leaves the key alone keeps the key unique.\<close>

lemma distinct_update_where [key_intros]:
  assumes "distinct (map key t)" and "\<And>r. r \<in> set t \<Longrightarrow> p r \<Longrightarrow> key (f r) = key r"
  shows "distinct (map key (update_where p f t))"
proof -
  have "map key (update_where p f t) = map key t"
    using assms(2) by (simp add: update_where_def)
  with assms(1) show ?thesis by (simp del: map_map)
qed

lemma distinct_delete_where [key_intros]:
  "distinct (map key t) \<Longrightarrow> distinct (map key (delete_where p t))"
  by (simp add: delete_where_def distinct_map_filter)

lemma distinct_insert_unique [key_intros]:
  "distinct (map key t) \<Longrightarrow> insert_unique key r t = Some t' \<Longrightarrow> distinct (map key t')"
  by (auto simp: table_simps)

text \<open>With a unique key, looking a row up finds the one row that has it.\<close>

lemma find_in_set: "find p t = Some r \<Longrightarrow> r \<in> set t \<and> p r"
  by (auto simp: find_Some_iff)

lemma find_None: "find p t = None \<longleftrightarrow> (\<forall>r \<in> set t. \<not> p r)"
  by (auto simp: find_None_iff)

lemma unique_key_eq:
  "distinct (map key t) \<Longrightarrow> r \<in> set t \<Longrightarrow> r' \<in> set t \<Longrightarrow> key r = key r' \<Longrightarrow> r = r'"
  by (auto simp: distinct_map inj_on_def)

lemma find_unique:
  assumes "distinct (map key t)" and "r \<in> set t" and "p r"
    and "\<And>r'. r' \<in> set t \<Longrightarrow> p r' \<Longrightarrow> key r' = key r"
  shows "find p t = Some r"
proof (cases "find p t")
  case None
  with assms(2,3) show ?thesis by (auto simp: find_None)
next
  case (Some r')
  then have "r' \<in> set t" "p r'" by (auto dest: find_in_set)
  with assms(4) have "key r' = key r" by blast
  with \<open>r' \<in> set t\<close> assms(1,2) have "r' = r" by (blast intro: unique_key_eq)
  with Some show ?thesis by simp
qed

lemma find_append [simp]:
  "find p (xs @ ys) = (case find p xs of None \<Rightarrow> find p ys | Some x \<Rightarrow> Some x)"
  by (induction xs) simp_all

lemma find_update_where:
  assumes "\<And>r. q r \<Longrightarrow> p (f r) = p r"
  shows "find p (update_where q f t) = map_option (\<lambda>r. if q r then f r else r) (find p t)"
  using assms by (induction t) auto

lemma find_delete_where:
  assumes "\<And>r. r \<in> set t \<Longrightarrow> p r \<Longrightarrow> \<not> q r"
  shows "find p (delete_where q t) = find p t"
  using assms by (induction t) auto

lemma filter_update_where:
  assumes "\<And>r. r \<in> set t \<Longrightarrow> q r \<Longrightarrow> p (f r) = p r"
  shows "filter p (update_where q f t) = update_where q f (filter p t)"
  using assms by (induction t) auto

lemma filter_update_where_disjoint:
  assumes "\<And>r. r \<in> set t \<Longrightarrow> q r \<Longrightarrow> \<not> p r \<and> \<not> p (f r)"
  shows "filter p (update_where q f t) = filter p t"
  using assms by (induction t) auto

lemma filter_delete_where_disjoint:
  assumes "\<And>r. r \<in> set t \<Longrightarrow> p r \<Longrightarrow> \<not> q r"
  shows "filter p (delete_where q t) = filter p t"
  using assms by (induction t) auto

lemma filter_filter_swap: "filter p (delete_where q t) = delete_where q (filter p t)"
  by (induction t) auto

text \<open>Deleting the one row that has a key removes exactly it from any count.\<close>

lemma length_filter_delete_key:
  assumes "distinct (map key t)" and "r \<in> set t" and "p r"
  shows "length (filter p t) = Suc (length (filter p (delete_where (\<lambda>x. key x = key r) t)))"
  using assms
proof (induction t)
  case Nil
  then show ?case by simp
next
  case (Cons x t)
  show ?case
  proof (cases "x = r")
    case True
    with Cons.prems(1) have "\<forall>y \<in> set t. key y \<noteq> key r"
      by (metis distinct.simps(2) image_eqI list.map(2) list.set_map)
    then have "delete_where (\<lambda>y. key y = key r) t = t"
      by (simp add: delete_where_def filter_id_conv)
    with True Cons.prems(3) show ?thesis by simp
  next
    case False
    with Cons.prems have "key x \<noteq> key r" and "r \<in> set t" by auto
    with Cons show ?thesis by auto
  qed
qed

end
