(* ===== verification/RustStr.thy ===== *)
theory RustStr
  imports Prelude "HOL-Library.Char_ord"
begin

text \<open>
  \<open>String\<close> and \<open>&str\<close> as the code uses them. A Rust string is a sequence of UTF-8 bytes, and a
  HOL \<open>char\<close> is a byte, so a \<open>string\<close> is the bytes of one: \<open>len()\<close> is \<open>length\<close>. A Rust
  \<open>char\<close> is a scalar value, and \<open>chars\<close> below splits the bytes into the groups that encode one
  (a lead byte and the continuation bytes behind it), so \<open>chars().count()\<close>, \<open>trim\<close> and
  \<open>is_char_boundary\<close> count and cut what the standard library counts and cuts, for every string
  and not only for ASCII ones. An ASCII byte never occurs inside a group, which is why splitting,
  finding and replacing an ASCII character works on bytes.
\<close>

definition byte :: "char \<Rightarrow> nat" where
  "byte c = of_char c"

definition is_cont :: "char \<Rightarrow> bool" where
  "is_cont c \<longleftrightarrow> 128 \<le> byte c \<and> byte c < 192"

lemma length_dropWhile_less [termination_simp]: "length (dropWhile p xs) < Suc (length xs)"
  by (simp add: length_dropWhile_le less_Suc_eq_le)

fun chars :: "string \<Rightarrow> string list" where
  "chars [] = []"
| "chars (c # cs) = (c # takeWhile is_cont cs) # chars (dropWhile is_cont cs)"

definition char_count :: "string \<Rightarrow> nat" where
  "char_count s = length (chars s)"

lemma concat_chars [simp]: "concat (chars s) = s"
  by (induction s rule: chars.induct) simp_all

lemma chars_eq_Nil [simp]: "chars s = [] \<longleftrightarrow> s = []"
  by (cases s) simp_all

lemma char_count_le_length: "char_count s \<le> length s"
proof (induction s rule: chars.induct)
  case 1
  then show ?case by (simp add: char_count_def)
next
  case (2 c cs)
  have "length (dropWhile is_cont cs) \<le> length cs" by (rule length_dropWhile_le)
  with 2 show ?case by (simp add: char_count_def)
qed


section \<open>White space and control characters\<close>

text \<open>\<open>char::is_whitespace\<close>: the code points with the Unicode property \<open>White_Space\<close>.\<close>

definition wide_whitespace :: "string list" where
  "wide_whitespace =
     [[CHR 0xC2, CHR 0x85], [CHR 0xC2, CHR 0xA0], [CHR 0xE1, CHR 0x9A, CHR 0x80],
      [CHR 0xE2, CHR 0x80, CHR 0x80], [CHR 0xE2, CHR 0x80, CHR 0x81], [CHR 0xE2, CHR 0x80, CHR 0x82],
      [CHR 0xE2, CHR 0x80, CHR 0x83], [CHR 0xE2, CHR 0x80, CHR 0x84], [CHR 0xE2, CHR 0x80, CHR 0x85],
      [CHR 0xE2, CHR 0x80, CHR 0x86], [CHR 0xE2, CHR 0x80, CHR 0x87], [CHR 0xE2, CHR 0x80, CHR 0x88],
      [CHR 0xE2, CHR 0x80, CHR 0x89], [CHR 0xE2, CHR 0x80, CHR 0x8A], [CHR 0xE2, CHR 0x80, CHR 0xA8],
      [CHR 0xE2, CHR 0x80, CHR 0xA9], [CHR 0xE2, CHR 0x80, CHR 0xAF], [CHR 0xE2, CHR 0x81, CHR 0x9F],
      [CHR 0xE3, CHR 0x80, CHR 0x80]]"

definition is_whitespace :: "string \<Rightarrow> bool" where
  "is_whitespace g = (case g of
       [c] \<Rightarrow> byte c = 32 \<or> (9 \<le> byte c \<and> byte c \<le> 13)
     | _ \<Rightarrow> List.member wide_whitespace g)"

definition trim :: "string \<Rightarrow> string" where
  "trim s = concat (rev (dropWhile is_whitespace (rev (dropWhile is_whitespace (chars s)))))"

definition is_blank :: "string \<Rightarrow> bool" where
  "is_blank s \<longleftrightarrow> list_all is_whitespace (chars s)"

text \<open>\<open>char::is_control\<close>: U+0000 to U+001F, U+007F, and U+0080 to U+009F.\<close>

definition is_control :: "string \<Rightarrow> bool" where
  "is_control g = (case g of
       [c] \<Rightarrow> byte c < 32 \<or> byte c = 127
     | [c, d] \<Rightarrow> byte c = 194 \<and> 128 \<le> byte d \<and> byte d < 160
     | _ \<Rightarrow> False)"

lemma chars_nonempty: "g \<in> set (chars s) \<Longrightarrow> g \<noteq> []"
  by (induction s rule: chars.induct) auto

lemma concat_eq_Nil_chars: "set gs \<subseteq> set (chars s) \<Longrightarrow> concat gs = [] \<longleftrightarrow> gs = []"
  by (cases gs) (auto dest: chars_nonempty)

text \<open>\<open>s.trim().is_empty()\<close> says that the string holds nothing but white space.\<close>

lemma trim_eq_Nil: "trim s = [] \<longleftrightarrow> is_blank s"
proof -
  let ?l = "dropWhile is_whitespace (chars s)"
  let ?g = "rev (dropWhile is_whitespace (rev ?l))"
  have sub: "set ?g \<subseteq> set (chars s)"
    by (auto dest!: set_dropWhileD)
  have "trim s = [] \<longleftrightarrow> ?g = []"
    using concat_eq_Nil_chars [OF sub] by (simp add: trim_def)
  also have "\<dots> \<longleftrightarrow> (\<forall>g \<in> set ?l. is_whitespace g)"
    by (auto simp: dropWhile_eq_Nil_conv)
  also have "\<dots> \<longleftrightarrow> list_all is_whitespace (chars s)"
  proof
    assume *: "\<forall>g \<in> set ?l. is_whitespace g"
    have "?l = []"
    proof (rule ccontr)
      assume "?l \<noteq> []"
      then have "hd ?l \<in> set ?l" "\<not> is_whitespace (hd ?l)"
        by (simp_all add: hd_dropWhile)
      with * show False by blast
    qed
    then show "list_all is_whitespace (chars s)"
      by (auto simp: dropWhile_eq_Nil_conv list_all_iff)
  next
    assume "list_all is_whitespace (chars s)"
    then show "\<forall>g \<in> set ?l. is_whitespace g"
      by (auto simp: list_all_iff dest!: set_dropWhileD)
  qed
  finally show ?thesis by (simp add: is_blank_def)
qed

lemma trim_Nil [simp]: "trim [] = []"
  by (simp add: trim_def)


section \<open>ASCII classes and case\<close>

definition is_ascii_lowercase :: "char \<Rightarrow> bool" where
  "is_ascii_lowercase c \<longleftrightarrow> 97 \<le> byte c \<and> byte c \<le> 122"

definition is_ascii_uppercase :: "char \<Rightarrow> bool" where
  "is_ascii_uppercase c \<longleftrightarrow> 65 \<le> byte c \<and> byte c \<le> 90"

definition is_ascii_digit :: "char \<Rightarrow> bool" where
  "is_ascii_digit c \<longleftrightarrow> 48 \<le> byte c \<and> byte c \<le> 57"

definition is_ascii_alphanumeric :: "char \<Rightarrow> bool" where
  "is_ascii_alphanumeric c \<longleftrightarrow>
     is_ascii_lowercase c \<or> is_ascii_uppercase c \<or> is_ascii_digit c"

definition is_ascii_graphic :: "char \<Rightarrow> bool" where
  "is_ascii_graphic c \<longleftrightarrow> 33 \<le> byte c \<and> byte c \<le> 126"

definition lower_char :: "char \<Rightarrow> char" where
  "lower_char c = (if is_ascii_uppercase c then char_of (byte c + 32) else c)"

definition to_ascii_lowercase :: "string \<Rightarrow> string" where
  "to_ascii_lowercase s = map lower_char s"

definition eq_ignore_ascii_case :: "string \<Rightarrow> string \<Rightarrow> bool" where
  "eq_ignore_ascii_case s t \<longleftrightarrow> to_ascii_lowercase s = to_ascii_lowercase t"

lemma byte_less [simp]: "byte c < 256"
  by (simp add: byte_def)

lemma byte_inject [simp]: "byte c = byte d \<longleftrightarrow> c = d"
  by (simp add: byte_def)

lemma byte_char_of [simp]: "n < 256 \<Longrightarrow> byte (char_of n) = n"
  by (simp add: byte_def)

lemma lower_char_idem [simp]: "lower_char (lower_char c) = lower_char c"
  by (auto simp: lower_char_def is_ascii_uppercase_def)

lemma to_ascii_lowercase_idem [simp]:
  "to_ascii_lowercase (to_ascii_lowercase s) = to_ascii_lowercase s"
  by (simp add: to_ascii_lowercase_def comp_def)

lemma length_to_ascii_lowercase [simp]: "length (to_ascii_lowercase s) = length s"
  by (simp add: to_ascii_lowercase_def)


section \<open>Searching, splitting, replacing\<close>

definition starts_with :: "string \<Rightarrow> string \<Rightarrow> bool" where
  "starts_with s p \<longleftrightarrow> take (length p) s = p"

lemma starts_with_iff: "starts_with s p \<longleftrightarrow> (\<exists>t. s = p @ t)"
  by (metis append_eq_conv_conj append_take_drop_id starts_with_def)

text \<open>\<open>str::split_once\<close> with a non-empty pattern: around the first occurrence.\<close>

fun split_once :: "string \<Rightarrow> string \<Rightarrow> (string \<times> string) option" where
  "split_once p [] = (if p = [] then Some ([], []) else None)"
| "split_once p (c # cs) =
     (if starts_with (c # cs) p then Some ([], drop (length p) (c # cs))
      else map_option (\<lambda>(a, b). (c # a, b)) (split_once p cs))"

lemma split_once_Some: "split_once p s = Some (a, b) \<Longrightarrow> s = a @ p @ b"
proof (induction p s arbitrary: a b rule: split_once.induct)
  case (1 p)
  then show ?case by (simp split: if_splits)
next
  case (2 p c cs)
  show ?case
  proof (cases "starts_with (c # cs) p")
    case True
    with 2(2) have "a = []" "b = drop (length p) (c # cs)" by auto
    with True show ?thesis by (metis append_Nil append_eq_conv_conj starts_with_iff)
  next
    case False
    with 2 show ?thesis by auto
  qed
qed

text \<open>\<open>s.split(seps).next()\<close> and \<open>s.rsplit(seps).next()\<close>: the first and the last piece.\<close>

definition first_piece :: "char list \<Rightarrow> string \<Rightarrow> string" where
  "first_piece seps s = takeWhile (\<lambda>c. \<not> List.member seps c) s"

definition last_piece :: "char list \<Rightarrow> string \<Rightarrow> string" where
  "last_piece seps s = rev (takeWhile (\<lambda>c. \<not> List.member seps c) (rev s))"

lemma set_first_piece: "c \<in> set (first_piece seps s) \<Longrightarrow> c \<notin> set seps \<and> c \<in> set s"
  by (auto simp: first_piece_def dest!: set_takeWhileD)

lemma set_last_piece: "c \<in> set (last_piece seps s) \<Longrightarrow> c \<notin> set seps \<and> c \<in> set s"
  by (auto simp: last_piece_def dest!: set_takeWhileD)

lemma last_piece_plain: "c \<notin> set s \<Longrightarrow> last_piece [c] s = s"
proof -
  assume "c \<notin> set s"
  then have eq: "takeWhile (\<lambda>x. \<not> List.member [c] x) (rev s) = rev s"
    by (intro takeWhile_eq_all_conv [THEN iffD2]) auto
  show ?thesis unfolding last_piece_def eq by (rule rev_rev_ident)
qed

lemma last_piece_after: "c \<notin> set s \<Longrightarrow> last_piece [c] (u @ c # s) = s"
  by (simp add: last_piece_def takeWhile_append)

lemma first_piece_idem [simp]: "first_piece seps (first_piece seps s) = first_piece seps s"
  by (simp add: first_piece_def)

text \<open>\<open>s.replace(c, r)\<close> for an ASCII character.\<close>

definition replace_char :: "char \<Rightarrow> string \<Rightarrow> string \<Rightarrow> string" where
  "replace_char c r s = concat (map (\<lambda>d. if d = c then r else [d]) s)"

lemma replace_char_Nil [simp]: "replace_char c r [] = []"
  by (simp add: replace_char_def)

lemma replace_char_Cons [simp]:
  "replace_char c r (d # s) = (if d = c then r else [d]) @ replace_char c r s"
  by (simp add: replace_char_def)

definition contains_any :: "char list \<Rightarrow> string \<Rightarrow> bool" where
  "contains_any cs s \<longleftrightarrow> list_ex (\<lambda>c. List.member cs c) s"

lemma contains_any_iff: "contains_any cs s \<longleftrightarrow> set s \<inter> set cs \<noteq> {}"
  by (auto simp: contains_any_def list_ex_iff)

definition newline :: string where "newline = [CHR 0x0A]"

text \<open>\<open>s.trim_end_matches(c)\<close>.\<close>

definition trim_end_char :: "char \<Rightarrow> string \<Rightarrow> string" where
  "trim_end_char c s = rev (dropWhile (\<lambda>d. d = c) (rev s))"

text \<open>\<open>pieces.join(sep)\<close>.\<close>

fun join :: "string \<Rightarrow> string list \<Rightarrow> string" where
  "join sep [] = []"
| "join sep [s] = s"
| "join sep (s # t # ss) = s @ sep @ join sep (t # ss)"


section \<open>Decimal numbers\<close>

definition digit_char :: "nat \<Rightarrow> char" where
  "digit_char d = char_of (48 + d)"

fun show_nat :: "nat \<Rightarrow> string" where
  "show_nat n = (if n < 10 then [digit_char n] else show_nat (n div 10) @ [digit_char (n mod 10)])"

declare show_nat.simps [simp del]

definition show_int :: "int \<Rightarrow> string" where
  "show_int i = (if i < 0 then CHR ''-'' # show_nat (nat (- i)) else show_nat (nat i))"

lemma byte_digit_char [simp]: "d < 10 \<Longrightarrow> byte (digit_char d) = 48 + d"
  by (simp add: digit_char_def)

lemma digit_char_inject: "d < 10 \<Longrightarrow> e < 10 \<Longrightarrow> digit_char d = digit_char e \<Longrightarrow> d = e"
  by (metis add_left_cancel byte_digit_char)

lemma show_nat_digits: "c \<in> set (show_nat n) \<Longrightarrow> is_ascii_digit c"
proof (induction n rule: show_nat.induct)
  case (1 n)
  then show ?case
    by (subst (asm) (2) show_nat.simps)
       (auto simp: is_ascii_digit_def split: if_splits)
qed

lemma show_nat_nonempty [simp]: "show_nat n \<noteq> []"
  by (subst show_nat.simps) simp

text \<open>Reading the digits back.\<close>

definition read_nat :: "string \<Rightarrow> nat" where
  "read_nat s = foldl (\<lambda>n c. n * 10 + (byte c - 48)) 0 s"

lemma read_show_nat: "read_nat (show_nat n) = n"
proof (induction n rule: show_nat.induct)
  case (1 n)
  show ?case
  proof (cases "n < 10")
    case True
    then show ?thesis by (subst show_nat.simps) (simp add: read_nat_def)
  next
    case False
    with 1 have "read_nat (show_nat (n div 10)) = n div 10" by simp
    with False show ?thesis
      by (subst show_nat.simps) (simp add: read_nat_def)
  qed
qed

lemma show_nat_inject: "show_nat m = show_nat n \<Longrightarrow> m = n"
  by (metis read_show_nat)

lemma minus_notin_show_nat: "CHR ''-'' \<notin> set (show_nat n)"
  using show_nat_digits [of "CHR ''-''" n] by (auto simp: is_ascii_digit_def byte_def)

lemma show_int_inject: "show_int i = show_int j \<Longrightarrow> i = j"
proof -
  assume eq: "show_int i = show_int j"
  have neg: "show_int k = CHR ''-'' # show_nat (nat (- k))" if "k < 0" for k
    using that by (simp add: show_int_def)
  have pos: "show_int k = show_nat (nat k)" if "\<not> k < 0" for k
    using that by (simp add: show_int_def)
  consider "i < 0" "j < 0" | "i < 0" "\<not> j < 0" | "\<not> i < 0" "j < 0" | "\<not> i < 0" "\<not> j < 0" by blast
  then show "i = j"
  proof cases
    case 1
    with eq show ?thesis by (auto simp: neg dest!: show_nat_inject)
  next
    case 2
    with eq have "CHR ''-'' \<in> set (show_nat (nat j))"
      by (metis list.set_intros(1) neg pos)
    then show ?thesis by (simp add: minus_notin_show_nat)
  next
    case 3
    with eq have "CHR ''-'' \<in> set (show_nat (nat i))"
      by (metis list.set_intros(1) neg pos)
    then show ?thesis by (simp add: minus_notin_show_nat)
  next
    case 4
    with eq show ?thesis by (auto simp: pos dest!: show_nat_inject)
  qed
qed

lemma show_int_chars: "c \<in> set (show_int i) \<Longrightarrow> is_ascii_digit c \<or> c = CHR ''-''"
  by (auto simp: show_int_def dest: show_nat_digits split: if_splits)


section \<open>Character boundaries\<close>

definition is_char_boundary :: "string \<Rightarrow> nat \<Rightarrow> bool" where
  "is_char_boundary s i \<longleftrightarrow>
     i = 0 \<or> i = length s \<or> (i < length s \<and> \<not> is_cont (s ! i))"

text \<open>A cut on a boundary keeps whole characters.\<close>

lemma take_boundary:
  assumes "is_char_boundary s i" and "i \<le> length s"
  shows "\<exists>k. take i s = concat (take k (chars s))"
  using assms
proof (induction s arbitrary: i rule: chars.induct)
  case 1
  then show ?case by simp
next
  case (2 c cs)
  let ?n = "length (takeWhile is_cont cs)"
  show ?case
  proof (cases "i \<le> ?n")
    case True
    have "i = 0"
    proof (rule ccontr)
      assume "i \<noteq> 0"
      then obtain j where i: "i = Suc j" by (cases i) auto
      with True have "j < ?n" by simp
      then have "is_cont (cs ! j)"
        by (metis nth_mem set_takeWhileD takeWhile_nth)
      moreover have "j < length cs"
        using \<open>j < ?n\<close> length_takeWhile_le [of is_cont cs] by linarith
      ultimately show False using 2(2) i by (auto simp: is_char_boundary_def)
    qed
    then show ?thesis by (intro exI [of _ 0]) simp
  next
    case False
    define j where "j = i - Suc ?n"
    have i: "i = Suc (?n + j)" using False by (simp add: j_def)
    have len: "length cs = ?n + length (dropWhile is_cont cs)"
      by (metis length_append takeWhile_dropWhile_id)
    have "j \<le> length (dropWhile is_cont cs)" using 2(3) i len by simp
    moreover have "is_char_boundary (dropWhile is_cont cs) j"
    proof -
      have "j < length (dropWhile is_cont cs) \<Longrightarrow>
            dropWhile is_cont cs ! j = (c # cs) ! i"
        by (simp add: i dropWhile_nth add.commute)
      with 2(2) i len show ?thesis by (auto simp: is_char_boundary_def)
    qed
    ultimately obtain k where k: "take j (dropWhile is_cont cs) = concat (take k (chars (dropWhile is_cont cs)))"
      using 2(1) by blast
    have "take (?n + j) cs = takeWhile is_cont cs @ take j (dropWhile is_cont cs)"
      by (metis dropWhile_eq_drop takeWhile_eq_take take_add)
    with k i show ?thesis by (intro exI [of _ "Suc k"]) simp
  qed
qed

end
