(* ===== verification/Json.thy ===== *)
theory Json
  imports Complex_Main RustStr "HOL-Library.List_Lexorder"
begin

text \<open>
  \<open>serde_json::Value\<close> as the code uses it. A number is stored as the parser stores it: a
  non-negative integer (\<open>u64\<close>), a negative one (\<open>i64\<close>), or a finite \<open>f64\<close>; a finite \<open>f64\<close> is
  the rational number it denotes, and \<open>as_f64\<close> rounds a 64-bit integer to the nearest one, ties to
  even, as the cast \<open>as f64\<close> does. An object is a \<open>BTreeMap\<close> (the crate is built without
  \<open>preserve_order\<close>): its entries in ascending order of the key bytes, each key once.
\<close>

type_synonym f64 = rat

datatype number = PosInt nat | NegInt int | Float f64

datatype json =
    JNull
  | JBool bool
  | JNumber number
  | JString string
  | JArray "json list"
  | JObject "(string \<times> json) list"

type_synonym json_map = "(string \<times> json) list"

fun bit_length :: "nat \<Rightarrow> nat" where
  "bit_length n = (if n = 0 then 0 else Suc (bit_length (n div 2)))"

declare bit_length.simps [simp del]

definition round_to_f64 :: "nat \<Rightarrow> nat" where
  "round_to_f64 n =
     (if n < 2 ^ 53 then n
      else let e = bit_length n - 53; q = n div 2 ^ e; r = n mod 2 ^ e; half = 2 ^ (e - 1)
           in (if half < r \<or> (r = half \<and> odd q) then (q + 1) * 2 ^ e else q * 2 ^ e))"

fun number_as_f64 :: "number \<Rightarrow> f64" where
  "number_as_f64 (PosInt n) = of_nat (round_to_f64 n)"
| "number_as_f64 (NegInt i) = - of_nat (round_to_f64 (nat (- i)))"
| "number_as_f64 (Float f) = f"

fun as_f64 :: "json \<Rightarrow> f64 option" where
  "as_f64 (JNumber n) = Some (number_as_f64 n)"
| "as_f64 _ = None"

fun as_str :: "json \<Rightarrow> string option" where
  "as_str (JString s) = Some s"
| "as_str _ = None"

fun as_object :: "json \<Rightarrow> json_map option" where
  "as_object (JObject m) = Some m"
| "as_object _ = None"

fun is_boolean :: "json \<Rightarrow> bool" where
  "is_boolean (JBool _) = True"
| "is_boolean _ = False"

definition is_null :: "json \<Rightarrow> bool" where
  "is_null v \<longleftrightarrow> v = JNull"

text \<open>\<open>Value::get\<close> with a key: nothing unless the value is an object that has it.\<close>

definition json_get :: "string \<Rightarrow> json \<Rightarrow> json option" where
  "json_get k v = (case v of JObject m \<Rightarrow> map_of m k | _ \<Rightarrow> None)"

lemma as_str_Some [simp]: "as_str v = Some t \<longleftrightarrow> v = JString t"
  by (cases v) auto

lemma as_str_None: "as_str v = None \<longleftrightarrow> (\<forall>t. v \<noteq> JString t)"
  by (cases v) auto

lemma as_object_Some [simp]: "as_object v = Some m \<longleftrightarrow> v = JObject m"
  by (cases v) auto

lemma is_boolean_iff: "is_boolean v \<longleftrightarrow> (\<exists>b. v = JBool b)"
  by (cases v) auto


section \<open>Ordered maps\<close>

fun btree_insert :: "string \<Rightarrow> 'v \<Rightarrow> (string \<times> 'v) list \<Rightarrow> (string \<times> 'v) list" where
  "btree_insert k v [] = [(k, v)]"
| "btree_insert k v ((k', v') # m) =
     (if k = k' then (k, v) # m
      else if k < k' then (k, v) # (k', v') # m
      else (k', v') # btree_insert k v m)"

definition is_btree :: "(string \<times> 'v) list \<Rightarrow> bool" where
  "is_btree m \<longleftrightarrow> sorted_wrt (<) (map fst m)"

lemma map_of_btree_insert [simp]: "map_of (btree_insert k v m) = (map_of m)(k \<mapsto> v)"
  by (induction m) (auto simp: fun_upd_twist)

lemma keys_btree_insert [simp]: "fst ` set (btree_insert k v m) = insert k (fst ` set m)"
  by (metis dom_fun_upd dom_map_of_conv_image_fst map_of_btree_insert option.distinct(1))

lemma is_btree_Nil [simp]: "is_btree []"
  by (simp add: is_btree_def)

lemma is_btree_Cons [simp]:
  "is_btree ((k, v) # m) \<longleftrightarrow> (\<forall>k' \<in> fst ` set m. k < k') \<and> is_btree m"
  by (auto simp: is_btree_def)

lemma is_btree_insert: "is_btree m \<Longrightarrow> is_btree (btree_insert k v m)"
proof (induction m)
  case Nil
  then show ?case by simp
next
  case (Cons p m)
  obtain k' v' where p: "p = (k', v')" by (cases p)
  show ?case
  proof (cases "k < k'")
    case True
    with Cons.prems show ?thesis by (auto simp: p intro: order.strict_trans)
  next
    case False
    with Cons show ?thesis by (auto simp: p not_less_iff_gr_or_eq)
  qed
qed

lemma is_btree_distinct: "is_btree m \<Longrightarrow> distinct (map fst m)"
  by (simp add: is_btree_def strict_sorted_iff)

lemma is_btree_filter: "is_btree m \<Longrightarrow> is_btree (filter p m)"
  by (induction m) auto

lemma btree_insert_last:
  "\<forall>k' \<in> fst ` set m. k' < k \<Longrightarrow> btree_insert k v m = m @ [(k, v)]"
  by (induction m) auto

lemma map_of_is_btree: "is_btree m \<Longrightarrow> (k, v) \<in> set m \<Longrightarrow> map_of m k = Some v"
  by (rule map_of_is_SomeI) (rule is_btree_distinct)

end
