(* ===== verification/Externals.thy ===== *)
theory Externals
  imports Json
begin

text \<open>
  The code the program calls and that is not under \<open>src/\<close>: crates and the Unicode tables of the
  standard library. Each is a field of the record \<open>externals\<close>, an argument of every definition
  that uses it; nothing is assumed of a field unless a theorem names the assumption.

  \<^item> \<open>validate_email\<close>: crate \<open>validator\<close>; \<open>parses_as_date\<close>, \<open>rfc3339\<close> (as \<open>serde\<close>
    writes an instant), \<open>to_rfc3339\<close>, \<open>utc_minute\<close>: crate \<open>chrono\<close>;
    \<open>uuid_text\<close>, \<open>uuid_parse\<close>: crate \<open>uuid\<close>; \<open>json_text\<close>: the serializer of \<open>serde_json\<close>.
  \<^item> \<open>unicode_lowercase\<close>: \<open>str::to_lowercase\<close>; \<open>sql_lower\<close>: \<open>lower()\<close> of PostgreSQL under the
    collation of the database.
  \<^item> \<open>sha256\<close>, \<open>hmac_sha256\<close>: crates \<open>sha2\<close> and \<open>hmac\<close>, as lower-case hexadecimal text.
  \<^item> \<open>hash_password\<close> (under a salt), \<open>password_matches\<close>, \<open>password_needs_rehash\<close>: crate \<open>argon2\<close>,
    on the material the program hands it.
\<close>

record externals =
  validate_email :: "string \<Rightarrow> bool"
  parses_as_date :: "string \<Rightarrow> bool"
  rfc3339 :: "instant \<Rightarrow> string"
  to_rfc3339 :: "instant \<Rightarrow> string"
  utc_minute :: "instant \<Rightarrow> string"
  uuid_text :: "uuid \<Rightarrow> string"
  uuid_parse :: "string \<Rightarrow> uuid option"
  json_text :: "json \<Rightarrow> string"
  unicode_lowercase :: "string \<Rightarrow> string"
  sql_lower :: "string \<Rightarrow> string"
  sha256 :: "string \<Rightarrow> string"
  hmac_sha256 :: "string \<Rightarrow> string \<Rightarrow> string"
  hash_password :: "string \<Rightarrow> string \<Rightarrow> string option"
  password_matches :: "string \<Rightarrow> string \<Rightarrow> bool"
  password_needs_rehash :: "string \<Rightarrow> bool"

text \<open>
  An instance to evaluate the definitions with: identifiers are written in decimal, nothing is
  lower-cased, hashes are the input under a tag. It stands for none of the crates; it only shows
  that the hypotheses some theorems make of them can hold together.
\<close>

definition sample_externals :: externals where
  "sample_externals =
     \<lparr>validate_email = (\<lambda>s. contains_any ''@'' s), parses_as_date = (\<lambda>s. length s = 10),
      rfc3339 = show_int, to_rfc3339 = show_int, utc_minute = show_int,
      uuid_text = show_nat,
      uuid_parse = (\<lambda>s. if s \<noteq> [] \<and> list_all is_ascii_digit s then Some (read_nat s) else None),
      json_text = (\<lambda>_. ''{}''), unicode_lowercase = to_ascii_lowercase,
      sql_lower = to_ascii_lowercase,
      sha256 = (\<lambda>s. ''h:'' @ s), hmac_sha256 = (\<lambda>k s. k @ '':'' @ s),
      hash_password = (\<lambda>_ p. Some p),
      password_matches = (\<lambda>p h. p = h), password_needs_rehash = (\<lambda>_. False)\<rparr>"

lemma sample_uuid_roundtrip: "uuid_parse sample_externals (uuid_text sample_externals u) = Some u"
  by (auto simp: sample_externals_def list_all_iff read_show_nat dest: show_nat_digits)

end
