(* ===== verification/Schema.thy ===== *)
theory Schema
  imports Externals
begin

text \<open>
  \<open>src/src/modules/form/validation.rs\<close>: the form definition (\<open>FieldDefinition\<close>, \<open>FormSchema\<close>),
  the check of a definition (\<open>validate_schema\<close>) and of a payload against one
  (\<open>validate_submission\<close>). A problem is a constructor for each message the code formats, with the
  values it is formatted from; the order of the list is the order the code pushes them in.

  The e-mail check (crate \<open>validator\<close>) and the date parser (crate \<open>chrono\<close>) are not under
  \<open>src/\<close>: they are fields of \<open>externals\<close>, and every statement holds for any of them.
\<close>

datatype field_type = Text | Textarea | Email | Number | Date | Select | Checkbox | File

fun field_type_as_str :: "field_type \<Rightarrow> string" where
  "field_type_as_str Text = ''text''"
| "field_type_as_str Textarea = ''textarea''"
| "field_type_as_str Email = ''email''"
| "field_type_as_str Number = ''number''"
| "field_type_as_str Date = ''date''"
| "field_type_as_str Select = ''select''"
| "field_type_as_str Checkbox = ''checkbox''"
| "field_type_as_str File = ''file''"

text \<open>Lengths are \<open>u32\<close>, \<open>max_bytes\<close> is \<open>u64\<close>; both are only compared.\<close>

record field_definition =
  key :: string
  field_type :: field_type
  label :: string
  required :: bool
  help_text :: "string option"
  placeholder :: "string option"
  min_length :: "nat option"
  max_length :: "nat option"
  min_value :: "f64 option"
  max_value :: "f64 option"
  options :: "string list option"
  max_bytes :: "nat option"
  accept :: "string list option"

record form_schema =
  title :: string
  description :: "string option"
  submit_label :: "string option"
  schema_fields :: "field_definition list"

definition RESERVED_PREFIX :: char where "RESERVED_PREFIX = CHR ''_''"
definition HONEYPOT_FIELD :: string where "HONEYPOT_FIELD = ''_gotcha''"
definition MAX_FIELDS :: nat where "MAX_FIELDS = 50"
definition MAX_KEY_LENGTH :: nat where "MAX_KEY_LENGTH = 64"
definition MAX_OPTIONS :: nat where "MAX_OPTIONS = 100"
definition MAX_LABEL_LENGTH :: nat where "MAX_LABEL_LENGTH = 200"
definition MAX_TEXT_LENGTH :: nat where "MAX_TEXT_LENGTH = 10000"

lemmas schema_limits =
  MAX_FIELDS_def MAX_KEY_LENGTH_def MAX_OPTIONS_def MAX_LABEL_LENGTH_def MAX_TEXT_LENGTH_def


section \<open>Media types\<close>

definition media_type_matches :: "string \<Rightarrow> string \<Rightarrow> bool" where
  "media_type_matches allowed content_type =
     (let allowed = to_ascii_lowercase (trim allowed)
      in case split_once ''/'' allowed of
           Some (kind, rest) \<Rightarrow>
             if rest = ''*'' then first_piece ''/'' content_type = kind
             else allowed = content_type
         | None \<Rightarrow> allowed = content_type)"

definition accepts :: "field_definition \<Rightarrow> string \<Rightarrow> bool" where
  "accepts field content_type =
     (case accept field of
        None \<Rightarrow> True
      | Some acc \<Rightarrow> list_ex (\<lambda>allowed. media_type_matches allowed content_type) acc)"

definition schema_field :: "form_schema \<Rightarrow> string \<Rightarrow> field_definition option" where
  "schema_field schema k = find (\<lambda>field. key field = k) (schema_fields schema)"

definition has_file_field :: "form_schema \<Rightarrow> bool" where
  "has_file_field schema = list_ex (\<lambda>field. field_type field = File) (schema_fields schema)"


section \<open>Checking a definition\<close>

datatype schema_problem =
    TitleEmpty
  | NoFields
  | TooManyFields
  | BadKey string
  | DuplicateKey string
  | ReservedKey string
  | BadLabel string
  | LengthsCrossed string
  | RangeCrossed string
  | SelectEmpty string
  | SelectTooMany string
  | SelectNeedsOptions string
  | MaxBytesZero string
  | OptionsNotSelect string
  | RangeNotNumber string

definition is_valid_key :: "string \<Rightarrow> bool" where
  "is_valid_key k =
     (if k = [] \<or> length k > MAX_KEY_LENGTH then False
      else (case k of
              [] \<Rightarrow> False
            | first # rest \<Rightarrow>
                is_ascii_lowercase first \<and>
                list_all (\<lambda>c. is_ascii_lowercase c \<or> is_ascii_digit c \<or> c = CHR ''_'') rest))"

definition is_reserved :: "string \<Rightarrow> bool" where
  "is_reserved k = starts_with k [RESERVED_PREFIX]"

definition validate_field_rules :: "field_definition \<Rightarrow> schema_problem list" where
  "validate_field_rules field =
     (case (min_length field, max_length field) of
        (Some lo, Some hi) \<Rightarrow> if lo > hi then [LengthsCrossed (key field)] else []
      | _ \<Rightarrow> []) @
     (case (min_value field, max_value field) of
        (Some lo, Some hi) \<Rightarrow> if lo > hi then [RangeCrossed (key field)] else []
      | _ \<Rightarrow> []) @
     (case field_type field of
        Select \<Rightarrow>
          (case options field of
             Some [] \<Rightarrow> [SelectEmpty (key field)]
           | Some opts \<Rightarrow> if length opts > MAX_OPTIONS then [SelectTooMany (key field)] else []
           | None \<Rightarrow> [SelectNeedsOptions (key field)])
      | File \<Rightarrow> if max_bytes field = Some 0 then [MaxBytesZero (key field)] else []
      | _ \<Rightarrow> if options field \<noteq> None then [OptionsNotSelect (key field)] else []) @
     (if field_type field \<noteq> Number \<and> (min_value field \<noteq> None \<or> max_value field \<noteq> None)
      then [RangeNotNumber (key field)] else [])"

text \<open>The loop over the fields, with the keys seen so far.\<close>

fun field_problems :: "string list \<Rightarrow> field_definition list \<Rightarrow> schema_problem list" where
  "field_problems seen [] = []"
| "field_problems seen (field # rest) =
     (if \<not> is_valid_key (key field) then [BadKey (key field)] else []) @
     (if List.member seen (key field) then [DuplicateKey (key field)] else []) @
     (if is_reserved (key field) then [ReservedKey (key field)] else []) @
     (if trim (label field) = [] \<or> char_count (label field) > MAX_LABEL_LENGTH
      then [BadLabel (key field)] else []) @
     validate_field_rules field @
     field_problems (key field # seen) rest"

definition validate_schema :: "form_schema \<Rightarrow> schema_problem list + unit" where
  "validate_schema schema =
     (let problems =
        (if trim (title schema) = [] then [TitleEmpty] else []) @
        (if schema_fields schema = [] then [NoFields] else []) @
        (if length (schema_fields schema) > MAX_FIELDS then [TooManyFields] else []) @
        field_problems [] (schema_fields schema)
      in if problems = [] then Inr () else Inl problems)"


section \<open>Checking a payload\<close>

datatype submission_problem =
    NotAField string
  | Required string
  | MustBeString string
  | TooShort string nat
  | TooLong string nat
  | BadEmail string
  | NotANumber string
  | BelowMin string f64
  | AboveMax string f64
  | BadDate string
  | BadOption string
  | NotBoolean string
  | NotAFileReference string
  | FileEmpty string

text \<open>\<open>text.chars().count() as u32\<close>: the cast keeps the low 32 bits.\<close>

definition char_count_u32 :: "string \<Rightarrow> nat" where
  "char_count_u32 s = char_count s mod 2 ^ 32"

definition is_absent :: "json option \<Rightarrow> bool" where
  "is_absent value =
     (case value of
        None \<Rightarrow> True
      | Some JNull \<Rightarrow> True
      | Some (JString text) \<Rightarrow> trim text = []
      | Some _ \<Rightarrow> False)"

text \<open>The value to store, if any, and the problems pushed on the way.\<close>

definition check_text ::
  "externals \<Rightarrow> field_definition \<Rightarrow> json \<Rightarrow> json option \<times> submission_problem list" where
  "check_text ext field value =
     (case as_str value of
        None \<Rightarrow> (None, [MustBeString (key field)])
      | Some text \<Rightarrow>
          if required field \<and> trim text = [] then (None, [Required (key field)])
          else
            (Some value,
             (case min_length field of
                Some lo \<Rightarrow> if char_count_u32 text < lo then [TooShort (key field) lo] else []
              | None \<Rightarrow> []) @
             (let hi = (case max_length field of Some m \<Rightarrow> m | None \<Rightarrow> MAX_TEXT_LENGTH)
              in if char_count_u32 text > hi then [TooLong (key field) hi] else []) @
             (if field_type field = Email \<and> \<not> validate_email ext text
              then [BadEmail (key field)] else [])))"

definition check_number :: "field_definition \<Rightarrow> json \<Rightarrow> json option \<times> submission_problem list" where
  "check_number field value =
     (case as_f64 value of
        None \<Rightarrow> (None, [NotANumber (key field)])
      | Some number \<Rightarrow>
          (Some value,
           (case min_value field of
              Some lo \<Rightarrow> if number < lo then [BelowMin (key field) lo] else []
            | None \<Rightarrow> []) @
           (case max_value field of
              Some hi \<Rightarrow> if number > hi then [AboveMax (key field) hi] else []
            | None \<Rightarrow> [])))"

definition check_value ::
  "externals \<Rightarrow> field_definition \<Rightarrow> json \<Rightarrow> json option \<times> submission_problem list" where
  "check_value ext field value =
     (if is_null value then (None, if required field then [Required (key field)] else [])
      else
        (case field_type field of
           Text \<Rightarrow> check_text ext field value
         | Textarea \<Rightarrow> check_text ext field value
         | Email \<Rightarrow> check_text ext field value
         | Number \<Rightarrow> check_number field value
         | Date \<Rightarrow>
             (case as_str value of
                None \<Rightarrow> (None, [BadDate (key field)])
              | Some text \<Rightarrow>
                  if parses_as_date ext text then (Some value, []) else (None, [BadDate (key field)]))
         | Select \<Rightarrow>
             (case as_str value of
                None \<Rightarrow> (None, [BadOption (key field)])
              | Some text \<Rightarrow>
                  (Some value,
                   if list_ex (\<lambda>opt. opt = text) (case options field of Some opts \<Rightarrow> opts | None \<Rightarrow> [])
                   then [] else [BadOption (key field)]))
         | Checkbox \<Rightarrow>
             if is_boolean value then (Some value, []) else (None, [NotBoolean (key field)])
         | File \<Rightarrow>
             (case as_str value of
                None \<Rightarrow> (None, [NotAFileReference (key field)])
              | Some text \<Rightarrow>
                  if trim text = [] then (None, [FileEmpty (key field)]) else (Some value, []))))"

text \<open>The loop over the payload, with the answers and the problems gathered so far.\<close>

fun collect_answers ::
  "externals \<Rightarrow> form_schema \<Rightarrow> json_map \<Rightarrow> json_map \<times> submission_problem list \<Rightarrow>
   json_map \<times> submission_problem list" where
  "collect_answers ext schema [] acc = acc"
| "collect_answers ext schema ((k, value) # rest) (answers, problems) =
     (if is_reserved k then collect_answers ext schema rest (answers, problems)
      else
        (case schema_field schema k of
           Some field \<Rightarrow>
             (case check_value ext field value of
                (Some accepted, new) \<Rightarrow>
                  collect_answers ext schema rest (btree_insert k accepted answers, problems @ new)
              | (None, new) \<Rightarrow> collect_answers ext schema rest (answers, problems @ new))
         | None \<Rightarrow> collect_answers ext schema rest (answers, problems @ [NotAField k])))"

definition missing_required :: "form_schema \<Rightarrow> json_map \<Rightarrow> submission_problem list" where
  "missing_required schema payload =
     map (\<lambda>field. Required (key field))
       (filter (\<lambda>field. required field \<and> is_absent (map_of payload (key field))) (schema_fields schema))"

definition validate_submission ::
  "externals \<Rightarrow> form_schema \<Rightarrow> json_map \<Rightarrow> submission_problem list + json_map" where
  "validate_submission ext schema payload =
     (case collect_answers ext schema payload ([], []) of
        (answers, problems) \<Rightarrow>
          let problems = problems @ missing_required schema payload
          in if problems = [] then Inr answers else Inl problems)"


section \<open>What the checks promise\<close>

text \<open>
  The rules of a definition and of an answer, stated without the loops, the accumulators and the
  messages: the reference the two validators are compared with.
\<close>

definition rules_hold :: "field_definition \<Rightarrow> bool" where
  "rules_hold f \<longleftrightarrow>
     (\<forall>lo hi. min_length f = Some lo \<and> max_length f = Some hi \<longrightarrow> lo \<le> hi) \<and>
     (\<forall>lo hi. min_value f = Some lo \<and> max_value f = Some hi \<longrightarrow> lo \<le> hi) \<and>
     (field_type f = Select \<longrightarrow>
        (\<exists>opts. options f = Some opts \<and> 0 < length opts \<and> length opts \<le> MAX_OPTIONS)) \<and>
     (field_type f = File \<longrightarrow> max_bytes f \<noteq> Some 0) \<and>
     (field_type f \<noteq> Select \<and> field_type f \<noteq> File \<longrightarrow> options f = None) \<and>
     (field_type f \<noteq> Number \<longrightarrow> min_value f = None \<and> max_value f = None)"

definition well_formed_field :: "field_definition \<Rightarrow> bool" where
  "well_formed_field f \<longleftrightarrow>
     is_valid_key (key f) \<and> \<not> is_blank (label f) \<and> char_count (label f) \<le> MAX_LABEL_LENGTH \<and>
     rules_hold f"

definition well_formed_schema :: "form_schema \<Rightarrow> bool" where
  "well_formed_schema schema \<longleftrightarrow>
     \<not> is_blank (title schema) \<and>
     0 < length (schema_fields schema) \<and> length (schema_fields schema) \<le> MAX_FIELDS \<and>
     distinct (map key (schema_fields schema)) \<and>
     (\<forall>f \<in> set (schema_fields schema). well_formed_field f)"

lemma rules_hold_iff: "validate_field_rules f = [] \<longleftrightarrow> rules_hold f"
  by (cases "field_type f"; cases "options f"; cases "min_length f"; cases "max_length f";
      cases "min_value f"; cases "max_value f")
     (auto simp: validate_field_rules_def rules_hold_def not_less split: list.splits)

lemma valid_key_not_reserved: "is_valid_key k \<Longrightarrow> \<not> is_reserved k"
  by (auto simp: is_valid_key_def is_reserved_def starts_with_def RESERVED_PREFIX_def
      is_ascii_lowercase_def byte_def split: list.splits if_splits)

lemma field_problems_Nil:
  "field_problems seen fs = [] \<longleftrightarrow>
     (\<forall>f \<in> set fs. well_formed_field f) \<and> distinct (map key fs) \<and> set (map key fs) \<inter> set seen = {}"
proof (induction seen fs rule: field_problems.induct)
  case (1 seen)
  then show ?case by simp
next
  case (2 seen f fs)
  have "field_problems seen (f # fs) = [] \<longleftrightarrow>
     well_formed_field f \<and> key f \<notin> set seen \<and> field_problems (key f # seen) fs = []"
    using valid_key_not_reserved [of "key f"]
    by (auto simp: well_formed_field_def rules_hold_iff trim_eq_Nil)
  with 2 show ?case by auto
qed

lemma validate_schema_Inr: "validate_schema schema = Inr () \<longleftrightarrow> well_formed_schema schema"
  by (auto simp: validate_schema_def Let_def well_formed_schema_def field_problems_Nil trim_eq_Nil
      not_less)

lemma validate_schema_Inr' [simp]: "validate_schema schema = Inr u \<longleftrightarrow> well_formed_schema schema"
  by (simp add: validate_schema_Inr)

lemma well_formed_distinct: "well_formed_schema schema \<Longrightarrow> distinct (map key (schema_fields schema))"
  by (simp add: well_formed_schema_def)

lemma schema_field_Some: "schema_field schema k = Some f \<Longrightarrow> f \<in> set (schema_fields schema) \<and> key f = k"
  by (auto simp: schema_field_def dest: find_in_set)

lemma schema_field_unique:
  "distinct (map key (schema_fields schema)) \<Longrightarrow> f \<in> set (schema_fields schema) \<Longrightarrow>
   schema_field schema (key f) = Some f"
  by (auto simp: schema_field_def intro: find_unique)


subsection \<open>One answer\<close>

definition text_conforms :: "field_definition \<Rightarrow> string \<Rightarrow> bool" where
  "text_conforms f t \<longleftrightarrow>
     (required f \<longrightarrow> \<not> is_blank t) \<and>
     (\<forall>lo. min_length f = Some lo \<longrightarrow> lo \<le> char_count_u32 t) \<and>
     char_count_u32 t \<le> (case max_length f of Some hi \<Rightarrow> hi | None \<Rightarrow> MAX_TEXT_LENGTH)"

definition number_conforms :: "field_definition \<Rightarrow> f64 \<Rightarrow> bool" where
  "number_conforms f x \<longleftrightarrow>
     (\<forall>lo. min_value f = Some lo \<longrightarrow> lo \<le> x) \<and> (\<forall>hi. max_value f = Some hi \<longrightarrow> x \<le> hi)"

definition value_conforms :: "externals \<Rightarrow> field_definition \<Rightarrow> json \<Rightarrow> bool" where
  "value_conforms ext f v =
     (case field_type f of
        Number \<Rightarrow> (\<exists>n. v = JNumber n \<and> number_conforms f (number_as_f64 n))
      | Checkbox \<Rightarrow> (\<exists>b. v = JBool b)
      | Date \<Rightarrow> (\<exists>t. v = JString t \<and> parses_as_date ext t)
      | Select \<Rightarrow> (\<exists>t opts. v = JString t \<and> options f = Some opts \<and> t \<in> set opts)
      | File \<Rightarrow> (\<exists>t. v = JString t \<and> \<not> is_blank t)
      | Email \<Rightarrow> (\<exists>t. v = JString t \<and> text_conforms f t \<and> validate_email ext t)
      | _ \<Rightarrow> (\<exists>t. v = JString t \<and> text_conforms f t))"

lemma check_text_ok:
  "snd (check_text ext f v) = [] \<longleftrightarrow>
     (\<exists>t. v = JString t \<and> text_conforms f t \<and> (field_type f = Email \<longrightarrow> validate_email ext t))"
  by (cases v) (auto simp: check_text_def text_conforms_def trim_eq_Nil not_less Let_def
      split: option.splits if_splits)

lemma check_number_ok:
  "snd (check_number f v) = [] \<longleftrightarrow> (\<exists>n. v = JNumber n \<and> number_conforms f (number_as_f64 n))"
  by (cases v) (auto simp: check_number_def number_conforms_def not_less split: option.splits)

lemma check_value_ok:
  "v \<noteq> JNull \<Longrightarrow> snd (check_value ext f v) = [] \<longleftrightarrow> value_conforms ext f v"
  by (cases "field_type f"; cases v; cases "options f")
     (auto simp: check_value_def value_conforms_def is_null_def check_text_ok check_number_ok
        trim_eq_Nil list_ex_iff split: option.splits if_splits)

lemma check_value_null:
  "check_value ext f JNull = (None, if required f then [Required (key f)] else [])"
  by (simp add: check_value_def is_null_def)

lemma check_value_stores:
  "v \<noteq> JNull \<Longrightarrow> snd (check_value ext f v) = [] \<Longrightarrow> fst (check_value ext f v) = Some v"
  by (cases "field_type f"; cases v)
     (auto simp: check_value_def is_null_def check_text_def check_number_def Let_def
        split: option.splits if_splits)


subsection \<open>The whole payload\<close>

definition entry_conforms :: "externals \<Rightarrow> form_schema \<Rightarrow> string \<Rightarrow> json \<Rightarrow> bool" where
  "entry_conforms ext schema k v \<longleftrightarrow>
     is_reserved k \<or>
     (\<exists>f. schema_field schema k = Some f \<and>
          (if v = JNull then \<not> required f else value_conforms ext f v))"

definition submission_conforms :: "externals \<Rightarrow> form_schema \<Rightarrow> json_map \<Rightarrow> bool" where
  "submission_conforms ext schema payload \<longleftrightarrow>
     (\<forall>(k, v) \<in> set payload. entry_conforms ext schema k v) \<and>
     (\<forall>f \<in> set (schema_fields schema). required f \<longrightarrow> \<not> is_absent (map_of payload (key f)))"

text \<open>What is stored of a payload: every entry that is not reserved and not \<open>null\<close>.\<close>

definition stored_answers :: "json_map \<Rightarrow> json_map" where
  "stored_answers payload = filter (\<lambda>(k, v). \<not> is_reserved k \<and> v \<noteq> JNull) payload"

lemma collect_answers_problems:
  "snd (collect_answers ext schema payload acc) = [] \<longleftrightarrow>
     snd acc = [] \<and> (\<forall>(k, v) \<in> set payload. entry_conforms ext schema k v)"
proof (induction ext schema payload acc rule: collect_answers.induct)
  case (1 ext schema acc)
  then show ?case by simp
next
  case (2 ext schema k v rest answers problems)
  show ?case
  proof (cases "is_reserved k")
    case True
    with 2(1) show ?thesis by (simp add: entry_conforms_def)
  next
    case reserved: False
    show ?thesis
    proof (cases "schema_field schema k")
      case None
      with 2(2) [OF reserved None] reserved show ?thesis by (simp add: entry_conforms_def)
    next
      case (Some f)
      obtain acc' new where cv: "check_value ext f v = (acc', new)" by fastforce
      have "new = [] \<longleftrightarrow> entry_conforms ext schema k v"
        using check_value_ok [of v ext f] cv reserved Some
        by (cases "v = JNull") (auto simp: entry_conforms_def check_value_null)
      with 2(3,4) [OF reserved Some cv [symmetric]] reserved Some cv show ?thesis
        by (cases acc') auto
    qed
  qed
qed

lemma collect_answers_stores:
  assumes "is_btree payload" and "\<forall>(k, v) \<in> set payload. entry_conforms ext schema k v"
    and "\<forall>k \<in> fst ` set answers. \<forall>k' \<in> fst ` set payload. k < k'"
  shows "fst (collect_answers ext schema payload (answers, problems)) = answers @ stored_answers payload"
  using assms
proof (induction payload arbitrary: answers problems)
  case Nil
  then show ?case by (simp add: stored_answers_def)
next
  case (Cons e payload)
  obtain k v where e: "e = (k, v)" by (cases e)
  from Cons.prems have tree: "is_btree payload" and gt: "\<forall>k' \<in> fst ` set payload. k < k'"
    and conf: "entry_conforms ext schema k v" "\<forall>(k, v) \<in> set payload. entry_conforms ext schema k v"
    and lt: "\<forall>a \<in> fst ` set answers. a < k"
    and sep: "\<forall>k \<in> fst ` set answers. \<forall>k' \<in> fst ` set payload. k < k'"
    by (auto simp: e)
  show ?case
  proof (cases "is_reserved k")
    case True
    with Cons.IH [OF tree conf(2) sep] show ?thesis by (simp add: e stored_answers_def)
  next
    case reserved: False
    with conf(1) obtain f where f: "schema_field schema k = Some f"
      and v: "if v = JNull then \<not> required f else value_conforms ext f v"
      by (auto simp: entry_conforms_def)
    show ?thesis
    proof (cases "v = JNull")
      case True
      with v Cons.IH [OF tree conf(2) sep] reserved f show ?thesis
        by (simp add: e stored_answers_def check_value_null)
    next
      case False
      with v have "snd (check_value ext f v) = []" by (simp add: check_value_ok)
      with False have cv: "check_value ext f v = (Some v, [])"
        by (metis check_value_stores prod.collapse)
      have "\<forall>a \<in> fst ` set (answers @ [(k, v)]). \<forall>k' \<in> fst ` set payload. a < k'"
        using sep gt by auto
      from Cons.IH [OF tree conf(2) this] cv reserved f False lt show ?thesis
        by (simp add: e stored_answers_def btree_insert_last)
    qed
  qed
qed

lemma missing_required_Nil:
  "missing_required schema payload = [] \<longleftrightarrow>
     (\<forall>f \<in> set (schema_fields schema). required f \<longrightarrow> \<not> is_absent (map_of payload (key f)))"
  by (auto simp: missing_required_def filter_empty_conv)

lemma validate_submission_conforms:
  "(\<exists>answers. validate_submission ext schema payload = Inr answers) \<longleftrightarrow>
     submission_conforms ext schema payload"
  using collect_answers_problems [of ext schema payload "([], [])"]
  by (auto simp: validate_submission_def Let_def submission_conforms_def missing_required_Nil
      split: prod.splits if_splits)

lemma validate_submission_Inr:
  assumes "is_btree payload"
  shows "validate_submission ext schema payload = Inr answers \<longleftrightarrow>
    submission_conforms ext schema payload \<and> answers = stored_answers payload"
proof (cases "submission_conforms ext schema payload")
  case True
  then have "fst (collect_answers ext schema payload ([], [])) = stored_answers payload"
    using collect_answers_stores [OF assms, of ext schema "[]" "[]"]
    by (simp add: submission_conforms_def)
  moreover from True obtain answers' where "validate_submission ext schema payload = Inr answers'"
    using validate_submission_conforms by blast
  ultimately show ?thesis using True
    by (auto simp: validate_submission_def Let_def split: prod.splits if_splits)
next
  case False
  then show ?thesis using validate_submission_conforms by blast
qed

lemma stored_answers_btree: "is_btree payload \<Longrightarrow> is_btree (stored_answers payload)"
  by (simp add: stored_answers_def is_btree_filter)

lemma map_of_stored_answers:
  assumes "is_btree payload" and "\<not> is_reserved k"
  shows "map_of (stored_answers payload) k =
    (case map_of payload k of Some JNull \<Rightarrow> None | other \<Rightarrow> other)"
  using assms
proof (induction payload)
  case Nil
  then show ?case by (simp add: stored_answers_def)
next
  case (Cons e payload)
  obtain k' v where e: "e = (k', v)" by (cases e)
  have tl: "is_btree payload" using Cons.prems(1) by (simp add: e)
  have "map_of payload k' = None"
    using Cons.prems(1) by (force simp: e map_of_eq_None_iff)
  with Cons.IH [OF tl Cons.prems(2)] Cons.prems(2) show ?case
    by (auto simp: e stored_answers_def split: option.splits json.splits)
qed

text \<open>
  A schema that passes the check, and that nobody can submit: a required text field whose least
  length is above the default greatest one, which only applies while a payload is checked.
\<close>

definition unreachable_field :: field_definition where
  "unreachable_field =
     \<lparr>key = ''message'', field_type = Text, label = ''Message'', required = True, help_text = None,
      placeholder = None, min_length = Some 10001, max_length = None, min_value = None,
      max_value = None, options = None, max_bytes = None, accept = None\<rparr>"

definition unreachable_schema :: form_schema where
  "unreachable_schema =
     \<lparr>title = ''Contact'', description = None, submit_label = None, schema_fields = [unreachable_field]\<rparr>"

lemma unreachable_schema_refuses: "\<not> submission_conforms ext unreachable_schema payload"
proof
  assume conf: "submission_conforms ext unreachable_schema payload"
  then have "\<not> is_absent (map_of payload ''message'')"
    by (simp add: submission_conforms_def unreachable_schema_def unreachable_field_def)
  then obtain v where v: "map_of payload ''message'' = Some v" "v \<noteq> JNull"
    by (auto simp: is_absent_def split: option.splits json.splits)
  then have "entry_conforms ext unreachable_schema ''message'' v"
    using conf map_of_SomeD by (fastforce simp: submission_conforms_def)
  moreover have "\<not> is_reserved ''message''"
    by (simp add: is_reserved_def starts_with_def RESERVED_PREFIX_def)
  moreover have "schema_field unreachable_schema ''message'' = Some unreachable_field"
    by (simp add: schema_field_def unreachable_schema_def unreachable_field_def)
  ultimately have "value_conforms ext unreachable_field v"
    using v by (auto simp: entry_conforms_def)
  then show False
    by (auto simp: value_conforms_def text_conforms_def unreachable_field_def MAX_TEXT_LENGTH_def)
qed

section \<open>Properties\<close>

text \<open>C18: \<open>validate_schema\<close> accepts exactly the well-formed definitions: a title, between one and 50
  fields with distinct valid keys, a label of at most 200 characters and consistent rules on each;
  whatever it refuses, it names at least one problem.\<close>

theorem validate_schema_exact:
  "(validate_schema schema = Inr () \<longleftrightarrow> well_formed_schema schema) \<and> validate_schema schema \<noteq> Inl []"
  by (simp add: validate_schema_Inr) (simp add: validate_schema_def Let_def)

text \<open>C3: \<open>validate_submission\<close> accepts a payload exactly when every entry outside the reserved prefix
  answers a field under that field's rules and every required field is answered, and what it
  stores is the payload without the reserved and the \<open>null\<close> entries, in the order it came.\<close>

theorem validate_submission_exact:
  assumes "is_btree payload"
  shows "validate_submission ext schema payload = Inr answers \<longleftrightarrow>
    submission_conforms ext schema payload \<and> answers = stored_answers payload"
  using assms by (rule validate_submission_Inr)

definition contact_field :: field_definition where
  "contact_field =
     \<lparr>key = ''name'', field_type = Text, label = ''Name'', required = True, help_text = None,
      placeholder = None, min_length = Some 2, max_length = None, min_value = None,
      max_value = None, options = None, max_bytes = None, accept = None\<rparr>"

definition contact_schema :: form_schema where
  "contact_schema =
     \<lparr>title = ''Contact'', description = None, submit_label = None, schema_fields = [contact_field]\<rparr>"

definition contact_payload :: json_map where
  "contact_payload = [(''_gotcha'', JString []), (''name'', JString ''Ann'')]"

lemmas contact_simps =
  contact_field_def contact_schema_def contact_payload_def schema_field_def trim_def char_count_def
  is_cont_def byte_def is_whitespace_def is_reserved_def starts_with_def RESERVED_PREFIX_def

lemma contact_btree: "is_btree contact_payload"
  by (simp add: contact_payload_def)

lemma contact_accepted:
  "validate_submission ext contact_schema contact_payload = Inr [(''name'', JString ''Ann'')]"
  by (simp add: validate_submission_def contact_simps check_value_def is_null_def check_text_def
      char_count_u32_def missing_required_def is_absent_def schema_limits Let_def)

lemma contact_well_formed: "well_formed_schema contact_schema"
  by (simp add: well_formed_schema_def well_formed_field_def rules_hold_def is_valid_key_def
      contact_simps is_blank_def is_ascii_lowercase_def schema_limits)

theorem validate_submission_exact_witness:
  "submission_conforms sample_externals contact_schema contact_payload \<and>
   stored_answers contact_payload = [(''name'', JString ''Ann'')]"
  using validate_submission_exact [OF contact_btree] contact_accepted by metis

text \<open>Accepted answers are stable: under the definition they were accepted with, they are accepted
  again and stored unchanged.\<close>

theorem accepted_answers_revalidate:
  assumes "well_formed_schema schema" and "is_btree payload"
    and "validate_submission ext schema payload = Inr answers"
  shows "validate_submission ext schema answers = Inr answers"
proof -
  from assms have conf: "submission_conforms ext schema payload" and ans: "answers = stored_answers payload"
    by (simp_all add: validate_submission_Inr)
  have "is_absent (map_of answers (key f)) = is_absent (map_of payload (key f))"
    if "f \<in> set (schema_fields schema)" for f
  proof -
    from assms(1) that have "\<not> is_reserved (key f)"
      by (auto simp: well_formed_schema_def well_formed_field_def valid_key_not_reserved)
    from map_of_stored_answers [OF assms(2) this] show ?thesis
      by (auto simp: ans is_absent_def split: option.splits json.splits)
  qed
  moreover have "set answers \<subseteq> set payload" by (auto simp: ans stored_answers_def)
  ultimately have "submission_conforms ext schema answers"
    using conf by (auto simp: submission_conforms_def)
  moreover have "stored_answers answers = answers" by (simp add: ans stored_answers_def)
  moreover have "is_btree answers" by (simp add: ans stored_answers_btree assms(2))
  ultimately show ?thesis by (simp add: validate_submission_Inr)
qed

theorem accepted_answers_revalidate_witness:
  "validate_submission sample_externals contact_schema [(''name'', JString ''Ann'')] =
     Inr [(''name'', JString ''Ann'')]"
  by (rule accepted_answers_revalidate [OF contact_well_formed contact_btree contact_accepted])

text \<open>A definition can pass the check and be impossible to submit: the least length of a text field
  is compared with its own greatest length only, while an answer is also held to the default of
  10,000 characters. Any payload is refused.\<close>

theorem accepted_schema_unsubmittable:
  "validate_schema unreachable_schema = Inr () \<and>
   (\<forall>ext payload answers. validate_submission ext unreachable_schema payload \<noteq> Inr answers)"
proof
  show "validate_schema unreachable_schema = Inr ()"
    by (simp add: well_formed_schema_def well_formed_field_def rules_hold_def is_valid_key_def
        unreachable_schema_def unreachable_field_def is_blank_def is_ascii_lowercase_def schema_limits
        char_count_def is_cont_def byte_def is_whitespace_def)
  show "\<forall>ext payload answers. validate_submission ext unreachable_schema payload \<noteq> Inr answers"
    using unreachable_schema_refuses validate_submission_conforms by blast
qed

end
