(* ===== verification/Database.thy ===== *)
theory Database
  imports Schema
begin

text \<open>
  The tables of \<open>src/migrations/\<close> and the row types the repositories map them to. The state of the
  program is one \<open>db\<close>: every service operation takes the database it runs on and returns the one
  it leaves. The cascades of the foreign keys (\<open>ON DELETE CASCADE\<close> and \<open>ON DELETE SET NULL\<close>)
  are the \<open>drop_\<close> operations at the end; the checks and keys of a table are tested where a row
  is inserted or changed, and their violation is the \<open>Internal\<close> error the code turns it into.

  \<open>updated_at\<close> is kept for the tables whose rows the program reads it from (users, forms,
  endpoints); the identity column of \<open>auth_events\<close> is its position in the list.
\<close>

section \<open>Row types\<close>

datatype user_status = PendingUser | ActiveUser | DisabledUser

record user_record =
  usr_id :: uuid
  usr_email :: string
  usr_password_hash :: string
  usr_status :: user_status
  usr_email_verified_at :: "instant option"
  usr_last_login_at :: "instant option"
  usr_failed_login_attempts :: int
  usr_locked_until :: "instant option"
  usr_password_changed_at :: instant
  usr_created_at :: instant
  usr_updated_at :: instant

record session_row =
  ses_id :: uuid
  ses_user :: uuid
  ses_user_agent :: "string option"
  ses_ip_address :: "string option"
  ses_created_at :: instant
  ses_last_used_at :: instant
  ses_expires_at :: instant
  ses_revoked_at :: "instant option"

record session_token_row =
  stk_id :: uuid
  stk_session :: uuid
  stk_hash :: string
  stk_created_at :: instant
  stk_expires_at :: instant
  stk_used_at :: "instant option"
  stk_replaced_by :: "uuid option"

datatype one_time_token_purpose = EmailVerification | PasswordReset

record one_time_token_row =
  ott_id :: uuid
  ott_user :: uuid
  ott_purpose :: one_time_token_purpose
  ott_hash :: string
  ott_created_at :: instant
  ott_expires_at :: instant
  ott_consumed_at :: "instant option"

datatype auth_event_type =
    AccountCreated | LoginSucceeded | LoginFailed | AccountWasLocked | Logout | TokenRefreshed
  | TokenReuseDetected | EmailVerificationSent | EmailVerified | PasswordResetRequested
  | PasswordResetCompleted | PasswordChanged | AccountStatusChanged | RoleGranted | RoleRevoked
  | AccountUnlocked | SessionsRevoked | AccountDeleted | OrganizationCreated | OrganizationRenamed
  | OrganizationDeleted | OrganizationMemberAdded | OrganizationMemberRoleChanged
  | OrganizationMemberRemoved | FormCreated | FormUpdated | FormPublished | FormClosed | FormDeleted
  | FormPublicIdRotated | SubmissionStatusChanged | SubmissionDeleted | WebhookEndpointCreated
  | WebhookEndpointUpdated | WebhookEndpointDeleted

record auth_event =
  ev_user_id :: "uuid option"
  ev_actor_user_id :: "uuid option"
  ev_organization_id :: "uuid option"
  ev_target_id :: "uuid option"
  ev_email :: "string option"
  ev_event_type :: auth_event_type
  ev_ip_address :: "string option"
  ev_user_agent :: "string option"

record client_info =
  ip_address :: "string option"
  user_agent :: "string option"

datatype organization_role = Owner | Admin | Member

record organization_record =
  org_id :: uuid
  org_name :: string
  org_created_at :: instant

record member_row =
  mem_organization :: uuid
  mem_user :: uuid
  mem_role :: organization_role
  mem_created_at :: instant

datatype form_status = Draft | Published | Closed

record form_record =
  frm_id :: uuid
  frm_organization :: uuid
  frm_name :: string
  frm_status :: form_status
  frm_public_id :: string
  frm_schema :: form_schema
  frm_schema_version :: int
  frm_notify_emails :: "string list"
  frm_success_message :: "string option"
  frm_redirect_url :: "string option"
  frm_honeypot_enabled :: bool
  frm_created_at :: instant
  frm_updated_at :: instant
  frm_published_at :: "instant option"
  frm_closed_at :: "instant option"

datatype submission_status = Unread | Read | Spam | Archived

record submission_row =
  sub_id :: uuid
  sub_organization :: uuid
  sub_form :: uuid
  sub_schema_version :: int
  sub_data :: json
  sub_files :: json
  sub_status :: submission_status
  sub_ip_address :: "string option"
  sub_user_agent :: "string option"
  sub_referer :: "string option"
  sub_created_at :: instant

record file_upload_row =
  upl_id :: uuid
  upl_organization :: uuid
  upl_form :: uuid
  upl_field_key :: string
  upl_object_key :: string
  upl_filename :: string
  upl_content_type :: string
  upl_size_bytes :: int
  upl_submission :: "uuid option"
  upl_created_at :: instant

datatype outbox_kind = SubmissionReceivedKind

record outbox_row =
  obx_id :: int
  obx_organization :: uuid
  obx_kind :: outbox_kind
  obx_payload :: json
  obx_attempts :: int
  obx_available_at :: instant
  obx_dispatched_at :: "instant option"
  obx_last_error :: "string option"
  obx_created_at :: instant

record webhook_endpoint_row =
  whe_id :: uuid
  whe_organization :: uuid
  whe_form :: "uuid option"
  whe_url :: string
  whe_secret :: string
  whe_description :: "string option"
  whe_enabled :: bool
  whe_created_at :: instant
  whe_updated_at :: instant

datatype delivery_status = PendingDelivery | Delivered | FailedDelivery

record webhook_delivery_row =
  whd_id :: uuid
  whd_organization :: uuid
  whd_endpoint :: uuid
  whd_submission :: "uuid option"
  whd_payload :: json
  whd_status :: delivery_status
  whd_attempts :: int
  whd_response_status :: "int option"
  whd_last_error :: "string option"
  whd_next_attempt_at :: instant
  whd_created_at :: instant
  whd_delivered_at :: "instant option"


section \<open>The database\<close>

record db =
  users :: "user_record list"
  roles :: "string list"
  user_roles :: "(uuid \<times> string) list"
  sessions :: "session_row list"
  session_tokens :: "session_token_row list"
  one_time_tokens :: "one_time_token_row list"
  auth_events :: "(auth_event \<times> instant) list"
  organizations :: "organization_record list"
  organization_members :: "member_row list"
  forms :: "form_record list"
  submissions :: "submission_row list"
  file_uploads :: "file_upload_row list"
  outbox_events :: "outbox_row list"
  webhook_endpoints :: "webhook_endpoint_row list"
  webhook_deliveries :: "webhook_delivery_row list"

definition empty_db :: db where
  "empty_db = \<lparr>users = [], roles = [''user'', ''admin''], user_roles = [], sessions = [],
     session_tokens = [], one_time_tokens = [], auth_events = [], organizations = [],
     organization_members = [], forms = [], submissions = [], file_uploads = [],
     outbox_events = [], webhook_endpoints = [], webhook_deliveries = []\<rparr>"

definition user_exists :: "db \<Rightarrow> uuid \<Rightarrow> bool" where
  "user_exists d u = exists_row (\<lambda>r. usr_id r = u) (users d)"

definition organization_exists :: "db \<Rightarrow> uuid \<Rightarrow> bool" where
  "organization_exists d oid = exists_row (\<lambda>r. org_id r = oid) (organizations d)"

definition form_exists :: "db \<Rightarrow> uuid \<Rightarrow> bool" where
  "form_exists d f = exists_row (\<lambda>r. frm_id r = f) (forms d)"

definition optional :: "('a \<Rightarrow> bool) \<Rightarrow> 'a option \<Rightarrow> bool" where
  "optional p x = (case x of None \<Rightarrow> True | Some a \<Rightarrow> p a)"

text \<open>\<open>INTEGER\<close> is 32 bits wide: a statement that leaves the range fails.\<close>

definition int4_ok :: "int \<Rightarrow> bool" where
  "int4_ok i \<longleftrightarrow> - (2 ^ 31) \<le> i \<and> i < 2 ^ 31"


section \<open>The audit trail\<close>

text \<open>
  \<open>AuthEventRepository::record\<close>: an event whose references do not exist is refused by the foreign
  keys, which is logged and changes nothing; the operation it describes never fails because of it.
\<close>

definition record_event :: "auth_event \<Rightarrow> instant \<Rightarrow> db \<Rightarrow> db" where
  "record_event e now d =
     (if optional (user_exists d) (ev_user_id e) \<and> optional (user_exists d) (ev_actor_user_id e) \<and>
         optional (organization_exists d) (ev_organization_id e)
      then d\<lparr>auth_events := auth_events d @ [(e, now)]\<rparr>
      else d)"

lemma record_event_frame [simp]:
  "users (record_event e now d) = users d"
  "roles (record_event e now d) = roles d"
  "user_roles (record_event e now d) = user_roles d"
  "sessions (record_event e now d) = sessions d"
  "session_tokens (record_event e now d) = session_tokens d"
  "one_time_tokens (record_event e now d) = one_time_tokens d"
  "organizations (record_event e now d) = organizations d"
  "organization_members (record_event e now d) = organization_members d"
  "forms (record_event e now d) = forms d"
  "submissions (record_event e now d) = submissions d"
  "file_uploads (record_event e now d) = file_uploads d"
  "outbox_events (record_event e now d) = outbox_events d"
  "webhook_endpoints (record_event e now d) = webhook_endpoints d"
  "webhook_deliveries (record_event e now d) = webhook_deliveries d"
  by (simp_all add: record_event_def)

text \<open>The trail is append-only.\<close>

lemma record_event_appends: "\<exists>es. auth_events (record_event e now d) = auth_events d @ es"
  by (simp add: record_event_def)


section \<open>Deleting with cascades\<close>

definition clear_ref :: "('a \<Rightarrow> bool) \<Rightarrow> 'a option \<Rightarrow> 'a option" where
  "clear_ref p x = (case x of None \<Rightarrow> None | Some a \<Rightarrow> if p a then None else Some a)"

definition drop_submissions :: "(submission_row \<Rightarrow> bool) \<Rightarrow> db \<Rightarrow> db" where
  "drop_submissions p d =
     (let gone = (\<lambda>i. exists_row (\<lambda>s. sub_id s = i \<and> p s) (submissions d))
      in d\<lparr>submissions := delete_where p (submissions d),
           file_uploads := map (\<lambda>u. u\<lparr>upl_submission := clear_ref gone (upl_submission u)\<rparr>)
                             (file_uploads d),
           webhook_deliveries := map (\<lambda>w. w\<lparr>whd_submission := clear_ref gone (whd_submission w)\<rparr>)
                                   (webhook_deliveries d)\<rparr>)"

definition drop_endpoints :: "(webhook_endpoint_row \<Rightarrow> bool) \<Rightarrow> db \<Rightarrow> db" where
  "drop_endpoints p d =
     (let gone = (\<lambda>i. exists_row (\<lambda>e. whe_id e = i \<and> p e) (webhook_endpoints d))
      in d\<lparr>webhook_endpoints := delete_where p (webhook_endpoints d),
           webhook_deliveries := delete_where (\<lambda>w. gone (whd_endpoint w)) (webhook_deliveries d)\<rparr>)"

definition drop_forms :: "(form_record \<Rightarrow> bool) \<Rightarrow> db \<Rightarrow> db" where
  "drop_forms p d =
     (let gone = (\<lambda>i. exists_row (\<lambda>f. frm_id f = i \<and> p f) (forms d));
          d1 = drop_submissions (\<lambda>s. gone (sub_form s)) d;
          d2 = drop_endpoints (\<lambda>e. case whe_form e of None \<Rightarrow> False | Some f \<Rightarrow> gone f) d1
      in d2\<lparr>forms := delete_where p (forms d2),
            file_uploads := delete_where (\<lambda>u. gone (upl_form u)) (file_uploads d2)\<rparr>)"

definition drop_organizations :: "(organization_record \<Rightarrow> bool) \<Rightarrow> db \<Rightarrow> db" where
  "drop_organizations p d =
     (let gone = (\<lambda>i. exists_row (\<lambda>r. org_id r = i \<and> p r) (organizations d));
          d1 = drop_forms (\<lambda>f. gone (frm_organization f)) d;
          d2 = drop_submissions (\<lambda>s. gone (sub_organization s)) d1;
          d3 = drop_endpoints (\<lambda>e. gone (whe_organization e)) d2
      in d3\<lparr>organizations := delete_where p (organizations d3),
            organization_members :=
              delete_where (\<lambda>m. gone (mem_organization m)) (organization_members d3),
            file_uploads := delete_where (\<lambda>u. gone (upl_organization u)) (file_uploads d3),
            outbox_events := delete_where (\<lambda>e. gone (obx_organization e)) (outbox_events d3),
            webhook_deliveries :=
              delete_where (\<lambda>w. gone (whd_organization w)) (webhook_deliveries d3),
            auth_events := map (\<lambda>(e, t).
              (e\<lparr>ev_organization_id := clear_ref gone (ev_organization_id e)\<rparr>, t)) (auth_events d3)\<rparr>)"

definition drop_users :: "(user_record \<Rightarrow> bool) \<Rightarrow> db \<Rightarrow> db" where
  "drop_users p d =
     (let gone = (\<lambda>i. exists_row (\<lambda>r. usr_id r = i \<and> p r) (users d));
          gone_session = (\<lambda>i. exists_row (\<lambda>s. ses_id s = i \<and> gone (ses_user s)) (sessions d))
      in d\<lparr>users := delete_where p (users d),
           user_roles := delete_where (\<lambda>(u, _). gone u) (user_roles d),
           sessions := delete_where (\<lambda>s. gone (ses_user s)) (sessions d),
           session_tokens := delete_where (\<lambda>t. gone_session (stk_session t)) (session_tokens d),
           one_time_tokens := delete_where (\<lambda>t. gone (ott_user t)) (one_time_tokens d),
           organization_members :=
             delete_where (\<lambda>m. gone (mem_user m)) (organization_members d),
           auth_events := map (\<lambda>(e, t).
             (e\<lparr>ev_user_id := clear_ref gone (ev_user_id e),
                ev_actor_user_id := clear_ref gone (ev_actor_user_id e)\<rparr>, t)) (auth_events d)\<rparr>)"

lemma drop_submissions_frame [simp]:
  "users (drop_submissions p d) = users d"
  "organizations (drop_submissions p d) = organizations d"
  "organization_members (drop_submissions p d) = organization_members d"
  "forms (drop_submissions p d) = forms d"
  "submissions (drop_submissions p d) = delete_where p (submissions d)"
  "outbox_events (drop_submissions p d) = outbox_events d"
  "webhook_endpoints (drop_submissions p d) = webhook_endpoints d"
  "auth_events (drop_submissions p d) = auth_events d"
  by (simp_all add: drop_submissions_def Let_def)

lemma drop_endpoints_frame [simp]:
  "users (drop_endpoints p d) = users d"
  "organizations (drop_endpoints p d) = organizations d"
  "organization_members (drop_endpoints p d) = organization_members d"
  "forms (drop_endpoints p d) = forms d"
  "submissions (drop_endpoints p d) = submissions d"
  "file_uploads (drop_endpoints p d) = file_uploads d"
  "outbox_events (drop_endpoints p d) = outbox_events d"
  "webhook_endpoints (drop_endpoints p d) = delete_where p (webhook_endpoints d)"
  "auth_events (drop_endpoints p d) = auth_events d"
  by (simp_all add: drop_endpoints_def Let_def)

lemma drop_forms_frame [simp]:
  "users (drop_forms p d) = users d"
  "organizations (drop_forms p d) = organizations d"
  "organization_members (drop_forms p d) = organization_members d"
  "forms (drop_forms p d) = delete_where p (forms d)"
  "outbox_events (drop_forms p d) = outbox_events d"
  "auth_events (drop_forms p d) = auth_events d"
  by (simp_all add: drop_forms_def Let_def)

lemma drop_organizations_frame [simp]:
  "users (drop_organizations p d) = users d"
  "organizations (drop_organizations p d) = delete_where p (organizations d)"
  "organization_members (drop_organizations p d) =
     delete_where (\<lambda>m. exists_row (\<lambda>r. org_id r = mem_organization m \<and> p r) (organizations d))
       (organization_members d)"
  "forms (drop_organizations p d) =
     delete_where (\<lambda>f. exists_row (\<lambda>r. org_id r = frm_organization f \<and> p r) (organizations d)) (forms d)"
  by (simp_all add: drop_organizations_def Let_def)

lemma drop_users_frame [simp]:
  "users (drop_users p d) = delete_where p (users d)"
  "roles (drop_users p d) = roles d"
  "organizations (drop_users p d) = organizations d"
  "organization_members (drop_users p d) =
     delete_where (\<lambda>m. exists_row (\<lambda>r. usr_id r = mem_user m \<and> p r) (users d)) (organization_members d)"
  "forms (drop_users p d) = forms d"
  "submissions (drop_users p d) = submissions d"
  "file_uploads (drop_users p d) = file_uploads d"
  "outbox_events (drop_users p d) = outbox_events d"
  "webhook_endpoints (drop_users p d) = webhook_endpoints d"
  "webhook_deliveries (drop_users p d) = webhook_deliveries d"
  by (simp_all add: drop_users_def Let_def)

end
