(* ===== verification/Shared.thy ===== *)
theory Shared
  imports Database "HOL-Library.Word"
begin

text \<open>
  \<open>src/src/shared/\<close>: the error every handler answers with (\<open>error.rs\<close>), page sizes
  (\<open>pagination.rs\<close>), the request metadata kept for the audit trail (\<open>request.rs\<close>), deadlines
  (\<open>time.rs\<close>), and the Redis keys of the e-mail queue (\<open>queue.rs\<close>).

  The text of a message is the type parameter \<open>'m\<close> of \<open>app_error\<close>: a module puts the value the
  message is formatted from there, so that what a client can branch on (status and code) and what
  reaches it of an internal cause (nothing) are functions of the error.
\<close>

section \<open>Errors\<close>

datatype 'm app_error =
    Validation 'm
  | InvalidToken
  | Unauthorized
  | Forbidden
  | NotFound
  | Gone 'm
  | Conflict
  | AccountLocked
  | TooManyRequests
  | PayloadTooLarge 'm
  | Internal cause

fun app_status :: "'m app_error \<Rightarrow> nat" where
  "app_status (Validation _) = 400"
| "app_status InvalidToken = 400"
| "app_status Unauthorized = 401"
| "app_status Forbidden = 403"
| "app_status NotFound = 404"
| "app_status (Gone _) = 410"
| "app_status Conflict = 409"
| "app_status AccountLocked = 423"
| "app_status TooManyRequests = 429"
| "app_status (PayloadTooLarge _) = 413"
| "app_status (Internal _) = 500"

fun app_code :: "'m app_error \<Rightarrow> string" where
  "app_code (Validation _) = ''validation_error''"
| "app_code InvalidToken = ''invalid_token''"
| "app_code Unauthorized = ''authentication_failed''"
| "app_code Forbidden = ''forbidden''"
| "app_code NotFound = ''not_found''"
| "app_code (Gone _) = ''gone''"
| "app_code Conflict = ''conflict''"
| "app_code AccountLocked = ''account_locked''"
| "app_code TooManyRequests = ''too_many_requests''"
| "app_code (PayloadTooLarge _) = ''payload_too_large''"
| "app_code (Internal _) = ''internal_error''"

text \<open>\<open>message\<close>: the text of the variant; \<open>Inr\<close> is a message the module composed.\<close>

fun app_message :: "'m app_error \<Rightarrow> string + 'm" where
  "app_message (Validation m) = Inr m"
| "app_message InvalidToken = Inl ''invalid or expired token''"
| "app_message Unauthorized = Inl ''authentication failed''"
| "app_message Forbidden = Inl ''forbidden''"
| "app_message NotFound = Inl ''resource not found''"
| "app_message (Gone m) = Inr m"
| "app_message Conflict = Inl ''resource already exists''"
| "app_message AccountLocked = Inl ''account is locked''"
| "app_message TooManyRequests = Inl ''too many requests''"
| "app_message (PayloadTooLarge m) = Inr m"
| "app_message (Internal _) = Inl ''internal server error''"

text \<open>What leaves the process: status, code and message.\<close>

definition into_response :: "'m app_error \<Rightarrow> nat \<times> string \<times> (string + 'm)" where
  "into_response e = (app_status e, app_code e, app_message e)"


section \<open>Pages\<close>

definition DEFAULT_PAGE_SIZE :: "32 word" where "DEFAULT_PAGE_SIZE = 50"
definition MAX_PAGE_SIZE :: "32 word" where "MAX_PAGE_SIZE = 100"

definition clamp :: "'a::linorder \<Rightarrow> 'a \<Rightarrow> 'a \<Rightarrow> 'a" where
  "clamp lo hi x = (if x < lo then lo else if hi < x then hi else x)"

definition page_bounds :: "32 word option \<Rightarrow> 32 word option \<Rightarrow> int \<times> int" where
  "page_bounds limit offset =
     (let l = clamp 1 MAX_PAGE_SIZE (case limit of None \<Rightarrow> DEFAULT_PAGE_SIZE | Some l \<Rightarrow> l);
          i = (case offset of None \<Rightarrow> 0 | Some i \<Rightarrow> i)
      in (uint l, uint i))"

lemma page_bounds_range:
  assumes "page_bounds limit offset = (l, i)"
  shows "1 \<le> l \<and> l \<le> 100 \<and> 0 \<le> i \<and> i < 2 ^ 32"
proof -
  have i: "0 \<le> uint w \<and> uint w < 2 ^ 32" for w :: "32 word"
    using uint_lt2p [of w] by simp
  show ?thesis
    using assms i
    by (auto simp: page_bounds_def clamp_def DEFAULT_PAGE_SIZE_def MAX_PAGE_SIZE_def
        word_less_def Let_def split: option.splits if_splits)
qed

text \<open>A page of a listing: at most the size asked for, and consecutive pages cover the listing.\<close>

lemma length_limit_offset: "0 \<le> l \<Longrightarrow> int (length (limit_offset l off t)) \<le> l"
  by (simp add: limit_offset_def)

lemma limit_offset_set: "set (limit_offset l off t) \<subseteq> set t"
  by (auto simp: limit_offset_def dest: in_set_takeD in_set_dropD)

lemma pages_append:
  assumes "0 \<le> l" "0 \<le> i"
  shows "take (nat i) t @ limit_offset l i t = take (nat (i + l)) t"
  using assms by (simp add: limit_offset_def nat_add_distrib take_add)


section \<open>The request\<close>

definition MAX_USER_AGENT_LEN :: nat where "MAX_USER_AGENT_LEN = 512"

text \<open>
  The peer address comes from the connection; the header is used only where
  \<open>HeaderValue::to_str\<close> accepts it (visible ASCII and tabs), and only its first 512 characters.
\<close>

definition header_to_str :: "string \<Rightarrow> string option" where
  "header_to_str h =
     (if list_all (\<lambda>c. (32 \<le> byte c \<and> byte c < 127) \<or> byte c = 9) h then Some h else None)"

definition client_info_of :: "string option \<Rightarrow> string option \<Rightarrow> client_info" where
  "client_info_of peer user_agent_header =
     \<lparr>ip_address = peer,
      user_agent =
        (case user_agent_header of
           None \<Rightarrow> None
         | Some h \<Rightarrow>
             (case header_to_str h of
                None \<Rightarrow> None
              | Some s \<Rightarrow> Some (concat (take MAX_USER_AGENT_LEN (chars s)))))\<rparr>"


section \<open>Deadlines\<close>

text \<open>
  \<open>expires_in\<close>: \<open>chrono::Duration::seconds\<close> panics on more than \<open>i64::MAX / 1000\<close> seconds, which
  is \<open>None\<close> here (as is, further on, an instant \<open>DateTime\<close> cannot hold).
\<close>

definition I64_MAX :: int where "I64_MAX = 2 ^ 63 - 1"

definition expires_in :: "instant \<Rightarrow> 64 word \<Rightarrow> instant option" where
  "expires_in now seconds =
     (let seconds = (if uint seconds \<le> I64_MAX then uint seconds else I64_MAX)
      in if seconds \<le> I64_MAX div 1000 then Some (now + seconds) else None)"

lemma expires_in_panics_on_saturation: "I64_MAX < uint s \<Longrightarrow> expires_in now s = None"
  by (simp add: expires_in_def I64_MAX_def)

lemma expires_in_Some: "expires_in now s = Some t \<Longrightarrow> t = now + uint s"
  by (auto simp: expires_in_def I64_MAX_def Let_def split: if_splits)


section \<open>Queue keys\<close>

definition EMAIL_QUEUE_SUFFIX :: string where "EMAIL_QUEUE_SUFFIX = ''email-jobs''"
definition EMAIL_DEAD_LETTER_SUFFIX :: string where "EMAIL_DEAD_LETTER_SUFFIX = ''email-dead-letter''"

record queue_keys =
  jobs_key :: string
  dead_letter_key :: string

definition queue_prefix :: "string \<Rightarrow> string" where
  "queue_prefix prefix = trim_end_char CHR '':'' (trim prefix)"

definition queue_keys_new :: "string \<Rightarrow> queue_keys" where
  "queue_keys_new prefix =
     \<lparr>jobs_key = queue_prefix prefix @ '':'' @ EMAIL_QUEUE_SUFFIX,
      dead_letter_key = queue_prefix prefix @ '':'' @ EMAIL_DEAD_LETTER_SUFFIX\<rparr>"

lemma queue_jobs_inject: "jobs_key (queue_keys_new p) = jobs_key (queue_keys_new q) \<longleftrightarrow>
    queue_prefix p = queue_prefix q"
  by (simp add: queue_keys_new_def)

lemma last_append_ne: "last s \<noteq> last t \<Longrightarrow> s \<noteq> [] \<Longrightarrow> t \<noteq> [] \<Longrightarrow> x @ s \<noteq> y @ t"
  by (metis last_appendR)

lemma queue_keys_disjoint: "jobs_key (queue_keys_new p) \<noteq> dead_letter_key (queue_keys_new q)"
  using last_append_ne [of "'':'' @ EMAIL_QUEUE_SUFFIX" "'':'' @ EMAIL_DEAD_LETTER_SUFFIX"]
  by (simp add: queue_keys_new_def EMAIL_QUEUE_SUFFIX_def EMAIL_DEAD_LETTER_SUFFIX_def)

text \<open>The e-mail queue itself: a list that is pushed at the back and popped at the front.\<close>

record email_job =
  job_to :: string
  job_subject :: string
  job_text_body :: string

record email_queue =
  jobs :: "email_job list"
  dead_letters :: "email_job list"

definition queue_enqueue :: "email_job \<Rightarrow> email_queue \<Rightarrow> email_queue" where
  "queue_enqueue j q = q\<lparr>jobs := jobs q @ [j]\<rparr>"

definition queue_dequeue :: "email_queue \<Rightarrow> email_job option \<times> email_queue" where
  "queue_dequeue q = (case jobs q of [] \<Rightarrow> (None, q) | j # rest \<Rightarrow> (Some j, q\<lparr>jobs := rest\<rparr>))"

definition queue_dead_letter :: "email_job \<Rightarrow> email_queue \<Rightarrow> email_queue" where
  "queue_dead_letter j q = q\<lparr>dead_letters := dead_letters q @ [j]\<rparr>"

definition queue_pending :: "email_queue \<Rightarrow> int" where
  "queue_pending q = int (length (jobs q))"

definition queue_clear :: "email_queue \<Rightarrow> email_queue" where
  "queue_clear q = q\<lparr>jobs := [], dead_letters := []\<rparr>"

end
