(* ===== verification/Users.thy ===== *)
theory Users
  imports Shared
begin

text \<open>
  Accounts: \<open>src/src/modules/identity/model.rs\<close>, \<open>repository.rs\<close> and \<open>error.rs\<close>, and the trigger of
  \<open>0012_prevent_orphaned_organizations.sql\<close>, which refuses to delete the last owner of an
  organization. One definition per query of \<open>UserRepository\<close>; a query that fails returns the
  database as it is.
\<close>

datatype identity_error =
    EmailTaken
  | InvalidCredentials
  | AccountDisabled
  | AccountLocked
  | EmailNotVerified
  | InvalidToken
  | NotFound
  | LastAdministrator
  | SelfTargeted
  | UnknownRole string
  | ConfirmationMismatch
  | LastOrganizationOwner "string list"
  | Internal cause

fun identity_app_error :: "identity_error \<Rightarrow> identity_error app_error" where
  "identity_app_error EmailTaken = app_error.Conflict"
| "identity_app_error InvalidCredentials = app_error.Unauthorized"
| "identity_app_error AccountDisabled = app_error.Forbidden"
| "identity_app_error AccountLocked = app_error.AccountLocked"
| "identity_app_error EmailNotVerified = app_error.Forbidden"
| "identity_app_error InvalidToken = app_error.InvalidToken"
| "identity_app_error NotFound = app_error.NotFound"
| "identity_app_error LastAdministrator = app_error.Validation LastAdministrator"
| "identity_app_error SelfTargeted = app_error.Validation SelfTargeted"
| "identity_app_error (UnknownRole r) = app_error.Validation (UnknownRole r)"
| "identity_app_error ConfirmationMismatch = app_error.Validation ConfirmationMismatch"
| "identity_app_error (LastOrganizationOwner m) = app_error.Validation (LastOrganizationOwner m)"
| "identity_app_error (Internal c) = app_error.Internal c"


section \<open>The account record\<close>

definition is_locked :: "user_record \<Rightarrow> instant \<Rightarrow> bool" where
  "is_locked u now = (case usr_locked_until u of None \<Rightarrow> False | Some t \<Rightarrow> t > now)"

definition is_email_verified :: "user_record \<Rightarrow> bool" where
  "is_email_verified u \<longleftrightarrow> usr_email_verified_at u \<noteq> None"

definition normalize_email :: "externals \<Rightarrow> string \<Rightarrow> string" where
  "normalize_email ext email = unicode_lowercase ext (trim email)"


section \<open>The repository\<close>

definition find_user :: "db \<Rightarrow> uuid \<Rightarrow> user_record option" where
  "find_user d uid = find (\<lambda>u. usr_id u = uid) (users d)"

definition find_user_by_email :: "externals \<Rightarrow> db \<Rightarrow> string \<Rightarrow> user_record option" where
  "find_user_by_email ext d email = find (\<lambda>u. sql_lower ext (usr_email u) = email) (users d)"

text \<open>
  \<open>INSERT INTO users\<close>: the unique index on \<open>lower(email)\<close> is the violation the code reports as
  \<open>EmailTaken\<close>; the length checks of the table and the primary key are internal errors. PostgreSQL
  tests the row's checks before its indexes.
\<close>

definition insert_user ::
  "externals \<Rightarrow> uuid \<Rightarrow> string \<Rightarrow> string \<Rightarrow> user_status \<Rightarrow> instant \<Rightarrow> db \<Rightarrow>
   (identity_error + user_record) \<times> db" where
  "insert_user ext uid email hash status now d =
     (let u = \<lparr>usr_id = uid, usr_email = email, usr_password_hash = hash, usr_status = status,
               usr_email_verified_at = None, usr_last_login_at = None,
               usr_failed_login_attempts = 0, usr_locked_until = None,
               usr_password_changed_at = now, usr_created_at = now, usr_updated_at = now\<rparr>
      in if \<not> (3 \<le> char_count email \<and> char_count email \<le> 320) \<or> hash = []
         then (Inl (Internal CheckViolation), d)
         else if exists_row (\<lambda>v. usr_id v = uid) (users d) then (Inl (Internal UniqueViolation), d)
         else if exists_row (\<lambda>v. sql_lower ext (usr_email v) = sql_lower ext email) (users d)
         then (Inl EmailTaken, d)
         else (Inr u, d\<lparr>users := users d @ [u]\<rparr>))"

definition update_user :: "uuid \<Rightarrow> instant \<Rightarrow> (user_record \<Rightarrow> user_record) \<Rightarrow> db \<Rightarrow> db" where
  "update_user uid now f d =
     d\<lparr>users := update_where (\<lambda>u. usr_id u = uid) (\<lambda>u. (f u)\<lparr>usr_updated_at := now\<rparr>) (users d)\<rparr>"

definition record_login_success :: "uuid \<Rightarrow> instant \<Rightarrow> db \<Rightarrow> db" where
  "record_login_success uid now =
     update_user uid now (\<lambda>u. u\<lparr>usr_failed_login_attempts := 0, usr_locked_until := None,
                             usr_last_login_at := Some now\<rparr>)"

definition reset_login_failures :: "uuid \<Rightarrow> instant \<Rightarrow> db \<Rightarrow> db" where
  "reset_login_failures uid now =
     update_user uid now (\<lambda>u. u\<lparr>usr_failed_login_attempts := 0, usr_locked_until := None\<rparr>)"

text \<open>
  \<open>record_login_failure\<close>: \<open>max_attempts\<close> is a \<open>u32\<close> that saturates at \<open>i32::MAX\<close>; the counter is
  an \<open>INTEGER\<close>, so a count past its range is an error.
\<close>

definition I32_MAX :: int where "I32_MAX = 2 ^ 31 - 1"

definition count_failure :: "int \<Rightarrow> instant \<Rightarrow> user_record \<Rightarrow> user_record" where
  "count_failure max_attempts lock_until u =
     u\<lparr>usr_failed_login_attempts := usr_failed_login_attempts u + 1,
       usr_locked_until :=
         if usr_failed_login_attempts u + 1 \<ge> max_attempts then Some lock_until else usr_locked_until u\<rparr>"

definition record_login_failure ::
  "uuid \<Rightarrow> 32 word \<Rightarrow> instant \<Rightarrow> instant \<Rightarrow> db \<Rightarrow> (identity_error + instant option) \<times> db" where
  "record_login_failure uid max_attempts lock_until now d =
     (let m = min (uint max_attempts) I32_MAX
      in case find_user d uid of
           None \<Rightarrow> (Inl (Internal RowNotFound), d)
         | Some u \<Rightarrow>
             if \<not> int4_ok (usr_failed_login_attempts u + 1) then (Inl (Internal IntegerOutOfRange), d)
             else (Inr (usr_locked_until (count_failure m lock_until u)),
                   update_user uid now (count_failure m lock_until) d))"

definition update_password :: "uuid \<Rightarrow> string \<Rightarrow> instant \<Rightarrow> db \<Rightarrow> (identity_error + unit) \<times> db" where
  "update_password uid hash now d =
     (if hash = [] \<and> user_exists d uid then (Inl (Internal CheckViolation), d)
      else (Inr (),
            update_user uid now
              (\<lambda>u. u\<lparr>usr_password_hash := hash, usr_password_changed_at := now,
                      usr_failed_login_attempts := 0, usr_locked_until := None\<rparr>) d))"

definition replace_password_hash :: "uuid \<Rightarrow> string \<Rightarrow> instant \<Rightarrow> db \<Rightarrow> db" where
  "replace_password_hash uid hash now d =
     (if hash = [] then d else update_user uid now (\<lambda>u. u\<lparr>usr_password_hash := hash\<rparr>) d)"

definition mark_email_verified :: "uuid \<Rightarrow> instant \<Rightarrow> db \<Rightarrow> db" where
  "mark_email_verified uid now =
     update_user uid now (\<lambda>u. u\<lparr>usr_email_verified_at := Some now,
                             usr_status := if usr_status u = PendingUser then ActiveUser
                                           else usr_status u\<rparr>)"

definition set_user_status :: "uuid \<Rightarrow> user_status \<Rightarrow> instant \<Rightarrow> db \<Rightarrow> bool \<times> db" where
  "set_user_status uid status now d =
     (0 < rows_affected (\<lambda>u. usr_id u = uid) (users d),
      update_user uid now (\<lambda>u. u\<lparr>usr_status := status\<rparr>) d)"


subsection \<open>Deleting an account\<close>

definition role_of :: "db \<Rightarrow> uuid \<Rightarrow> uuid \<Rightarrow> organization_role option" where
  "role_of d oid uid =
     map_option mem_role
       (find (\<lambda>m. mem_organization m = oid \<and> mem_user m = uid) (organization_members d))"

text \<open>The organizations the trigger names: those the account owns and nobody else does.\<close>

definition orphaned_organizations :: "db \<Rightarrow> uuid \<Rightarrow> organization_record list" where
  "orphaned_organizations d uid =
     filter (\<lambda>r.
       exists_row (\<lambda>m. mem_organization m = org_id r \<and> mem_user m = uid \<and> mem_role m = Owner)
         (organization_members d) \<and>
       \<not> exists_row (\<lambda>m. mem_organization m = org_id r \<and> mem_role m = Owner \<and> mem_user m \<noteq> uid)
           (organization_members d))
       (organizations d)"

definition delete_user :: "uuid \<Rightarrow> db \<Rightarrow> (identity_error + bool) \<times> db" where
  "delete_user uid d =
     (if \<not> user_exists d uid then (Inr False, d)
      else if orphaned_organizations d uid \<noteq> []
      then (Inl (LastOrganizationOwner (sort (map org_name (orphaned_organizations d uid)))), d)
      else (Inr True, drop_users (\<lambda>u. usr_id u = uid) d))"


section \<open>Facts\<close>

lemma find_user_Some: "find_user d uid = Some u \<Longrightarrow> u \<in> set (users d) \<and> usr_id u = uid"
  by (auto simp: find_user_def dest: find_in_set)

lemma find_user_None: "find_user d uid = None \<longleftrightarrow> \<not> user_exists d uid"
  by (auto simp: find_user_def user_exists_def table_simps find_None)

lemma user_exists_iff: "user_exists d uid \<longleftrightarrow> uid \<in> usr_id ` set (users d)"
  by (auto simp: user_exists_def table_simps)

lemma update_user_frame [simp]:
  "roles (update_user uid now f d) = roles d"
  "user_roles (update_user uid now f d) = user_roles d"
  "sessions (update_user uid now f d) = sessions d"
  "session_tokens (update_user uid now f d) = session_tokens d"
  "one_time_tokens (update_user uid now f d) = one_time_tokens d"
  "auth_events (update_user uid now f d) = auth_events d"
  "organizations (update_user uid now f d) = organizations d"
  "organization_members (update_user uid now f d) = organization_members d"
  "forms (update_user uid now f d) = forms d"
  by (simp_all add: update_user_def)

lemma find_user_update:
  assumes "\<And>u. usr_id (f u) = usr_id u"
  shows "find_user (update_user uid now f d) v =
     map_option (\<lambda>u. if v = uid then (f u)\<lparr>usr_updated_at := now\<rparr> else u) (find_user d v)"
proof -
  have "find_user (update_user uid now f d) v =
      map_option (\<lambda>u. if usr_id u = uid then (f u)\<lparr>usr_updated_at := now\<rparr> else u) (find_user d v)"
    by (simp add: find_user_def update_user_def find_update_where assms)
  then show ?thesis
    by (cases "find_user d v") (auto dest: find_user_Some)
qed

lemma user_exists_update:
  assumes "\<And>u. usr_id (f u) = usr_id u"
  shows "user_exists (update_user uid now f d) v = user_exists d v"
  using find_user_update [OF assms, of uid now d v] by (metis find_user_None option.map_disc_iff)

lemma user_exists_record_event [simp]: "user_exists (record_event e now d) uid = user_exists d uid"
  by (simp add: user_exists_def)

lemma role_of_Some:
  "role_of d oid uid = Some r \<Longrightarrow>
   \<exists>m \<in> set (organization_members d). mem_organization m = oid \<and> mem_user m = uid \<and> mem_role m = r"
  by (auto simp: role_of_def dest: find_in_set)

lemma role_of_None:
  "role_of d oid uid = None \<longleftrightarrow>
   (\<forall>m \<in> set (organization_members d). \<not> (mem_organization m = oid \<and> mem_user m = uid))"
  by (auto simp: role_of_def find_None)

end
