(* ===== verification/Organization.thy ===== *)
theory Organization
  imports Users
begin

text \<open>
  Organizations and their membership: \<open>src/src/modules/organization/\<close>. The queries of
  \<open>OrganizationRepository\<close> come first, then the operations of \<open>OrganizationService\<close>, each a function
  from the database to a result and the database it leaves. A membership change runs in one
  transaction under the row lock of its organization, so it is one step here; what the lock is
  worth when transactions interleave is the subject of the theory \<open>Ownership\<close>.
\<close>

datatype organization_error =
    NotFound
  | NotAMember
  | InsufficientRole
  | LastOwner
  | AccountNotFound
  | MemberNotFound
  | Internal cause

fun organization_app_error :: "organization_error \<Rightarrow> organization_error app_error" where
  "organization_app_error NotFound = app_error.NotFound"
| "organization_app_error NotAMember = app_error.Forbidden"
| "organization_app_error InsufficientRole = app_error.Forbidden"
| "organization_app_error LastOwner = app_error.Validation LastOwner"
| "organization_app_error AccountNotFound = app_error.NotFound"
| "organization_app_error MemberNotFound = app_error.NotFound"
| "organization_app_error (Internal c) = app_error.Internal c"


section \<open>Roles\<close>

fun reaches :: "organization_role \<Rightarrow> organization_role \<Rightarrow> bool" where
  "reaches Owner _ = True"
| "reaches Admin other = (other = Admin \<or> other = Member)"
| "reaches Member _ = False"

definition is_manager :: "organization_role \<Rightarrow> bool" where
  "is_manager r \<longleftrightarrow> r = Owner \<or> r = Admin"

definition is_owner :: "organization_role \<Rightarrow> bool" where
  "is_owner r \<longleftrightarrow> r = Owner"

text \<open>The hierarchy behind the two predicates: a member is below an admin, who is below an owner.\<close>

fun role_rank :: "organization_role \<Rightarrow> nat" where
  "role_rank Member = 0"
| "role_rank Admin = 1"
| "role_rank Owner = 2"

lemma role_rank_inject: "role_rank r = role_rank s \<longleftrightarrow> r = s"
  by (cases r; cases s) simp_all

instantiation organization_role :: linorder
begin

definition less_eq_organization_role :: "organization_role \<Rightarrow> organization_role \<Rightarrow> bool" where
  "r \<le> s \<longleftrightarrow> role_rank r \<le> role_rank s"

definition less_organization_role :: "organization_role \<Rightarrow> organization_role \<Rightarrow> bool" where
  "r < s \<longleftrightarrow> role_rank r < role_rank s"

instance
  by standard (auto simp: less_eq_organization_role_def less_organization_role_def role_rank_inject)

end

lemma reaches_iff: "reaches r s \<longleftrightarrow> Admin \<le> r \<and> s \<le> r"
  by (cases r; cases s) (simp_all add: less_eq_organization_role_def)

lemma is_manager_iff: "is_manager r \<longleftrightarrow> Admin \<le> r"
  by (cases r) (simp_all add: less_eq_organization_role_def is_manager_def)


section \<open>Responses\<close>

record organization_response =
  ore_id :: uuid
  ore_name :: string
  ore_role :: organization_role
  ore_member_count :: int
  ore_created_at :: instant

definition organization_response_new ::
  "organization_record \<Rightarrow> int \<Rightarrow> organization_role \<Rightarrow> organization_response" where
  "organization_response_new r n role =
     \<lparr>ore_id = org_id r, ore_name = org_name r, ore_role = role, ore_member_count = n,
      ore_created_at = org_created_at r\<rparr>"

record admin_organization_response =
  aor_id :: uuid
  aor_name :: string
  aor_member_count :: int
  aor_created_at :: instant

record member_response =
  mre_user_id :: uuid
  mre_email :: string
  mre_role :: organization_role
  mre_joined_at :: instant


section \<open>The repository\<close>

definition member_count :: "db \<Rightarrow> uuid \<Rightarrow> int" where
  "member_count d oid =
     int (rows_affected (\<lambda>m. mem_organization m = oid) (organization_members d))"

definition insert_organization ::
  "string \<Rightarrow> uuid \<Rightarrow> uuid \<Rightarrow> instant \<Rightarrow> db \<Rightarrow> (organization_error + organization_record) \<times> db" where
  "insert_organization name owner oid now d =
     (let r = \<lparr>org_id = oid, org_name = name, org_created_at = now\<rparr>;
          m = \<lparr>mem_organization = oid, mem_user = owner, mem_role = Owner, mem_created_at = now\<rparr>
      in if \<not> (1 \<le> char_count name \<and> char_count name \<le> 120)
         then (Inl (Internal CheckViolation), d)
         else (case insert_unique org_id r (organizations d) of
                 None \<Rightarrow> (Inl (Internal UniqueViolation), d)
               | Some orgs \<Rightarrow>
                   (case insert_unique (\<lambda>m. (mem_organization m, mem_user m)) m
                           (organization_members d) of
                      None \<Rightarrow> (Inl (Internal UniqueViolation), d)
                    | Some ms \<Rightarrow>
                        if \<not> user_exists d owner then (Inl (Internal ForeignKeyViolation), d)
                        else (Inr r, d\<lparr>organizations := orgs, organization_members := ms\<rparr>))))"

text \<open>The row of the access lookup: the organization, its member count, and the caller's role.\<close>

definition find_access ::
  "db \<Rightarrow> uuid \<Rightarrow> uuid \<Rightarrow> (organization_record \<times> int \<times> organization_role option) option" where
  "find_access d oid uid =
     map_option (\<lambda>r. (r, member_count d oid, role_of d oid uid))
       (find (\<lambda>r. org_id r = oid) (organizations d))"

definition lock_organization :: "db \<Rightarrow> uuid \<Rightarrow> organization_error + unit" where
  "lock_organization d oid =
     ok_or NotFound (map_option (\<lambda>_. ()) (find (\<lambda>r. org_id r = oid) (organizations d)))"

definition join_member :: "db \<Rightarrow> member_row \<Rightarrow> member_response option" where
  "join_member d m =
     map_option (\<lambda>u. \<lparr>mre_user_id = mem_user m, mre_email = usr_email u, mre_role = mem_role m,
                      mre_joined_at = mem_created_at m\<rparr>)
       (find_user d (mem_user m))"

definition member_of :: "db \<Rightarrow> uuid \<Rightarrow> uuid \<Rightarrow> member_response option" where
  "member_of d oid uid =
     Option.bind
       (find (\<lambda>m. mem_organization m = oid \<and> mem_user m = uid) (organization_members d))
       (join_member d)"

definition organizations_for_user :: "db \<Rightarrow> uuid \<Rightarrow> organization_response list" where
  "organizations_for_user d uid =
     map (\<lambda>(r, role). organization_response_new r (member_count d (org_id r)) role)
       (concat
          (map (\<lambda>r. case role_of d (org_id r) uid of None \<Rightarrow> [] | Some role \<Rightarrow> [(r, role)])
            (sort_key (\<lambda>r. (- org_created_at r, org_id r)) (organizations d))))"

definition rename_organization_row :: "uuid \<Rightarrow> string \<Rightarrow> db \<Rightarrow> (organization_error + unit) \<times> db" where
  "rename_organization_row oid name d =
     (if organization_exists d oid \<and> \<not> (1 \<le> char_count name \<and> char_count name \<le> 120)
      then (Inl (Internal CheckViolation), d)
      else (Inr (), d\<lparr>organizations :=
              update_where (\<lambda>r. org_id r = oid) (\<lambda>r. r\<lparr>org_name := name\<rparr>) (organizations d)\<rparr>))"

definition delete_organization_row :: "uuid \<Rightarrow> db \<Rightarrow> bool \<times> db" where
  "delete_organization_row oid d =
     (organization_exists d oid, drop_organizations (\<lambda>r. org_id r = oid) d)"

definition members_page :: "db \<Rightarrow> uuid \<Rightarrow> int \<Rightarrow> int \<Rightarrow> member_response list" where
  "members_page d oid l i =
     limit_offset l i
       (List.map_filter (join_member d)
         (sort_key (\<lambda>m. (mem_created_at m, mem_user m))
           (filter (\<lambda>m. mem_organization m = oid) (organization_members d))))"

definition upsert_member ::
  "uuid \<Rightarrow> uuid \<Rightarrow> organization_role \<Rightarrow> instant \<Rightarrow> db \<Rightarrow> (organization_error + unit) \<times> db" where
  "upsert_member oid uid role now d =
     (if role_of d oid uid = None then
        if user_exists d uid \<and> organization_exists d oid then
          (Inr (), d\<lparr>organization_members := organization_members d @
             [\<lparr>mem_organization = oid, mem_user = uid, mem_role = role, mem_created_at = now\<rparr>]\<rparr>)
        else (Inl (Internal ForeignKeyViolation), d)
      else
        (Inr (), d\<lparr>organization_members :=
           update_where (\<lambda>m. mem_organization m = oid \<and> mem_user m = uid)
             (\<lambda>m. m\<lparr>mem_role := role\<rparr>) (organization_members d)\<rparr>))"

definition remove_member_row :: "uuid \<Rightarrow> uuid \<Rightarrow> db \<Rightarrow> db" where
  "remove_member_row oid uid d =
     d\<lparr>organization_members :=
         delete_where (\<lambda>m. mem_organization m = oid \<and> mem_user m = uid) (organization_members d)\<rparr>"

definition owner_count :: "db \<Rightarrow> uuid \<Rightarrow> nat" where
  "owner_count d oid =
     rows_affected (\<lambda>m. mem_organization m = oid \<and> mem_role m = Owner) (organization_members d)"

definition organization_summary :: "db \<Rightarrow> organization_record \<Rightarrow> admin_organization_response" where
  "organization_summary d r =
     \<lparr>aor_id = org_id r, aor_name = org_name r, aor_member_count = member_count d (org_id r),
      aor_created_at = org_created_at r\<rparr>"

definition summaries_page :: "db \<Rightarrow> int \<Rightarrow> int \<Rightarrow> admin_organization_response list" where
  "summaries_page d l i =
     limit_offset l i
       (map (organization_summary d)
         (sort_key (\<lambda>r. (- org_created_at r, org_id r)) (organizations d)))"


section \<open>The service\<close>

record access =
  acc_organization :: organization_record
  acc_member_count :: int
  acc_role :: organization_role

definition require_manager :: "organization_role \<Rightarrow> organization_error + unit" where
  "require_manager r = (if is_manager r then Inr () else Inl InsufficientRole)"

definition require_owner :: "organization_role \<Rightarrow> organization_error + unit" where
  "require_owner r = (if is_owner r then Inr () else Inl InsufficientRole)"

definition require_reaches :: "organization_role \<Rightarrow> organization_role \<Rightarrow> organization_error + unit" where
  "require_reaches r s = (if reaches r s then Inr () else Inl InsufficientRole)"

definition access_response :: "access \<Rightarrow> organization_response" where
  "access_response a =
     organization_response_new (acc_organization a) (acc_member_count a) (acc_role a)"

text \<open>\<open>OrganizationService::access\<close>: no such organization, not a member, or the caller's standing.\<close>

definition resolve_access :: "db \<Rightarrow> uuid \<Rightarrow> uuid \<Rightarrow> organization_error + access" where
  "resolve_access d oid uid =
     and_then (ok_or NotFound (find_access d oid uid)) (\<lambda>(r, n, role).
       and_then (ok_or NotAMember role) (\<lambda>role.
         Inr \<lparr>acc_organization = r, acc_member_count = n, acc_role = role\<rparr>))"

definition organization_audit ::
  "auth_event_type \<Rightarrow> uuid \<Rightarrow> uuid \<Rightarrow> uuid option \<Rightarrow> string option \<Rightarrow> client_info \<Rightarrow> instant \<Rightarrow>
   db \<Rightarrow> db" where
  "organization_audit kind oid actor subject email client now =
     record_event
       \<lparr>ev_user_id = subject, ev_actor_user_id = Some actor, ev_organization_id = Some oid,
        ev_target_id = None, ev_email = email, ev_event_type = kind,
        ev_ip_address = ip_address client, ev_user_agent = user_agent client\<rparr> now"

definition create_organization ::
  "string \<Rightarrow> uuid \<Rightarrow> client_info \<Rightarrow> uuid \<Rightarrow> instant \<Rightarrow> db \<Rightarrow>
   (organization_error + organization_response) \<times> db" where
  "create_organization name actor client oid now d =
     (case insert_organization (trim name) actor oid now d of
        (Inl e, d') \<Rightarrow> (Inl e, d')
      | (Inr r, d') \<Rightarrow>
          (Inr (organization_response_new r 1 Owner),
           organization_audit OrganizationCreated (org_id r) actor (Some actor) (Some (org_name r))
             client now d'))"

definition list_my_organizations :: "db \<Rightarrow> uuid \<Rightarrow> int \<Rightarrow> int \<Rightarrow> organization_response list \<times> int" where
  "list_my_organizations d uid l i =
     (limit_offset l i (organizations_for_user d uid),
      int (rows_affected (\<lambda>m. mem_user m = uid) (organization_members d)))"

definition get_organization :: "db \<Rightarrow> uuid \<Rightarrow> uuid \<Rightarrow> organization_error + organization_response" where
  "get_organization d oid uid = and_then (resolve_access d oid uid) (\<lambda>a. Inr (access_response a))"

definition rename_organization ::
  "uuid \<Rightarrow> string \<Rightarrow> uuid \<Rightarrow> client_info \<Rightarrow> instant \<Rightarrow> db \<Rightarrow>
   (organization_error + organization_response) \<times> db" where
  "rename_organization oid name actor client now d =
     guard_st (resolve_access d oid actor) d (\<lambda>a.
     guard_st (require_manager (acc_role a)) d (\<lambda>_.
       case rename_organization_row oid (trim name) d of
         (Inl e, d') \<Rightarrow> (Inl e, d')
       | (Inr _, d') \<Rightarrow>
           let d'' = organization_audit OrganizationRenamed oid actor (Some actor)
                       (Some (trim name)) client now d'
           in (get_organization d'' oid actor, d'')))"

definition delete_organization ::
  "uuid \<Rightarrow> uuid \<Rightarrow> client_info \<Rightarrow> instant \<Rightarrow> db \<Rightarrow> (organization_error + unit) \<times> db" where
  "delete_organization oid actor client now d =
     guard_st (resolve_access d oid actor) d (\<lambda>a.
     guard_st (require_owner (acc_role a)) d (\<lambda>_.
       let d' = organization_audit OrganizationDeleted oid actor (Some actor)
                  (Some (org_name (acc_organization a))) client now d
       in case delete_organization_row oid d' of
            (gone, d'') \<Rightarrow> (if gone then Inr () else Inl NotFound, d'')))"

definition list_members ::
  "db \<Rightarrow> uuid \<Rightarrow> uuid \<Rightarrow> int \<Rightarrow> int \<Rightarrow> organization_error + member_response list \<times> int" where
  "list_members d oid uid l i =
     and_then (resolve_access d oid uid) (\<lambda>_. Inr (members_page d oid l i, member_count d oid))"

definition locked_role :: "db \<Rightarrow> uuid \<Rightarrow> uuid \<Rightarrow> organization_error + organization_role" where
  "locked_role d oid uid = ok_or NotAMember (role_of d oid uid)"

definition ensure_another_owner :: "db \<Rightarrow> uuid \<Rightarrow> organization_error + unit" where
  "ensure_another_owner d oid = (if owner_count d oid \<le> 1 then Inl LastOwner else Inr ())"

definition member_view :: "db \<Rightarrow> uuid \<Rightarrow> uuid \<Rightarrow> organization_error + member_response" where
  "member_view d oid uid = ok_or MemberNotFound (member_of d oid uid)"

definition add_member ::
  "externals \<Rightarrow> uuid \<Rightarrow> string \<Rightarrow> organization_role \<Rightarrow> uuid \<Rightarrow> client_info \<Rightarrow> instant \<Rightarrow> db \<Rightarrow>
   (organization_error + member_response \<times> bool) \<times> db" where
  "add_member ext oid email role actor client now d =
     (case find_user_by_email ext d (normalize_email ext email) of
        None \<Rightarrow> (Inl AccountNotFound, d)
      | Some u \<Rightarrow>
          let uid = usr_id u in
          guard_st (lock_organization d oid) d (\<lambda>_.
          guard_st (locked_role d oid actor) d (\<lambda>actor_role.
          guard_st (require_manager actor_role) d (\<lambda>_.
          guard_st (require_reaches actor_role role) d (\<lambda>_.
            let existing = role_of d oid uid;
                write = (\<lambda>_::unit.
                  case upsert_member oid uid role now d of
                    (Inl e, d') \<Rightarrow> (Inl e, d)
                  | (Inr _, d') \<Rightarrow>
                      guard_st (member_view d' oid uid) d' (\<lambda>m.
                        (Inr (m, existing = None),
                         organization_audit
                           (if existing = None then OrganizationMemberAdded
                            else OrganizationMemberRoleChanged)
                           oid actor (Some uid) (Some (mre_email m)) client now d')))
            in case existing of
                 None \<Rightarrow> write ()
               | Some current \<Rightarrow>
                   guard_st (require_reaches actor_role current) d (\<lambda>_.
                     if current = role
                     then guard_st (member_view d oid uid) d (\<lambda>m. (Inr (m, False), d))
                     else if is_owner current
                     then guard_st (ensure_another_owner d oid) d write
                     else write ()))))))"

definition set_member_role ::
  "uuid \<Rightarrow> uuid \<Rightarrow> organization_role \<Rightarrow> uuid \<Rightarrow> client_info \<Rightarrow> instant \<Rightarrow> db \<Rightarrow>
   (organization_error + member_response) \<times> db" where
  "set_member_role oid target role actor client now d =
     guard_st (lock_organization d oid) d (\<lambda>_.
     guard_st (locked_role d oid actor) d (\<lambda>actor_role.
     guard_st (require_manager actor_role) d (\<lambda>_.
     guard_st (ok_or MemberNotFound (role_of d oid target)) d (\<lambda>current.
     guard_st (require_reaches actor_role current) d (\<lambda>_.
     guard_st (require_reaches actor_role role) d (\<lambda>_.
       if current = role then (member_view d oid target, d)
       else
         guard_st (if is_owner current then ensure_another_owner d oid else Inr ()) d (\<lambda>_.
           case upsert_member oid target role now d of
             (Inl e, d') \<Rightarrow> (Inl e, d)
           | (Inr _, d') \<Rightarrow>
               guard_st (member_view d' oid target) d' (\<lambda>m.
                 (Inr m,
                  organization_audit OrganizationMemberRoleChanged oid actor (Some target)
                    (Some (mre_email m)) client now d')))))))))"

definition remove_member ::
  "uuid \<Rightarrow> uuid \<Rightarrow> uuid \<Rightarrow> client_info \<Rightarrow> instant \<Rightarrow> db \<Rightarrow> (organization_error + unit) \<times> db" where
  "remove_member oid target actor client now d =
     guard_st (lock_organization d oid) d (\<lambda>_.
     guard_st (locked_role d oid actor) d (\<lambda>actor_role.
     guard_st (ok_or MemberNotFound (role_of d oid target)) d (\<lambda>current.
     guard_st (if target \<noteq> actor
               then and_then (require_manager actor_role) (\<lambda>_. require_reaches actor_role current)
               else Inr ()) d (\<lambda>_.
     guard_st (if is_owner current then ensure_another_owner d oid else Inr ()) d (\<lambda>_.
     guard_st (member_view d oid target) d (\<lambda>m.
       (Inr (),
        organization_audit OrganizationMemberRemoved oid actor (Some target) (Some (mre_email m))
          client now (remove_member_row oid target d))))))))"

definition list_all_organizations :: "db \<Rightarrow> int \<Rightarrow> int \<Rightarrow> admin_organization_response list \<times> int" where
  "list_all_organizations d l i = (summaries_page d l i, int (length (organizations d)))"

definition get_as_administrator :: "db \<Rightarrow> uuid \<Rightarrow> organization_error + admin_organization_response" where
  "get_as_administrator d oid =
     ok_or NotFound
       (map_option (organization_summary d) (find (\<lambda>r. org_id r = oid) (organizations d)))"

end
