(* ===== verification/Ownership.thy ===== *)
theory Ownership
  imports Organization
begin

text \<open>
  What \<open>src/src/modules/organization/service.rs\<close> promises in its header: an organization always keeps
  an owner, and an account reaches only as far as its own role. The first part states the contract
  of a membership change as a relation of its own (\<open>membership_change\<close>) and shows that the three
  operations implement it; the second carries the ownership invariant through every operation on
  organizations and accounts; the third takes the transactions of the membership changes apart and
  interleaves them, with and without the row lock of \<open>OrganizationRepository::lock\<close>, and with the
  deletion of accounts, which does not take that lock.
\<close>

section \<open>Roles under the statements\<close>

definition member_key :: "member_row \<Rightarrow> uuid \<times> uuid" where
  "member_key m = (mem_organization m, mem_user m)"

definition has_owner :: "db \<Rightarrow> uuid \<Rightarrow> bool" where
  "has_owner d oid = exists_row (\<lambda>m. mem_organization m = oid \<and> mem_role m = Owner) (organization_members d)"

definition membership_keys :: "db \<Rightarrow> bool" where
  "membership_keys d \<longleftrightarrow>
     distinct (map org_id (organizations d)) \<and>
     distinct (map member_key (organization_members d)) \<and>
     (\<forall>m \<in> set (organization_members d).
        organization_exists d (mem_organization m) \<and> user_exists d (mem_user m))"

definition owned :: "db \<Rightarrow> bool" where
  "owned d \<longleftrightarrow> (\<forall>r \<in> set (organizations d). has_owner d (org_id r))"

definition organization_inv :: "db \<Rightarrow> bool" where
  "organization_inv d \<longleftrightarrow> membership_keys d \<and> owned d"

lemma membership_keysD:
  assumes "membership_keys d"
  shows "distinct (map org_id (organizations d))"
    and "distinct (map member_key (organization_members d))"
    and "m \<in> set (organization_members d) \<Longrightarrow> organization_exists d (mem_organization m)"
    and "m \<in> set (organization_members d) \<Longrightarrow> user_exists d (mem_user m)"
  using assms by (auto simp: membership_keys_def)

lemma role_of_member:
  assumes "distinct (map member_key (organization_members d))" and "m \<in> set (organization_members d)"
  shows "role_of d (mem_organization m) (mem_user m) = Some (mem_role m)"
proof -
  have "find (\<lambda>x. mem_organization x = mem_organization m \<and> mem_user x = mem_user m)
      (organization_members d) = Some m"
    using assms by (auto intro!: find_unique [where key = member_key] simp: member_key_def)
  then show ?thesis by (simp add: role_of_def)
qed

lemma has_owner_iff:
  assumes "membership_keys d"
  shows "has_owner d oid \<longleftrightarrow> (\<exists>uid. role_of d oid uid = Some Owner)"
proof
  assume "has_owner d oid"
  then obtain m where "m \<in> set (organization_members d)" "mem_organization m = oid" "mem_role m = Owner"
    by (auto simp: has_owner_def table_simps)
  with role_of_member [of d m] membership_keysD(2) [OF assms] show "\<exists>uid. role_of d oid uid = Some Owner"
    by auto
next
  assume "\<exists>uid. role_of d oid uid = Some Owner"
  then show "has_owner d oid" by (auto simp: has_owner_def table_simps dest!: role_of_Some)
qed

lemma role_of_upsert:
  assumes "upsert_member oid uid role now d = (Inr u, d')"
  shows "role_of d' o' v = (if o' = oid \<and> v = uid then Some role else role_of d o' v)"
proof (cases "role_of d oid uid")
  case None
  with assms show ?thesis
    by (auto simp: upsert_member_def role_of_def split: if_splits option.splits)
next
  case (Some r)
  with assms have d': "d' = d\<lparr>organization_members :=
      update_where (\<lambda>m. mem_organization m = oid \<and> mem_user m = uid) (\<lambda>m. m\<lparr>mem_role := role\<rparr>)
        (organization_members d)\<rparr>"
    by (simp add: upsert_member_def)
  have up: "map_option mem_role (find (\<lambda>m. mem_organization m = o' \<and> mem_user m = v)
      (update_where (\<lambda>m. mem_organization m = oid \<and> mem_user m = uid) (\<lambda>m. m\<lparr>mem_role := role\<rparr>) t)) =
    map_option (\<lambda>m. if o' = oid \<and> v = uid then role else mem_role m)
      (find (\<lambda>m. mem_organization m = o' \<and> mem_user m = v) t)" for t
    by (induction t) auto
  obtain m where "find (\<lambda>m. mem_organization m = oid \<and> mem_user m = uid) (organization_members d) = Some m"
    using Some by (auto simp: role_of_def)
  then show ?thesis
    using up [of "organization_members d"]
    by (cases "o' = oid \<and> v = uid") (auto simp: d' role_of_def)
qed

lemma role_of_remove:
  "role_of (remove_member_row oid uid d) o' v = (if o' = oid \<and> v = uid then None else role_of d o' v)"
proof (cases "o' = oid \<and> v = uid")
  case True
  then show ?thesis by (auto simp: role_of_None remove_member_row_def table_simps)
next
  case False
  then have "find (\<lambda>m. mem_organization m = o' \<and> mem_user m = v)
      (delete_where (\<lambda>m. mem_organization m = oid \<and> mem_user m = uid) (organization_members d)) =
    find (\<lambda>m. mem_organization m = o' \<and> mem_user m = v) (organization_members d)"
    by (intro find_delete_where) auto
  with False show ?thesis by (auto simp: role_of_def remove_member_row_def)
qed

lemma upsert_member_frame:
  assumes "upsert_member oid uid role now d = (Inr u, d')"
  shows "users d' = users d" "organizations d' = organizations d"
  using assms by (auto simp: upsert_member_def split: if_splits)

lemma remove_member_frame [simp]:
  "users (remove_member_row oid uid d) = users d"
  "organizations (remove_member_row oid uid d) = organizations d"
  by (simp_all add: remove_member_row_def)

lemma upsert_member_keys:
  assumes "upsert_member oid uid role now d = (Inr u, d')" and "membership_keys d"
  shows "membership_keys d'"
proof (cases "role_of d oid uid")
  case None
  then have "(oid, uid) \<notin> member_key ` set (organization_members d)"
    by (auto simp: role_of_None member_key_def)
  with None assms show ?thesis
    by (auto simp: upsert_member_def membership_keys_def member_key_def organization_exists_def
        user_exists_def split: if_splits)
next
  case (Some r)
  with assms have d': "d' = d\<lparr>organization_members :=
      update_where (\<lambda>m. mem_organization m = oid \<and> mem_user m = uid) (\<lambda>m. m\<lparr>mem_role := role\<rparr>)
        (organization_members d)\<rparr>"
    by (simp add: upsert_member_def)
  have "distinct (map member_key (organization_members d'))"
    unfolding d' using membership_keysD(2) [OF assms(2)]
    by (auto intro: distinct_update_where simp: member_key_def)
  with assms(2) show ?thesis
    by (auto simp: d' membership_keys_def organization_exists_def user_exists_def table_simps)
qed

lemma remove_member_keys: "membership_keys d \<Longrightarrow> membership_keys (remove_member_row oid uid d)"
  by (auto simp: membership_keys_def remove_member_row_def organization_exists_def user_exists_def
      set_delete_where intro: distinct_delete_where)

text \<open>Two owners counted are two owners: whoever goes, another one stays.\<close>

lemma another_owner:
  assumes "membership_keys d" and "1 < owner_count d oid"
  shows "\<exists>v. v \<noteq> uid \<and> role_of d oid v = Some Owner"
proof (rule ccontr)
  assume none: "\<not> ?thesis"
  let ?os = "filter (\<lambda>m. mem_organization m = oid \<and> mem_role m = Owner) (organization_members d)"
  have "mem_user m = uid" if "m \<in> set ?os" for m
    using none role_of_member [OF membership_keysD(2) [OF assms(1)], of m] that by auto
  then have "member_key ` set ?os \<subseteq> {(oid, uid)}"
    by (auto simp: member_key_def)
  then have "card (member_key ` set ?os) \<le> card {(oid, uid)}"
    by (intro card_mono) auto
  moreover have "distinct (map member_key ?os)"
    using membership_keysD(2) [OF assms(1)] by (simp add: distinct_map_filter)
  then have "length ?os = card (member_key ` set ?os)"
    using distinct_card [of "map member_key ?os"] by simp
  ultimately show False using assms(2) by (simp add: owner_count_def rows_affected_def)
qed


section \<open>The contract of a membership change\<close>

text \<open>
  What a request of \<open>actor\<close> may do to the roles of \<open>oid\<close>: nothing; give \<open>uid\<close> a role, when the
  actor manages and reaches both the new role and the one it replaces, and an owner that is
  replaced is not the last; or take \<open>uid\<close> out under the same rule, or when it is the actor itself.
\<close>

inductive membership_change :: "uuid \<Rightarrow> uuid \<Rightarrow> db \<Rightarrow> db \<Rightarrow> bool" where
  keep: "membership_change oid actor d d"
| grant: "role_of d oid actor = Some a \<Longrightarrow> is_manager a \<Longrightarrow> reaches a role \<Longrightarrow>
    (\<forall>current. role_of d oid uid = Some current \<longrightarrow>
       reaches a current \<and> current \<noteq> role \<and> (current = Owner \<longrightarrow> 1 < owner_count d oid)) \<Longrightarrow>
    upsert_member oid uid role now d = (Inr u, d') \<Longrightarrow> membership_change oid actor d d'"
| remove: "role_of d oid actor = Some a \<Longrightarrow> role_of d oid uid = Some current \<Longrightarrow>
    (uid \<noteq> actor \<longrightarrow> is_manager a \<and> reaches a current) \<Longrightarrow>
    (current = Owner \<longrightarrow> 1 < owner_count d oid) \<Longrightarrow>
    membership_change oid actor d (remove_member_row oid uid d)"

text \<open>The concrete database agrees with the abstract one up to the audit trail.\<close>

definition same_but_audit :: "db \<Rightarrow> db \<Rightarrow> bool" where
  "same_but_audit d d' \<longleftrightarrow> d\<lparr>auth_events := []\<rparr> = d'\<lparr>auth_events := []\<rparr>"

lemma same_but_audit_refl [simp]: "same_but_audit d d"
  by (simp add: same_but_audit_def)

lemma same_but_audit_record [simp]: "same_but_audit d (record_event e now d)"
  by (simp add: same_but_audit_def record_event_def)

lemma same_but_audit_organization [simp]:
  "same_but_audit d (organization_audit k oid a s e c now d)"
  by (simp add: organization_audit_def)

lemma same_but_auditD:
  assumes "same_but_audit d d'"
  shows "users d' = users d" "organizations d' = organizations d"
    "organization_members d' = organization_members d" "forms d' = forms d"
    "submissions d' = submissions d" "file_uploads d' = file_uploads d"
    "outbox_events d' = outbox_events d" "webhook_endpoints d' = webhook_endpoints d"
    "webhook_deliveries d' = webhook_deliveries d" "sessions d' = sessions d"
    "session_tokens d' = session_tokens d" "user_roles d' = user_roles d" "roles d' = roles d"
    "one_time_tokens d' = one_time_tokens d"
  using assms unfolding same_but_audit_def by (cases d; cases d'; simp)+

lemma same_but_audit_role_of: "same_but_audit d d' \<Longrightarrow> role_of d' = role_of d"
  by (rule ext)+ (simp add: role_of_def same_but_auditD)

lemma same_but_audit_inv: "same_but_audit d d' \<Longrightarrow> organization_inv d' = organization_inv d"
  by (simp add: organization_inv_def membership_keys_def owned_def has_owner_def
      organization_exists_def user_exists_def same_but_auditD)

definition implements_change :: "uuid \<Rightarrow> uuid \<Rightarrow> db \<Rightarrow> db \<Rightarrow> bool" where
  "implements_change oid actor d d' \<longleftrightarrow> (\<exists>m. membership_change oid actor d m \<and> same_but_audit m d')"

lemma implements_keep [intro, simp]: "implements_change oid actor d d"
  by (auto simp: implements_change_def intro: membership_change.keep)

lemma implements_I: "membership_change oid actor d m \<Longrightarrow> same_but_audit m d' \<Longrightarrow> implements_change oid actor d d'"
  by (auto simp: implements_change_def)

lemmas membership_guards =
  locked_role_def require_manager_def require_reaches_def require_owner_def ensure_another_owner_def
  is_owner_def

lemma add_member_write:
  assumes "role_of d oid actor = Some a" "is_manager a" "reaches a role"
    and "\<forall>current. role_of d oid uid = Some current \<longrightarrow>
       reaches a current \<and> current \<noteq> role \<and> (current = Owner \<longrightarrow> 1 < owner_count d oid)"
  shows "implements_change oid actor d
    (snd (case upsert_member oid uid role now d of
       (Inl e, d') \<Rightarrow> (Inl e, d)
     | (Inr _, d') \<Rightarrow>
         guard_st (member_view d' oid uid) d' (\<lambda>m. (f m, organization_audit (k m) oid actor s (g m) c now d'))))"
proof (cases "upsert_member oid uid role now d")
  case (Pair r d')
  show ?thesis
  proof (cases r)
    case (Inl e)
    with Pair show ?thesis by simp
  next
    case (Inr u)
    with Pair have up: "upsert_member oid uid role now d = (Inr u, d')" by simp
    then show ?thesis
      unfolding up prod.case sum.case
      by (intro guard_st_snd [where P = "implements_change oid actor d"])
        (auto intro: implements_I [OF membership_change.grant [OF assms up]])
  qed
qed

lemma add_member_implements:
  "implements_change oid actor d (snd (add_member ext oid email role actor c now d))"
proof (cases "find_user_by_email ext d (normalize_email ext email)")
  case None
  then show ?thesis by (simp add: add_member_def)
next
  case (Some u)
  show ?thesis
    unfolding add_member_def Some option.case Let_def
    by (intro guard_st_snd [where P = "implements_change oid actor d"])
      (auto simp: membership_guards not_le split: if_splits option.splits
        intro!: guard_st_snd [where P = "implements_change oid actor d"] add_member_write)
qed

lemma set_member_role_implements:
  "implements_change oid actor d (snd (set_member_role oid target role actor c now d))"
  unfolding set_member_role_def
  apply (intro guard_st_snd [where P = "implements_change oid actor d"])
  apply (simp_all only: implements_keep)
  apply (auto simp: membership_guards not_le split: if_splits
      intro!: guard_st_snd [where P = "implements_change oid actor d"] add_member_write [where f = Inr])
  done

lemma remove_member_implements:
  "implements_change oid actor d (snd (remove_member oid target actor c now d))"
proof -
  have "implements_change oid actor d (organization_audit k oid actor s e c now (remove_member_row oid target d))"
    if "role_of d oid actor = Some a" "role_of d oid target = Some current"
      "target \<noteq> actor \<longrightarrow> is_manager a \<and> reaches a current" "current = Owner \<longrightarrow> 1 < owner_count d oid"
    for a current k s e
    using membership_change.remove [OF that] by (rule implements_I) simp
  then show ?thesis
    unfolding remove_member_def
    by (intro guard_st_snd [where P = "implements_change oid actor d"])
      (auto simp: membership_guards not_le split: if_splits)
qed

section \<open>The ownership invariant\<close>

lemma owned_iff:
  "membership_keys d \<Longrightarrow> owned d \<longleftrightarrow>
    (\<forall>r \<in> set (organizations d). \<exists>uid. role_of d (org_id r) uid = Some Owner)"
  by (simp add: owned_def has_owner_iff)

lemma membership_change_inv:
  assumes "membership_change oid actor d d'" and "organization_inv d"
  shows "organization_inv d'"
proof -
  from assms(2) have keys: "membership_keys d" and owned: "owned d"
    by (simp_all add: organization_inv_def)
  from assms(1) show ?thesis
  proof cases
    case keep
    with assms(2) show ?thesis by simp
  next
    case (grant a role uid now u)
    from upsert_member_keys [OF grant(5) keys] have keys': "membership_keys d'" .
    have "\<exists>v. role_of d' (org_id r) v = Some Owner" if "r \<in> set (organizations d)" for r
    proof -
      from owned that obtain w where w: "role_of d (org_id r) w = Some Owner"
        by (auto simp: owned_iff [OF keys])
      show ?thesis
      proof (cases "org_id r = oid \<and> w = uid")
        case True
        with w grant(4) have "1 < owner_count d oid" by auto
        then obtain v where "v \<noteq> uid" "role_of d oid v = Some Owner"
          using another_owner [OF keys] by blast
        with True show ?thesis by (auto simp: role_of_upsert [OF grant(5)])
      next
        case False
        with w show ?thesis by (auto simp: role_of_upsert [OF grant(5)])
      qed
    qed
    with keys' show ?thesis
      by (simp add: organization_inv_def owned_iff upsert_member_frame [OF grant(5)])
  next
    case (remove a uid current)
    have "\<exists>v. role_of d' (org_id r) v = Some Owner" if "r \<in> set (organizations d)" for r
    proof -
      from owned that obtain w where w: "role_of d (org_id r) w = Some Owner"
        by (auto simp: owned_iff [OF keys])
      show ?thesis
      proof (cases "org_id r = oid \<and> w = uid")
        case True
        with w remove(3,5) have "1 < owner_count d oid" by auto
        then obtain v where "v \<noteq> uid" "role_of d oid v = Some Owner"
          using another_owner [OF keys] by blast
        with True show ?thesis by (auto simp: remove(1) role_of_remove)
      next
        case False
        with w show ?thesis by (auto simp: remove(1) role_of_remove)
      qed
    qed
    with remove_member_keys [OF keys] show ?thesis
      by (simp add: organization_inv_def owned_iff remove(1))
  qed
qed

lemma implements_change_inv: "implements_change oid actor d d' \<Longrightarrow> organization_inv d \<Longrightarrow> organization_inv d'"
  by (auto simp: implements_change_def same_but_audit_inv dest: membership_change_inv)

text \<open>Creating, renaming and deleting.\<close>

lemma insert_organization_inv:
  assumes "organization_inv d" and "insert_organization name actor oid now d = (r, d')"
  shows "organization_inv d'"
  using assms
  by (auto simp: insert_organization_def Let_def organization_inv_def membership_keys_def owned_def
      has_owner_def organization_exists_def user_exists_def table_simps member_key_def
      split: if_splits option.splits; force)

lemma organization_exists_iff: "organization_exists d oid \<longleftrightarrow> oid \<in> set (map org_id (organizations d))"
  by (auto simp: organization_exists_def table_simps)

lemma organization_inv_cong:
  assumes "map org_id (organizations d') = map org_id (organizations d)"
    and "organization_members d' = organization_members d" and "users d' = users d"
  shows "organization_inv d' = organization_inv d"
proof -
  have "owned x \<longleftrightarrow> (\<forall>oid \<in> set (map org_id (organizations x)). has_owner x oid)" for x
    by (simp add: owned_def)
  with assms show ?thesis
    by (simp add: organization_inv_def membership_keys_def has_owner_def organization_exists_iff
        user_exists_def del: set_map)
qed

lemma rename_row_inv:
  assumes "organization_inv d" and "rename_organization_row oid name d = (r, d')"
  shows "organization_inv d'"
proof -
  have "map org_id (organizations d') = map org_id (organizations d) \<and>
      organization_members d' = organization_members d \<and> users d' = users d"
    using assms(2) by (auto simp: rename_organization_row_def update_where_def split: if_splits)
  with assms(1) show ?thesis using organization_inv_cong by blast
qed

lemma drop_organization_inv:
  assumes "organization_inv d"
  shows "organization_inv (drop_organizations (\<lambda>r. org_id r = oid) d)"
  using assms
  by (auto simp: organization_inv_def membership_keys_def owned_def has_owner_def user_exists_def
      organization_exists_def table_simps intro!: distinct_delete_where; fastforce)

lemma organization_audit_inv [simp]:
  "organization_inv (organization_audit k oid a s e c now d) = organization_inv d"
  using same_but_audit_inv same_but_audit_organization by blast

lemma create_organization_inv:
  "organization_inv d \<Longrightarrow> organization_inv (snd (create_organization name actor c oid now d))"
  using insert_organization_inv [of d "trim name" actor oid now]
  by (auto simp: create_organization_def split: prod.splits sum.splits)

lemma rename_organization_inv:
  "organization_inv d \<Longrightarrow> organization_inv (snd (rename_organization oid name actor c now d))"
  unfolding rename_organization_def
  using rename_row_inv [of d oid "trim name"]
  by (intro guard_st_snd [where P = organization_inv]) (auto simp: Let_def split: prod.splits sum.splits)

lemma delete_organization_inv:
  "organization_inv d \<Longrightarrow> organization_inv (snd (delete_organization oid actor c now d))"
  unfolding delete_organization_def delete_organization_row_def
  by (intro guard_st_snd [where P = organization_inv]) (auto simp: Let_def drop_organization_inv)

text \<open>Deleting an account: the trigger is what keeps an owner.\<close>

lemma orphaned_iff:
  assumes "membership_keys d" and "r \<in> set (organizations d)"
  shows "r \<in> set (orphaned_organizations d uid) \<longleftrightarrow>
    role_of d (org_id r) uid = Some Owner \<and>
    (\<forall>v. role_of d (org_id r) v = Some Owner \<longrightarrow> v = uid)"
proof -
  have "(\<exists>m \<in> set (organization_members d). mem_organization m = o' \<and> mem_user m = v \<and> mem_role m = Owner) \<longleftrightarrow>
      role_of d o' v = Some Owner" for o' v
    using role_of_member [OF membership_keysD(2) [OF assms(1)]] by (force dest: role_of_Some)
  with assms(2) show ?thesis
    unfolding orphaned_organizations_def by (simp add: table_simps) metis
qed

lemma role_of_drop_user:
  "user_exists d uid \<Longrightarrow> role_of (drop_users (\<lambda>u. usr_id u = uid) d) oid v =
    (if v = uid then None else role_of d oid v)"
proof (cases "v = uid")
  case True
  assume "user_exists d uid"
  with True show ?thesis
    by (auto simp: role_of_None table_simps user_exists_def)
next
  case False
  have "find (\<lambda>m. mem_organization m = oid \<and> mem_user m = v)
      (delete_where (\<lambda>m. exists_row (\<lambda>r. usr_id r = mem_user m \<and> usr_id r = uid) (users d))
        (organization_members d)) =
    find (\<lambda>m. mem_organization m = oid \<and> mem_user m = v) (organization_members d)"
    using False by (intro find_delete_where) (auto simp: table_simps)
  with False show ?thesis by (simp add: role_of_def)
qed

lemma delete_user_inv:
  assumes "organization_inv d"
  shows "organization_inv (snd (delete_user uid d))"
proof (cases "user_exists d uid \<and> orphaned_organizations d uid = []")
  case False
  with assms show ?thesis by (auto simp: delete_user_def)
next
  case True
  let ?d = "drop_users (\<lambda>u. usr_id u = uid) d"
  from assms have keys: "membership_keys d" and owned: "owned d"
    by (simp_all add: organization_inv_def)
  have keys': "membership_keys ?d"
    using keys
    by (auto simp: membership_keys_def organization_exists_def user_exists_def table_simps
        intro!: distinct_delete_where) fastforce
  have "\<exists>v. role_of ?d (org_id r) v = Some Owner" if r: "r \<in> set (organizations d)" for r
  proof -
    from owned r obtain w where "role_of d (org_id r) w = Some Owner"
      by (auto simp: owned_iff [OF keys])
    moreover from True have "r \<notin> set (orphaned_organizations d uid)" by simp
    ultimately obtain v where "role_of d (org_id r) v = Some Owner" "v \<noteq> uid"
      using orphaned_iff [OF keys r] by blast
    with True show ?thesis by (auto simp: role_of_drop_user)
  qed
  with keys' True show ?thesis
    by (simp add: delete_user_def organization_inv_def owned_iff)
qed

text \<open>Every operation on organizations and accounts, as one step.\<close>

inductive organization_step :: "externals \<Rightarrow> db \<Rightarrow> db \<Rightarrow> bool" for ext where
  "organization_step ext d (snd (create_organization name actor c oid now d))"
| "organization_step ext d (snd (rename_organization oid name actor c now d))"
| "organization_step ext d (snd (delete_organization oid actor c now d))"
| "organization_step ext d (snd (add_member ext oid email role actor c now d))"
| "organization_step ext d (snd (set_member_role oid target role actor c now d))"
| "organization_step ext d (snd (remove_member oid target actor c now d))"
| "organization_step ext d (snd (insert_user ext uid email hash status now d))"
| "organization_step ext d (snd (delete_user uid d))"

inductive organization_reachable :: "externals \<Rightarrow> db \<Rightarrow> bool" for ext where
  start: "organization_reachable ext empty_db"
| step: "organization_reachable ext d \<Longrightarrow> organization_step ext d d' \<Longrightarrow> organization_reachable ext d'"

lemma insert_user_inv: "organization_inv d \<Longrightarrow> organization_inv (snd (insert_user ext uid email hash st now d))"
  by (auto simp: insert_user_def Let_def organization_inv_def membership_keys_def owned_def
      has_owner_def organization_exists_def user_exists_def table_simps)

lemma organization_step_inv: "organization_step ext d d' \<Longrightarrow> organization_inv d \<Longrightarrow> organization_inv d'"
  by (induction rule: organization_step.induct)
    (auto intro: create_organization_inv rename_organization_inv delete_organization_inv
       delete_user_inv insert_user_inv
       implements_change_inv [OF add_member_implements] implements_change_inv [OF set_member_role_implements]
       implements_change_inv [OF remove_member_implements])

lemma empty_db_inv: "organization_inv empty_db"
  by (simp add: organization_inv_def membership_keys_def owned_def empty_db_def)

lemma organization_reachable_inv: "organization_reachable ext d \<Longrightarrow> organization_inv d"
  by (induction rule: organization_reachable.induct) (auto intro: empty_db_inv organization_step_inv)

section \<open>An organization with two owners\<close>

definition sample_user :: "uuid \<Rightarrow> string \<Rightarrow> user_record" where
  "sample_user i email =
     \<lparr>usr_id = i, usr_email = email, usr_password_hash = ''hash'', usr_status = ActiveUser,
      usr_email_verified_at = Some 0, usr_last_login_at = None, usr_failed_login_attempts = 0,
      usr_locked_until = None, usr_password_changed_at = 0, usr_created_at = 0, usr_updated_at = 0\<rparr>"

definition two_owners :: db where
  "two_owners = empty_db
     \<lparr>users := [sample_user 11 ''a@x.org'', sample_user 12 ''b@x.org''],
      organizations := [\<lparr>org_id = 7, org_name = ''Acme'', org_created_at = 0\<rparr>],
      organization_members :=
        [\<lparr>mem_organization = 7, mem_user = 11, mem_role = Owner, mem_created_at = 0\<rparr>,
         \<lparr>mem_organization = 7, mem_user = 12, mem_role = Owner, mem_created_at = 1\<rparr>]\<rparr>"

lemmas sample_simps =
  two_owners_def sample_user_def empty_db_def role_of_def owner_count_def rows_affected_def
  exists_row_def user_exists_def organization_exists_def

lemma two_owners_inv: "organization_inv two_owners"
  by (simp add: organization_inv_def membership_keys_def owned_def has_owner_def member_key_def sample_simps)


section \<open>Properties\<close>

text \<open>C4: Whatever sequence of operations on organizations, memberships and accounts runs, every
  organization keeps at least one owner; creating one gives it its first.\<close>

theorem owner_kept:
  assumes "organization_reachable ext d" and "r \<in> set (organizations d)"
  shows "has_owner d (org_id r)"
  using organization_reachable_inv [OF assms(1)] assms(2) by (simp add: organization_inv_def owned_def)

definition founded :: db where
  "founded =
     snd (create_organization ''Acme'' 1 \<lparr>ip_address = None, user_agent = None\<rparr> 5 20
       (snd (insert_user sample_externals 1 ''a@x'' ''h'' ActiveUser 10 empty_db)))"

lemma founded_reachable: "organization_reachable sample_externals founded"
  unfolding founded_def
  by (rule organization_reachable.step [OF organization_reachable.step [OF organization_reachable.start]])
    (rule organization_step.intros)+

lemma founded_organizations: "\<lparr>org_id = 5, org_name = ''Acme'', org_created_at = 20\<rparr> \<in> set (organizations founded)"
  by (simp add: founded_def create_organization_def insert_organization_def insert_user_def Let_def
      organization_audit_def char_count_def is_cont_def byte_def trim_def
      insert_unique_def empty_db_def exists_row_def user_exists_def is_whitespace_def)

theorem owner_kept_witness: "has_owner founded 5"
  using owner_kept [OF founded_reachable founded_organizations] by simp

text \<open>C19: Adding a member, changing a role and removing a member implement the membership contract: on
  every branch, errors included, the database they leave is the one of an allowed change of the
  actor, or the one they found, up to the audit trail.\<close>

theorem membership_operations_refine:
  "implements_change oid actor d (snd (add_member ext oid email role actor c now d)) \<and>
   implements_change oid actor d (snd (set_member_role oid target role actor c now d)) \<and>
   implements_change oid actor d (snd (remove_member oid target actor c now d))"
  by (simp add: add_member_implements set_member_role_implements remove_member_implements)

lemma membership_change_owner:
  assumes "membership_change oid actor d d'"
    and "(role_of d' oid uid = Some Owner) \<noteq> (role_of d oid uid = Some Owner)"
  shows "role_of d oid actor = Some Owner"
  using assms
proof cases
  case keep
  with assms(2) show ?thesis by simp
next
  case (grant a role v now u)
  with assms(2) show ?thesis
    by (cases a) (auto simp: role_of_upsert [OF grant(5)] is_manager_def split: if_splits)
next
  case (remove a v current)
  with assms(2) show ?thesis
    by (cases a) (auto simp: role_of_remove is_manager_def split: if_splits)
qed

lemma implements_change_owner:
  assumes "implements_change oid actor d d'"
    and "(role_of d' oid uid = Some Owner) \<noteq> (role_of d oid uid = Some Owner)"
  shows "role_of d oid actor = Some Owner"
proof -
  from assms(1) obtain e where e: "membership_change oid actor d e" "same_but_audit e d'"
    by (auto simp: implements_change_def)
  from assms(2) have "(role_of e oid uid = Some Owner) \<noteq> (role_of d oid uid = Some Owner)"
    unfolding same_but_audit_role_of [OF e(2)] .
  with e(1) show ?thesis by (rule membership_change_owner)
qed

text \<open>Only an owner makes an owner, and nobody but an owner touches one: if an account's standing as
  owner differs before and after a membership operation, the actor was an owner.\<close>

theorem only_owners_touch_owners:
  assumes "d' = snd (add_member ext oid email role actor c now d) \<or>
           d' = snd (set_member_role oid target role actor c now d) \<or>
           d' = snd (remove_member oid target actor c now d)"
    and "(role_of d' oid uid = Some Owner) \<noteq> (role_of d oid uid = Some Owner)"
  shows "role_of d oid actor = Some Owner"
proof -
  from assms(1) have "implements_change oid actor d d'"
    by (auto simp: add_member_implements set_member_role_implements remove_member_implements)
  with assms(2) show ?thesis by (blast intro: implements_change_owner)
qed

definition no_client :: client_info where
  "no_client = \<lparr>ip_address = None, user_agent = None\<rparr>"

lemma demote_reads:
  "role_of (snd (set_member_role 7 12 Member 11 no_client 5 two_owners)) 7 12 = Some Member"
  by (simp add: set_member_role_def lock_organization_def membership_guards is_manager_def
      upsert_member_def member_view_def member_of_def join_member_def find_user_def
      organization_audit_def record_event_def optional_def no_client_def sample_simps)

theorem only_owners_touch_owners_witness: "role_of two_owners 7 11 = Some Owner"
proof -
  have "(role_of (snd (set_member_role 7 12 Member 11 no_client 5 two_owners)) 7 12 = Some Owner) \<noteq>
      (role_of two_owners 7 12 = Some Owner)"
    by (simp only: demote_reads) (simp add: sample_simps)
  then show ?thesis by (rule only_owners_touch_owners [OF disjI2 [OF disjI1 [OF refl]]])
qed

text \<open>A successful change of a role was made by a manager who reaches both the role the member had and
  the one it gets, gives exactly that member exactly that role, and answers with it.\<close>

theorem set_member_role_effect:
  assumes "set_member_role oid target role actor c now d = (Inr m, d')"
  shows "(\<exists>a current. role_of d oid actor = Some a \<and> role_of d oid target = Some current \<and>
            is_manager a \<and> reaches a current \<and> reaches a role) \<and>
    role_of d' o' u = (if o' = oid \<and> u = target then Some role else role_of d o' u) \<and>
    mre_user_id m = target \<and> mre_role m = role"
proof -
  have view: "mre_user_id m = target \<and> Some (mre_role m) = role_of e oid target"
    if "member_view e oid target = Inr m" for e
    using that
    by (cases "find (\<lambda>m. mem_organization m = oid \<and> mem_user m = target) (organization_members e)")
      (auto simp: member_view_def member_of_def join_member_def role_of_def dest: find_in_set)
  from assms obtain a current where *: "role_of d oid actor = Some a" "role_of d oid target = Some current"
    "is_manager a" "reaches a current" "reaches a role"
    and run: "(if current = role then (member_view d oid target, d)
       else
         guard_st (if is_owner current then ensure_another_owner d oid else Inr ()) d (\<lambda>_.
           case upsert_member oid target role now d of
             (Inl e, d') \<Rightarrow> (Inl e, d)
           | (Inr _, d') \<Rightarrow>
               guard_st (member_view d' oid target) d' (\<lambda>m.
                 (Inr m,
                  organization_audit OrganizationMemberRoleChanged oid actor (Some target)
                    (Some (mre_email m)) c now d')))) = (Inr m, d')"
    by (auto simp: set_member_role_def locked_role_def require_manager_def require_reaches_def
        split: if_splits)
  show ?thesis
  proof (cases "current = role")
    case True
    with run have m: "member_view d oid target = Inr m" and "d' = d" by auto
    with * view [OF m] True show ?thesis by auto
  next
    case False
    with run obtain d1 u1 where up: "upsert_member oid target role now d = (Inr u1, d1)"
      and m: "member_view d1 oid target = Inr m"
      and d': "d' = organization_audit OrganizationMemberRoleChanged oid actor (Some target)
        (Some (mre_email m)) c now d1"
      by (auto split: prod.splits sum.splits)
    have "role_of d' = role_of d1"
      unfolding d' by (rule same_but_audit_role_of) simp
    with * view [OF m] show ?thesis by (auto simp: role_of_upsert [OF up])
  qed
qed

theorem set_member_role_effect_witness:
  "\<exists>m :: member_response. role_of (snd (set_member_role 7 12 Member 11 no_client 5 two_owners)) 7 12 = Some Member \<and>
       mre_role m = Member"
proof -
  obtain m where "set_member_role 7 12 Member 11 no_client 5 two_owners =
      (Inr m, snd (set_member_role 7 12 Member 11 no_client 5 two_owners))"
    by (simp add: set_member_role_def lock_organization_def membership_guards is_manager_def
      upsert_member_def member_view_def member_of_def join_member_def find_user_def
      organization_audit_def record_event_def optional_def no_client_def sample_simps)
  from set_member_role_effect [OF this, of 7 12]
  have "role_of (snd (set_member_role 7 12 Member 11 no_client 5 two_owners)) 7 12 = Some Member"
    and "mre_role m = Member" by simp_all
  then show ?thesis by blast
qed

end
