(* ===== verification/Interleaving.thy ===== *)
theory Interleaving
  imports Ownership
begin

text \<open>
  The transactions that take an owner away, statement by statement. \<open>Leave uid\<close> is the transaction
  of \<open>OrganizationService::remove_member\<close> for a member \<open>uid\<close> whom the caller may remove: it locks the
  row of the organization, reads the role and counts the owners, deletes the membership, commits.
  \<open>Erase uid\<close> is \<open>UserRepository::delete\<close>: the trigger of migration 0012 looks for a successor, the
  delete cascades, the statement commits; nothing in it locks the organization. Under PostgreSQL's
  \<open>READ COMMITTED\<close> a statement sees what is committed when it starts, so what a transaction writes
  reaches the others with its commit, which is one step here.

  \<open>locks\<close> says whether \<open>Leave\<close> takes the lock; with \<open>locks = False\<close> the model is the code without
  \<open>OrganizationRepository::lock\<close>.
\<close>

datatype request = Leave uuid | Erase uuid

datatype phase = Waiting | Locked | Checked | Finished | Refused

record race =
  store :: db
  holder :: "nat option"
  phase_of :: "nat \<Rightarrow> phase"

definition race_start :: "db \<Rightarrow> race" where
  "race_start d = \<lparr>store = d, holder = None, phase_of = (\<lambda>_. Waiting)\<rparr>"

definition enter :: "nat \<Rightarrow> phase \<Rightarrow> race \<Rightarrow> race" where
  "enter i p s = s\<lparr>phase_of := (phase_of s)(i := p)\<rparr>"

text \<open>The reads of the transaction: the role of the member and, for an owner, the count.\<close>

definition leave_check :: "db \<Rightarrow> uuid \<Rightarrow> uuid \<Rightarrow> organization_error + unit" where
  "leave_check d oid uid =
     and_then (ok_or MemberNotFound (role_of d oid uid)) (\<lambda>current.
       if is_owner current then ensure_another_owner d oid else Inr ())"

inductive race_step :: "bool \<Rightarrow> uuid \<Rightarrow> (nat \<Rightarrow> request) \<Rightarrow> race \<Rightarrow> race \<Rightarrow> bool"
  for locks oid reqs where
  lock: "reqs i = Leave uid \<Longrightarrow> phase_of s i = Waiting \<Longrightarrow> (locks \<longrightarrow> holder s = None) \<Longrightarrow>
    lock_organization (store s) oid = Inr () \<Longrightarrow>
    race_step locks oid reqs s (enter i Locked (s\<lparr>holder := Some i\<rparr>))"
| pass: "reqs i = Leave uid \<Longrightarrow> phase_of s i = Locked \<Longrightarrow> leave_check (store s) oid uid = Inr () \<Longrightarrow>
    race_step locks oid reqs s (enter i Checked s)"
| refuse: "reqs i = Leave uid \<Longrightarrow> phase_of s i = Locked \<Longrightarrow> leave_check (store s) oid uid = Inl e \<Longrightarrow>
    race_step locks oid reqs s (enter i Refused (s\<lparr>holder := None\<rparr>))"
| commit: "reqs i = Leave uid \<Longrightarrow> phase_of s i = Checked \<Longrightarrow>
    race_step locks oid reqs s
      (enter i Finished (s\<lparr>store := remove_member_row oid uid (store s), holder := None\<rparr>))"
| trigger: "reqs i = Erase uid \<Longrightarrow> phase_of s i = Waiting \<Longrightarrow> user_exists (store s) uid \<Longrightarrow>
    orphaned_organizations (store s) uid = [] \<Longrightarrow> race_step locks oid reqs s (enter i Checked s)"
| raise: "reqs i = Erase uid \<Longrightarrow> phase_of s i = Waiting \<Longrightarrow>
    orphaned_organizations (store s) uid \<noteq> [] \<Longrightarrow> race_step locks oid reqs s (enter i Refused s)"
| cascade: "reqs i = Erase uid \<Longrightarrow> phase_of s i = Checked \<Longrightarrow>
    race_step locks oid reqs s
      (enter i Finished (s\<lparr>store := drop_users (\<lambda>u. usr_id u = uid) (store s)\<rparr>))"

inductive race_reachable :: "bool \<Rightarrow> uuid \<Rightarrow> (nat \<Rightarrow> request) \<Rightarrow> db \<Rightarrow> race \<Rightarrow> bool"
  for locks oid reqs d where
  start: "race_reachable locks oid reqs d (race_start d)"
| step: "race_reachable locks oid reqs d s \<Longrightarrow> race_step locks oid reqs s s' \<Longrightarrow>
    race_reachable locks oid reqs d s'"

lemma enter_simps [simp]:
  "store (enter i p s) = store s" "holder (enter i p s) = holder s"
  "phase_of (enter i p s) = (phase_of s)(i := p)"
  by (simp_all add: enter_def)

text \<open>Under the lock, whoever has passed its check holds it, and what it read is still true.\<close>

definition race_inv :: "uuid \<Rightarrow> (nat \<Rightarrow> request) \<Rightarrow> race \<Rightarrow> bool" where
  "race_inv oid reqs s \<longleftrightarrow>
     organization_inv (store s) \<and>
     (\<forall>i. phase_of s i = Locked \<or> phase_of s i = Checked \<longrightarrow> holder s = Some i) \<and>
     (\<forall>i uid. reqs i = Leave uid \<and> phase_of s i = Checked \<longrightarrow> leave_check (store s) oid uid = Inr ())"

lemma leave_check_change:
  assumes "leave_check d oid uid = Inr ()"
  shows "membership_change oid uid d (remove_member_row oid uid d)"
proof -
  from assms obtain current where current: "role_of d oid uid = Some current"
    and owner: "current = Owner \<longrightarrow> 1 < owner_count d oid"
    by (auto simp: leave_check_def is_owner_def ensure_another_owner_def split: if_splits)
  show ?thesis
    by (rule membership_change.remove [OF current current]) (use owner in auto)
qed

lemma race_invD:
  assumes "race_inv oid reqs s"
  shows "organization_inv (store s)"
    and "phase_of s i = Locked \<or> phase_of s i = Checked \<Longrightarrow> holder s = Some i"
    and "reqs i = Leave uid \<Longrightarrow> phase_of s i = Checked \<Longrightarrow> leave_check (store s) oid uid = Inr ()"
  using assms unfolding race_inv_def by blast+

lemma race_inv_alone:
  assumes "organization_inv (store s)"
    and "\<And>j. phase_of s j = Locked \<or> phase_of s j = Checked \<Longrightarrow> j = i \<and> holder s = Some i"
    and "\<And>uid. reqs i = Leave uid \<Longrightarrow> phase_of s i = Checked \<Longrightarrow> leave_check (store s) oid uid = Inr ()"
  shows "race_inv oid reqs s"
proof -
  have "holder s = Some j" if "phase_of s j = Locked \<or> phase_of s j = Checked" for j
    using assms(2) [OF that] by simp
  moreover have "leave_check (store s) oid uid = Inr ()"
    if "reqs j = Leave uid \<and> phase_of s j = Checked" for j uid
    using assms(2) [of j] assms(3) [of uid] that by simp
  ultimately show ?thesis unfolding race_inv_def using assms(1) by blast
qed

lemma race_step_inv:
  assumes "race_step True oid reqs s s'" and "race_inv oid reqs s" and "\<forall>i. \<exists>uid. reqs i = Leave uid"
  shows "race_inv oid reqs s'"
  using assms
proof cases
  case (lock i uid)
  then have "\<And>j. \<not> (phase_of s j = Locked \<or> phase_of s j = Checked)"
    using race_invD(2) [OF assms(2)] by (metis option.distinct(1))
  with lock race_invD(1) [OF assms(2)] show ?thesis
    by (intro race_inv_alone [of s' i]) (auto split: if_splits)
next
  case (pass i uid)
  then have h: "holder s = Some i" using race_invD(2) [OF assms(2)] by blast
  then have "\<And>j. phase_of s j = Locked \<or> phase_of s j = Checked \<Longrightarrow> j = i"
    using race_invD(2) [OF assms(2)] by (metis option.inject)
  with pass h race_invD(1) [OF assms(2)] show ?thesis
    by (intro race_inv_alone [of s' i]) (auto split: if_splits)
next
  case (refuse i uid e)
  then have "\<And>j. phase_of s j = Locked \<or> phase_of s j = Checked \<Longrightarrow> j = i"
    using race_invD(2) [OF assms(2)] by (metis option.inject)
  with refuse race_invD(1) [OF assms(2)] show ?thesis
    by (intro race_inv_alone [of s' i]) (auto split: if_splits)
next
  case (commit i uid)
  then have "\<And>j. phase_of s j = Locked \<or> phase_of s j = Checked \<Longrightarrow> j = i"
    using race_invD(2) [OF assms(2)] by (metis option.inject)
  moreover have "organization_inv (remove_member_row oid uid (store s))"
    using race_invD(1) [OF assms(2)] race_invD(3) [OF assms(2) commit(2,3)]
    by (metis leave_check_change membership_change_inv)
  ultimately show ?thesis
    using commit by (intro race_inv_alone [of s' i]) (auto split: if_splits)
next
  case (trigger i uid)
  with assms(3) show ?thesis by (metis request.distinct(1))
next
  case (raise i uid)
  with assms(3) show ?thesis by (metis request.distinct(1))
next
  case (cascade i uid)
  with assms(3) show ?thesis by (metis request.distinct(1))
qed

lemma race_reachable_inv:
  assumes "race_reachable True oid reqs d s" and "organization_inv d" and "\<forall>i. \<exists>uid. reqs i = Leave uid"
  shows "race_inv oid reqs s"
  using assms
proof (induction rule: race_reachable.induct)
  case start
  then show ?case by (simp add: race_inv_def race_start_def)
next
  case (step s s')
  then show ?case by (blast intro: race_step_inv)
qed


section \<open>An organization with two owners\<close>

lemma two_owners_reads:
  "lock_organization two_owners 7 = Inr ()"
  "leave_check two_owners 7 11 = Inr ()"
  "leave_check two_owners 7 12 = Inr ()"
  "user_exists two_owners 11"
  "orphaned_organizations two_owners 11 = []"
  by (simp_all add: lock_organization_def leave_check_def ensure_another_owner_def is_owner_def
      orphaned_organizations_def sample_simps)

definition both_leave :: "nat \<Rightarrow> request" where
  "both_leave i = (if i = 0 then Leave 11 else Leave 12)"

definition erase_and_leave :: "nat \<Rightarrow> request" where
  "erase_and_leave i = (if i = 0 then Erase 11 else Leave 12)"

text \<open>Both transactions read before either writes.\<close>

definition race_both_checked :: "nat option \<Rightarrow> race" where
  "race_both_checked h =
     \<lparr>store = two_owners, holder = h, phase_of = (\<lambda>_. Waiting)(0 := Checked, 1 := Checked)\<rparr>"

lemma both_leave_unlocked:
  "race_reachable False 7 both_leave two_owners (race_both_checked (Some 1))"
proof -
  let ?s = "\<lambda>h f. \<lparr>store = two_owners, holder = h, phase_of = f\<rparr>"
  note r = race_reachable.step [of False 7 both_leave two_owners]
  have "race_reachable False 7 both_leave two_owners (?s None (\<lambda>_. Waiting))"
    using race_reachable.start [of False 7 both_leave two_owners] by (simp add: race_start_def)
  from r [OF this, OF race_step.lock [of both_leave 0 11]]
  have "race_reachable False 7 both_leave two_owners (?s (Some 0) ((\<lambda>_. Waiting)(0 := Locked)))"
    by (simp add: both_leave_def enter_def two_owners_reads)
  from r [OF this, OF race_step.lock [of both_leave 1 12]]
  have "race_reachable False 7 both_leave two_owners
      (?s (Some 1) ((\<lambda>_. Waiting)(0 := Locked, 1 := Locked)))"
    by (simp add: both_leave_def enter_def two_owners_reads)
  from r [OF this, OF race_step.pass [of both_leave 0 11]]
  have "race_reachable False 7 both_leave two_owners
      (?s (Some 1) ((\<lambda>_. Waiting)(0 := Checked, 1 := Locked)))"
    by (simp add: both_leave_def enter_def two_owners_reads fun_upd_twist)
  from r [OF this, OF race_step.pass [of both_leave 1 12]]
  show ?thesis
    by (simp add: both_leave_def enter_def two_owners_reads race_both_checked_def fun_upd_twist)
qed

lemma erase_and_leave_locked:
  "race_reachable True 7 erase_and_leave two_owners (race_both_checked (Some 1))"
proof -
  let ?s = "\<lambda>h f. \<lparr>store = two_owners, holder = h, phase_of = f\<rparr>"
  note r = race_reachable.step [of True 7 erase_and_leave two_owners]
  have "race_reachable True 7 erase_and_leave two_owners (?s None (\<lambda>_. Waiting))"
    using race_reachable.start [of True 7 erase_and_leave two_owners] by (simp add: race_start_def)
  from r [OF this, OF race_step.trigger [of erase_and_leave 0 11]]
  have "race_reachable True 7 erase_and_leave two_owners (?s None ((\<lambda>_. Waiting)(0 := Checked)))"
    by (simp add: erase_and_leave_def enter_def two_owners_reads)
  from r [OF this, OF race_step.lock [of erase_and_leave 1 12]]
  have "race_reachable True 7 erase_and_leave two_owners
      (?s (Some 1) ((\<lambda>_. Waiting)(0 := Checked, 1 := Locked)))"
    by (simp add: erase_and_leave_def enter_def two_owners_reads)
  from r [OF this, OF race_step.pass [of erase_and_leave 1 12]]
  show ?thesis
    by (simp add: erase_and_leave_def enter_def two_owners_reads race_both_checked_def fun_upd_twist)
qed

lemma commits_leave_nobody:
  assumes "race_reachable locks 7 reqs two_owners (race_both_checked h)"
    and "reqs 0 = Leave 11 \<or> reqs 0 = Erase 11" and "reqs 1 = Leave 12"
  shows "\<exists>s. race_reachable locks 7 reqs two_owners s \<and>
    organization_exists (store s) 7 \<and> \<not> has_owner (store s) 7"
proof -
  let ?f = "phase_of (enter 0 Finished (race_both_checked h))"
  obtain d h' where d: "race_reachable locks 7 reqs two_owners \<lparr>store = d, holder = h', phase_of = ?f\<rparr>"
    and role: "role_of d 7 11 = None" and org: "organization_exists d 7"
    and ms: "\<forall>m \<in> set (organization_members d). mem_user m = 11 \<or> mem_user m = 12"
  proof (cases "reqs 0")
    case (Leave uid)
    with assms have "race_reachable locks 7 reqs two_owners
        \<lparr>store = remove_member_row 7 11 two_owners, holder = None, phase_of = ?f\<rparr>"
      using race_reachable.step [OF assms(1) race_step.commit [of reqs 0 11]]
      by (simp add: race_both_checked_def enter_def)
    then show thesis
      by (rule that)
        (auto simp: role_of_remove, auto simp: remove_member_row_def table_simps
          organization_exists_def two_owners_def)
  next
    case (Erase uid)
    with assms have "race_reachable locks 7 reqs two_owners
        \<lparr>store = drop_users (\<lambda>u. usr_id u = 11) two_owners, holder = h, phase_of = ?f\<rparr>"
      using race_reachable.step [OF assms(1) race_step.cascade [of reqs 0 11]]
      by (simp add: race_both_checked_def enter_def)
    then show thesis
      by (rule that)
        (auto simp: role_of_drop_user two_owners_reads, auto simp: table_simps
          organization_exists_def two_owners_def sample_user_def)
  qed
  let ?d = "remove_member_row 7 12 d"
  have "race_reachable locks 7 reqs two_owners
      (enter 1 Finished \<lparr>store = ?d, holder = None, phase_of = ?f\<rparr>)"
    using race_reachable.step [OF d race_step.commit [of reqs 1 12]] assms(3)
    by (simp add: race_both_checked_def)
  moreover have "\<not> has_owner ?d 7"
    using role ms by (auto simp: has_owner_def remove_member_row_def table_simps role_of_None two_owners_def)
  moreover have "organization_exists ?d 7"
    using org by (simp add: organization_exists_def remove_member_row_def)
  ultimately show ?thesis by (metis enter_simps(1) race.select_convs(1))
qed

section \<open>What the lock is worth\<close>

text \<open>C27: However the transactions of \<open>remove_member\<close> interleave, as long as each takes the row lock of
  the organization before it reads, every state they reach keeps an owner in every organization
  (repository.rs: "This is what makes the last-owner rule hold under concurrency").\<close>

theorem lock_keeps_owner:
  assumes "organization_inv d" and "\<forall>i. \<exists>uid. reqs i = Leave uid"
    and "race_reachable True oid reqs d s"
  shows "\<forall>r \<in> set (organizations (store s)). has_owner (store s) (org_id r)"
  using race_reachable_inv [OF assms(3,1,2)]
  by (simp add: race_inv_def organization_inv_def owned_def)

lemma both_leave_locked_start:
  "race_reachable True 7 both_leave two_owners
     (enter 0 Locked ((race_start two_owners)\<lparr>holder := Some 0\<rparr>))"
  by (intro race_reachable.step [OF race_reachable.start] race_step.lock [where uid = 11])
    (simp_all add: both_leave_def race_start_def two_owners_reads)

theorem lock_keeps_owner_witness:
  "has_owner (store (enter 0 Locked ((race_start two_owners)\<lparr>holder := Some 0\<rparr>))) 7"
  using lock_keeps_owner [OF two_owners_inv _ both_leave_locked_start]
  by (simp add: both_leave_def race_start_def) (simp add: two_owners_def)

text \<open>Without the lock the rule fails: with two owners leaving at once, both read that there are two
  owners, both pass the check, and an organization with no owner is reached.\<close>

theorem unlocked_loses_owner:
  "organization_inv two_owners \<and>
   (\<exists>s. race_reachable False 7 both_leave two_owners s \<and>
        organization_exists (store s) 7 \<and> \<not> has_owner (store s) 7)"
  using two_owners_inv commits_leave_nobody [OF both_leave_unlocked] by (simp add: both_leave_def)

text \<open>C34: The lock of the organization does not cover the deletion of an account, whose trigger reads the
  successors without it: with one owner deleted and the other leaving at once, an organization
  with no owner is reached although every \<open>Leave\<close> takes its lock.\<close>

theorem account_deletion_races_owner:
  "organization_inv two_owners \<and>
   (\<exists>s. race_reachable True 7 erase_and_leave two_owners s \<and>
        organization_exists (store s) 7 \<and> \<not> has_owner (store s) 7)"
  using two_owners_inv commits_leave_nobody [OF erase_and_leave_locked] by (simp add: erase_and_leave_def)

end
