(* ===== verification/Access.thy ===== *)
theory Access
  imports Ownership
begin

text \<open>
  The two interfaces the form and the webhook modules share. \<open>access_control\<close> is what they rely on of
  \<open>OrganizationService::access\<close>: it answers with the caller's standing or refuses. \<open>tenant_table\<close> is
  what every repository lookup promises: a row is found only under the organization it belongs to.
  Both are stated as locales, with the clients' lemmas inside, and interpreted on the model.
\<close>

section \<open>Acting as a member, acting as a manager\<close>

text \<open>
  The opening of every service operation: \<open>access(...).await?\<close>, and for writes
  \<open>access.require_manager()?\<close>, with the caller's conversion of the error.
\<close>

definition with_member ::
  "(organization_error \<Rightarrow> 'e) \<Rightarrow> db \<Rightarrow> uuid \<Rightarrow> uuid \<Rightarrow> (access \<Rightarrow> ('e + 'b) \<times> db) \<Rightarrow> ('e + 'b) \<times> db" where
  "with_member conv d oid actor k = guard_st (map_err conv (resolve_access d oid actor)) d k"

definition with_manager ::
  "(organization_error \<Rightarrow> 'e) \<Rightarrow> db \<Rightarrow> uuid \<Rightarrow> uuid \<Rightarrow> (access \<Rightarrow> ('e + 'b) \<times> db) \<Rightarrow> ('e + 'b) \<times> db" where
  "with_manager conv d oid actor k =
     with_member conv d oid actor (\<lambda>a.
       guard_st (map_err conv (require_manager (acc_role a))) d (\<lambda>_. k a))"

locale access_control =
  fixes resolve :: "'s \<Rightarrow> uuid \<Rightarrow> uuid \<Rightarrow> organization_error + 'a"
    and role :: "'a \<Rightarrow> organization_role"
    and standing :: "'s \<Rightarrow> uuid \<Rightarrow> uuid \<Rightarrow> organization_role option"
  assumes resolved: "resolve s oid u = Inr a \<Longrightarrow> standing s oid u = Some (role a)"
    and refused: "resolve s oid u = Inl e \<Longrightarrow> standing s oid u = None \<or> e = NotFound"
begin

lemma member_has_standing:
  "guard_st (map_err conv (resolve s oid u)) s k = (Inr b, s') \<Longrightarrow> standing s oid u \<noteq> None"
  by (auto dest: resolved)

lemma manager_has_standing:
  assumes "guard_st (map_err conv (resolve s oid u)) s (\<lambda>a.
    guard_st (map_err conv (require_manager (role a))) s (\<lambda>_. k a)) = (Inr b, s')"
  shows "\<exists>r. standing s oid u = Some r \<and> is_manager r"
  using assms by (auto simp: require_manager_def split: if_splits dest: resolved)

lemma outsider_changes_nothing:
  assumes "standing s oid u = None"
  shows "snd (guard_st (map_err conv (resolve s oid u)) s k) = s"
proof (cases "resolve s oid u")
  case (Inl e)
  then show ?thesis by simp
next
  case (Inr a)
  with assms show ?thesis by (auto dest: resolved)
qed

lemma non_manager_changes_nothing:
  assumes "\<And>r. standing s oid u = Some r \<Longrightarrow> \<not> is_manager r"
  shows "snd (guard_st (map_err conv (resolve s oid u)) s (\<lambda>a.
    guard_st (map_err conv (require_manager (role a))) s (\<lambda>_. k a))) = s"
proof (cases "resolve s oid u")
  case (Inl e)
  then show ?thesis by simp
next
  case (Inr a)
  with assms [OF resolved [OF Inr]] show ?thesis by (simp add: require_manager_def)
qed

end

lemma find_organization_None: "find (\<lambda>r. org_id r = oid) (organizations d) = None \<longleftrightarrow> \<not> organization_exists d oid"
  by (auto simp: find_None organization_exists_def table_simps)

lemma resolve_access_Inr:
  "resolve_access d oid u = Inr a \<Longrightarrow>
   role_of d oid u = Some (acc_role a) \<and> org_id (acc_organization a) = oid \<and> organization_exists d oid"
  by (auto simp: resolve_access_def find_access_def organization_exists_def table_simps dest: find_in_set)

interpretation acl: access_control resolve_access acc_role role_of
proof
  show "role_of s oid u = Some (acc_role a)" if "resolve_access s oid u = Inr a" for s oid u a
    using resolve_access_Inr [OF that] by simp
  show "role_of s oid u = None \<or> e = NotFound" if "resolve_access s oid u = Inl e" for s oid u e
    using that
    by (cases "role_of s oid u"; cases "find_access s oid u")
      (auto simp: resolve_access_def find_access_def)
qed

lemma with_member_Inr:
  "with_member conv d oid u k = (Inr b, d') \<longleftrightarrow> (\<exists>a. resolve_access d oid u = Inr a \<and> k a = (Inr b, d'))"
  by (simp add: with_member_def)

lemma with_manager_Inr:
  "with_manager conv d oid u k = (Inr b, d') \<longleftrightarrow>
   (\<exists>a. resolve_access d oid u = Inr a \<and> is_manager (acc_role a) \<and> k a = (Inr b, d'))"
  by (auto simp: with_manager_def with_member_Inr require_manager_def)

lemma with_member_snd:
  "P d \<Longrightarrow> (\<And>a. resolve_access d oid u = Inr a \<Longrightarrow> P (snd (k a))) \<Longrightarrow> P (snd (with_member conv d oid u k))"
  unfolding with_member_def by (rule guard_st_snd) auto

lemma with_manager_snd:
  "P d \<Longrightarrow> (\<And>a. resolve_access d oid u = Inr a \<Longrightarrow> is_manager (acc_role a) \<Longrightarrow> P (snd (k a))) \<Longrightarrow>
   P (snd (with_manager conv d oid u k))"
  unfolding with_manager_def
  by (rule with_member_snd, assumption, rule guard_st_snd [where P = P], assumption)
    (simp add: require_manager_def split: if_splits)


section \<open>Rows of one tenant\<close>

definition scoped_find ::
  "('r \<Rightarrow> uuid) \<Rightarrow> ('r \<Rightarrow> uuid) \<Rightarrow> 'r list \<Rightarrow> uuid \<Rightarrow> uuid \<Rightarrow> 'r option" where
  "scoped_find tenant ident rows oid i = find (\<lambda>r. tenant r = oid \<and> ident r = i) rows"

locale tenant_table =
  fixes rows :: "'s \<Rightarrow> 'r list"
    and tenant :: "'r \<Rightarrow> uuid"
    and ident :: "'r \<Rightarrow> uuid"
    and lookup :: "'s \<Rightarrow> uuid \<Rightarrow> uuid \<Rightarrow> 'r option"
  assumes lookup_sound: "lookup s oid i = Some r \<Longrightarrow> r \<in> set (rows s) \<and> tenant r = oid \<and> ident r = i"
    and lookup_complete: "lookup s oid i = None \<Longrightarrow> r \<in> set (rows s) \<Longrightarrow> tenant r = oid \<Longrightarrow> ident r \<noteq> i"
begin

lemma lookup_row:
  assumes "distinct (map ident (rows s))" and "r \<in> set (rows s)"
  shows "lookup s (tenant r) (ident r) = Some r"
proof (cases "lookup s (tenant r) (ident r)")
  case None
  with lookup_complete [OF None assms(2)] show ?thesis by simp
next
  case (Some r')
  with lookup_sound [OF Some] assms show ?thesis by (auto intro: unique_key_eq)
qed

text \<open>An identifier names a row in one organization at most.\<close>

lemma isolated:
  assumes "distinct (map ident (rows s))" and "lookup s oid i = Some r" and "lookup s oid' i = Some r'"
  shows "oid = oid' \<and> r = r'"
  using lookup_sound [OF assms(2)] lookup_sound [OF assms(3)] unique_key_eq [OF assms(1)] by metis

lemma lookup_other_tenant:
  assumes "distinct (map ident (rows s))" and "lookup s oid i = Some r" and "oid' \<noteq> oid"
  shows "lookup s oid' i = None"
  using isolated [OF assms(1,2)] assms(3) by (metis not_None_eq)

end

lemma scoped_find_table:
  "tenant_table rows tenant ident (\<lambda>s. scoped_find tenant ident (rows s))"
  by unfold_locales (auto simp: scoped_find_def find_None dest: find_in_set)

end
