(* ===== verification/Forms.thy ===== *)
theory Forms
  imports Access
begin

text \<open>
  The form lifecycle: \<open>FormRepository\<close> and the form half of \<open>FormService\<close>
  (\<open>src/src/modules/form/repository.rs\<close>, \<open>service.rs\<close>, \<open>model.rs\<close>, \<open>error.rs\<close>, \<open>dto.rs\<close>). Whether the
  deployment has storage for files (\<open>FileStorage::is_enabled\<close>) is the argument \<open>uploads\<close>.
\<close>

section \<open>Errors\<close>

text \<open>The texts of \<open>InvalidSchema\<close> and \<open>FileRejected\<close>, one constructor for each \<open>format!\<close>.\<close>

datatype schema_message =
    Problems "schema_problem list"
  | NameLength
  | OnlyPublishedCloses
  | TooManyAddresses
  | NotAnAddress string
  | BadRedirectUrl

datatype file_message =
    UnknownFile string
  | AlreadyUsed string
  | OtherField string
  | ClaimedMeanwhile
  | NotAFileField string
  | ContentsMismatch string
  | ContentTypeRequired
  | TypeNotAccepted string string

datatype form_error =
    NotFound
  | Forbidden
  | InvalidSchema schema_message
  | InvalidSubmission "submission_problem list"
  | Closed
  | FileUploadsUnavailable
  | FileRejected file_message
  | FileTooLarge nat
  | FileMissing
  | TooManySubmissions
  | Internal cause

fun of_organization_error :: "organization_error \<Rightarrow> form_error" where
  "of_organization_error organization_error.NotFound = NotFound"
| "of_organization_error organization_error.AccountNotFound = NotFound"
| "of_organization_error organization_error.MemberNotFound = NotFound"
| "of_organization_error organization_error.NotAMember = Forbidden"
| "of_organization_error organization_error.InsufficientRole = Forbidden"
| "of_organization_error organization_error.LastOwner =
     Internal (OtherCause ''an organization must keep at least one owner'')"
| "of_organization_error (organization_error.Internal c) =
     Internal (OtherCause ''internal organization error'')"

fun form_app_error :: "form_error \<Rightarrow> form_error app_error" where
  "form_app_error NotFound = app_error.NotFound"
| "form_app_error Forbidden = app_error.Forbidden"
| "form_app_error (InvalidSchema m) = app_error.Validation (InvalidSchema m)"
| "form_app_error (InvalidSubmission ps) = app_error.Validation (InvalidSubmission ps)"
| "form_app_error Closed = app_error.Gone Closed"
| "form_app_error FileUploadsUnavailable = app_error.Validation FileUploadsUnavailable"
| "form_app_error (FileRejected m) = app_error.Validation (FileRejected m)"
| "form_app_error (FileTooLarge n) = app_error.PayloadTooLarge (FileTooLarge n)"
| "form_app_error FileMissing = app_error.NotFound"
| "form_app_error TooManySubmissions = app_error.TooManyRequests"
| "form_app_error (Internal c) = app_error.Internal c"

definition accepts_submissions :: "form_status \<Rightarrow> bool" where
  "accepts_submissions s \<longleftrightarrow> s = Published"


section \<open>The repository\<close>

text \<open>\<open>forms_public_id_format_check\<close>: \<open>^[A-Za-z0-9_-]{16,64}$\<close>.\<close>

definition public_id_ok :: "string \<Rightarrow> bool" where
  "public_id_ok p \<longleftrightarrow>
     16 \<le> length p \<and> length p \<le> 64 \<and>
     list_all (\<lambda>c. is_ascii_alphanumeric c \<or> c = CHR ''_'' \<or> c = CHR ''-'') p"

definition form_checks :: "string \<Rightarrow> string list \<Rightarrow> bool" where
  "form_checks name notify \<longleftrightarrow> 1 \<le> char_count name \<and> char_count name \<le> 120 \<and> length notify \<le> 20"

text \<open>
  PostgreSQL takes no text with the character U+0000, in a parameter of its own or inside \<open>jsonb\<close>: the
  statement fails before it looks at a row. These are the texts of a definition as it is stored.
\<close>

definition text_ok :: "string \<Rightarrow> bool" where
  "text_ok s \<longleftrightarrow> CHR 0x00 \<notin> set s"

definition texts_of :: "string option \<Rightarrow> string list" where
  "texts_of t = (case t of None \<Rightarrow> [] | Some s \<Rightarrow> [s])"

definition field_texts :: "field_definition \<Rightarrow> string list" where
  "field_texts f =
     [key f, label f] @ texts_of (help_text f) @ texts_of (placeholder f) @
     (case options f of None \<Rightarrow> [] | Some os \<Rightarrow> os) @ (case accept f of None \<Rightarrow> [] | Some as \<Rightarrow> as)"

definition schema_texts :: "form_schema \<Rightarrow> string list" where
  "schema_texts sc =
     title sc # texts_of (description sc) @ texts_of (submit_label sc) @ concat (map field_texts (schema_fields sc))"

definition unstorable_text :: form_error where
  "unstorable_text = Internal (OtherCause ''invalid byte sequence'')"

definition insert_form ::
  "uuid \<Rightarrow> string \<Rightarrow> string \<Rightarrow> form_schema \<Rightarrow> string list \<Rightarrow> uuid \<Rightarrow> instant \<Rightarrow> db \<Rightarrow>
   (form_error + form_record) \<times> db" where
  "insert_form oid name public schema notify fid now d =
     (let f = \<lparr>frm_id = fid, frm_organization = oid, frm_name = name, frm_status = Draft,
               frm_public_id = public, frm_schema = schema, frm_schema_version = 1,
               frm_notify_emails = notify, frm_success_message = None, frm_redirect_url = None,
               frm_honeypot_enabled = True, frm_created_at = now, frm_updated_at = now,
               frm_published_at = None, frm_closed_at = None\<rparr>
      in if \<not> list_all text_ok (name # notify @ schema_texts schema) then (Inl unstorable_text, d)
         else if \<not> form_checks name notify \<or> \<not> public_id_ok public
         then (Inl (Internal CheckViolation), d)
         else if exists_row (\<lambda>g. frm_id g = fid \<or> frm_public_id g = public) (forms d)
         then (Inl (Internal UniqueViolation), d)
         else if \<not> organization_exists d oid then (Inl (Internal ForeignKeyViolation), d)
         else (Inr f, d\<lparr>forms := forms d @ [f]\<rparr>))"

definition find_form :: "db \<Rightarrow> uuid \<Rightarrow> uuid \<Rightarrow> form_record option" where
  "find_form d = scoped_find frm_organization frm_id (forms d)"

definition find_by_public_id :: "db \<Rightarrow> string \<Rightarrow> form_record option" where
  "find_by_public_id d p = find (\<lambda>f. frm_public_id f = p) (forms d)"

definition forms_page :: "db \<Rightarrow> uuid \<Rightarrow> int \<Rightarrow> int \<Rightarrow> form_record list" where
  "forms_page d oid l i =
     limit_offset l i
       (sort_key (\<lambda>f. (- frm_created_at f, frm_id f)) (filter (\<lambda>f. frm_organization f = oid) (forms d)))"

definition count_forms :: "db \<Rightarrow> uuid \<Rightarrow> int" where
  "count_forms d oid = int (rows_affected (\<lambda>f. frm_organization f = oid) (forms d))"

text \<open>An \<open>UPDATE forms SET ... WHERE organization_id = $1 AND id = $2\<close>, with its trigger.\<close>

definition update_form_row :: "uuid \<Rightarrow> uuid \<Rightarrow> instant \<Rightarrow> (form_record \<Rightarrow> form_record) \<Rightarrow> db \<Rightarrow> db" where
  "update_form_row oid fid now g d =
     d\<lparr>forms := update_where (\<lambda>f. frm_organization f = oid \<and> frm_id f = fid)
                   (\<lambda>f. (g f)\<lparr>frm_updated_at := now\<rparr>) (forms d)\<rparr>"

record form_definition =
  def_name :: string
  def_schema :: form_schema
  def_notify_emails :: "string list"
  def_success_message :: "string option"
  def_redirect_url :: "string option"
  def_honeypot_enabled :: bool

definition replace_definition ::
  "uuid \<Rightarrow> uuid \<Rightarrow> form_definition \<Rightarrow> bool \<Rightarrow> instant \<Rightarrow> db \<Rightarrow> (form_error + bool) \<times> db" where
  "replace_definition oid fid def changed now d =
     (if \<not> list_all text_ok
             (def_name def # def_notify_emails def @ schema_texts (def_schema def) @
              texts_of (def_success_message def) @ texts_of (def_redirect_url def))
      then (Inl unstorable_text, d)
      else case find_form d oid fid of
        None \<Rightarrow> (Inr False, d)
      | Some f \<Rightarrow>
          if \<not> form_checks (def_name def) (def_notify_emails def)
          then (Inl (Internal CheckViolation), d)
          else if changed \<and> \<not> int4_ok (frm_schema_version f + 1)
          then (Inl (Internal IntegerOutOfRange), d)
          else (Inr True,
            update_form_row oid fid now
              (\<lambda>f. f\<lparr>frm_name := def_name def, frm_schema := def_schema def,
                      frm_schema_version :=
                        if changed then frm_schema_version f + 1 else frm_schema_version f,
                      frm_notify_emails := def_notify_emails def,
                      frm_success_message := def_success_message def,
                      frm_redirect_url := def_redirect_url def,
                      frm_honeypot_enabled := def_honeypot_enabled def\<rparr>) d))"

definition set_form_status :: "uuid \<Rightarrow> uuid \<Rightarrow> form_status \<Rightarrow> instant \<Rightarrow> db \<Rightarrow> db" where
  "set_form_status oid fid status now =
     update_form_row oid fid now
       (\<lambda>f. f\<lparr>frm_status := status,
               frm_published_at := if status = Published then Some now else frm_published_at f,
               frm_closed_at := if status = form_status.Closed then Some now else frm_closed_at f\<rparr>)"

definition set_public_id ::
  "uuid \<Rightarrow> uuid \<Rightarrow> string \<Rightarrow> instant \<Rightarrow> db \<Rightarrow> (form_error + unit) \<times> db" where
  "set_public_id oid fid public now d =
     (case find_form d oid fid of
        None \<Rightarrow> (Inr (), d)
      | Some f \<Rightarrow>
          if \<not> public_id_ok public then (Inl (Internal CheckViolation), d)
          else if exists_row (\<lambda>g. frm_public_id g = public \<and> frm_id g \<noteq> fid) (forms d)
          then (Inl (Internal UniqueViolation), d)
          else (Inr (), update_form_row oid fid now (\<lambda>f. f\<lparr>frm_public_id := public\<rparr>) d))"

definition delete_form_row :: "uuid \<Rightarrow> uuid \<Rightarrow> db \<Rightarrow> bool \<times> db" where
  "delete_form_row oid fid d =
     (find_form d oid fid \<noteq> None,
      drop_forms (\<lambda>f. frm_organization f = oid \<and> frm_id f = fid) d)"


section \<open>Requests and responses\<close>

record create_form_request =
  cfr_name :: string
  cfr_schema :: form_schema
  cfr_notify_emails :: "string list"

text \<open>\<open>null\<close> clears a nullable string, an absent field leaves it alone: two levels of \<open>option\<close>.\<close>

record update_form_request =
  ufr_name :: "string option"
  ufr_schema :: "form_schema option"
  ufr_notify_emails :: "string list option"
  ufr_success_message :: "string option option"
  ufr_redirect_url :: "string option option"
  ufr_honeypot_enabled :: "bool option"

text \<open>The \<open>#[validate(length(...))]\<close> attributes: characters of a string, elements of a vector.\<close>

definition create_request_valid :: "create_form_request \<Rightarrow> bool" where
  "create_request_valid r \<longleftrightarrow>
     1 \<le> char_count (cfr_name r) \<and> char_count (cfr_name r) \<le> 120 \<and> length (cfr_notify_emails r) \<le> 20"

definition update_request_valid :: "update_form_request \<Rightarrow> bool" where
  "update_request_valid r \<longleftrightarrow>
     (case ufr_name r of None \<Rightarrow> True | Some n \<Rightarrow> 1 \<le> char_count n \<and> char_count n \<le> 120) \<and>
     (case ufr_notify_emails r of None \<Rightarrow> True | Some es \<Rightarrow> length es \<le> 20)"

text \<open>The response repeats the row and adds the path of the public form.\<close>

record form_response =
  fre_form :: form_record
  fre_public_path :: string

definition form_response_of :: "form_record \<Rightarrow> form_response" where
  "form_response_of f = \<lparr>fre_form = f, fre_public_path = ''/f/'' @ frm_public_id f\<rparr>"

record public_form_response =
  pub_title :: string
  pub_description :: "string option"
  pub_submit_label :: "string option"
  pub_fields :: "field_definition list"
  pub_honeypot_field :: "string option"

definition public_form_response_new :: "form_record \<Rightarrow> public_form_response" where
  "public_form_response_new f =
     \<lparr>pub_title = title (frm_schema f), pub_description = description (frm_schema f),
      pub_submit_label = submit_label (frm_schema f), pub_fields = schema_fields (frm_schema f),
      pub_honeypot_field = if frm_honeypot_enabled f then Some HONEYPOT_FIELD else None\<rparr>"


section \<open>The service\<close>

definition load_form :: "db \<Rightarrow> uuid \<Rightarrow> uuid \<Rightarrow> form_error + form_record" where
  "load_form d oid fid = ok_or NotFound (find_form d oid fid)"

definition load_published :: "db \<Rightarrow> string \<Rightarrow> form_error + form_record" where
  "load_published d public =
     and_then (ok_or NotFound (find_by_public_id d public)) (\<lambda>f.
       case frm_status f of
         Published \<Rightarrow> Inr f
       | Draft \<Rightarrow> Inl NotFound
       | form_status.Closed \<Rightarrow> Inl Closed)"

definition check_schema :: "bool \<Rightarrow> form_schema \<Rightarrow> bool \<Rightarrow> form_error + unit" where
  "check_schema uploads schema require_submittable =
     and_then (map_err (\<lambda>ps. InvalidSchema (Problems ps)) (validate_schema schema)) (\<lambda>_.
       if require_submittable \<and> has_file_field schema \<and> \<not> uploads then Inl FileUploadsUnavailable
       else Inr ())"

definition check_notify_emails :: "externals \<Rightarrow> string list \<Rightarrow> form_error + unit" where
  "check_notify_emails ext emails =
     (if length emails > 20 then Inl (InvalidSchema TooManyAddresses)
      else (case find (\<lambda>e. \<not> validate_email ext e) emails of
              Some bad \<Rightarrow> Inl (InvalidSchema (NotAnAddress bad))
            | None \<Rightarrow> Inr ()))"

definition check_redirect_url :: "string option \<Rightarrow> form_error + unit" where
  "check_redirect_url url =
     (case url of
        None \<Rightarrow> Inr ()
      | Some u \<Rightarrow>
          if \<not> starts_with u ''https://'' \<and> \<not> starts_with u ''http://''
          then Inl (InvalidSchema BadRedirectUrl) else Inr ())"

definition form_audit ::
  "auth_event_type \<Rightarrow> uuid \<Rightarrow> uuid \<Rightarrow> uuid \<Rightarrow> string option \<Rightarrow> client_info \<Rightarrow> instant \<Rightarrow> db \<Rightarrow> db" where
  "form_audit kind oid actor target lbl client now =
     record_event
       \<lparr>ev_user_id = None, ev_actor_user_id = Some actor, ev_organization_id = Some oid,
        ev_target_id = Some target, ev_email = lbl, ev_event_type = kind,
        ev_ip_address = ip_address client, ev_user_agent = user_agent client\<rparr> now"

definition create_form ::
  "bool \<Rightarrow> uuid \<Rightarrow> create_form_request \<Rightarrow> uuid \<Rightarrow> client_info \<Rightarrow> uuid \<Rightarrow> string \<Rightarrow> instant \<Rightarrow> db \<Rightarrow>
   (form_error + form_response) \<times> db" where
  "create_form uploads oid r actor client fid token now d =
     with_manager of_organization_error d oid actor (\<lambda>_.
     guard_st (check_schema uploads (cfr_schema r) False) d (\<lambda>_.
       case insert_form oid (trim (cfr_name r)) token (cfr_schema r) (cfr_notify_emails r) fid now d of
         (Inl e, d') \<Rightarrow> (Inl e, d')
       | (Inr f, d') \<Rightarrow>
           (Inr (form_response_of f),
            form_audit FormCreated oid actor (frm_id f) (Some (frm_name f)) client now d')))"

definition list_forms ::
  "uuid \<Rightarrow> uuid \<Rightarrow> int \<Rightarrow> int \<Rightarrow> db \<Rightarrow> (form_error + form_response list \<times> int) \<times> db" where
  "list_forms oid actor l i d =
     with_member of_organization_error d oid actor (\<lambda>_.
       (Inr (map form_response_of (forms_page d oid l i), count_forms d oid), d))"

definition get_form :: "uuid \<Rightarrow> uuid \<Rightarrow> uuid \<Rightarrow> db \<Rightarrow> (form_error + form_response) \<times> db" where
  "get_form oid fid actor d =
     with_member of_organization_error d oid actor (\<lambda>_.
     guard_st (load_form d oid fid) d (\<lambda>f. (Inr (form_response_of f), d)))"

text \<open>The definition an update asks for: what is sent, and what is there for the rest.\<close>

definition requested_definition :: "update_form_request \<Rightarrow> form_record \<Rightarrow> form_definition" where
  "requested_definition r f =
     \<lparr>def_name = (case ufr_name r of Some n \<Rightarrow> trim n | None \<Rightarrow> frm_name f),
      def_schema = (case ufr_schema r of Some s \<Rightarrow> s | None \<Rightarrow> frm_schema f),
      def_notify_emails = (case ufr_notify_emails r of Some es \<Rightarrow> es | None \<Rightarrow> frm_notify_emails f),
      def_success_message = (case ufr_success_message r of Some m \<Rightarrow> m | None \<Rightarrow> frm_success_message f),
      def_redirect_url = (case ufr_redirect_url r of Some u \<Rightarrow> u | None \<Rightarrow> frm_redirect_url f),
      def_honeypot_enabled =
        (case ufr_honeypot_enabled r of Some b \<Rightarrow> b | None \<Rightarrow> frm_honeypot_enabled f)\<rparr>"

definition update_form ::
  "externals \<Rightarrow> bool \<Rightarrow> uuid \<Rightarrow> uuid \<Rightarrow> update_form_request \<Rightarrow> uuid \<Rightarrow> client_info \<Rightarrow> instant \<Rightarrow> db \<Rightarrow>
   (form_error + form_response) \<times> db" where
  "update_form ext uploads oid fid r actor client now d =
     with_manager of_organization_error d oid actor (\<lambda>_.
     guard_st (load_form d oid fid) d (\<lambda>f.
       let def = requested_definition r f in
       if def_name def = [] \<or> char_count (def_name def) > 120
       then (Inl (InvalidSchema NameLength), d)
       else
         guard_st (check_schema uploads (def_schema def) (accepts_submissions (frm_status f))) d (\<lambda>_.
         guard_st (check_redirect_url (def_redirect_url def)) d (\<lambda>_.
         guard_st (check_notify_emails ext (def_notify_emails def)) d (\<lambda>_.
           case replace_definition oid fid def
                  (schema_fields (def_schema def) \<noteq> schema_fields (frm_schema f)) now d of
             (Inl e, d') \<Rightarrow> (Inl e, d')
           | (Inr updated, d') \<Rightarrow>
               if \<not> updated then (Inl NotFound, d')
               else get_form oid fid actor
                      (form_audit FormUpdated oid actor fid (Some (def_name def)) client now d'))))))"

definition delete_form ::
  "uuid \<Rightarrow> uuid \<Rightarrow> uuid \<Rightarrow> client_info \<Rightarrow> instant \<Rightarrow> db \<Rightarrow> (form_error + unit) \<times> db" where
  "delete_form oid fid actor client now d =
     with_manager of_organization_error d oid actor (\<lambda>_.
     guard_st (load_form d oid fid) d (\<lambda>f.
       case delete_form_row oid fid d of
         (gone, d') \<Rightarrow>
           if \<not> gone then (Inl NotFound, d')
           else (Inr (), form_audit FormDeleted oid actor fid (Some (frm_name f)) client now d')))"

definition publish_form ::
  "bool \<Rightarrow> uuid \<Rightarrow> uuid \<Rightarrow> uuid \<Rightarrow> client_info \<Rightarrow> instant \<Rightarrow> db \<Rightarrow> (form_error + form_response) \<times> db" where
  "publish_form uploads oid fid actor client now d =
     with_manager of_organization_error d oid actor (\<lambda>_.
     guard_st (load_form d oid fid) d (\<lambda>f.
     guard_st (check_schema uploads (frm_schema f) True) d (\<lambda>_.
       get_form oid fid actor
         (form_audit FormPublished oid actor fid (Some (frm_name f)) client now
           (set_form_status oid fid Published now d)))))"

definition close_form ::
  "uuid \<Rightarrow> uuid \<Rightarrow> uuid \<Rightarrow> client_info \<Rightarrow> instant \<Rightarrow> db \<Rightarrow> (form_error + form_response) \<times> db" where
  "close_form oid fid actor client now d =
     with_manager of_organization_error d oid actor (\<lambda>_.
     guard_st (load_form d oid fid) d (\<lambda>f.
       if \<not> accepts_submissions (frm_status f) then (Inl (InvalidSchema OnlyPublishedCloses), d)
       else
         get_form oid fid actor
           (form_audit FormClosed oid actor fid (Some (frm_name f)) client now
             (set_form_status oid fid form_status.Closed now d))))"

definition rotate_public_id ::
  "uuid \<Rightarrow> uuid \<Rightarrow> uuid \<Rightarrow> client_info \<Rightarrow> string \<Rightarrow> instant \<Rightarrow> db \<Rightarrow> (form_error + form_response) \<times> db" where
  "rotate_public_id oid fid actor client token now d =
     with_manager of_organization_error d oid actor (\<lambda>_.
     guard_st (load_form d oid fid) d (\<lambda>f.
       case set_public_id oid fid token now d of
         (Inl e, d') \<Rightarrow> (Inl e, d')
       | (Inr _, d') \<Rightarrow>
           get_form oid fid actor
             (form_audit FormPublicIdRotated oid actor fid (Some (frm_name f)) client now d')))"

definition public_definition :: "db \<Rightarrow> string \<Rightarrow> form_error + public_form_response" where
  "public_definition d public =
     and_then (load_published d public) (\<lambda>f. Inr (public_form_response_new f))"

text \<open>
  The handler that creates a form: \<open>validate(&request)?\<close>, then the service. \<open>Inl ()\<close> is the message
  the crate \<open>validator\<close> composes.
\<close>

definition create_form_handler ::
  "bool \<Rightarrow> uuid \<Rightarrow> create_form_request \<Rightarrow> uuid \<Rightarrow> client_info \<Rightarrow> uuid \<Rightarrow> string \<Rightarrow> instant \<Rightarrow> db \<Rightarrow>
   ((unit + form_error) app_error + form_response) \<times> db" where
  "create_form_handler uploads oid r actor client fid token now d =
     (if \<not> create_request_valid r then (Inl (app_error.Validation (Inl ())), d)
      else (case create_form uploads oid r actor client fid token now d of
              (res, d') \<Rightarrow> (map_err (\<lambda>e. map_app_error Inr (form_app_error e)) res, d')))"

end
