(* ===== verification/FormLifecycle.thy ===== *)
theory FormLifecycle
  imports Forms
begin

text \<open>
  What the form operations keep and promise: every stored definition passes the check and, while it is
  published, asks for files only where there is a storage for them; handles are unique; one tenant's
  operations never touch another's forms; the states a form goes through; its version; its public handle.
\<close>

interpretation form_table: tenant_table forms frm_organization frm_id find_form
  unfolding find_form_def by (rule scoped_find_table)

section \<open>The contract of a write\<close>

definition storable :: "bool \<Rightarrow> form_record \<Rightarrow> bool" where
  "storable uploads f \<longleftrightarrow>
     well_formed_schema (frm_schema f) \<and> public_id_ok (frm_public_id f) \<and>
     form_checks (frm_name f) (frm_notify_emails f) \<and>
     (frm_status f = Published \<and> has_file_field (frm_schema f) \<longrightarrow> uploads)"

definition forms_inv :: "bool \<Rightarrow> db \<Rightarrow> bool" where
  "forms_inv uploads d \<longleftrightarrow>
     distinct (map frm_id (forms d)) \<and> distinct (map frm_public_id (forms d)) \<and>
     (\<forall>f \<in> set (forms d). storable uploads f \<and> organization_exists d (frm_organization f))"

text \<open>A draft is published, a published form closed, a closed one published again; nothing else.\<close>

fun next_status :: "form_status \<Rightarrow> form_status \<Rightarrow> bool" where
  "next_status Draft s = (s = Draft \<or> s = Published)"
| "next_status Published s = (s = Published \<or> s = form_status.Closed)"
| "next_status form_status.Closed s = (s = form_status.Closed \<or> s = Published)"

text \<open>What an edit of the row \<open>f\<close> into \<open>f'\<close> may do, for a row stored with or without storage for files.\<close>

definition edit_ok :: "bool \<Rightarrow> db \<Rightarrow> form_record \<Rightarrow> form_record \<Rightarrow> bool" where
  "edit_ok uploads d f f' \<longleftrightarrow>
     frm_id f' = frm_id f \<and> frm_organization f' = frm_organization f \<and>
     (storable uploads f \<longrightarrow> storable uploads f') \<and> (storable True f \<longrightarrow> storable True f') \<and>
     (frm_public_id f' = frm_public_id f \<or>
      \<not> exists_row (\<lambda>g. frm_public_id g = frm_public_id f' \<and> frm_id g \<noteq> frm_id f) (forms d)) \<and>
     next_status (frm_status f) (frm_status f') \<and>
     frm_schema_version f' = frm_schema_version f +
       (if schema_fields (frm_schema f') \<noteq> schema_fields (frm_schema f) then 1 else 0)"

inductive form_change :: "bool \<Rightarrow> uuid \<Rightarrow> db \<Rightarrow> db \<Rightarrow> bool" for uploads oid where
  keep: "form_change uploads oid d d"
| insert: "storable uploads f \<Longrightarrow> frm_organization f = oid \<Longrightarrow> frm_status f = Draft \<Longrightarrow>
    frm_schema_version f = 1 \<Longrightarrow>
    \<not> exists_row (\<lambda>g. frm_id g = frm_id f \<or> frm_public_id g = frm_public_id f) (forms d) \<Longrightarrow>
    organization_exists d oid \<Longrightarrow> form_change uploads oid d (d\<lparr>forms := forms d @ [f]\<rparr>)"
| edit: "find_form d oid fid = Some f \<Longrightarrow> edit_ok uploads d f ((g f)\<lparr>frm_updated_at := now\<rparr>) \<Longrightarrow>
    (\<forall>h. frm_id (g h) = frm_id h \<and> frm_organization (g h) = frm_organization h) \<Longrightarrow>
    form_change uploads oid d (update_form_row oid fid now g d)"
| delete: "form_change uploads oid d (drop_forms (\<lambda>f. frm_organization f = oid \<and> frm_id f = fid) d)"

definition implements_form_change :: "bool \<Rightarrow> uuid \<Rightarrow> db \<Rightarrow> db \<Rightarrow> bool" where
  "implements_form_change uploads oid d d' \<longleftrightarrow>
     (\<exists>m. form_change uploads oid d m \<and> same_but_audit m d')"

lemma implements_form_keep [intro, simp]: "implements_form_change uploads oid d d"
  by (auto simp: implements_form_change_def intro: form_change.keep)

lemma implements_form_I:
  "form_change uploads oid d m \<Longrightarrow> same_but_audit m d' \<Longrightarrow> implements_form_change uploads oid d d'"
  by (auto simp: implements_form_change_def)

lemma same_but_audit_form [simp]: "same_but_audit d (form_audit k oid a t l c now d)"
  by (simp add: form_audit_def)

lemma snd_get_form [simp]: "snd (get_form oid fid actor d) = d"
  unfolding get_form_def
  by (rule with_member_snd [where P = "\<lambda>x. x = d"], simp, rule guard_st_snd [where P = "\<lambda>x. x = d"]) simp_all

lemma check_schema_Inr:
  "check_schema uploads s req = Inr u \<longleftrightarrow>
   well_formed_schema s \<and> (req \<and> has_file_field s \<longrightarrow> uploads)"
  by (auto simp: check_schema_def)

lemma load_form_Inr: "load_form d oid fid = Inr f \<longleftrightarrow> find_form d oid fid = Some f"
  by (simp add: load_form_def)


section \<open>Every operation implements it\<close>

lemma create_form_implements:
  "implements_form_change uploads oid d (snd (create_form uploads oid r actor c fid token now d))"
proof -
  have "implements_form_change uploads oid d (snd (case insert_form oid (trim (cfr_name r)) token
      (cfr_schema r) (cfr_notify_emails r) fid now d of
         (Inl e, d') \<Rightarrow> (Inl e, d')
       | (Inr f, d') \<Rightarrow> (Inr (form_response_of f),
            form_audit FormCreated oid actor (frm_id f) (Some (frm_name f)) c now d')))"
    if "well_formed_schema (cfr_schema r)"
    using that
    by (auto simp: insert_form_def Let_def storable_def
        intro!: implements_form_I [OF form_change.insert same_but_audit_form])
  then show ?thesis
    unfolding create_form_def
    by (intro with_manager_snd [where P = "implements_form_change uploads oid d"]
        guard_st_snd [where P = "implements_form_change uploads oid d"]) (simp_all add: check_schema_Inr)
qed

lemma replace_definition_edit:
  assumes "replace_definition oid fid def changed now d = (Inr True, d')"
    and "find_form d oid fid = Some f"
    and "changed = (schema_fields (def_schema def) \<noteq> schema_fields (frm_schema f))"
    and "well_formed_schema (def_schema def)"
    and "frm_status f = Published \<and> has_file_field (def_schema def) \<longrightarrow> uploads"
  shows "form_change uploads oid d d'"
proof -
  from assms(1,2) have d': "d' = update_form_row oid fid now
      (\<lambda>f. f\<lparr>frm_name := def_name def, frm_schema := def_schema def,
              frm_schema_version := if changed then frm_schema_version f + 1 else frm_schema_version f,
              frm_notify_emails := def_notify_emails def,
              frm_success_message := def_success_message def,
              frm_redirect_url := def_redirect_url def,
              frm_honeypot_enabled := def_honeypot_enabled def\<rparr>) d"
    and checks: "form_checks (def_name def) (def_notify_emails def)"
    by (auto simp: replace_definition_def split: if_splits)
  show ?thesis
    unfolding d'
  proof (rule form_change.edit [OF assms(2)], goal_cases)
    case 1
    show ?case
      using assms(3-5) checks by (cases "frm_status f") (auto simp: edit_ok_def storable_def)
  qed simp
qed

lemma update_form_implements:
  "implements_form_change uploads oid d (snd (update_form ext uploads oid fid r actor c now d))"
proof -
  let ?P = "implements_form_change uploads oid d"
  have "?P (snd (case replace_definition oid fid def
          (schema_fields (def_schema def) \<noteq> schema_fields (frm_schema f)) now d of
        (Inl e, d') \<Rightarrow> (Inl e, d')
      | (Inr updated, d') \<Rightarrow>
          if \<not> updated then (Inl NotFound, d')
          else get_form oid fid actor (form_audit FormUpdated oid actor fid (Some (def_name def)) c now d')))"
    if f: "find_form d oid fid = Some f" and ok: "well_formed_schema (def_schema def)"
      "accepts_submissions (frm_status f) \<and> has_file_field (def_schema def) \<longrightarrow> uploads" for f def
  proof (cases "replace_definition oid fid def
      (schema_fields (def_schema def) \<noteq> schema_fields (frm_schema f)) now d")
    case (Pair res d')
    show ?thesis
    proof (cases res)
      case (Inl e)
      with Pair have "d' = d" using f by (auto simp: replace_definition_def split: if_splits)
      with Pair Inl show ?thesis by simp
    next
      case (Inr b)
      with Pair f have "b" by (auto simp: replace_definition_def split: if_splits)
      with Pair Inr have run: "replace_definition oid fid def
        (schema_fields (def_schema def) \<noteq> schema_fields (frm_schema f)) now d = (Inr True, d')" by simp
      from replace_definition_edit [OF run f refl ok(1)] ok(2)
      have "form_change uploads oid d d'" by (simp add: accepts_submissions_def)
      then show ?thesis
        unfolding run prod.case sum.case by (simp add: implements_form_I)
    qed
  qed
  then show ?thesis
    unfolding update_form_def Let_def
    by (intro with_manager_snd [where P = ?P] guard_st_snd [where P = ?P])
      (auto simp: check_schema_Inr load_form_Inr intro!: guard_st_snd [where P = ?P])
qed

lemma set_form_status_implements:
  assumes "find_form d oid fid = Some f" and "next_status (frm_status f) s" and "s \<noteq> Draft"
    and "s = Published \<and> has_file_field (frm_schema f) \<longrightarrow> uploads"
  shows "implements_form_change uploads oid d
    (form_audit k oid actor fid l c now (set_form_status oid fid s now d))"
  unfolding set_form_status_def
  by (rule implements_form_I [OF form_change.edit [OF assms(1)] same_but_audit_form])
    (use assms(2-4) in \<open>auto simp: edit_ok_def storable_def\<close>)

lemma delete_form_implements:
  "implements_form_change uploads oid d (snd (delete_form oid fid actor c now d))"
proof -
  have "implements_form_change uploads oid d (snd (case delete_form_row oid fid d of
      (gone, d') \<Rightarrow>
         if \<not> gone then (Inl NotFound, d')
         else (Inr (), form_audit FormDeleted oid actor fid (Some l) c now d')))" for l
    using implements_form_I [OF form_change.delete [of uploads oid d fid]]
    by (simp add: delete_form_row_def)
  then show ?thesis
    unfolding delete_form_def
    by (intro with_manager_snd [where P = "implements_form_change uploads oid d"]
        guard_st_snd [where P = "implements_form_change uploads oid d"]) simp_all
qed

lemma publish_form_implements:
  "implements_form_change uploads oid d (snd (publish_form uploads oid fid actor c now d))"
proof -
  have "next_status s Published" for s by (cases s) simp_all
  then show ?thesis
    unfolding publish_form_def
    by (intro with_manager_snd [where P = "implements_form_change uploads oid d"]
        guard_st_snd [where P = "implements_form_change uploads oid d"])
      (auto simp: check_schema_Inr load_form_Inr intro: set_form_status_implements)
qed

lemma close_form_implements:
  "implements_form_change uploads oid d (snd (close_form oid fid actor c now d))"
  unfolding close_form_def
  by (intro with_manager_snd [where P = "implements_form_change uploads oid d"]
      guard_st_snd [where P = "implements_form_change uploads oid d"])
    (auto simp: load_form_Inr accepts_submissions_def intro: set_form_status_implements)

lemma rotate_public_id_implements:
  "implements_form_change uploads oid d (snd (rotate_public_id oid fid actor c token now d))"
proof -
  have "implements_form_change uploads oid d (snd (case set_public_id oid fid token now d of
         (Inl e, d') \<Rightarrow> (Inl e, d')
       | (Inr _, d') \<Rightarrow>
           get_form oid fid actor
             (form_audit FormPublicIdRotated oid actor fid (Some (frm_name f)) c now d')))"
    if f: "find_form d oid fid = Some f" for f
  proof (cases "public_id_ok token \<and> \<not> exists_row (\<lambda>g. frm_public_id g = token \<and> frm_id g \<noteq> fid) (forms d)")
    case False
    with f show ?thesis by (auto simp: set_public_id_def)
  next
    case True
    have "frm_id f = fid" using form_table.lookup_sound [OF f] by simp
    with True have "edit_ok uploads d f (f\<lparr>frm_public_id := token, frm_updated_at := now\<rparr>)"
      by (cases "frm_status f") (auto simp: edit_ok_def storable_def)
    with True f show ?thesis
      by (auto simp: set_public_id_def intro!: implements_form_I [OF form_change.edit [OF f]])
  qed
  then show ?thesis
    unfolding rotate_public_id_def
    by (intro with_manager_snd [where P = "implements_form_change uploads oid d"]
        guard_st_snd [where P = "implements_form_change uploads oid d"])
      (auto simp: load_form_Inr)
qed

section \<open>What is kept\<close>

lemma update_form_row_frame [simp]:
  "organizations (update_form_row oid fid now g d) = organizations d"
  "organization_members (update_form_row oid fid now g d) = organization_members d"
  "users (update_form_row oid fid now g d) = users d"
  by (simp_all add: update_form_row_def)

lemma organization_exists_form_frame [simp]:
  "organization_exists (update_form_row oid fid now g d) = organization_exists d"
  "organization_exists (drop_forms p d) = organization_exists d"
  "organization_exists (d\<lparr>forms := fs\<rparr>) = organization_exists d"
  by (auto simp: organization_exists_def)

lemma update_form_rows:
  assumes "distinct (map frm_id (forms d))" and "find_form d oid fid = Some f"
  shows "forms (update_form_row oid fid now g d) =
    map (\<lambda>h. if h = f then (g f)\<lparr>frm_updated_at := now\<rparr> else h) (forms d)"
proof -
  have "(frm_organization h = oid \<and> frm_id h = fid) = (h = f)" if "h \<in> set (forms d)" for h
    using form_table.lookup_sound [OF assms(2)] unique_key_eq [OF assms(1)] that by auto
  then show ?thesis by (auto simp: update_form_row_def update_where_def)
qed

lemma map_key_replaced:
  assumes "sel f' = sel f"
  shows "map sel (map (\<lambda>h. if h = f then f' else h) t) = map sel t"
  using assms by simp

lemma distinct_key_replaced:
  assumes "distinct (map sel t)" and "f \<in> set t" and "\<And>h. h \<in> set t \<Longrightarrow> h \<noteq> f \<Longrightarrow> sel h \<noteq> sel f'"
  shows "distinct (map sel (map (\<lambda>h. if h = f then f' else h) t))"
  using assms
proof (induction t)
  case Nil
  then show ?case by simp
next
  case (Cons x t)
  then have fresh: "sel x \<notin> sel ` set t" and d: "distinct (map sel t)" by auto
  show ?case
  proof (cases "x = f")
    case True
    with fresh have "f \<notin> set t" by auto
    then have "map (\<lambda>h. if h = f then f' else h) t = t" by (intro map_idI) auto
    moreover have "sel f' \<notin> sel ` set t"
      using Cons.prems(3) \<open>f \<notin> set t\<close> by (metis image_iff list.set_intros(2))
    ultimately show ?thesis using True d by simp
  next
    case False
    with Cons.prems have "f \<in> set t" by simp
    with Cons.IH [OF d this] Cons.prems(3) False fresh show ?thesis by (auto simp: image_iff)
  qed
qed

lemma form_change_inv:
  assumes "form_change uploads oid d d'" and "forms_inv uploads d"
  shows "forms_inv uploads d'"
  using assms
proof cases
  case keep
  with assms(2) show ?thesis by simp
next
  case (insert f)
  with assms(2) show ?thesis by (auto simp: forms_inv_def table_simps)
next
  case (edit fid f now g)
  let ?f = "(g f)\<lparr>frm_updated_at := now\<rparr>"
  from assms(2) have ids: "distinct (map frm_id (forms d))" and pubs: "distinct (map frm_public_id (forms d))"
    and rows: "\<And>h. h \<in> set (forms d) \<Longrightarrow> storable uploads h \<and> organization_exists d (frm_organization h)"
    by (auto simp: forms_inv_def)
  note forms' = update_form_rows [OF ids edit(2), of now g]
  have f: "f \<in> set (forms d)" using form_table.lookup_sound [OF edit(2)] by simp
  from edit(3) have ok: "frm_id ?f = frm_id f" "frm_organization ?f = frm_organization f"
    "storable uploads f \<Longrightarrow> storable uploads ?f"
    by (simp_all only: edit_ok_def)
  have "distinct (map frm_id (forms d'))"
    unfolding edit(1) forms' map_key_replaced [of frm_id, OF ok(1)] by (rule ids)
  moreover have "distinct (map frm_public_id (forms d'))"
    unfolding edit(1) forms'
  proof (rule distinct_key_replaced [OF pubs f])
    show "frm_public_id h \<noteq> frm_public_id ?f" if "h \<in> set (forms d)" "h \<noteq> f" for h
    proof (cases "frm_public_id ?f = frm_public_id f")
      case True
      with that f unique_key_eq [OF pubs] show ?thesis by metis
    next
      case False
      with edit(3) have "\<not> exists_row (\<lambda>g. frm_public_id g = frm_public_id ?f \<and> frm_id g \<noteq> frm_id f) (forms d)"
        by (simp only: edit_ok_def) auto
      moreover have "frm_id h \<noteq> frm_id f" using that f unique_key_eq [OF ids] by metis
      ultimately show ?thesis using that by (auto simp: table_simps)
    qed
  qed
  moreover have "storable uploads h \<and> organization_exists d' (frm_organization h)"
    if "h \<in> set (forms d')" for h
    using that rows f ok(2,3) unfolding edit(1) forms' by (auto split: if_splits)
  ultimately show ?thesis by (simp add: forms_inv_def)
next
  case (delete fid)
  with assms(2) show ?thesis
    by (auto simp: forms_inv_def set_delete_where intro: distinct_delete_where)
qed

lemma same_but_audit_forms_inv: "same_but_audit d d' \<Longrightarrow> forms_inv uploads d' = forms_inv uploads d"
  by (simp add: forms_inv_def organization_exists_def same_but_auditD)

lemma implements_form_inv:
  "implements_form_change uploads oid d d' \<Longrightarrow> forms_inv uploads d \<Longrightarrow> forms_inv uploads d'"
  by (auto simp: implements_form_change_def same_but_audit_forms_inv dest: form_change_inv)

text \<open>Another organization's forms stay as they are.\<close>

definition forms_outside :: "uuid \<Rightarrow> db \<Rightarrow> form_record list" where
  "forms_outside oid d = filter (\<lambda>f. frm_organization f \<noteq> oid) (forms d)"

lemma form_change_isolated:
  assumes "form_change uploads oid d d'"
  shows "forms_outside oid d' = forms_outside oid d"
  using assms
proof cases
  case (edit fid f now g)
  have "filter (\<lambda>f. frm_organization f \<noteq> oid) (update_where (\<lambda>f. frm_organization f = oid \<and> frm_id f = fid)
      (\<lambda>f. (g f)\<lparr>frm_updated_at := now\<rparr>) (forms d)) = filter (\<lambda>f. frm_organization f \<noteq> oid) (forms d)"
    using edit(4) by (intro filter_update_where_disjoint) auto
  then show ?thesis by (simp add: edit(1) forms_outside_def update_form_row_def)
qed (auto simp: forms_outside_def delete_where_def intro: filter_cong)

text \<open>From one row to the next: the state machine of a form, and its version.\<close>

lemma form_change_transition:
  assumes "form_change uploads oid d d'" and "forms_inv uploads d"
    and "f \<in> set (forms d)" and "f' \<in> set (forms d')" and "frm_id f' = frm_id f"
  shows "f' = f \<or> edit_ok uploads d f f'"
  using assms(1)
proof cases
  case keep
  with assms show ?thesis by (auto simp: forms_inv_def dest: unique_key_eq)
next
  case (insert g)
  have "f' = f" if "f' \<in> set (forms d)"
    using that assms(2,3,5) unique_key_eq [of frm_id "forms d" f' f] by (simp add: forms_inv_def)
  with insert assms(3-5) show ?thesis by (auto simp: table_simps)
next
  case (edit fid h now g)
  from assms(2) have ids: "distinct (map frm_id (forms d))" by (simp add: forms_inv_def)
  let ?h = "(g h)\<lparr>frm_updated_at := now\<rparr>"
  have id: "frm_id ?h = frm_id h" using edit(3) by (simp only: edit_ok_def)
  from assms(4) obtain x where x: "x \<in> set (forms d)" "f' = (if x = h then ?h else x)"
    unfolding edit(1) update_form_rows [OF ids edit(2)] by auto
  have "frm_id x = frm_id f" using x(2) id assms(5) by (auto split: if_splits)
  with ids x(1) assms(3) have "x = f" by (blast intro: unique_key_eq)
  with x(2) edit(3) show ?thesis by auto
next
  case (delete fid)
  with assms(2-5) unique_key_eq [of frm_id "forms d" f' f] show ?thesis
    by (auto simp: forms_inv_def set_delete_where)
qed

lemma implements_form_isolated:
  "implements_form_change uploads oid d d' \<Longrightarrow> forms_outside oid d' = forms_outside oid d"
  by (auto simp: implements_form_change_def forms_outside_def same_but_auditD
      dest!: form_change_isolated)

lemma implements_form_transition:
  assumes "implements_form_change uploads oid d d'" and "forms_inv uploads d"
    and "f \<in> set (forms d)" and "f' \<in> set (forms d')" and "frm_id f' = frm_id f"
  shows "f' = f \<or> edit_ok uploads d f f'"
proof -
  from assms(1) obtain m where "form_change uploads oid d m" "forms d' = forms m"
    by (auto simp: implements_form_change_def same_but_auditD)
  with form_change_transition [OF _ assms(2,3) _ assms(5)] assms(4) show ?thesis by simp
qed

lemmas form_operations_implement =
  create_form_implements update_form_implements delete_form_implements publish_form_implements
  close_form_implements rotate_public_id_implements


section \<open>Organizations and forms together\<close>

lemma forms_inv_drop_organizations:
  assumes "forms_inv uploads d" and "organization_inv d"
  shows "forms_inv uploads (drop_organizations (\<lambda>r. org_id r = oid) d)"
  using assms
  by (auto simp: forms_inv_def set_delete_where table_simps organization_exists_def
      intro!: distinct_delete_where; metis)

lemma forms_inv_mono:
  assumes "forms_inv uploads d" and "forms d' = forms d"
    and "\<And>oid. organization_exists d oid \<Longrightarrow> organization_exists d' oid"
  shows "forms_inv uploads d'"
  using assms by (auto simp: forms_inv_def)

lemma membership_change_forms: "membership_change oid actor d d' \<Longrightarrow> forms d' = forms d"
  by (cases rule: membership_change.cases)
    (auto simp: upsert_member_def remove_member_row_def split: if_splits)

lemma membership_change_organizations: "membership_change oid actor d d' \<Longrightarrow> organizations d' = organizations d"
  by (cases rule: membership_change.cases) (auto dest: upsert_member_frame)

lemma implements_change_forms_inv:
  "implements_change oid actor d d' \<Longrightarrow> forms_inv uploads d \<Longrightarrow> forms_inv uploads d'"
  by (auto simp: implements_change_def organization_exists_def same_but_auditD
      dest: membership_change_forms membership_change_organizations elim!: forms_inv_mono)

lemma organization_step_forms_inv:
  assumes "organization_step ext d d'" and "organization_inv d" and "forms_inv uploads d"
  shows "forms_inv uploads d'"
  using assms(1)
proof cases
  case (1 name actor c oid now)
  have "forms d' = forms d \<and> (\<forall>oid. organization_exists d oid \<longrightarrow> organization_exists d' oid)"
    unfolding 1
    by (auto simp: create_organization_def insert_organization_def Let_def organization_audit_def
        organization_exists_def table_simps split: option.splits)
  with assms(3) show ?thesis by (auto elim: forms_inv_mono)
next
  case (2 oid name actor c now)
  have "forms d' = forms d \<and> map org_id (organizations d') = map org_id (organizations d)"
    unfolding 2 rename_organization_def
    by (rule guard_st_snd, simp, rule guard_st_snd, simp)
      (auto simp: rename_organization_row_def Let_def organization_audit_def update_where_def
        split: if_splits)
  with assms(3) show ?thesis by (auto simp: organization_exists_iff simp del: set_map elim: forms_inv_mono)
next
  case (3 oid actor c now)
  have "forms_inv uploads (organization_audit k oid a s e c now d)" for k a s e
    using assms(3) same_but_audit_forms_inv [OF same_but_audit_organization] by blast
  moreover have "organization_inv (organization_audit k oid a s e c now d)" for k a s e
    using assms(2) by simp
  ultimately show ?thesis
    unfolding 3 delete_organization_def delete_organization_row_def
    by (intro guard_st_snd [where P = "forms_inv uploads"])
      (auto simp: Let_def assms(3) intro: forms_inv_drop_organizations)
next
  case 4
  then show ?thesis using implements_change_forms_inv [OF add_member_implements assms(3)] by simp
next
  case 5
  then show ?thesis using implements_change_forms_inv [OF set_member_role_implements assms(3)] by simp
next
  case 6
  then show ?thesis using implements_change_forms_inv [OF remove_member_implements assms(3)] by simp
next
  case (7 uid email hash status now)
  then have "forms d' = forms d \<and> organizations d' = organizations d"
    by (auto simp: insert_user_def Let_def)
  with assms(3) show ?thesis by (auto simp: organization_exists_def elim: forms_inv_mono)
next
  case (8 uid)
  then have "forms d' = forms d \<and> organizations d' = organizations d"
    by (auto simp: delete_user_def)
  with assms(3) show ?thesis by (auto simp: organization_exists_def elim: forms_inv_mono)
qed

text \<open>The six writes on forms, and everything that happens to organizations and accounts around them.\<close>

inductive form_step :: "externals \<Rightarrow> bool \<Rightarrow> db \<Rightarrow> db \<Rightarrow> bool" for ext uploads where
  "form_step ext uploads d (snd (create_form uploads oid r actor c fid token now d))"
| "form_step ext uploads d (snd (update_form ext uploads oid fid q actor c now d))"
| "form_step ext uploads d (snd (delete_form oid fid actor c now d))"
| "form_step ext uploads d (snd (publish_form uploads oid fid actor c now d))"
| "form_step ext uploads d (snd (close_form oid fid actor c now d))"
| "form_step ext uploads d (snd (rotate_public_id oid fid actor c token now d))"

inductive form_reachable :: "externals \<Rightarrow> bool \<Rightarrow> db \<Rightarrow> bool" for ext uploads where
  start: "form_reachable ext uploads empty_db"
| form: "form_reachable ext uploads d \<Longrightarrow> form_step ext uploads d d' \<Longrightarrow> form_reachable ext uploads d'"
| organization: "form_reachable ext uploads d \<Longrightarrow> organization_step ext d d' \<Longrightarrow> form_reachable ext uploads d'"

lemma form_step_implements: "form_step ext uploads d d' \<Longrightarrow> \<exists>oid. implements_form_change uploads oid d d'"
  by (induction rule: form_step.induct) (blast intro: form_operations_implement)+

lemma form_change_organization_inv:
  assumes "form_change uploads oid d d'" and "organization_inv d"
  shows "organization_inv d'"
proof -
  have "organizations d' = organizations d \<and> organization_members d' = organization_members d \<and> users d' = users d"
    using assms(1) by cases (simp_all add: update_form_row_def)
  with assms(2) organization_inv_cong [of d' d] show ?thesis by simp
qed

lemma form_reachable_inv: "form_reachable ext uploads d \<Longrightarrow> organization_inv d \<and> forms_inv uploads d"
proof (induction rule: form_reachable.induct)
  case start
  show ?case by (simp add: empty_db_inv) (simp add: forms_inv_def empty_db_def)
next
  case (form d d')
  then obtain oid m where "form_change uploads oid d m" "same_but_audit m d'"
    by (auto simp: implements_form_change_def dest!: form_step_implements)
  with form show ?case
    by (auto simp: same_but_audit_inv same_but_audit_forms_inv
        dest: form_change_organization_inv form_change_inv)
next
  case (organization d d')
  then show ?case by (blast intro: organization_step_inv organization_step_forms_inv)
qed

section \<open>A deployment with a form\<close>

definition contact_token :: string where "contact_token = ''AbCdEfGhIjKlMnOp''"

definition contact_request :: create_form_request where
  "contact_request = \<lparr>cfr_name = ''Contact'', cfr_schema = contact_schema, cfr_notify_emails = [''ann'']\<rparr>"

definition contact_form :: form_record where
  "contact_form =
     \<lparr>frm_id = 9, frm_organization = 7, frm_name = ''Contact'', frm_status = Draft,
      frm_public_id = contact_token, frm_schema = contact_schema, frm_schema_version = 1,
      frm_notify_emails = [''ann''], frm_success_message = None, frm_redirect_url = None,
      frm_honeypot_enabled = True, frm_created_at = 30, frm_updated_at = 30,
      frm_published_at = None, frm_closed_at = None\<rparr>"

text \<open>The two owners of before, with one form in the given state.\<close>

definition acme :: "form_status \<Rightarrow> db" where
  "acme s = two_owners\<lparr>forms := [contact_form\<lparr>frm_status := s\<rparr>]\<rparr>"

lemma acme_access:
  "resolve_access (acme s) 7 11 =
     Inr \<lparr>acc_organization = \<lparr>org_id = 7, org_name = ''Acme'', org_created_at = 0\<rparr>,
          acc_member_count = 2, acc_role = Owner\<rparr>"
  "resolve_access two_owners 7 11 =
     Inr \<lparr>acc_organization = \<lparr>org_id = 7, org_name = ''Acme'', org_created_at = 0\<rparr>,
          acc_member_count = 2, acc_role = Owner\<rparr>"
  by (simp_all add: resolve_access_def find_access_def member_count_def acme_def sample_simps)

lemma acme_find [simp]: "find_form (acme s) 7 9 = Some (contact_form\<lparr>frm_status := s\<rparr>)"
  by (simp add: acme_def find_form_def scoped_find_def contact_form_def)

lemma acme_role: "role_of (acme s) 7 11 = Some Owner"
  by (simp add: acme_def sample_simps)

lemma contact_no_file: "\<not> has_file_field contact_schema"
  by (simp add: has_file_field_def contact_schema_def contact_field_def)

lemma contact_checked: "check_schema uploads contact_schema req = Inr ()"
  by (simp add: check_schema_Inr contact_well_formed contact_no_file)

lemma contact_storable: "storable uploads (contact_form\<lparr>frm_status := s\<rparr>)"
  by (simp add: storable_def contact_form_def contact_well_formed public_id_ok_def contact_token_def
      is_ascii_alphanumeric_def is_ascii_lowercase_def is_ascii_uppercase_def is_ascii_digit_def byte_def
      form_checks_def char_count_def is_cont_def contact_no_file)

lemma acme_inv: "forms_inv uploads (acme s)"
  using contact_storable [of uploads s]
  by (simp add: forms_inv_def acme_def organization_exists_def exists_row_def two_owners_def contact_form_def)


section \<open>Properties\<close>

text \<open>C13: In every state that form, organization and account operations reach, every stored definition
  passes the check, a published form with file fields is on a deployment that can take files, and
  identifiers and public handles are unique.\<close>

theorem stored_forms_sound:
  assumes "form_reachable ext uploads d" and "f \<in> set (forms d)"
  shows "validate_schema (frm_schema f) = Inr () \<and>
    (frm_status f = Published \<and> has_file_field (frm_schema f) \<longrightarrow> uploads) \<and>
    organization_exists d (frm_organization f) \<and>
    distinct (map frm_id (forms d)) \<and> distinct (map frm_public_id (forms d))"
  using form_reachable_inv [OF assms(1)] assms(2) by (auto simp: forms_inv_def storable_def)

lemma contact_texts_ok [simp]:
  "list_all text_ok (schema_texts contact_schema)" "text_ok ''ann''" "text_ok ''Contact''" "text_ok []"
  by code_simp+

definition founded_with_form :: db where
  "founded_with_form = snd (create_form False 5 contact_request 1 no_client 9 contact_token 30 founded)"

lemma founded_with_form_reachable: "form_reachable sample_externals False founded_with_form"
  unfolding founded_with_form_def founded_def
  by (rule form_reachable.form [OF form_reachable.organization [OF form_reachable.organization
      [OF form_reachable.start]]]) (rule organization_step.intros form_step.intros)+

lemma founded_with_form_stores: "contact_form\<lparr>frm_organization := 5\<rparr> \<in> set (forms founded_with_form)"
proof -
  have "resolve_access founded 5 1 = Inr \<lparr>acc_organization = \<lparr>org_id = 5, org_name = ''Acme'', org_created_at = 20\<rparr>,
      acc_member_count = 1, acc_role = Owner\<rparr>" and "organization_exists founded 5" and "forms founded = []"
    by (simp_all add: founded_def create_organization_def insert_organization_def insert_user_def Let_def
      organization_audit_def char_count_def is_cont_def byte_def trim_def is_whitespace_def
      insert_unique_def empty_db_def exists_row_def user_exists_def resolve_access_def find_access_def
      member_count_def rows_affected_def role_of_def organization_exists_def record_event_def optional_def)
  then show ?thesis
    by (simp add: founded_with_form_def create_form_def with_manager_def with_member_def require_manager_def
      is_manager_def contact_checked insert_form_def Let_def
      contact_request_def trim_def is_whitespace_def byte_def is_cont_def form_checks_def char_count_def
      public_id_ok_def contact_token_def is_ascii_alphanumeric_def is_ascii_lowercase_def
      is_ascii_uppercase_def is_ascii_digit_def exists_row_def form_audit_def contact_form_def)
qed

theorem stored_forms_sound_witness:
  "validate_schema contact_schema = Inr () \<and> organization_exists founded_with_form 5"
  using stored_forms_sound [OF founded_with_form_reachable founded_with_form_stores]
  by (simp add: contact_form_def)

text \<open>Tenants are isolated: no write on a form of one organization, successful or not, adds, removes or
  changes a form of another.\<close>

theorem forms_of_others_untouched:
  "forms_outside oid (snd (create_form uploads oid r actor c fid token now d)) = forms_outside oid d \<and>
   forms_outside oid (snd (update_form ext uploads oid fid q actor c now d)) = forms_outside oid d \<and>
   forms_outside oid (snd (delete_form oid fid actor c now d)) = forms_outside oid d \<and>
   forms_outside oid (snd (publish_form uploads oid fid actor c now d)) = forms_outside oid d \<and>
   forms_outside oid (snd (close_form oid fid actor c now d)) = forms_outside oid d \<and>
   forms_outside oid (snd (rotate_public_id oid fid actor c token now d)) = forms_outside oid d"
  by (intro conjI implements_form_isolated; rule form_operations_implement
      form_operations_implement [where uploads = True])

text \<open>Only an owner or admin of the organization writes its forms: for anybody else all six writes leave
  the database exactly as it was, audit trail included.\<close>

theorem only_managers_write_forms:
  assumes "\<And>r. role_of d oid actor = Some r \<Longrightarrow> \<not> is_manager r"
  shows "snd (create_form uploads oid r actor c fid token now d) = d \<and>
    snd (update_form ext uploads oid fid q actor c now d) = d \<and>
    snd (delete_form oid fid actor c now d) = d \<and>
    snd (publish_form uploads oid fid actor c now d) = d \<and>
    snd (close_form oid fid actor c now d) = d \<and>
    snd (rotate_public_id oid fid actor c token now d) = d"
  unfolding create_form_def update_form_def delete_form_def publish_form_def close_form_def
    rotate_public_id_def with_manager_def with_member_def
  by (intro conjI acl.non_manager_changes_nothing assms)

theorem only_managers_write_forms_witness:
  "snd (delete_form 7 9 13 no_client 40 (acme Draft)) = acme Draft"
proof -
  have "role_of (acme Draft) 7 13 = Some r \<Longrightarrow> \<not> is_manager r" for r
    by (simp add: acme_def sample_simps)
  from only_managers_write_forms [OF this] show ?thesis by blast
qed

text \<open>C28: The states of a form: whichever write runs, a form that is there before and after is unchanged or
  moved along draft, published, closed, published again; it never becomes a draft, it keeps its
  organization, and its version grows by one exactly when its fields change.\<close>

theorem form_transitions:
  assumes "forms_inv uploads d" and "form_step ext uploads d d'"
    and "f \<in> set (forms d)" and "f' \<in> set (forms d')" and "frm_id f' = frm_id f"
  shows "next_status (frm_status f) (frm_status f') \<and> frm_organization f' = frm_organization f \<and>
    frm_schema_version f' = frm_schema_version f +
      (if schema_fields (frm_schema f') \<noteq> schema_fields (frm_schema f) then 1 else 0)"
proof -
  obtain oid where "implements_form_change uploads oid d d'"
    using form_step_implements [OF assms(2)] by blast
  from implements_form_transition [OF this assms(1,3-5)] show ?thesis
    by (cases "frm_status f") (auto simp: edit_ok_def)
qed

lemma acme_close:
  "snd (close_form 7 9 11 no_client 50 (acme Published)) =
     form_audit FormClosed 7 11 9 (Some ''Contact'') no_client 50
       (two_owners\<lparr>forms := [contact_form\<lparr>frm_status := form_status.Closed, frm_closed_at := Some 50,
          frm_updated_at := 50\<rparr>]\<rparr>)"
  by (simp add: close_form_def with_manager_def with_member_def acme_access require_manager_def
      is_manager_def load_form_def accepts_submissions_def set_form_status_def update_form_row_def)
    (simp add: acme_def contact_form_def)

theorem form_transitions_witness: "next_status Published form_status.Closed"
proof -
  have step: "form_step sample_externals True (acme Published)
      (snd (close_form 7 9 11 no_client 50 (acme Published)))"
    by (rule form_step.intros)
  have "contact_form\<lparr>frm_status := form_status.Closed, frm_closed_at := Some 50, frm_updated_at := 50\<rparr>
      \<in> set (forms (snd (close_form 7 9 11 no_client 50 (acme Published))))"
    unfolding acme_close form_audit_def by simp
  from form_transitions [OF acme_inv step _ this, of "contact_form\<lparr>frm_status := Published\<rparr>"]
  show ?thesis by (simp add: acme_def)
qed

lemma public_unique:
  assumes "forms_inv uploads d" and "f \<in> set (forms d)"
  shows "find_by_public_id d (frm_public_id f) = Some f"
  using assms unfolding find_by_public_id_def forms_inv_def by (auto intro!: find_unique [where key = frm_public_id])

lemma get_form_Inr:
  "get_form oid fid actor d = (Inr r, d') \<Longrightarrow>
   d' = d \<and> (\<exists>f. find_form d oid fid = Some f \<and> r = form_response_of f \<and> f \<in> set (forms d))"
  by (auto simp: get_form_def with_member_Inr load_form_Inr dest: form_table.lookup_sound)

lemma find_form_after:
  assumes "find_form d oid fid = Some f"
    and "\<And>h. frm_id (g h) = frm_id h \<and> frm_organization (g h) = frm_organization h"
  shows "find_form (update_form_row oid fid now g d) oid fid = Some ((g f)\<lparr>frm_updated_at := now\<rparr>)"
  using assms by (auto simp: find_form_def scoped_find_def update_form_row_def find_update_where
      dest: find_in_set)

lemma find_form_audit [simp]: "find_form (form_audit k oid a t l c now d) = find_form d"
  by (simp add: find_form_def form_audit_def)

lemma forms_audit [simp]: "forms (form_audit k oid a t l c now d) = forms d"
  by (simp add: form_audit_def)

lemma publish_form_Inr:
  assumes "publish_form uploads oid fid actor c now d = (Inr r, d')"
  shows "fre_form r \<in> set (forms d') \<and> frm_status (fre_form r) = Published"
  using assms
  by (auto simp: publish_form_def with_manager_Inr load_form_Inr set_form_status_def find_form_after
      form_response_of_def dest!: get_form_Inr)

lemma close_form_Inr:
  assumes "close_form oid fid actor c now d = (Inr r, d')"
  shows "fre_form r \<in> set (forms d') \<and> frm_status (fre_form r) = form_status.Closed"
  using assms
  by (auto simp: close_form_def with_manager_Inr load_form_Inr set_form_status_def find_form_after
      form_response_of_def split: if_splits dest!: get_form_Inr)

text \<open>The public handle follows the state: after a successful publish the handle the answer carries
  serves the stored definition, after a successful close it answers \<open>Closed\<close> (410), and after a
  successful rotation the old handle answers \<open>NotFound\<close>.\<close>

theorem public_handle_follows_state:
  assumes "forms_inv uploads d"
  shows "(publish_form uploads oid fid actor c now d = (Inr r, d') \<longrightarrow>
       public_definition d' (frm_public_id (fre_form r)) = Inr (public_form_response_new (fre_form r))) \<and>
    (close_form oid fid actor c now d = (Inr r, d') \<longrightarrow>
       public_definition d' (frm_public_id (fre_form r)) = Inl Closed) \<and>
    (rotate_public_id oid fid actor c token now d = (Inr r, d') \<and> find_form d oid fid = Some f \<and>
       token \<noteq> frm_public_id f \<longrightarrow>
       public_definition d' (frm_public_id f) = Inl NotFound \<and> frm_public_id (fre_form r) = token)"
proof (intro conjI impI; (elim conjE)?)
  assume op: "publish_form uploads oid fid actor c now d = (Inr r, d')"
  have "implements_form_change uploads oid d d'"
    using publish_form_implements [of uploads oid d fid actor c now] op by simp
  then have inv: "forms_inv uploads d'" using assms by (rule implements_form_inv)
  from publish_form_Inr [OF op] public_unique [OF inv]
  show "public_definition d' (frm_public_id (fre_form r)) = Inr (public_form_response_new (fre_form r))"
    by (auto simp: public_definition_def load_published_def form_response_of_def)
next
  assume op: "close_form oid fid actor c now d = (Inr r, d')"
  have "implements_form_change uploads oid d d'"
    using close_form_implements [of uploads oid d fid actor c now] op by simp
  then have inv: "forms_inv uploads d'" using assms by (rule implements_form_inv)
  from close_form_Inr [OF op] public_unique [OF inv]
  show "public_definition d' (frm_public_id (fre_form r)) = Inl Closed"
    by (auto simp: public_definition_def load_published_def form_response_of_def)
next
  assume op: "rotate_public_id oid fid actor c token now d = (Inr r, d')"
    and f: "find_form d oid fid = Some f" and new: "token \<noteq> frm_public_id f"
  from op f have "forms d' = forms (update_form_row oid fid now (\<lambda>f. f\<lparr>frm_public_id := token\<rparr>) d)"
    by (auto simp: rotate_public_id_def with_manager_Inr load_form_Inr set_public_id_def
        split: if_splits dest!: get_form_Inr)
  moreover have "distinct (map frm_id (forms d))" and pubs: "distinct (map frm_public_id (forms d))"
    using assms by (simp_all add: forms_inv_def)
  ultimately have forms': "forms d' = map (\<lambda>h. if h = f then f\<lparr>frm_public_id := token, frm_updated_at := now\<rparr>
      else h) (forms d)"
    using update_form_rows [OF _ f, of now "\<lambda>f. f\<lparr>frm_public_id := token\<rparr>"] by simp
  have "frm_public_id h \<noteq> frm_public_id f" if "h \<in> set (forms d')" for h
    using that new unique_key_eq [OF pubs] form_table.lookup_sound [OF f] unfolding forms'
    by (auto split: if_splits)
  then have "find_by_public_id d' (frm_public_id f) = None"
    by (simp add: find_by_public_id_def find_None)
  then show "public_definition d' (frm_public_id f) = Inl NotFound"
    by (simp add: public_definition_def load_published_def)
next
  assume op: "rotate_public_id oid fid actor c token now d = (Inr r, d')"
    and f: "find_form d oid fid = Some f"
  then show "frm_public_id (fre_form r) = token"
    by (auto simp: rotate_public_id_def with_manager_Inr load_form_Inr set_public_id_def find_form_after
        form_response_of_def split: if_splits dest!: get_form_Inr)
qed

lemma resolve_access_form_frame [simp]:
  "resolve_access (form_audit k o' a t l c now d) oid u = resolve_access d oid u"
  "resolve_access (update_form_row o' fid now g d) oid u = resolve_access d oid u"
  by (simp_all add: resolve_access_def find_access_def member_count_def role_of_def form_audit_def)

lemma acme_close_answers:
  "\<exists>r. close_form 7 9 11 no_client 50 (acme Published) =
     (Inr r, snd (close_form 7 9 11 no_client 50 (acme Published))) \<and> frm_public_id (fre_form r) = contact_token"
  by (simp add: close_form_def with_manager_def with_member_def acme_access require_manager_def
      is_manager_def load_form_def accepts_submissions_def get_form_def set_form_status_def
      find_form_after [OF acme_find] form_response_of_def contact_form_def)

theorem public_handle_follows_state_witness:
  "public_definition (snd (close_form 7 9 11 no_client 50 (acme Published))) contact_token = Inl Closed"
  using public_handle_follows_state [OF acme_inv] acme_close_answers by metis

lemma create_form_stores:
  assumes "create_form uploads oid r actor c fid token now d = (Inr res, d')"
  shows "fre_form res \<in> set (forms d') \<and> frm_notify_emails (fre_form res) = cfr_notify_emails r \<and>
    frm_id (fre_form res) = fid \<and> frm_organization (fre_form res) = oid"
  using assms
  by (auto simp: create_form_def with_manager_Inr insert_form_def Let_def form_response_of_def
      split: if_splits prod.splits)

text \<open>A form can be created with a notification address that no update accepts: \<open>create\<close> does not check
  the addresses, \<open>update\<close> checks the ones it keeps, so after it even an update that changes nothing
  is refused until the addresses are replaced.\<close>

theorem bad_address_blocks_updates:
  assumes "create_form uploads oid r actor c fid token now d = (Inr res, d1)"
    and "bad \<in> set (cfr_notify_emails r)" and "\<not> validate_email ext bad"
    and "ufr_notify_emails q = None"
    and "find_form d1 oid fid = Some (fre_form res)"
  shows "\<exists>e. fst (update_form ext uploads oid fid q actor c' now' d1) = Inl e"
proof -
  have emails: "frm_notify_emails (fre_form res) = cfr_notify_emails r"
    using create_form_stores [OF assms(1)] by simp
  obtain b where "find (\<lambda>e. \<not> validate_email ext e) (cfr_notify_emails r) = Some b"
    using assms(2,3) by (cases "find (\<lambda>e. \<not> validate_email ext e) (cfr_notify_emails r)") (auto simp: find_None)
  then have "\<exists>e. check_notify_emails ext (cfr_notify_emails r) = Inl e"
    by (simp add: check_notify_emails_def)
  moreover have "def_notify_emails (requested_definition q (fre_form res)) = cfr_notify_emails r"
    using assms(4) emails by (simp add: requested_definition_def)
  ultimately have "update_form ext uploads oid fid q actor c' now' d1 \<noteq> (Inr r2, d2)" for r2 d2
    using assms(5) by (auto simp: update_form_def with_manager_Inr load_form_Inr Let_def)
  then show ?thesis
    by (metis old.sum.exhaust prod.collapse)
qed

lemma contact_created:
  "create_form False 7 contact_request 11 no_client 9 contact_token 30 two_owners =
     (Inr (form_response_of contact_form), snd (create_form False 7 contact_request 11 no_client 9 contact_token 30 two_owners))"
  by (simp add: create_form_def with_manager_def with_member_def require_manager_def acme_access
      is_manager_def contact_checked insert_form_def Let_def
      contact_request_def trim_def is_whitespace_def byte_def is_cont_def form_checks_def char_count_def
      public_id_ok_def contact_token_def is_ascii_alphanumeric_def is_ascii_lowercase_def
      is_ascii_uppercase_def is_ascii_digit_def contact_form_def)
    (simp add: exists_row_def organization_exists_def two_owners_def empty_db_def)

definition no_changes :: update_form_request where
  "no_changes = \<lparr>ufr_name = None, ufr_schema = None, ufr_notify_emails = None,
     ufr_success_message = None, ufr_redirect_url = None, ufr_honeypot_enabled = None\<rparr>"

theorem bad_address_blocks_updates_witness:
  "\<exists>e. fst (update_form sample_externals False 7 9 no_changes 11 no_client 40
     (snd (create_form False 7 contact_request 11 no_client 9 contact_token 30 two_owners))) = Inl e"
proof (rule bad_address_blocks_updates [OF contact_created])
  show "''ann'' \<in> set (cfr_notify_emails contact_request)" by (simp add: contact_request_def)
  show "\<not> validate_email sample_externals ''ann''"
    by (simp add: sample_externals_def contains_any_def)
  show "ufr_notify_emails no_changes = None" by (simp add: no_changes_def)
  have "contact_form \<in> set (forms (snd (create_form False 7 contact_request 11 no_client 9 contact_token 30 two_owners)))"
    using create_form_stores [OF contact_created] by (simp add: form_response_of_def)
  moreover have "forms_inv False two_owners" by (simp add: forms_inv_def two_owners_def empty_db_def)
  then have "forms_inv False (snd (create_form False 7 contact_request 11 no_client 9 contact_token 30 two_owners))"
    by (rule implements_form_inv [OF create_form_implements])
  ultimately show "find_form (snd (create_form False 7 contact_request 11 no_client 9 contact_token 30 two_owners))
      7 9 = Some (fre_form (form_response_of contact_form))"
    using form_table.lookup_row [of _ contact_form]
    by (simp add: forms_inv_def form_response_of_def contact_form_def)
qed

text \<open>A name of nothing but spaces passes the validation of the request, is trimmed to the empty name, and
  violates the check of the table: a manager's request is answered with an internal error (500)
  where a name of no characters is answered with a validation error (400).\<close>

theorem blank_name_is_internal:
  assumes "role_of d oid actor = Some r" and "is_manager r" and "organization_exists d oid"
  shows "(\<exists>e. fst (create_form_handler uploads oid
             \<lparr>cfr_name = ''   '', cfr_schema = contact_schema, cfr_notify_emails = []\<rparr>
             actor c fid token now d) = Inl e \<and> app_status e = 500) \<and>
    (\<exists>e. fst (create_form_handler uploads oid
             \<lparr>cfr_name = [], cfr_schema = contact_schema, cfr_notify_emails = []\<rparr>
             actor c fid token now d) = Inl e \<and> app_status e = 400)"
proof
  obtain a where a: "resolve_access d oid actor = Inr a" "acc_role a = r"
    using assms(1,3)
    by (cases "find (\<lambda>r. org_id r = oid) (organizations d)")
      (auto simp: resolve_access_def find_access_def find_organization_None)
  show "\<exists>e. fst (create_form_handler uploads oid
             \<lparr>cfr_name = ''   '', cfr_schema = contact_schema, cfr_notify_emails = []\<rparr>
             actor c fid token now d) = Inl e \<and> app_status e = 500"
    using a assms(2)
    by (simp add: create_form_handler_def create_request_valid_def create_form_def with_manager_def
        with_member_def require_manager_def contact_checked insert_form_def Let_def form_checks_def
        char_count_def is_cont_def byte_def trim_def is_whitespace_def)
  show "\<exists>e. fst (create_form_handler uploads oid
             \<lparr>cfr_name = [], cfr_schema = contact_schema, cfr_notify_emails = []\<rparr>
             actor c fid token now d) = Inl e \<and> app_status e = 400"
    by (simp add: create_form_handler_def create_request_valid_def char_count_def)
qed

theorem blank_name_is_internal_witness:
  "\<exists>e. fst (create_form_handler False 7
             \<lparr>cfr_name = ''   '', cfr_schema = contact_schema, cfr_notify_emails = []\<rparr>
             11 no_client 9 contact_token 30 (acme Draft)) = Inl e \<and> app_status e = 500"
proof -
  have "is_manager Owner" and "organization_exists (acme Draft) 7"
    by (simp_all add: is_manager_def acme_def two_owners_def organization_exists_def exists_row_def)
  from blank_name_is_internal [OF acme_role this] show ?thesis by blast
qed

end
