(* ===== verification/IpAddr.thy ===== *)
theory IpAddr
  imports RustStr "HOL-Library.Monad_Syntax"
begin

text \<open>
  \<open>str::parse::<IpAddr>\<close> of the standard library, which \<open>check_url\<close>
  (\<open>src/src/modules/webhook/service.rs\<close>) reads a host with: a parser is a function from the text to
  what it read and what is left. Octets and segments are numbers below 256 and 65536; the bounds are
  those of the \<open>u8\<close> and \<open>u16\<close> conversions.
\<close>

unbundle bit_operations_syntax

datatype ip_addr = V4 "nat \<times> nat \<times> nat \<times> nat" | V6 "nat list"

text \<open>\<open>char::to_digit\<close>.\<close>

definition to_digit :: "nat \<Rightarrow> char \<Rightarrow> nat option" where
  "to_digit radix c =
     (let v = (if is_ascii_digit c then Some (byte c - 48)
               else if is_ascii_lowercase c then Some (byte c - 97 + 10)
               else if is_ascii_uppercase c then Some (byte c - 65 + 10)
               else None)
      in case v of None \<Rightarrow> None | Some d \<Rightarrow> if d < radix then Some d else None)"

text \<open>The digits from here on: \<open>None\<close> as soon as there are more than allowed.\<close>

fun read_digits :: "nat \<Rightarrow> nat \<Rightarrow> nat \<Rightarrow> nat \<Rightarrow> string \<Rightarrow> (nat \<times> nat \<times> string) option" where
  "read_digits radix max_digits n count [] = Some (n, count, [])"
| "read_digits radix max_digits n count (c # cs) =
     (case to_digit radix c of
        None \<Rightarrow> Some (n, count, c # cs)
      | Some d \<Rightarrow>
          if count + 1 > max_digits then None
          else read_digits radix max_digits (n * radix + d) (count + 1) cs)"

definition read_number :: "nat \<Rightarrow> nat \<Rightarrow> nat \<Rightarrow> bool \<Rightarrow> string \<Rightarrow> (nat \<times> string) option" where
  "read_number radix max_digits limit allow_zero_prefix s =
     do {
       (n, count, rest) \<leftarrow> read_digits radix max_digits 0 0 s;
       if count = 0 then None
       else if \<not> allow_zero_prefix \<and> starts_with s ''0'' \<and> count > 1 then None
       else if n > limit then None
       else Some (n, rest)
     }"

fun read_given_char :: "char \<Rightarrow> string \<Rightarrow> string option" where
  "read_given_char c [] = None"
| "read_given_char c (d # ds) = (if d = c then Some ds else None)"

definition read_separator :: "char \<Rightarrow> nat \<Rightarrow> (string \<Rightarrow> ('a \<times> string) option) \<Rightarrow> string \<Rightarrow> ('a \<times> string) option" where
  "read_separator sep i inner s = (if i > 0 then read_given_char sep s \<bind> inner else inner s)"

definition read_octet :: "string \<Rightarrow> (nat \<times> string) option" where
  "read_octet = read_number 10 3 255 False"

definition read_ipv4 :: "string \<Rightarrow> ((nat \<times> nat \<times> nat \<times> nat) \<times> string) option" where
  "read_ipv4 s =
     do {
       (a, s) \<leftarrow> read_separator (CHR ''.'') 0 read_octet s;
       (b, s) \<leftarrow> read_separator (CHR ''.'') 1 read_octet s;
       (c, s) \<leftarrow> read_separator (CHR ''.'') 2 read_octet s;
       (d, s) \<leftarrow> read_separator (CHR ''.'') 3 read_octet s;
       Some ((a, b, c, d), s)
     }"

text \<open>
  \<open>read_groups\<close>: the groups read, from group \<open>i\<close> on and at most as many as the second argument says,
  and whether they end in an embedded IPv4 address, for which two groups must be left.
\<close>

fun read_groups :: "nat \<Rightarrow> nat \<Rightarrow> string \<Rightarrow> nat list \<times> bool \<times> string" where
  "read_groups i 0 s = ([], False, s)"
| "read_groups i (Suc k) s =
     (case (if k > 0 then read_separator (CHR '':'') i read_ipv4 s else None) of
        Some ((a, b, c, d), rest) \<Rightarrow> ([a * 256 + b, c * 256 + d], True, rest)
      | None \<Rightarrow>
          (case read_separator (CHR '':'') i (read_number 16 4 65535 True) s of
             None \<Rightarrow> ([], False, s)
           | Some (g, rest) \<Rightarrow>
               (case read_groups (Suc i) k rest of (gs, v4, rest') \<Rightarrow> (g # gs, v4, rest'))))"

definition read_ipv6 :: "string \<Rightarrow> (nat list \<times> string) option" where
  "read_ipv6 s =
     (case read_groups 0 8 s of
        (head, head_ipv4, rest) \<Rightarrow>
          if length head = 8 then Some (head, rest)
          else if head_ipv4 then None
          else
            do {
              rest \<leftarrow> read_given_char (CHR '':'') rest;
              rest \<leftarrow> read_given_char (CHR '':'') rest;
              (case read_groups 0 (7 - length head) rest of
                 (tail, _, rest) \<Rightarrow>
                   Some (head @ replicate (8 - length head - length tail) 0 @ tail, rest))
            })"

definition parse_ip :: "string \<Rightarrow> ip_addr option" where
  "parse_ip s =
     (case (case read_ipv4 s of
              Some (v4, rest) \<Rightarrow> Some (V4 v4, rest)
            | None \<Rightarrow> map_option (\<lambda>(v6, rest). (V6 v6, rest)) (read_ipv6 s)) of
        Some (address, []) \<Rightarrow> Some address
      | _ \<Rightarrow> None)"


section \<open>Reading back what is written in decimal\<close>

definition dotted :: "nat \<times> nat \<times> nat \<times> nat \<Rightarrow> string" where
  "dotted v = (case v of (a, b, c, d) \<Rightarrow>
     show_nat a @ ''.'' @ show_nat b @ ''.'' @ show_nat c @ ''.'' @ show_nat d)"

definition is_octets :: "nat \<times> nat \<times> nat \<times> nat \<Rightarrow> bool" where
  "is_octets v \<longleftrightarrow> (case v of (a, b, c, d) \<Rightarrow> a < 256 \<and> b < 256 \<and> c < 256 \<and> d < 256)"

definition no_digit_ahead :: "string \<Rightarrow> bool" where
  "no_digit_ahead s \<longleftrightarrow> (case s of [] \<Rightarrow> True | c # _ \<Rightarrow> to_digit 10 c = None)"

lemma to_digit_digit_char [simp]: "d < 10 \<Longrightarrow> to_digit 10 (digit_char d) = Some d"
  by (simp add: to_digit_def is_ascii_digit_def)

lemma digit_char_zero: "d < 10 \<Longrightarrow> digit_char d = CHR ''0'' \<longleftrightarrow> d = 0"
  using byte_inject [of "digit_char d" "CHR ''0''"] by (simp add: byte_def [of "CHR ''0''"])

lemma read_digits_stop [simp]: "no_digit_ahead rest \<Longrightarrow> read_digits 10 m n count rest = Some (n, count, rest)"
  by (cases rest) (simp_all add: no_digit_ahead_def)

lemma read_octet_show_nat:
  assumes "n < 256" and "no_digit_ahead rest"
  shows "read_octet (show_nat n @ rest) = Some (n, rest)"
proof -
  consider "n < 10" | "10 \<le> n" "n < 100" | "100 \<le> n" "n < 256" using assms(1) by linarith
  then show ?thesis
  proof cases
    case 1
    then have "show_nat n = [digit_char n]" by (subst show_nat.simps) simp
    with 1 assms show ?thesis by (simp add: read_octet_def read_number_def)
  next
    case 2
    then have "show_nat n = [digit_char (n div 10), digit_char (n mod 10)]"
      by (subst show_nat.simps, subst show_nat.simps) (simp add: less_mult_imp_div_less)
    moreover have "n div 10 < 10" "0 < n div 10" using 2 by linarith+
    ultimately show ?thesis
      using assms by (simp add: read_octet_def read_number_def starts_with_def digit_char_zero)
  next
    case 3
    then have "show_nat n = [digit_char (n div 10 div 10), digit_char (n div 10 mod 10), digit_char (n mod 10)]"
      using 3 div_le_mono [of 100 n 10] less_mult_imp_div_less [of n 10 100]
      by (subst show_nat.simps, subst show_nat.simps, subst show_nat.simps) (simp add: div_less_iff_less_mult)
    moreover have "n div 10 div 10 < 10" "0 < n div 10 div 10" using 3 by linarith+
    moreover have "(n div 10 div 10 * 10 + n div 10 mod 10) * 10 + n mod 10 = n" by presburger
    ultimately show ?thesis
      using assms by (simp add: read_octet_def read_number_def starts_with_def digit_char_zero)
  qed
qed

lemma no_digit_dot [simp]: "no_digit_ahead (CHR ''.'' # s)"
  by (simp add: no_digit_ahead_def to_digit_def is_ascii_digit_def is_ascii_lowercase_def
      is_ascii_uppercase_def byte_def)

lemma read_ipv4_dotted: "is_octets v \<Longrightarrow> no_digit_ahead rest \<Longrightarrow> read_ipv4 (dotted v @ rest) = Some (v, rest)"
  by (auto simp: read_ipv4_def dotted_def is_octets_def read_separator_def read_octet_show_nat split: prod.splits)

lemma parse_ip_dotted: "is_octets v \<Longrightarrow> parse_ip (dotted v) = Some (V4 v)"
  using read_ipv4_dotted [of v "[]"] by (simp add: parse_ip_def no_digit_ahead_def)

lemma dotted_chars: "c \<in> set (dotted v) \<Longrightarrow> is_ascii_digit c \<or> c = CHR ''.''"
  by (cases v) (auto simp: dotted_def dest: show_nat_digits)

lemma dotted_nonempty [simp]: "dotted v \<noteq> []"
  by (cases v) (simp add: dotted_def)

end
