(* ===== verification/Webhooks.thy ===== *)
theory Webhooks
  imports FormLifecycle IpAddr
begin

text \<open>
  Webhook endpoints and the delivery log: \<open>src/src/modules/webhook/\<close> (\<open>model.rs\<close>, \<open>dto.rs\<close>,
  \<open>error.rs\<close>, \<open>repository.rs\<close>, \<open>service.rs\<close>). The signing secret of an endpoint
  (\<open>generate_secret_token()\<close>) and the identifiers of new rows are arguments. Whether private targets are
  allowed is the argument \<open>allow_private\<close>.
\<close>

section \<open>Errors\<close>

datatype webhook_message = NotAbsolute | NotHttp | NoHost | PrivateTarget | ForeignForm

datatype webhook_error =
    EndpointNotFound
  | DeliveryNotFound
  | Forbidden
  | Invalid webhook_message
  | Internal cause

fun webhook_organization_error :: "organization_error \<Rightarrow> webhook_error" where
  "webhook_organization_error organization_error.NotFound = EndpointNotFound"
| "webhook_organization_error organization_error.AccountNotFound = EndpointNotFound"
| "webhook_organization_error organization_error.MemberNotFound = EndpointNotFound"
| "webhook_organization_error organization_error.NotAMember = Forbidden"
| "webhook_organization_error organization_error.InsufficientRole = Forbidden"
| "webhook_organization_error _ = Internal (OtherCause ''organization'')"

fun webhook_app_error :: "webhook_error \<Rightarrow> webhook_message app_error" where
  "webhook_app_error EndpointNotFound = app_error.NotFound"
| "webhook_app_error DeliveryNotFound = app_error.NotFound"
| "webhook_app_error Forbidden = app_error.Forbidden"
| "webhook_app_error (Invalid m) = app_error.Validation m"
| "webhook_app_error (Internal c) = app_error.Internal c"


section \<open>Where a webhook may point\<close>

definition ends_of_host :: "char \<Rightarrow> bool" where
  "ends_of_host c \<longleftrightarrow> c = CHR ''['' \<or> c = CHR '']''"

text \<open>\<open>host.trim_matches(['[', ']'])\<close>.\<close>

definition trim_brackets :: "string \<Rightarrow> string" where
  "trim_brackets s = rev (dropWhile ends_of_host (rev (dropWhile ends_of_host s)))"

definition host_of :: "string \<Rightarrow> string" where
  "host_of rest =
     (let authority = first_piece [CHR ''/'', CHR ''?'', CHR ''#''] rest;
          after_userinfo = last_piece [CHR ''@''] authority
      in if starts_with after_userinfo ''[''
         then (if List.member after_userinfo (CHR '']'')
               then takeWhile (\<lambda>c. c \<noteq> CHR '']'') after_userinfo @ '']''
               else after_userinfo)
         else (case split_once '':'' after_userinfo of
                 Some (host, _) \<Rightarrow> host
               | None \<Rightarrow> after_userinfo))"

fun is_forbidden_address :: "ip_addr \<Rightarrow> bool" where
  "is_forbidden_address (V4 (a, b, c, d)) =
     (a = 127 \<or> (a = 169 \<and> b = 254) \<or> (a, b, c, d) = (0, 0, 0, 0))"
| "is_forbidden_address (V6 segments) =
     (segments = [0, 0, 0, 0, 0, 0, 0, 1] \<or> segments = [0, 0, 0, 0, 0, 0, 0, 0] \<or>
      (hd segments AND 0xffc0) = 0xfe80)"

definition check_url :: "string \<Rightarrow> bool \<Rightarrow> webhook_error + unit" where
  "check_url url allow_private =
     (let url = trim url
      in case split_once ''://'' url of
           None \<Rightarrow> Inl (Invalid NotAbsolute)
         | Some (scheme, rest) \<Rightarrow>
             if \<not> eq_ignore_ascii_case scheme ''http'' \<and> \<not> eq_ignore_ascii_case scheme ''https''
             then Inl (Invalid NotHttp)
             else
               (let host = host_of rest
                in if host = [] then Inl (Invalid NoHost)
                   else if \<not> allow_private \<and>
                     (case parse_ip (trim_brackets host) of
                        Some address \<Rightarrow> is_forbidden_address address
                      | None \<Rightarrow> False)
                   then Inl (Invalid PrivateTarget)
                   else Inr ()))"


section \<open>Endpoints\<close>

record create_endpoint_request =
  cer_url :: string
  cer_form :: "uuid option"
  cer_description :: "string option"

record update_endpoint_request =
  uer_url :: "string option"
  uer_enabled :: "bool option"
  uer_form :: "uuid option option"
  uer_description :: "string option option"

record endpoint_response =
  eps_id :: uuid
  eps_organization :: uuid
  eps_form :: "uuid option"
  eps_url :: string
  eps_description :: "string option"
  eps_enabled :: bool
  eps_created_at :: instant
  eps_updated_at :: instant

definition endpoint_response_of :: "webhook_endpoint_row \<Rightarrow> endpoint_response" where
  "endpoint_response_of e =
     \<lparr>eps_id = whe_id e, eps_organization = whe_organization e, eps_form = whe_form e,
      eps_url = whe_url e, eps_description = whe_description e, eps_enabled = whe_enabled e,
      eps_created_at = whe_created_at e, eps_updated_at = whe_updated_at e\<rparr>"

text \<open>The checks of the table: \<open>url ~ '^https?://'\<close>, a secret of at least 16 characters.\<close>

definition endpoint_checks :: "string \<Rightarrow> string \<Rightarrow> bool" where
  "endpoint_checks url secret \<longleftrightarrow>
     (starts_with url ''http://'' \<or> starts_with url ''https://'') \<and> char_count secret \<ge> 16"

definition insert_endpoint ::
  "uuid \<Rightarrow> uuid option \<Rightarrow> string \<Rightarrow> string \<Rightarrow> string option \<Rightarrow> uuid \<Rightarrow> instant \<Rightarrow> db \<Rightarrow>
   (webhook_error + webhook_endpoint_row) \<times> db" where
  "insert_endpoint oid form url secret desc eid now d =
     (let e = \<lparr>whe_id = eid, whe_organization = oid, whe_form = form, whe_url = url, whe_secret = secret,
               whe_description = desc, whe_enabled = True, whe_created_at = now, whe_updated_at = now\<rparr>
      in if \<not> endpoint_checks url secret then (Inl (Internal CheckViolation), d)
         else if exists_row (\<lambda>r. whe_id r = eid) (webhook_endpoints d)
         then (Inl (Internal UniqueViolation), d)
         else if \<not> organization_exists d oid \<or> \<not> optional (form_exists d) form
         then (Inl (Internal ForeignKeyViolation), d)
         else (Inr e, d\<lparr>webhook_endpoints := webhook_endpoints d @ [e]\<rparr>))"

definition find_endpoint :: "db \<Rightarrow> uuid \<Rightarrow> uuid \<Rightarrow> webhook_endpoint_row option" where
  "find_endpoint d = scoped_find whe_organization whe_id (webhook_endpoints d)"

definition endpoints_page :: "db \<Rightarrow> uuid \<Rightarrow> int \<Rightarrow> int \<Rightarrow> webhook_endpoint_row list" where
  "endpoints_page d oid l i =
     limit_offset l i (sort_key (\<lambda>e. (- whe_created_at e, whe_id e))
       (filter (\<lambda>e. whe_organization e = oid) (webhook_endpoints d)))"

definition count_endpoints :: "db \<Rightarrow> uuid \<Rightarrow> int" where
  "count_endpoints d oid = int (rows_affected (\<lambda>e. whe_organization e = oid) (webhook_endpoints d))"

record endpoint_changes =
  chg_url :: "string option"
  chg_description :: "string option option"
  chg_enabled :: "bool option"
  chg_form :: "uuid option option"

definition changed_endpoint ::
  "endpoint_changes \<Rightarrow> instant \<Rightarrow> webhook_endpoint_row \<Rightarrow> webhook_endpoint_row" where
  "changed_endpoint c now e =
     e\<lparr>whe_url := (case chg_url c of Some u \<Rightarrow> u | None \<Rightarrow> whe_url e),
       whe_description := (case chg_description c of Some v \<Rightarrow> v | None \<Rightarrow> whe_description e),
       whe_enabled := (case chg_enabled c of Some b \<Rightarrow> b | None \<Rightarrow> whe_enabled e),
       whe_form := (case chg_form c of Some f \<Rightarrow> f | None \<Rightarrow> whe_form e),
       whe_updated_at := now\<rparr>"

definition update_endpoint_row ::
  "uuid \<Rightarrow> uuid \<Rightarrow> endpoint_changes \<Rightarrow> instant \<Rightarrow> db \<Rightarrow>
   (webhook_error + webhook_endpoint_row option) \<times> db" where
  "update_endpoint_row oid eid c now d =
     (case find_endpoint d oid eid of
        None \<Rightarrow> (Inr None, d)
      | Some e \<Rightarrow>
          let e' = changed_endpoint c now e
          in if \<not> endpoint_checks (whe_url e') (whe_secret e') then (Inl (Internal CheckViolation), d)
             else if \<not> optional (form_exists d) (whe_form e')
             then (Inl (Internal ForeignKeyViolation), d)
             else (Inr (Some e'),
                   d\<lparr>webhook_endpoints :=
                       update_where (\<lambda>r. whe_organization r = oid \<and> whe_id r = eid)
                         (changed_endpoint c now) (webhook_endpoints d)\<rparr>))"

definition set_endpoint_secret ::
  "uuid \<Rightarrow> uuid \<Rightarrow> string \<Rightarrow> instant \<Rightarrow> db \<Rightarrow> (webhook_error + bool) \<times> db" where
  "set_endpoint_secret oid eid secret now d =
     (if find_endpoint d oid eid = None then (Inr False, d)
      else if char_count secret < 16 then (Inl (Internal CheckViolation), d)
      else (Inr True,
            d\<lparr>webhook_endpoints :=
                update_where (\<lambda>r. whe_organization r = oid \<and> whe_id r = eid)
                  (\<lambda>e. e\<lparr>whe_secret := secret, whe_updated_at := now\<rparr>) (webhook_endpoints d)\<rparr>))"

definition delete_endpoint_row :: "uuid \<Rightarrow> uuid \<Rightarrow> db \<Rightarrow> bool \<times> db" where
  "delete_endpoint_row oid eid d =
     (find_endpoint d oid eid \<noteq> None,
      drop_endpoints (\<lambda>e. whe_organization e = oid \<and> whe_id e = eid) d)"

definition form_belongs_to :: "db \<Rightarrow> uuid \<Rightarrow> uuid \<Rightarrow> bool" where
  "form_belongs_to d oid fid = exists_row (\<lambda>f. frm_organization f = oid \<and> frm_id f = fid) (forms d)"

definition ensure_form_belongs_to :: "db \<Rightarrow> uuid \<Rightarrow> uuid \<Rightarrow> webhook_error + unit" where
  "ensure_form_belongs_to d oid fid =
     (if form_belongs_to d oid fid then Inr () else Inl (Invalid ForeignForm))"

definition load_endpoint :: "db \<Rightarrow> uuid \<Rightarrow> uuid \<Rightarrow> webhook_error + webhook_endpoint_row" where
  "load_endpoint d oid eid = ok_or EndpointNotFound (find_endpoint d oid eid)"

definition webhook_audit ::
  "auth_event_type \<Rightarrow> uuid \<Rightarrow> uuid \<Rightarrow> uuid \<Rightarrow> client_info \<Rightarrow> instant \<Rightarrow> db \<Rightarrow> db" where
  "webhook_audit kind oid actor target client now =
     record_event
       \<lparr>ev_user_id = None, ev_actor_user_id = Some actor, ev_organization_id = Some oid,
        ev_target_id = Some target, ev_email = None, ev_event_type = kind,
        ev_ip_address = ip_address client, ev_user_agent = user_agent client\<rparr> now"

definition create_endpoint ::
  "bool \<Rightarrow> uuid \<Rightarrow> create_endpoint_request \<Rightarrow> uuid \<Rightarrow> client_info \<Rightarrow> uuid \<Rightarrow> string \<Rightarrow> instant \<Rightarrow> db \<Rightarrow>
   (webhook_error + endpoint_response \<times> string) \<times> db" where
  "create_endpoint allow_private oid r actor client eid secret now d =
     with_manager webhook_organization_error d oid actor (\<lambda>_.
     guard_st (check_url (cer_url r) allow_private) d (\<lambda>_.
     guard_st (case cer_form r of None \<Rightarrow> Inr () | Some f \<Rightarrow> ensure_form_belongs_to d oid f) d (\<lambda>_.
       case insert_endpoint oid (cer_form r) (trim (cer_url r)) secret (cer_description r) eid now d of
         (Inl e, d') \<Rightarrow> (Inl e, d')
       | (Inr row, d') \<Rightarrow>
           (Inr (endpoint_response_of row, secret),
            webhook_audit WebhookEndpointCreated oid actor (whe_id row) client now d'))))"

definition list_endpoints ::
  "uuid \<Rightarrow> uuid \<Rightarrow> int \<Rightarrow> int \<Rightarrow> db \<Rightarrow> (webhook_error + endpoint_response list \<times> int) \<times> db" where
  "list_endpoints oid actor l i d =
     with_member webhook_organization_error d oid actor (\<lambda>_.
       (Inr (map endpoint_response_of (endpoints_page d oid l i), count_endpoints d oid), d))"

definition get_endpoint :: "uuid \<Rightarrow> uuid \<Rightarrow> uuid \<Rightarrow> db \<Rightarrow> (webhook_error + endpoint_response) \<times> db" where
  "get_endpoint oid eid actor d =
     with_member webhook_organization_error d oid actor (\<lambda>_.
     guard_st (load_endpoint d oid eid) d (\<lambda>e. (Inr (endpoint_response_of e), d)))"

definition update_endpoint ::
  "bool \<Rightarrow> uuid \<Rightarrow> uuid \<Rightarrow> update_endpoint_request \<Rightarrow> uuid \<Rightarrow> client_info \<Rightarrow> instant \<Rightarrow> db \<Rightarrow>
   (webhook_error + endpoint_response) \<times> db" where
  "update_endpoint allow_private oid eid r actor client now d =
     with_manager webhook_organization_error d oid actor (\<lambda>_.
     guard_st (load_endpoint d oid eid) d (\<lambda>_.
     guard_st (case uer_url r of None \<Rightarrow> Inr () | Some u \<Rightarrow> check_url u allow_private) d (\<lambda>_.
     guard_st (case uer_form r of Some (Some f) \<Rightarrow> ensure_form_belongs_to d oid f | _ \<Rightarrow> Inr ()) d (\<lambda>_.
       let c = \<lparr>chg_url = map_option trim (uer_url r), chg_description = uer_description r,
                chg_enabled = uer_enabled r, chg_form = uer_form r\<rparr>
       in case update_endpoint_row oid eid c now d of
            (Inl e, d') \<Rightarrow> (Inl e, d')
          | (Inr found, d') \<Rightarrow>
              guard_st (ok_or EndpointNotFound found) d' (\<lambda>e.
                (Inr (endpoint_response_of e),
                 webhook_audit WebhookEndpointUpdated oid actor eid client now d'))))))"

definition delete_endpoint ::
  "uuid \<Rightarrow> uuid \<Rightarrow> uuid \<Rightarrow> client_info \<Rightarrow> instant \<Rightarrow> db \<Rightarrow> (webhook_error + unit) \<times> db" where
  "delete_endpoint oid eid actor client now d =
     with_manager webhook_organization_error d oid actor (\<lambda>_.
       case delete_endpoint_row oid eid d of
         (gone, d') \<Rightarrow>
           if \<not> gone then (Inl EndpointNotFound, d')
           else (Inr (), webhook_audit WebhookEndpointDeleted oid actor eid client now d'))"

definition rotate_endpoint_secret ::
  "uuid \<Rightarrow> uuid \<Rightarrow> uuid \<Rightarrow> client_info \<Rightarrow> string \<Rightarrow> instant \<Rightarrow> db \<Rightarrow> (webhook_error + string) \<times> db" where
  "rotate_endpoint_secret oid eid actor client secret now d =
     with_manager webhook_organization_error d oid actor (\<lambda>_.
     guard_st (load_endpoint d oid eid) d (\<lambda>_.
       case set_endpoint_secret oid eid secret now d of
         (Inl e, d') \<Rightarrow> (Inl e, d')
       | (Inr rotated, d') \<Rightarrow>
           if \<not> rotated then (Inl EndpointNotFound, d')
           else (Inr secret, webhook_audit WebhookEndpointUpdated oid actor eid client now d')))"

end
