(* ===== verification/Leases.thy ===== *)
theory Leases
  imports Database
begin

text \<open>
  The claim both background queues are read with (\<open>OutboxRepository::claim_due\<close>,
  \<open>WebhookRepository::claim_due_deliveries\<close>): one \<open>UPDATE\<close> that takes the first due rows in order,
  counts the attempt and pushes the row past a lease. Two claims run one after the other: \<open>FOR UPDATE
  SKIP LOCKED\<close> keeps the rows a concurrent claim holds out of the selection. What a worker relies on
  is the locale \<open>lease_queue\<close>, interpreted on both queues. The order in which \<open>RETURNING\<close> yields the
  rows is not fixed by SQL; here it is the order of the table.
\<close>

definition claim_rows ::
  "('r \<Rightarrow> bool) \<Rightarrow> ('r \<Rightarrow> 'k :: linorder) \<Rightarrow> ('r \<Rightarrow> 'i) \<Rightarrow> int \<Rightarrow> ('r \<Rightarrow> 'r) \<Rightarrow> 'r list \<Rightarrow> 'r list \<times> 'r list" where
  "claim_rows due order ident l upd t =
     (let ids = map ident (limit_offset l 0 (sort_key order (filter due t)))
      in (map upd (filter (\<lambda>r. List.member ids (ident r)) t),
          update_where (\<lambda>r. List.member ids (ident r)) upd t))"

lemma claim_rows_update:
  "claim_rows due order ident l upd t = (cs, t') \<Longrightarrow>
   \<exists>p. t' = update_where p upd t \<and> cs = map upd (filter p t)"
  by (auto simp: claim_rows_def Let_def)

lemma claim_ids:
  "ident r \<in> set (map ident (limit_offset l 0 (sort_key order (filter due t)))) \<Longrightarrow>
   \<exists>r' \<in> set t. ident r' = ident r \<and> due r'"
  using set_take_subset [of "nat l" "sort_key order (filter due t)"]
  by (fastforce simp: limit_offset_def)

lemma claim_rows_claimed:
  assumes "distinct (map ident t)" and "claim_rows due order ident l upd t = (cs, t')" and "c \<in> set cs"
  shows "\<exists>r \<in> set t. due r \<and> c = upd r \<and> c \<in> set t'"
proof -
  let ?ids = "map ident (limit_offset l 0 (sort_key order (filter due t)))"
  from assms(2,3) obtain r where r: "r \<in> set t" "ident r \<in> set ?ids" "c = upd r"
    by (auto simp: claim_rows_def Let_def)
  obtain r' where "r' \<in> set t" "ident r' = ident r" "due r'"
    using claim_ids [OF r(2)] by blast
  then have "due r" using unique_key_eq [OF assms(1)] r(1) by metis
  moreover have "c \<in> set t'"
    using assms(2) r by (auto simp: claim_rows_def Let_def set_update_where)
  ultimately show ?thesis using r by blast
qed

lemma claim_rows_others:
  assumes "claim_rows due order ident l upd t = (cs, t')" and "\<And>r. ident (upd r) = ident r"
  shows "map ident t' = map ident t"
    and "r \<in> set t' \<Longrightarrow> ident r \<in> ident ` set cs \<or> r \<in> set t"
proof -
  show "map ident t' = map ident t"
    using assms by (auto simp: claim_rows_def Let_def update_where_def)
  show "ident r \<in> ident ` set cs \<or> r \<in> set t" if "r \<in> set t'"
    using assms that by (fastforce simp: claim_rows_def Let_def set_update_where image_iff)
qed

lemma claim_rows_distinct:
  assumes "distinct (map ident t)" and "\<And>r. ident (upd r) = ident r"
    and "claim_rows due order ident l upd t = (cs, t')"
  shows "distinct (map ident cs)"
  using assms by (auto simp: claim_rows_def Let_def comp_def distinct_map_filter)

lemma claim_rows_bound:
  assumes "distinct (map ident t)" and "claim_rows due order ident l upd t = (cs, t')"
  shows "length cs \<le> nat l"
proof -
  let ?ids = "map ident (limit_offset l 0 (sort_key order (filter due t)))"
  have "length cs = card (set (map ident (filter (\<lambda>r. List.member ?ids (ident r)) t)))"
    using assms distinct_map_filter [OF assms(1)] by (auto simp: claim_rows_def Let_def distinct_card simp del: set_map)
  also have "\<dots> \<le> card (set ?ids)" by (intro card_mono) auto
  also have "\<dots> \<le> length ?ids" by (rule card_length)
  finally show ?thesis by (simp add: limit_offset_def)
qed

locale lease_queue =
  fixes rows :: "'d \<Rightarrow> 'r list"
    and ident :: "'r \<Rightarrow> 'i"
    and due :: "instant \<Rightarrow> 'r \<Rightarrow> bool"
    and attempts :: "'r \<Rightarrow> int"
    and claim :: "int \<Rightarrow> int \<Rightarrow> instant \<Rightarrow> 'd \<Rightarrow> 'r list \<times> 'd"
  assumes claimed_was_due:
      "distinct (map ident (rows d)) \<Longrightarrow> claim l lease now d = (cs, d') \<Longrightarrow> c \<in> set cs \<Longrightarrow>
       \<exists>r \<in> set (rows d). due now r \<and> ident r = ident c \<and> attempts c = attempts r + 1"
    and claimed_is_hidden:
      "distinct (map ident (rows d)) \<Longrightarrow> claim l lease now d = (cs, d') \<Longrightarrow> c \<in> set cs \<Longrightarrow>
       c \<in> set (rows d') \<and> (\<forall>t. due t c \<longrightarrow> now + lease \<le> t)"
    and claim_keeps_keys:
      "claim l lease now d = (cs, d') \<Longrightarrow> map ident (rows d') = map ident (rows d)"
begin

text \<open>Nobody else gets a row before its lease has run out.\<close>

lemma no_double_claim:
  assumes "distinct (map ident (rows d))" and "claim l lease now d = (cs, d')"
    and "claim l' lease' t d' = (cs', d'')" and "t < now + lease"
    and "c \<in> set cs" and "c' \<in> set cs'"
  shows "ident c \<noteq> ident c'"
proof
  assume eq: "ident c = ident c'"
  have keys: "distinct (map ident (rows d'))" using claim_keeps_keys [OF assms(2)] assms(1) by simp
  from claimed_was_due [OF keys assms(3,6)] obtain r where
    r: "r \<in> set (rows d')" "due t r" "ident r = ident c'" by blast
  from claimed_is_hidden [OF assms(1,2,5)] have c: "c \<in> set (rows d')" "due t c \<longrightarrow> now + lease \<le> t" by auto
  have "r = c" using unique_key_eq [OF keys r(1) c(1)] r(3) eq by simp
  with r(2) c(2) assms(4) show False by simp
qed

end

end
