(* ===== verification/Deliveries.thy ===== *)
theory Deliveries
  imports Webhooks Leases
begin

text \<open>
  Webhook deliveries: the fan-out of a submission, the claim, the signed request and the retry policy
  (\<open>src/src/modules/webhook/repository.rs\<close>, \<open>delivery.rs\<close>, \<open>model.rs\<close>, and the delivery half of
  \<open>service.rs\<close>). The answer of a receiver is an argument; so are the identifiers drawn for new rows,
  one for each endpoint. A payload is rendered from values the database holds, so it can be stored.
\<close>

section \<open>Constants\<close>

definition MAX_ATTEMPTS :: int where "MAX_ATTEMPTS = 6"
definition DELIVERY_LEASE_SECONDS :: int where "DELIVERY_LEASE_SECONDS = 120"
definition SUBMISSION_RECEIVED_EVENT :: string where "SUBMISSION_RECEIVED_EVENT = ''submission.received''"

definition delivery_backoff :: "int \<Rightarrow> int" where
  "delivery_backoff attempts =
     (if attempts = 0 \<or> attempts = 1 then 10
      else if attempts = 2 then 60
      else if attempts = 3 then 300
      else if attempts = 4 then 1800
      else 7200)"


section \<open>The fan-out\<close>

definition watches :: "uuid \<Rightarrow> uuid \<Rightarrow> webhook_endpoint_row \<Rightarrow> bool" where
  "watches oid fid e \<longleftrightarrow>
     whe_organization e = oid \<and> whe_enabled e \<and> (whe_form e = None \<or> whe_form e = Some fid)"

definition already_queued :: "db \<Rightarrow> uuid \<Rightarrow> uuid \<Rightarrow> bool" where
  "already_queued d eid sid =
     exists_row (\<lambda>w. whd_endpoint w = eid \<and> whd_submission w = Some sid) (webhook_deliveries d)"

definition submission_exists :: "db \<Rightarrow> uuid \<Rightarrow> bool" where
  "submission_exists d sid = exists_row (\<lambda>s. sub_id s = sid) (submissions d)"

definition new_delivery :: "uuid \<Rightarrow> uuid \<Rightarrow> json \<Rightarrow> instant \<Rightarrow> uuid \<Rightarrow> uuid \<Rightarrow> webhook_delivery_row" where
  "new_delivery oid sid payload now did eid =
     \<lparr>whd_id = did, whd_organization = oid, whd_endpoint = eid, whd_submission = Some sid,
      whd_payload = payload, whd_status = PendingDelivery, whd_attempts = 0, whd_response_status = None,
      whd_last_error = None, whd_next_attempt_at = now, whd_created_at = now, whd_delivered_at = None\<rparr>"

definition create_deliveries ::
  "uuid \<Rightarrow> uuid \<Rightarrow> uuid \<Rightarrow> json \<Rightarrow> (uuid \<Rightarrow> uuid) \<Rightarrow> instant \<Rightarrow> db \<Rightarrow> (webhook_error + nat) \<times> db" where
  "create_deliveries oid fid sid payload draw now d =
     (let targets = filter (\<lambda>e. watches oid fid e \<and> \<not> already_queued d (whe_id e) sid) (webhook_endpoints d);
          rows = map (\<lambda>e. new_delivery oid sid payload now (draw (whe_id e)) (whe_id e)) targets
      in if \<not> distinct (map whd_id (webhook_deliveries d @ rows)) then (Inl (Internal UniqueViolation), d)
         else if rows \<noteq> [] \<and> (\<not> organization_exists d oid \<or> \<not> submission_exists d sid)
         then (Inl (Internal ForeignKeyViolation), d)
         else (Inr (length rows), d\<lparr>webhook_deliveries := webhook_deliveries d @ rows\<rparr>))"


section \<open>The claim\<close>

record claimed_delivery =
  cld_id :: uuid
  cld_url :: string
  cld_secret :: string
  cld_payload :: json
  cld_attempts :: int

definition delivery_due :: "instant \<Rightarrow> webhook_delivery_row \<Rightarrow> bool" where
  "delivery_due now w \<longleftrightarrow> whd_status w = PendingDelivery \<and> whd_next_attempt_at w \<le> now"

definition claim_delivery_rows :: "int \<Rightarrow> int \<Rightarrow> instant \<Rightarrow> db \<Rightarrow> webhook_delivery_row list \<times> db" where
  "claim_delivery_rows l lease now d =
     (case claim_rows (delivery_due now) (\<lambda>w. (whd_next_attempt_at w, whd_id w)) whd_id l
             (\<lambda>w. w\<lparr>whd_attempts := whd_attempts w + 1, whd_next_attempt_at := now + lease\<rparr>)
             (webhook_deliveries d) of
        (cs, t) \<Rightarrow> (cs, d\<lparr>webhook_deliveries := t\<rparr>))"

text \<open>\<open>RETURNING\<close> with the endpoint's address and secret; a missing endpoint would be a \<open>NULL\<close> the row
  type cannot hold.\<close>

definition with_endpoint :: "db \<Rightarrow> webhook_delivery_row \<Rightarrow> claimed_delivery option" where
  "with_endpoint d w =
     map_option (\<lambda>e. \<lparr>cld_id = whd_id w, cld_url = whe_url e, cld_secret = whe_secret e,
                       cld_payload = whd_payload w, cld_attempts = whd_attempts w\<rparr>)
       (find (\<lambda>e. whe_id e = whd_endpoint w) (webhook_endpoints d))"

fun all_some :: "'a option list \<Rightarrow> 'a list option" where
  "all_some [] = Some []"
| "all_some (None # xs) = None"
| "all_some (Some x # xs) = map_option ((#) x) (all_some xs)"

definition claim_due_deliveries ::
  "int \<Rightarrow> int \<Rightarrow> instant \<Rightarrow> db \<Rightarrow> (webhook_error + claimed_delivery list) \<times> db" where
  "claim_due_deliveries l lease now d =
     (case claim_delivery_rows l lease now d of
        (rows, d') \<Rightarrow>
          (ok_or (Internal (OtherCause ''unexpected null'')) (all_some (map (with_endpoint d) rows)), d'))"


section \<open>The outcome of an attempt\<close>

definition mark_delivered :: "uuid \<Rightarrow> int \<Rightarrow> instant \<Rightarrow> db \<Rightarrow> db" where
  "mark_delivered did status now d =
     d\<lparr>webhook_deliveries := update_where (\<lambda>w. whd_id w = did)
         (\<lambda>w. w\<lparr>whd_status := Delivered, whd_response_status := Some status, whd_delivered_at := Some now,
                 whd_last_error := None\<rparr>) (webhook_deliveries d)\<rparr>"

text \<open>\<open>chars().take(500)\<close>.\<close>

definition take_chars :: "nat \<Rightarrow> string \<Rightarrow> string" where
  "take_chars n s = concat (take n (chars s))"

definition record_attempt_failure ::
  "uuid \<Rightarrow> int \<Rightarrow> string \<Rightarrow> int \<Rightarrow> int option \<Rightarrow> instant \<Rightarrow> db \<Rightarrow> bool \<times> db" where
  "record_attempt_failure did attempts error delay status now d =
     (let give_up = attempts \<ge> MAX_ATTEMPTS
      in (exists_row (\<lambda>w. whd_id w = did) (webhook_deliveries d) \<and> give_up,
          d\<lparr>webhook_deliveries := update_where (\<lambda>w. whd_id w = did)
              (\<lambda>w. w\<lparr>whd_status := (if give_up then FailedDelivery else PendingDelivery),
                      whd_response_status := status, whd_last_error := Some (take_chars 500 error),
                      whd_next_attempt_at := now + delay\<rparr>) (webhook_deliveries d)\<rparr>))"

definition requeue_delivery :: "uuid \<Rightarrow> uuid \<Rightarrow> instant \<Rightarrow> db \<Rightarrow> bool \<times> db" where
  "requeue_delivery oid did now d =
     (exists_row (\<lambda>w. whd_organization w = oid \<and> whd_id w = did) (webhook_deliveries d),
      d\<lparr>webhook_deliveries := update_where (\<lambda>w. whd_organization w = oid \<and> whd_id w = did)
          (\<lambda>w. w\<lparr>whd_status := PendingDelivery, whd_next_attempt_at := now, whd_last_error := None\<rparr>)
          (webhook_deliveries d)\<rparr>)"


section \<open>The request\<close>

definition signed_message :: "int \<Rightarrow> string \<Rightarrow> string" where
  "signed_message timestamp body = show_int timestamp @ ''.'' @ body"

definition sign :: "externals \<Rightarrow> string \<Rightarrow> int \<Rightarrow> string \<Rightarrow> string" where
  "sign ext secret timestamp body = ''sha256='' @ hmac_sha256 ext secret (signed_message timestamp body)"

record http_request =
  req_url :: string
  req_signature :: string
  req_timestamp :: string
  req_delivery :: string
  req_event :: string
  req_body :: string

text \<open>What came back: a status, or the line \<open>describe\<close> makes of a transport error.\<close>

datatype http_outcome = Answered int | TransportError string

definition is_success :: "int \<Rightarrow> bool" where
  "is_success status \<longleftrightarrow> 200 \<le> status \<and> status < 300"

definition delivery_request :: "externals \<Rightarrow> int \<Rightarrow> claimed_delivery \<Rightarrow> http_request" where
  "delivery_request ext timestamp c =
     (let body = json_text ext (cld_payload c)
      in \<lparr>req_url = cld_url c, req_signature = sign ext (cld_secret c) timestamp body,
          req_timestamp = show_int timestamp, req_delivery = uuid_text ext (cld_id c),
          req_event = (case Option.bind (json_get ''event'' (cld_payload c)) as_str of
                         Some event \<Rightarrow> event | None \<Rightarrow> []),
          req_body = body\<rparr>)"

definition record_failure ::
  "claimed_delivery \<Rightarrow> int option \<Rightarrow> string \<Rightarrow> instant \<Rightarrow> db \<Rightarrow> db" where
  "record_failure c status error now d =
     snd (record_attempt_failure (cld_id c) (cld_attempts c) error (delivery_backoff (cld_attempts c)) status now d)"

definition deliver ::
  "externals \<Rightarrow> int \<Rightarrow> (http_request \<Rightarrow> http_outcome) \<Rightarrow> instant \<Rightarrow> claimed_delivery \<Rightarrow> db \<Rightarrow> db" where
  "deliver ext timestamp receiver now c d =
     (case receiver (delivery_request ext timestamp c) of
        Answered status \<Rightarrow>
          if is_success status then mark_delivered (cld_id c) status now d
          else record_failure c (Some status) (''receiver answered '' @ show_int status) now d
      | TransportError line \<Rightarrow> record_failure c None line now d)"

text \<open>
  One batch: the deliveries one after the other, each sent and recorded at the instant the clock
  shows for it.
\<close>

definition deliverer_run_once ::
  "externals \<Rightarrow> int \<Rightarrow> (http_request \<Rightarrow> http_outcome) \<Rightarrow> (uuid \<Rightarrow> instant) \<Rightarrow> instant \<Rightarrow> db \<Rightarrow>
   (webhook_error + nat) \<times> db" where
  "deliverer_run_once ext batch receiver clock now d =
     (case claim_due_deliveries batch DELIVERY_LEASE_SECONDS now d of
        (Inl e, d') \<Rightarrow> (Inl e, d')
      | (Inr cs, d') \<Rightarrow>
          (Inr (length cs), fold (\<lambda>c. deliver ext (clock (cld_id c)) receiver (clock (cld_id c)) c) cs d'))"


section \<open>The delivery log\<close>

record delivery_filters =
  dfl_endpoint :: "uuid option"
  dfl_status :: "delivery_status option"
  dfl_since :: "instant option"
  dfl_until :: "instant option"

definition delivery_matches :: "delivery_filters \<Rightarrow> webhook_delivery_row \<Rightarrow> bool" where
  "delivery_matches flt w \<longleftrightarrow>
     optional (\<lambda>e. whd_endpoint w = e) (dfl_endpoint flt) \<and>
     optional (\<lambda>s. whd_status w = s) (dfl_status flt) \<and>
     optional (\<lambda>t. whd_created_at w \<ge> t) (dfl_since flt) \<and>
     optional (\<lambda>t. whd_created_at w \<le> t) (dfl_until flt)"

definition find_delivery :: "db \<Rightarrow> uuid \<Rightarrow> uuid \<Rightarrow> webhook_delivery_row option" where
  "find_delivery d = scoped_find whd_organization whd_id (webhook_deliveries d)"

definition deliveries_page :: "db \<Rightarrow> uuid \<Rightarrow> delivery_filters \<Rightarrow> int \<Rightarrow> int \<Rightarrow> webhook_delivery_row list" where
  "deliveries_page d oid flt l i =
     limit_offset l i (rev (sort_key (\<lambda>w. (whd_created_at w, whd_id w))
       (filter (\<lambda>w. whd_organization w = oid \<and> delivery_matches flt w) (webhook_deliveries d))))"

definition count_deliveries :: "db \<Rightarrow> uuid \<Rightarrow> delivery_filters \<Rightarrow> int" where
  "count_deliveries d oid flt =
     int (rows_affected (\<lambda>w. whd_organization w = oid \<and> delivery_matches flt w) (webhook_deliveries d))"

record delivery_response =
  dre_id :: uuid
  dre_endpoint :: uuid
  dre_submission :: "uuid option"
  dre_status :: delivery_status
  dre_attempts :: int
  dre_response_status :: "int option"
  dre_last_error :: "string option"
  dre_next_attempt_at :: instant
  dre_created_at :: instant
  dre_delivered_at :: "instant option"

definition delivery_response_of :: "webhook_delivery_row \<Rightarrow> delivery_response" where
  "delivery_response_of w =
     \<lparr>dre_id = whd_id w, dre_endpoint = whd_endpoint w, dre_submission = whd_submission w,
      dre_status = whd_status w, dre_attempts = whd_attempts w,
      dre_response_status = whd_response_status w, dre_last_error = whd_last_error w,
      dre_next_attempt_at = whd_next_attempt_at w, dre_created_at = whd_created_at w,
      dre_delivered_at = whd_delivered_at w\<rparr>"

definition list_deliveries ::
  "uuid \<Rightarrow> uuid \<Rightarrow> delivery_filters \<Rightarrow> int \<Rightarrow> int \<Rightarrow> db \<Rightarrow>
   (webhook_error + delivery_response list \<times> int) \<times> db" where
  "list_deliveries oid actor flt l i d =
     with_member webhook_organization_error d oid actor (\<lambda>_.
       (Inr (map delivery_response_of (deliveries_page d oid flt l i), count_deliveries d oid flt), d))"

definition redeliver :: "uuid \<Rightarrow> uuid \<Rightarrow> uuid \<Rightarrow> instant \<Rightarrow> db \<Rightarrow> (webhook_error + delivery_response) \<times> db" where
  "redeliver oid did actor now d =
     with_manager webhook_organization_error d oid actor (\<lambda>_.
       case requeue_delivery oid did now d of
         (queued, d') \<Rightarrow>
           if \<not> queued then (Inl DeliveryNotFound, d')
           else guard_st (ok_or DeliveryNotFound (find_delivery d' oid did)) d' (\<lambda>w.
                  (Inr (delivery_response_of w), d')))"

end
