(* ===== verification/DeliverySafety.thy ===== *)
theory DeliverySafety
  imports Deliveries
begin

text \<open>
  The tables of webhook delivery: the claim is the one of \<open>Leases\<close>, a submission is fanned out once per
  endpoint, endpoints and deliveries stay in their organization, and a delivery is tried six times at most as
  long as batches run one at a time to their end and nobody redelivers. \<open>DeliveryRuns\<close> drops the last two
  conditions.
\<close>

section \<open>The queue\<close>

interpretation delivery_queue: lease_queue webhook_deliveries whd_id delivery_due whd_attempts claim_delivery_rows
proof (unfold_locales, goal_cases)
  case (1 d l lease now cs d' c)
  then obtain t where t: "claim_rows (delivery_due now) (\<lambda>w. (whd_next_attempt_at w, whd_id w)) whd_id l
      (\<lambda>w. w\<lparr>whd_attempts := whd_attempts w + 1, whd_next_attempt_at := now + lease\<rparr>) (webhook_deliveries d) = (cs, t)"
    by (auto simp: claim_delivery_rows_def split: prod.splits)
  from claim_rows_claimed [OF 1(1) t 1(3)] show ?case by auto
next
  case (2 d l lease now cs d' c)
  then obtain t where t: "claim_rows (delivery_due now) (\<lambda>w. (whd_next_attempt_at w, whd_id w)) whd_id l
      (\<lambda>w. w\<lparr>whd_attempts := whd_attempts w + 1, whd_next_attempt_at := now + lease\<rparr>) (webhook_deliveries d) = (cs, t)"
    and d': "d' = d\<lparr>webhook_deliveries := t\<rparr>"
    by (auto simp: claim_delivery_rows_def split: prod.splits)
  from claim_rows_claimed [OF 2(1) t 2(3)] show ?case by (auto simp: d' delivery_due_def)
next
  case (3 l lease now d cs d')
  then obtain t where t: "claim_rows (delivery_due now) (\<lambda>w. (whd_next_attempt_at w, whd_id w)) whd_id l
      (\<lambda>w. w\<lparr>whd_attempts := whd_attempts w + 1, whd_next_attempt_at := now + lease\<rparr>) (webhook_deliveries d) = (cs, t)"
    and d': "d' = d\<lparr>webhook_deliveries := t\<rparr>"
    by (auto simp: claim_delivery_rows_def split: prod.splits)
  from claim_rows_others(1) [OF t] show ?case by (simp add: d')
qed

lemma all_some_Some: "all_some xs = Some ys \<longleftrightarrow> xs = map Some ys"
proof (induction xs arbitrary: ys rule: all_some.induct)
  case (3 x xs)
  then show ?case by (cases ys) auto
qed auto

lemma with_endpoint_id: "with_endpoint d w = Some c \<Longrightarrow> cld_id c = whd_id w \<and> cld_attempts c = whd_attempts w"
  by (auto simp: with_endpoint_def)

lemma with_endpoint_rows:
  "map (with_endpoint d) rows = map Some cs \<Longrightarrow>
   map cld_id cs = map whd_id rows \<and> map cld_attempts cs = map whd_attempts rows"
proof (induction rows arbitrary: cs)
  case (Cons w rows)
  then obtain c cs' where "cs = c # cs'" by (cases cs) auto
  with Cons show ?case using with_endpoint_id [of d w c] by simp
qed simp

lemma claim_due_deliveries_Inr:
  assumes "claim_due_deliveries l lease now d = (Inr cs, d')"
  obtains rows where "claim_delivery_rows l lease now d = (rows, d')"
    and "map cld_id cs = map whd_id rows" and "map cld_attempts cs = map whd_attempts rows"
proof (cases "claim_delivery_rows l lease now d")
  case (Pair rows d1)
  with assms have "d1 = d'" "map (with_endpoint d) rows = map Some cs"
    by (simp_all add: claim_due_deliveries_def all_some_Some)
  with Pair that with_endpoint_rows show ?thesis by blast
qed


section \<open>The invariant\<close>

definition delivery_pair :: "webhook_delivery_row \<Rightarrow> (uuid \<times> uuid) option" where
  "delivery_pair w = map_option (\<lambda>s. (whd_endpoint w, s)) (whd_submission w)"

definition tried_within_bounds :: "webhook_delivery_row \<Rightarrow> bool" where
  "tried_within_bounds w \<longleftrightarrow>
     0 \<le> whd_attempts w \<and> whd_attempts w \<le> MAX_ATTEMPTS \<and>
     (whd_status w = PendingDelivery \<longrightarrow> whd_attempts w < MAX_ATTEMPTS)"

definition deliveries_inv :: "db \<Rightarrow> bool" where
  "deliveries_inv d \<longleftrightarrow>
     distinct (map whd_id (webhook_deliveries d)) \<and> distinct (map whe_id (webhook_endpoints d)) \<and>
     distinct (List.map_filter delivery_pair (webhook_deliveries d)) \<and>
     whd_endpoint ` set (webhook_deliveries d) \<subseteq> whe_id ` set (webhook_endpoints d) \<and>
     (\<forall>w \<in> set (webhook_deliveries d). tried_within_bounds w)"

lemma delivery_pair_set:
  "(e, s) \<in> set (List.map_filter delivery_pair t) \<longleftrightarrow> (\<exists>w \<in> set t. whd_endpoint w = e \<and> whd_submission w = Some s)"
  by (force simp: List.map_filter_def delivery_pair_def)

lemma map_filter_delivery_pair_cong:
  "(\<And>w. w \<in> set t \<Longrightarrow> delivery_pair (f w) = delivery_pair w) \<Longrightarrow>
   List.map_filter delivery_pair (map f t) = List.map_filter delivery_pair t"
  by (induction t) (auto simp: List.map_filter_simps split: option.splits)

lemma new_delivery_pairs:
  "List.map_filter delivery_pair (map (\<lambda>e. new_delivery oid sid payload now (draw (whe_id e)) (whe_id e)) ts) =
   map (\<lambda>e. (whe_id e, sid)) ts"
  by (induction ts) (simp_all add: List.map_filter_simps delivery_pair_def new_delivery_def)

lemma map_filter_append: "List.map_filter g (xs @ ys) = List.map_filter g xs @ List.map_filter g ys"
  by (induction xs) (simp_all add: List.map_filter_simps split: option.splits)

lemma create_deliveries_cases:
  assumes "create_deliveries oid fid sid payload draw now d = (r, d')"
  obtains "d' = d" and "\<exists>e. r = Inl e"
  | ts where "ts = filter (\<lambda>e. watches oid fid e \<and> \<not> already_queued d (whe_id e) sid) (webhook_endpoints d)"
    and "r = Inr (length ts)"
    and "d' = d\<lparr>webhook_deliveries := webhook_deliveries d @
          map (\<lambda>e. new_delivery oid sid payload now (draw (whe_id e)) (whe_id e)) ts\<rparr>"
    and "distinct (map whd_id (webhook_deliveries d'))"
proof (cases "d' = d \<and> (\<exists>e. r = Inl e)")
  case True
  with that(1) show ?thesis by blast
next
  case False
  define ts where "ts = filter (\<lambda>e. watches oid fid e \<and> \<not> already_queued d (whe_id e) sid) (webhook_endpoints d)"
  define rows where "rows = map (\<lambda>e. new_delivery oid sid payload now (draw (whe_id e)) (whe_id e)) ts"
  have "r = Inr (length rows) \<and> d' = d\<lparr>webhook_deliveries := webhook_deliveries d @ rows\<rparr> \<and>
      distinct (map whd_id (webhook_deliveries d @ rows))"
    using assms False unfolding create_deliveries_def Let_def ts_def [symmetric] rows_def [symmetric]
    by (auto split: if_split_asm)
  then show ?thesis using that(2) [OF ts_def] by (simp add: rows_def)
qed

lemma create_deliveries_inv:
  assumes "deliveries_inv d" and "create_deliveries oid fid sid payload draw now d = (r, d')"
  shows "deliveries_inv d'"
  using assms(2)
proof (cases rule: create_deliveries_cases)
  case 1
  with assms(1) show ?thesis by simp
next
  case (2 ts)
  define rows where "rows = map (\<lambda>e. new_delivery oid sid payload now (draw (whe_id e)) (whe_id e)) ts"
  have "distinct (map whe_id ts)"
    using assms(1) by (simp add: 2(1) deliveries_inv_def distinct_map_filter)
  then have "distinct (List.map_filter delivery_pair rows)"
    by (simp add: rows_def new_delivery_pairs distinct_map inj_on_def)
  moreover have "set (List.map_filter delivery_pair (webhook_deliveries d)) \<inter>
      set (List.map_filter delivery_pair rows) = {}"
    by (auto simp: rows_def new_delivery_pairs delivery_pair_set 2(1) already_queued_def exists_row_iff)
  moreover have "whd_endpoint ` set rows \<subseteq> whe_id ` set (webhook_endpoints d)"
    by (auto simp: rows_def 2(1) new_delivery_def)
  moreover have "tried_within_bounds w" if "w \<in> set rows" for w
    using that by (auto simp: rows_def tried_within_bounds_def new_delivery_def MAX_ATTEMPTS_def)
  moreover have "webhook_deliveries d' = webhook_deliveries d @ rows" "webhook_endpoints d' = webhook_endpoints d"
    by (simp_all add: 2(3) rows_def)
  ultimately show ?thesis
    using assms(1) 2(4) by (auto simp: deliveries_inv_def map_filter_append)
qed

section \<open>One batch\<close>

text \<open>What recording an attempt may do to the row.\<close>

definition settles :: "int \<Rightarrow> (webhook_delivery_row \<Rightarrow> webhook_delivery_row) \<Rightarrow> bool" where
  "settles attempts g \<longleftrightarrow>
     (\<forall>w. whd_id (g w) = whd_id w \<and> whd_endpoint (g w) = whd_endpoint w \<and>
        whd_submission (g w) = whd_submission w \<and> whd_attempts (g w) = whd_attempts w \<and>
        (whd_status (g w) = Delivered \<or>
         whd_status (g w) = (if attempts \<ge> MAX_ATTEMPTS then FailedDelivery else PendingDelivery)))"

lemma deliver_settles:
  "\<exists>g. settles (cld_attempts c) g \<and> deliver ext t receiver now c d =
     d\<lparr>webhook_deliveries := update_where (\<lambda>w. whd_id w = cld_id c) g (webhook_deliveries d)\<rparr>"
proof (cases "receiver (delivery_request ext t c)")
  case (Answered status)
  show ?thesis
  proof (cases "is_success status")
    case True
    with Answered show ?thesis
      by (intro exI [of _ "\<lambda>w. w\<lparr>whd_status := Delivered, whd_response_status := Some status,
          whd_delivered_at := Some now, whd_last_error := None\<rparr>"])
        (simp add: deliver_def mark_delivered_def settles_def)
  next
    case False
    with Answered show ?thesis
      by (intro exI [of _ "\<lambda>w. w\<lparr>whd_status := (if cld_attempts c \<ge> MAX_ATTEMPTS then FailedDelivery else PendingDelivery),
          whd_response_status := Some status, whd_last_error := Some (take_chars 500 (''receiver answered '' @ show_int status)),
          whd_next_attempt_at := now + delivery_backoff (cld_attempts c)\<rparr>"])
        (simp add: deliver_def record_failure_def record_attempt_failure_def settles_def Let_def)
  qed
next
  case (TransportError line)
  then show ?thesis
    by (intro exI [of _ "\<lambda>w. w\<lparr>whd_status := (if cld_attempts c \<ge> MAX_ATTEMPTS then FailedDelivery else PendingDelivery),
        whd_response_status := None, whd_last_error := Some (take_chars 500 line),
        whd_next_attempt_at := now + delivery_backoff (cld_attempts c)\<rparr>"])
      (simp add: deliver_def record_failure_def record_attempt_failure_def settles_def Let_def)
qed

text \<open>Between the claim and the record of its outcome, a claimed row may hold its sixth attempt.\<close>

definition in_flight_inv :: "(uuid \<times> int) list \<Rightarrow> db \<Rightarrow> bool" where
  "in_flight_inv flight d \<longleftrightarrow>
     distinct (map whd_id (webhook_deliveries d)) \<and> distinct (map whe_id (webhook_endpoints d)) \<and>
     distinct (List.map_filter delivery_pair (webhook_deliveries d)) \<and>
     whd_endpoint ` set (webhook_deliveries d) \<subseteq> whe_id ` set (webhook_endpoints d) \<and>
     (\<forall>w \<in> set (webhook_deliveries d).
        case map_of flight (whd_id w) of
          None \<Rightarrow> tried_within_bounds w
        | Some a \<Rightarrow> whd_attempts w = a \<and> 0 \<le> a \<and> a \<le> MAX_ATTEMPTS)"

lemma in_flight_inv_Nil: "in_flight_inv [] d = deliveries_inv d"
  by (simp add: in_flight_inv_def deliveries_inv_def)

lemma deliver_in_flight:
  assumes "in_flight_inv ((cld_id c, cld_attempts c) # flight) d" and "cld_id c \<notin> fst ` set flight"
  shows "in_flight_inv flight (deliver ext t receiver now c d)"
proof -
  from deliver_settles obtain g where g: "settles (cld_attempts c) g"
    and d': "deliver ext t receiver now c d =
      d\<lparr>webhook_deliveries := update_where (\<lambda>w. whd_id w = cld_id c) g (webhook_deliveries d)\<rparr>" by blast
  let ?t = "update_where (\<lambda>w. whd_id w = cld_id c) g (webhook_deliveries d)"
  have "List.map_filter delivery_pair ?t = List.map_filter delivery_pair (webhook_deliveries d)"
    unfolding update_where_def
    by (rule map_filter_delivery_pair_cong) (use g in \<open>simp add: settles_def delivery_pair_def\<close>)
  moreover have "distinct (map whd_id ?t)"
    by (rule distinct_update_where) (use assms(1) g in \<open>simp_all add: in_flight_inv_def settles_def\<close>)
  moreover have "whd_endpoint ` set ?t \<subseteq> whe_id ` set (webhook_endpoints d)"
    using assms(1) g by (auto simp: set_update_where in_flight_inv_def settles_def)
  moreover have "case map_of flight (whd_id w) of None \<Rightarrow> tried_within_bounds w
      | Some a \<Rightarrow> whd_attempts w = a \<and> 0 \<le> a \<and> a \<le> MAX_ATTEMPTS" if w: "w \<in> set ?t" for w
  proof -
    from w obtain v where v: "v \<in> set (webhook_deliveries d)" "w = (if whd_id v = cld_id c then g v else v)"
      by (auto simp: set_update_where)
    have row: "case map_of ((cld_id c, cld_attempts c) # flight) (whd_id v) of None \<Rightarrow> tried_within_bounds v
        | Some a \<Rightarrow> whd_attempts v = a \<and> 0 \<le> a \<and> a \<le> MAX_ATTEMPTS"
      using assms(1) v(1) by (simp add: in_flight_inv_def)
    show ?thesis
    proof (cases "whd_id v = cld_id c")
      case True
      then have "map_of flight (whd_id w) = None"
        using assms(2) v(2) g by (simp add: settles_def map_of_eq_None_iff)
      moreover have "tried_within_bounds w"
        using True v(2) row spec [OF g [unfolded settles_def], of v]
        by (auto simp: tried_within_bounds_def MAX_ATTEMPTS_def split: if_splits)
      ultimately show ?thesis by simp
    next
      case False
      with v(2) have "w = v" by simp
      with False row show ?thesis by (simp split: option.splits)
    qed
  qed
  ultimately show ?thesis using assms(1) by (simp add: in_flight_inv_def d')
qed

lemma fold_deliver_inv:
  "in_flight_inv (map (\<lambda>c. (cld_id c, cld_attempts c)) cs) d \<Longrightarrow> distinct (map cld_id cs) \<Longrightarrow>
   deliveries_inv (fold (\<lambda>c. deliver ext (clock (cld_id c)) receiver (clock (cld_id c)) c) cs d)"
proof (induction cs arbitrary: d)
  case Nil
  then show ?case by (simp add: in_flight_inv_Nil)
next
  case (Cons c cs)
  then have "in_flight_inv (map (\<lambda>c. (cld_id c, cld_attempts c)) cs)
      (deliver ext (clock (cld_id c)) receiver (clock (cld_id c)) c d)"
    by (intro deliver_in_flight) (auto simp: image_image)
  with Cons show ?case by simp
qed

lemma claim_delivery_rows_effect:
  assumes "deliveries_inv d" and "claim_delivery_rows l lease now d = (rows, d')"
  shows "in_flight_inv (map (\<lambda>w. (whd_id w, whd_attempts w)) rows) d'" and "distinct (map whd_id rows)"
proof -
  let ?upd = "\<lambda>w. w\<lparr>whd_attempts := whd_attempts w + 1, whd_next_attempt_at := now + lease\<rparr>"
  from assms(2) obtain t where t: "claim_rows (delivery_due now) (\<lambda>w. (whd_next_attempt_at w, whd_id w)) whd_id l
      ?upd (webhook_deliveries d) = (rows, t)" and d': "d' = d\<lparr>webhook_deliveries := t\<rparr>"
    by (auto simp: claim_delivery_rows_def split: prod.splits)
  from assms(1) have keys: "distinct (map whd_id (webhook_deliveries d))" by (simp add: deliveries_inv_def)
  show dr: "distinct (map whd_id rows)" by (rule claim_rows_distinct [OF keys _ t]) simp
  have keys': "distinct (map whd_id t)" using claim_rows_others(1) [OF t] keys by simp
  have pairs: "List.map_filter delivery_pair t = List.map_filter delivery_pair (webhook_deliveries d)"
    using t unfolding claim_rows_def Let_def update_where_def
    by (auto simp: delivery_pair_def intro: map_filter_delivery_pair_cong)
  have "case map_of (map (\<lambda>w. (whd_id w, whd_attempts w)) rows) (whd_id w) of None \<Rightarrow> tried_within_bounds w
      | Some a \<Rightarrow> whd_attempts w = a \<and> 0 \<le> a \<and> a \<le> MAX_ATTEMPTS" if w: "w \<in> set t" for w
  proof (cases "whd_id w \<in> whd_id ` set rows")
    case True
    then obtain r where r: "r \<in> set rows" "whd_id r = whd_id w" by auto
    from claim_rows_claimed [OF keys t r(1)] obtain v where v: "v \<in> set (webhook_deliveries d)"
      "delivery_due now v" "r = ?upd v" "r \<in> set t" by blast
    have "r = w" using unique_key_eq [OF keys' v(4) w r(2)] .
    have "map_of (map (\<lambda>w. (whd_id w, whd_attempts w)) rows) (whd_id w) = Some (whd_attempts r)"
      using dr r by (intro map_of_is_SomeI) (auto simp: comp_def intro!: image_eqI [of _ _ r])
    moreover have "tried_within_bounds v" using assms(1) v(1) by (simp add: deliveries_inv_def)
    ultimately show ?thesis
      using v(2,3) \<open>r = w\<close> by (auto simp: tried_within_bounds_def delivery_due_def MAX_ATTEMPTS_def)
  next
    case False
    then have "map_of (map (\<lambda>w. (whd_id w, whd_attempts w)) rows) (whd_id w) = None"
      by (auto simp: map_of_eq_None_iff image_image)
    moreover have "w \<in> set (webhook_deliveries d)"
      using claim_rows_others(2) [OF t _ w] False by auto
    ultimately show ?thesis using assms(1) by (simp add: deliveries_inv_def)
  qed
  moreover have "whd_endpoint ` set t \<subseteq> whe_id ` set (webhook_endpoints d)"
    using assms(1) claim_rows_update [OF t] by (auto simp: set_update_where deliveries_inv_def image_subset_iff)
  ultimately show "in_flight_inv (map (\<lambda>w. (whd_id w, whd_attempts w)) rows) d'"
    using assms(1) keys' pairs by (simp add: in_flight_inv_def deliveries_inv_def d')
qed

lemma claim_due_deliveries_succeeds:
  assumes "deliveries_inv d"
  shows "\<exists>cs d'. claim_due_deliveries l lease now d = (Inr cs, d')"
proof (cases "claim_delivery_rows l lease now d")
  case (Pair rows d')
  have "\<exists>c. with_endpoint d w = Some c" if "w \<in> set rows" for w
  proof -
    have "whd_endpoint ` set rows \<subseteq> whd_endpoint ` set (webhook_deliveries d)"
      using Pair by (auto simp: claim_delivery_rows_def dest!: claim_rows_update split: prod.splits)
    with that assms have "whd_endpoint w \<in> whe_id ` set (webhook_endpoints d)"
      by (auto simp: deliveries_inv_def)
    then show ?thesis
      by (cases "find (\<lambda>e. whe_id e = whd_endpoint w) (webhook_endpoints d)")
        (auto simp: with_endpoint_def find_None)
  qed
  then have "map (with_endpoint d) rows = map Some (map (\<lambda>w. the (with_endpoint d w)) rows)" by auto
  then have "all_some (map (with_endpoint d) rows) = Some (map (\<lambda>w. the (with_endpoint d w)) rows)"
    by (simp add: all_some_Some)
  with Pair show ?thesis by (simp add: claim_due_deliveries_def)
qed

lemma map_pairs_eq:
  "map f xs = map f' ys \<Longrightarrow> map g xs = map g' ys \<Longrightarrow> map (\<lambda>x. (f x, g x)) xs = map (\<lambda>y. (f' y, g' y)) ys"
proof (induction xs arbitrary: ys)
  case (Cons x xs)
  then show ?case by (cases ys) auto
qed simp

lemma deliverer_run_once_inv:
  assumes "deliveries_inv d"
  shows "deliveries_inv (snd (deliverer_run_once ext batch receiver clock now d))"
proof -
  obtain cs d' where c: "claim_due_deliveries batch DELIVERY_LEASE_SECONDS now d = (Inr cs, d')"
    using claim_due_deliveries_succeeds [OF assms] by blast
  then obtain rows where r: "claim_delivery_rows batch DELIVERY_LEASE_SECONDS now d = (rows, d')"
    "map cld_id cs = map whd_id rows" "map cld_attempts cs = map whd_attempts rows"
    by (rule claim_due_deliveries_Inr)
  have "map (\<lambda>c. (cld_id c, cld_attempts c)) cs = map (\<lambda>w. (whd_id w, whd_attempts w)) rows"
    by (rule map_pairs_eq [OF r(2,3)])
  with claim_delivery_rows_effect [OF assms r(1)] r(2) c show ?thesis
    by (simp add: deliverer_run_once_def fold_deliver_inv)
qed

section \<open>Endpoints\<close>

interpretation endpoint_table: tenant_table webhook_endpoints whe_organization whe_id find_endpoint
  unfolding find_endpoint_def by (rule scoped_find_table)

interpretation delivery_table: tenant_table webhook_deliveries whd_organization whd_id find_delivery
  unfolding find_delivery_def by (rule scoped_find_table)

text \<open>An endpoint narrowed to a form is narrowed to a form of its own organization.\<close>

definition endpoint_ok :: "db \<Rightarrow> webhook_endpoint_row \<Rightarrow> bool" where
  "endpoint_ok d e \<longleftrightarrow>
     endpoint_checks (whe_url e) (whe_secret e) \<and> organization_exists d (whe_organization e) \<and>
     optional (form_belongs_to d (whe_organization e)) (whe_form e)"

definition endpoints_inv :: "db \<Rightarrow> bool" where
  "endpoints_inv d \<longleftrightarrow>
     distinct (map whe_id (webhook_endpoints d)) \<and> (\<forall>e \<in> set (webhook_endpoints d). endpoint_ok d e)"

text \<open>What a write on endpoints does to the database: a row added, a row changed, rows dropped.\<close>

inductive endpoint_change :: "uuid \<Rightarrow> db \<Rightarrow> db \<Rightarrow> bool" for oid where
  keep: "endpoint_change oid d d"
| insert: "whe_organization e = oid \<Longrightarrow> endpoint_ok d e \<Longrightarrow> whe_id e \<notin> whe_id ` set (webhook_endpoints d) \<Longrightarrow>
    endpoint_change oid d (d\<lparr>webhook_endpoints := webhook_endpoints d @ [e]\<rparr>)"
| edit: "find_endpoint d oid eid = Some e \<Longrightarrow> (\<And>x. whe_id (g x) = whe_id x \<and> whe_organization (g x) = whe_organization x) \<Longrightarrow>
    (endpoint_ok d e \<Longrightarrow> endpoint_ok d (g e)) \<Longrightarrow>
    endpoint_change oid d (d\<lparr>webhook_endpoints :=
      update_where (\<lambda>r. whe_organization r = oid \<and> whe_id r = eid) g (webhook_endpoints d)\<rparr>)"
| drop: "endpoint_change oid d (drop_endpoints (\<lambda>e. whe_organization e = oid \<and> whe_id e = eid) d)"

definition implements_endpoint_change :: "uuid \<Rightarrow> db \<Rightarrow> db \<Rightarrow> bool" where
  "implements_endpoint_change oid d d' \<longleftrightarrow> (\<exists>m. endpoint_change oid d m \<and> same_but_audit m d')"

lemma implements_endpoint_keep [intro, simp]: "implements_endpoint_change oid d d"
  by (auto simp: implements_endpoint_change_def intro: endpoint_change.keep)

lemma same_but_audit_webhook [simp]: "same_but_audit d (webhook_audit k oid a t c now d)"
  by (simp add: webhook_audit_def)

lemma implements_endpoint_I:
  "endpoint_change oid d m \<Longrightarrow> same_but_audit m d' \<Longrightarrow> implements_endpoint_change oid d d'"
  by (auto simp: implements_endpoint_change_def)

lemma organization_role_exists: "resolve_access d oid u = Inr a \<Longrightarrow> organization_exists d oid"
  using resolve_access_Inr by blast

lemma create_endpoint_implements:
  "implements_endpoint_change oid d (snd (create_endpoint allow oid r actor c eid secret now d))"
proof -
  let ?P = "implements_endpoint_change oid d"
  have "?P (snd (case insert_endpoint oid (cer_form r) (trim (cer_url r)) secret (cer_description r) eid now d of
         (Inl e, d') \<Rightarrow> (Inl e, d')
       | (Inr row, d') \<Rightarrow> (Inr (endpoint_response_of row, secret),
            webhook_audit WebhookEndpointCreated oid actor (whe_id row) c now d')))"
    if "(case cer_form r of None \<Rightarrow> Inr () | Some f \<Rightarrow> ensure_form_belongs_to d oid f) = Inr u" for u
    using that
    by (auto simp: insert_endpoint_def Let_def endpoint_ok_def optional_def ensure_form_belongs_to_def table_simps
        split: option.splits if_splits
        intro!: implements_endpoint_I [OF endpoint_change.insert same_but_audit_webhook])
  then show ?thesis
    unfolding create_endpoint_def
    by (intro with_manager_snd [where P = ?P] guard_st_snd [where P = ?P]) simp_all
qed

lemma find_endpoint_org: "find_endpoint d oid eid = Some e \<Longrightarrow> whe_organization e = oid"
  using endpoint_table.lookup_sound by blast

lemma update_endpoint_implements:
  "implements_endpoint_change oid d (snd (update_endpoint allow oid eid r actor c now d))"
proof -
  let ?P = "implements_endpoint_change oid d"
  define ch where "ch = \<lparr>chg_url = map_option trim (uer_url r), chg_description = uer_description r,
    chg_enabled = uer_enabled r, chg_form = uer_form r\<rparr>"
  have "?P (snd (case update_endpoint_row oid eid ch now d of
            (Inl e, d') \<Rightarrow> (Inl e, d')
          | (Inr found, d') \<Rightarrow>
              guard_st (ok_or EndpointNotFound found) d' (\<lambda>e.
                (Inr (endpoint_response_of e), webhook_audit WebhookEndpointUpdated oid actor eid c now d'))))"
    if form: "(case uer_form r of Some (Some f) \<Rightarrow> ensure_form_belongs_to d oid f | _ \<Rightarrow> Inr ()) = Inr u" for u
  proof (cases "\<exists>e d'. update_endpoint_row oid eid ch now d = (Inr (Some e), d')")
    case False
    then have "snd (update_endpoint_row oid eid ch now d) = d"
      by (auto simp: update_endpoint_row_def Let_def split: option.splits)
    with False show ?thesis
      by (cases "update_endpoint_row oid eid ch now d"; cases "fst (update_endpoint_row oid eid ch now d)";
          cases "projr (fst (update_endpoint_row oid eid ch now d))") auto
  next
    case True
    then obtain e where e: "find_endpoint d oid eid = Some e"
      and checks: "endpoint_checks (whe_url (changed_endpoint ch now e)) (whe_secret (changed_endpoint ch now e))"
      and run: "update_endpoint_row oid eid ch now d = (Inr (Some (changed_endpoint ch now e)),
        d\<lparr>webhook_endpoints := update_where (\<lambda>r. whe_organization r = oid \<and> whe_id r = eid)
            (changed_endpoint ch now) (webhook_endpoints d)\<rparr>)"
      by (auto simp: update_endpoint_row_def Let_def split: option.split_asm if_split_asm)
    have "endpoint_ok d (changed_endpoint ch now e)" if "endpoint_ok d e"
      using that checks form find_endpoint_org [OF e]
      by (auto simp: endpoint_ok_def changed_endpoint_def ch_def optional_def ensure_form_belongs_to_def
          split: option.splits if_splits)
    then have "endpoint_change oid d (d\<lparr>webhook_endpoints := update_where (\<lambda>r. whe_organization r = oid \<and> whe_id r = eid)
            (changed_endpoint ch now) (webhook_endpoints d)\<rparr>)"
      by (intro endpoint_change.edit [OF e]) (simp_all add: changed_endpoint_def)
    then show ?thesis by (simp add: run implements_endpoint_I)
  qed
  then show ?thesis
    unfolding update_endpoint_def Let_def ch_def
    by (intro with_manager_snd [where P = ?P] guard_st_snd [where P = ?P]) simp_all
qed

lemma delete_endpoint_implements:
  "implements_endpoint_change oid d (snd (delete_endpoint oid eid actor c now d))"
proof -
  have "implements_endpoint_change oid d (snd (case delete_endpoint_row oid eid d of
         (gone, d') \<Rightarrow>
           if \<not> gone then (Inl EndpointNotFound, d')
           else (Inr (), webhook_audit WebhookEndpointDeleted oid actor eid c now d')))"
    using implements_endpoint_I [OF endpoint_change.drop [of oid d eid]]
    by (simp add: delete_endpoint_row_def)
  then show ?thesis
    unfolding delete_endpoint_def
    by (intro with_manager_snd [where P = "implements_endpoint_change oid d"]) simp_all
qed

lemma rotate_endpoint_secret_implements:
  "implements_endpoint_change oid d (snd (rotate_endpoint_secret oid eid actor c secret now d))"
proof -
  let ?P = "implements_endpoint_change oid d"
  have "?P (snd (case set_endpoint_secret oid eid secret now d of
         (Inl e, d') \<Rightarrow> (Inl e, d')
       | (Inr rotated, d') \<Rightarrow>
           if \<not> rotated then (Inl EndpointNotFound, d')
           else (Inr secret, webhook_audit WebhookEndpointUpdated oid actor eid c now d')))"
    if e: "find_endpoint d oid eid = Some e" for e
    using e
    by (auto simp: set_endpoint_secret_def endpoint_ok_def endpoint_checks_def
        intro!: implements_endpoint_I [OF endpoint_change.edit [OF e] same_but_audit_webhook])
  then show ?thesis
    unfolding rotate_endpoint_secret_def
    by (intro with_manager_snd [where P = ?P] guard_st_snd [where P = ?P]) (auto simp: load_endpoint_def)
qed

lemmas endpoint_operations_implement =
  create_endpoint_implements update_endpoint_implements delete_endpoint_implements
  rotate_endpoint_secret_implements

lemma endpoint_ok_cong:
  assumes "forms d' = forms d" and "organizations d' = organizations d"
  shows "endpoint_ok d' = endpoint_ok d"
  using assms by (intro ext) (simp add: endpoint_ok_def form_belongs_to_def organization_exists_def fun_eq_iff
      optional_def split: option.splits)

lemma in_update_where: "x \<in> set (update_where p f t) \<Longrightarrow> \<exists>y \<in> set t. x = (if p y then f y else y)"
  by (auto simp: set_update_where)

lemma endpoint_change_inv:
  assumes "endpoint_change oid d d'" and "endpoints_inv d"
  shows "endpoints_inv d'"
  using assms(1)
proof cases
  case keep
  with assms(2) show ?thesis by simp
next
  case (insert e)
  have "endpoint_ok d' = endpoint_ok d" unfolding insert(1) by (rule endpoint_ok_cong) simp_all
  with insert assms(2) show ?thesis by (auto simp: endpoints_inv_def)
next
  case (edit eid e g)
  have same: "endpoint_ok d' = endpoint_ok d" unfolding edit(1) by (rule endpoint_ok_cong) simp_all
  have e: "e \<in> set (webhook_endpoints d)" "whe_organization e = oid" "whe_id e = eid"
    using endpoint_table.lookup_sound [OF edit(2)] by simp_all
  have one: "x = e" if "x \<in> set (webhook_endpoints d)" "whe_id x = eid" for x
    using assms(2) that e unique_key_eq [of whe_id "webhook_endpoints d" x e] by (simp add: endpoints_inv_def)
  have rows: "webhook_endpoints d' =
      update_where (\<lambda>r. whe_organization r = oid \<and> whe_id r = eid) g (webhook_endpoints d)"
    by (simp add: edit(1))
  have "endpoint_ok d x" if x: "x \<in> set (webhook_endpoints d')" for x
  proof -
    from x obtain y where y: "y \<in> set (webhook_endpoints d)"
      "x = (if whe_organization y = oid \<and> whe_id y = eid then g y else y)"
      using in_update_where [OF x [unfolded rows]] by blast
    have "endpoint_ok d y" using assms(2) y(1) by (simp add: endpoints_inv_def)
    moreover have "y = e" if "whe_id y = eid" using one [OF y(1) that] .
    ultimately show ?thesis using y(2) edit(4) by (cases "whe_organization y = oid \<and> whe_id y = eid") auto
  qed
  moreover have "distinct (map whe_id (webhook_endpoints d'))"
    unfolding edit(1) using assms(2) edit(3)
    by (auto simp: endpoints_inv_def intro: distinct_update_where)
  ultimately show ?thesis by (simp add: endpoints_inv_def same)
next
  case (drop eid)
  have "endpoint_ok d' = endpoint_ok d" unfolding drop by (rule endpoint_ok_cong) (simp_all add: drop_endpoints_def Let_def)
  with assms(2) show ?thesis
    by (auto simp: drop endpoints_inv_def set_delete_where intro: distinct_delete_where)
qed

lemma same_but_audit_endpoints_inv: "same_but_audit d d' \<Longrightarrow> endpoints_inv d' = endpoints_inv d"
  using endpoint_ok_cong [of d' d] by (simp add: endpoints_inv_def same_but_auditD)

lemma implements_endpoint_inv:
  "implements_endpoint_change oid d d' \<Longrightarrow> endpoints_inv d \<Longrightarrow> endpoints_inv d'"
  by (auto simp: implements_endpoint_change_def same_but_audit_endpoints_inv dest: endpoint_change_inv)

text \<open>Another organization's endpoints stay as they are.\<close>

definition endpoints_outside :: "uuid \<Rightarrow> db \<Rightarrow> webhook_endpoint_row list" where
  "endpoints_outside oid d = filter (\<lambda>e. whe_organization e \<noteq> oid) (webhook_endpoints d)"

lemma endpoint_change_isolated:
  assumes "endpoint_change oid d d'"
  shows "endpoints_outside oid d' = endpoints_outside oid d"
  using assms
proof cases
  case (edit eid e g)
  then show ?thesis
    by (auto simp: endpoints_outside_def intro: filter_update_where_disjoint)
qed (auto simp: endpoints_outside_def delete_where_def intro: filter_cong)

lemma implements_endpoint_isolated:
  "implements_endpoint_change oid d d' \<Longrightarrow> endpoints_outside oid d' = endpoints_outside oid d"
  by (auto simp: implements_endpoint_change_def endpoints_outside_def same_but_auditD
      dest!: endpoint_change_isolated)

text \<open>The endpoints and the deliveries together.\<close>

lemma distinct_map_filter_delete:
  "distinct (List.map_filter g t) \<Longrightarrow> distinct (List.map_filter g (delete_where p t))"
proof (induction t)
  case (Cons x t)
  have "set (List.map_filter g (delete_where p t)) \<subseteq> set (List.map_filter g t)"
    by (auto simp: List.map_filter_def delete_where_def)
  with Cons show ?case by (cases "g x") (auto simp: List.map_filter_simps)
qed (simp add: List.map_filter_simps)

lemma endpoint_change_deliveries_inv:
  assumes "endpoint_change oid d d'" and "deliveries_inv d"
  shows "deliveries_inv d'"
  using assms(1)
proof cases
  case keep
  with assms(2) show ?thesis by simp
next
  case (insert e)
  with assms(2) show ?thesis by (auto simp: deliveries_inv_def image_subset_iff)
next
  case (edit eid e g)
  have "map whe_id (webhook_endpoints d') = map whe_id (webhook_endpoints d)"
    using edit(3) by (simp add: edit(1) update_where_def)
  then have "whe_id ` set (webhook_endpoints d') = whe_id ` set (webhook_endpoints d)"
    "distinct (map whe_id (webhook_endpoints d')) = distinct (map whe_id (webhook_endpoints d))"
    by (metis list.set_map, simp)
  moreover have "webhook_deliveries d' = webhook_deliveries d" by (simp add: edit(1))
  ultimately show ?thesis using assms(2) by (simp add: deliveries_inv_def)
next
  case (drop eid)
  let ?p = "\<lambda>e. whe_organization e = oid \<and> whe_id e = eid"
  have w: "webhook_deliveries d' =
      delete_where (\<lambda>w. exists_row (\<lambda>e. whe_id e = whd_endpoint w \<and> ?p e) (webhook_endpoints d)) (webhook_deliveries d)"
    and e: "webhook_endpoints d' = delete_where ?p (webhook_endpoints d)"
    by (simp_all add: drop drop_endpoints_def Let_def)
  have "whd_endpoint w \<in> whe_id ` set (webhook_endpoints d')" if "w \<in> set (webhook_deliveries d')" for w
  proof -
    from that have v: "w \<in> set (webhook_deliveries d)"
      "\<not> exists_row (\<lambda>e. whe_id e = whd_endpoint w \<and> ?p e) (webhook_endpoints d)"
      by (auto simp: w set_delete_where)
    with assms(2) obtain x where "x \<in> set (webhook_endpoints d)" "whe_id x = whd_endpoint w"
      by (auto simp: deliveries_inv_def image_subset_iff)
    with v(2) show ?thesis by (force simp: e set_delete_where exists_row_iff)
  qed
  moreover have "distinct (List.map_filter delivery_pair (webhook_deliveries d'))"
    unfolding w using assms(2) by (intro distinct_map_filter_delete) (simp add: deliveries_inv_def)
  ultimately show ?thesis
    using assms(2)
    by (auto simp: deliveries_inv_def w e set_delete_where intro: distinct_delete_where)
qed

lemma implements_endpoint_deliveries_inv:
  assumes "implements_endpoint_change oid d d'" and "deliveries_inv d"
  shows "deliveries_inv d'"
proof -
  from assms obtain m where "endpoint_change oid d m" "same_but_audit m d'"
    by (auto simp: implements_endpoint_change_def)
  with endpoint_change_deliveries_inv [OF this(1) assms(2)] show ?thesis
    by (simp add: deliveries_inv_def same_but_auditD)
qed

lemma form_change_endpoints_inv:
  assumes "form_change uploads oid d d'" and "endpoints_inv d"
  shows "endpoints_inv d'"
proof -
  have "(\<forall>e \<in> set (webhook_endpoints d'). e \<in> set (webhook_endpoints d) \<and> (endpoint_ok d e \<longrightarrow> endpoint_ok d' e)) \<and>
      distinct (map whe_id (webhook_endpoints d'))"
    using assms(1)
  proof cases
    case keep
    with assms(2) show ?thesis by (simp add: endpoints_inv_def)
  next
    case (insert f)
    have "endpoint_ok d' e" if "endpoint_ok d e" for e
      using that by (auto simp: insert(1) endpoint_ok_def form_belongs_to_def exists_row_iff optional_def
          organization_exists_def split: option.splits)
    then show ?thesis using assms(2) by (simp add: insert(1) endpoints_inv_def)
  next
    case (edit fid f now g)
    have "form_belongs_to d' o' x = form_belongs_to d o' x" for o' x
    proof -
      have "map (\<lambda>h. (frm_organization h, frm_id h)) (forms d') = map (\<lambda>h. (frm_organization h, frm_id h)) (forms d)"
        using edit(4) by (simp add: edit(1) update_form_row_def update_where_def)
      then have "(\<lambda>h. (frm_organization h, frm_id h)) ` set (forms d') = (\<lambda>h. (frm_organization h, frm_id h)) ` set (forms d)"
        by (metis list.set_map)
      moreover have "form_belongs_to c o' x \<longleftrightarrow> (o', x) \<in> (\<lambda>h. (frm_organization h, frm_id h)) ` set (forms c)" for c
        by (auto simp: form_belongs_to_def exists_row_iff)
      ultimately show ?thesis by simp
    qed
    then have "endpoint_ok d' e" if "endpoint_ok d e" for e
      using that by (simp add: edit(1) endpoint_ok_def optional_def split: option.splits)
    moreover have "webhook_endpoints d' = webhook_endpoints d" by (simp add: edit(1) update_form_row_def)
    ultimately show ?thesis using assms(2) by (simp add: endpoints_inv_def)
  next
    case (delete fid)
    let ?p = "\<lambda>f. frm_organization f = oid \<and> frm_id f = fid"
    have rows: "webhook_endpoints d' = delete_where (\<lambda>e. case whe_form e of None \<Rightarrow> False
        | Some f \<Rightarrow> exists_row (\<lambda>h. frm_id h = f \<and> ?p h) (forms d)) (webhook_endpoints d)"
      by (simp add: delete drop_forms_def Let_def cong: option.case_cong)
    have "endpoint_ok d' e" if "e \<in> set (webhook_endpoints d')" "endpoint_ok d e" for e
      using that unfolding rows
      by (auto simp: delete endpoint_ok_def form_belongs_to_def exists_row_iff optional_def
          set_delete_where split: option.splits)
    moreover have "distinct (map whe_id (webhook_endpoints d'))"
      unfolding rows using assms(2) by (intro distinct_delete_where) (simp add: endpoints_inv_def)
    moreover have "set (webhook_endpoints d') \<subseteq> set (webhook_endpoints d)"
      by (auto simp: rows set_delete_where)
    ultimately show ?thesis by blast
  qed
  with assms(2) show ?thesis by (simp add: endpoints_inv_def)
qed

lemma form_step_endpoints_inv:
  assumes "form_step ext uploads d d'" and "endpoints_inv d"
  shows "endpoints_inv d'"
proof -
  from assms(1) obtain oid m where "form_change uploads oid d m" "same_but_audit m d'"
    by (auto simp: implements_form_change_def dest!: form_step_implements)
  with form_change_endpoints_inv [OF this(1) assms(2)] show ?thesis
    by (simp add: same_but_audit_endpoints_inv)
qed

section \<open>Histories\<close>

text \<open>Writes on endpoints, and on the forms of the organizations that have them.\<close>

inductive endpoint_step :: "externals \<Rightarrow> bool \<Rightarrow> bool \<Rightarrow> db \<Rightarrow> db \<Rightarrow> bool" for ext uploads allow where
  "endpoint_step ext uploads allow d (snd (create_endpoint allow oid r actor c eid secret now d))"
| "endpoint_step ext uploads allow d (snd (update_endpoint allow oid eid q actor c now d))"
| "endpoint_step ext uploads allow d (snd (delete_endpoint oid eid actor c now d))"
| "endpoint_step ext uploads allow d (snd (rotate_endpoint_secret oid eid actor c secret now d))"
| "form_step ext uploads d d' \<Longrightarrow> endpoint_step ext uploads allow d d'"

lemma endpoint_step_inv:
  "endpoint_step ext uploads allow d d' \<Longrightarrow> endpoints_inv d \<Longrightarrow> endpoints_inv d'"
  by (induction rule: endpoint_step.induct)
    (blast intro: implements_endpoint_inv endpoint_operations_implement form_step_endpoints_inv)+

text \<open>
  The life of the delivery log while no worker dies in the middle of a batch and nobody redelivers by
  hand: fan-outs, batches, writes on endpoints, and anything that leaves both tables alone.
\<close>

inductive delivery_reachable :: "externals \<Rightarrow> bool \<Rightarrow> db \<Rightarrow> bool" for ext allow where
  start: "webhook_deliveries d = [] \<Longrightarrow> distinct (map whe_id (webhook_endpoints d)) \<Longrightarrow>
    delivery_reachable ext allow d"
| fan_out: "delivery_reachable ext allow d \<Longrightarrow>
    delivery_reachable ext allow (snd (create_deliveries oid fid sid payload draw now d))"
| batch: "delivery_reachable ext allow d \<Longrightarrow>
    delivery_reachable ext allow (snd (deliverer_run_once ext l receiver clock now d))"
| created: "delivery_reachable ext allow d \<Longrightarrow>
    delivery_reachable ext allow (snd (create_endpoint allow oid r actor c eid secret now d))"
| updated: "delivery_reachable ext allow d \<Longrightarrow>
    delivery_reachable ext allow (snd (update_endpoint allow oid eid q actor c now d))"
| deleted: "delivery_reachable ext allow d \<Longrightarrow>
    delivery_reachable ext allow (snd (delete_endpoint oid eid actor c now d))"
| rotated: "delivery_reachable ext allow d \<Longrightarrow>
    delivery_reachable ext allow (snd (rotate_endpoint_secret oid eid actor c secret now d))"
| elsewhere: "delivery_reachable ext allow d \<Longrightarrow> webhook_deliveries d' = webhook_deliveries d \<Longrightarrow>
    webhook_endpoints d' = webhook_endpoints d \<Longrightarrow> delivery_reachable ext allow d'"

lemma delivery_reachable_inv: "delivery_reachable ext allow d \<Longrightarrow> deliveries_inv d"
proof (induction rule: delivery_reachable.induct)
  case (start d)
  then show ?case by (simp add: deliveries_inv_def List.map_filter_simps)
next
  case (fan_out d oid fid sid payload draw now)
  then show ?case using create_deliveries_inv by (metis prod.collapse)
next
  case (batch d l receiver clock now)
  then show ?case using deliverer_run_once_inv by blast
next
  case (elsewhere d d')
  then show ?case by (simp add: deliveries_inv_def)
qed (blast intro: implements_endpoint_deliveries_inv endpoint_operations_implement)+

lemma same_pair_same_row:
  assumes "deliveries_inv d" and "w \<in> set (webhook_deliveries d)" and "w' \<in> set (webhook_deliveries d)"
    and "delivery_pair w = Some p" and "delivery_pair w' = Some p"
  shows "w = w'"
proof -
  have "w = w'" if "distinct (List.map_filter delivery_pair t)" "w \<in> set t" "w' \<in> set t" for t
    using that
  proof (induction t)
    case (Cons x t)
    have "p \<in> set (List.map_filter delivery_pair t)" if "v \<in> set t" "delivery_pair v = Some p" for v
      using that by (force simp: List.map_filter_def)
    with Cons assms(4,5) show ?case
      by (cases "delivery_pair x") (auto simp: List.map_filter_simps)
  qed simp
  from this [of "webhook_deliveries d"] assms(1-3) show ?thesis by (simp add: deliveries_inv_def)
qed

end
