(* ===== verification/DeliveryRuns.thy ===== *)
theory DeliveryRuns
  imports DeliverySafety "HOL-Library.Multiset"
begin

text \<open>
  Webhook delivery as its workers run it: any number of them, each holding the deliveries of its claims and
  recording an outcome for them when it comes to it, early, late or never, while submissions are fanned out,
  members redeliver and rows are deleted. What the table allows a delivery in such a run: how often it is
  tried, and how long it belongs to whoever claimed it.
\<close>

section \<open>Runs\<close>

text \<open>
  The world beside the database: the claims that were handed out and whose outcome is not recorded (a worker
  that died holds its claims for ever), the deliveries whose latest change is a claim, and, for every
  delivery, how often a member redelivered it and how often it was claimed again because a lease ran out
  with nothing recorded.
\<close>

record delivery_world =
  dw_db :: db
  dw_flight :: "claimed_delivery multiset"
  dw_hanging :: "uuid set"
  dw_redelivered :: "uuid \<Rightarrow> nat"
  dw_lapsed :: "uuid \<Rightarrow> nat"

definition delivery_ids :: "db \<Rightarrow> uuid set" where
  "delivery_ids d = whd_id ` set (webhook_deliveries d)"

text \<open>Before anything is claimed.\<close>

definition fresh_world :: "db \<Rightarrow> delivery_world" where
  "fresh_world d = \<lparr>dw_db = d, dw_flight = {#}, dw_hanging = {}, dw_redelivered = (\<lambda>_. 0), dw_lapsed = (\<lambda>_. 0)\<rparr>"

text \<open>What a claim depends on.\<close>

definition delivery_core :: "webhook_delivery_row \<Rightarrow> uuid \<times> int \<times> delivery_status \<times> instant" where
  "delivery_core r = (whd_id r, whd_attempts r, whd_status r, whd_next_attempt_at r)"

text \<open>
  The label is the delivery an outcome is recorded for, or that is redelivered. A fan-out draws identifiers
  that no claim in flight carries; \<open>elsewhere\<close> is every statement that changes no row in what a claim
  depends on: rows may go with an endpoint, a form or an organization, and lose their submission.
\<close>

inductive delivery_event :: "externals \<Rightarrow> delivery_world \<Rightarrow> uuid option \<Rightarrow> delivery_world \<Rightarrow> bool" for ext where
  fan_out: "create_deliveries oid fid sid payload draw now (dw_db w) = (queued, d') \<Longrightarrow>
    (delivery_ids d' - delivery_ids (dw_db w)) \<inter> cld_id ` set_mset (dw_flight w) = {} \<Longrightarrow>
    delivery_event ext w None
      (w\<lparr>dw_db := d', dw_hanging := dw_hanging w - (delivery_ids d' - delivery_ids (dw_db w))\<rparr>)"
| claimed: "claim_delivery_rows l DELIVERY_LEASE_SECONDS now (dw_db w) = (rows, d') \<Longrightarrow>
    claim_due_deliveries l DELIVERY_LEASE_SECONDS now (dw_db w) = (handed, d') \<Longrightarrow>
    delivery_event ext w None
      (w\<lparr>dw_db := d', dw_flight := dw_flight w + mset (case handed of Inl _ \<Rightarrow> [] | Inr cs \<Rightarrow> cs),
         dw_hanging := dw_hanging w \<union> whd_id ` set rows,
         dw_lapsed := \<lambda>i. dw_lapsed w i + (if i \<in> whd_id ` set rows \<inter> dw_hanging w then 1 else 0)\<rparr>)"
| recorded: "c \<in># dw_flight w \<Longrightarrow>
    delivery_event ext w (Some (cld_id c))
      (w\<lparr>dw_db := deliver ext timestamp receiver now c (dw_db w), dw_flight := dw_flight w - {#c#},
         dw_hanging := dw_hanging w - {cld_id c}\<rparr>)"
| redelivered: "redeliver oid did actor now (dw_db w) = (Inr response, d') \<Longrightarrow>
    delivery_event ext w (Some did)
      (w\<lparr>dw_db := d', dw_hanging := dw_hanging w - {did},
         dw_redelivered := (dw_redelivered w)(did := dw_redelivered w did + 1)\<rparr>)"
| elsewhere: "distinct (map whd_id (webhook_deliveries d')) \<Longrightarrow>
    delivery_core ` set (webhook_deliveries d') \<subseteq> delivery_core ` set (webhook_deliveries (dw_db w)) \<Longrightarrow>
    delivery_event ext w None (w\<lparr>dw_db := d'\<rparr>)"


section \<open>What each statement does to a row\<close>

lemma claim_rows_of:
  assumes "distinct (map whd_id (webhook_deliveries d))"
    and "claim_delivery_rows l DELIVERY_LEASE_SECONDS now d = (rows, d')"
    and "r' \<in> set (webhook_deliveries d')"
  shows "(r' \<in> set rows \<and> (\<exists>r \<in> set (webhook_deliveries d). delivery_due now r \<and>
            r' = r\<lparr>whd_attempts := whd_attempts r + 1, whd_next_attempt_at := now + DELIVERY_LEASE_SECONDS\<rparr>)) \<or>
         (r' \<in> set (webhook_deliveries d) \<and> whd_id r' \<notin> whd_id ` set rows)"
proof -
  let ?upd = "\<lambda>r. r\<lparr>whd_attempts := whd_attempts r + 1, whd_next_attempt_at := now + DELIVERY_LEASE_SECONDS\<rparr>"
  let ?ids = "map whd_id (limit_offset l 0 (sort_key (\<lambda>w. (whd_next_attempt_at w, whd_id w))
      (filter (delivery_due now) (webhook_deliveries d))))"
  have cl: "rows = map ?upd (filter (\<lambda>r. whd_id r \<in> set ?ids) (webhook_deliveries d))"
      "webhook_deliveries d' = update_where (\<lambda>r. whd_id r \<in> set ?ids) ?upd (webhook_deliveries d)"
    using assms(2) by (auto simp: claim_delivery_rows_def claim_rows_def Let_def)
  obtain r where r: "r \<in> set (webhook_deliveries d)" "r' = (if whd_id r \<in> set ?ids then ?upd r else r)"
    using assms(3) in_update_where [of r'] unfolding cl(2) by blast
  show ?thesis
  proof (cases "whd_id r \<in> set ?ids")
    case True
    then obtain s where s: "s \<in> set (webhook_deliveries d)" "whd_id s = whd_id r" "delivery_due now s"
      using claim_ids [of whd_id r] by blast
    then have "s = r" using unique_key_eq [OF assms(1) s(1) r(1)] by simp
    with r True s(3) show ?thesis unfolding cl(1) by auto
  next
    case False
    with r show ?thesis unfolding cl(1) by auto
  qed
qed

lemma deliver_row:
  assumes "r' \<in> set (webhook_deliveries (deliver ext timestamp receiver now c d))"
  obtains r where "r \<in> set (webhook_deliveries d)" "whd_id r' = whd_id r" "whd_attempts r' = whd_attempts r"
    "whd_id r \<noteq> cld_id c \<longrightarrow> r' = r"
    "whd_id r = cld_id c \<longrightarrow> whd_status r' \<in> {Delivered, if cld_attempts c \<ge> 6 then FailedDelivery else PendingDelivery}"
  using assms that
  by (auto simp: deliver_def mark_delivered_def record_failure_def record_attempt_failure_def MAX_ATTEMPTS_def Let_def
      dest!: in_update_where split: http_outcome.splits if_splits)

lemma deliver_keys:
  "map whd_id (webhook_deliveries (deliver ext timestamp receiver now c d)) = map whd_id (webhook_deliveries d)"
  by (simp add: deliver_def mark_delivered_def record_failure_def record_attempt_failure_def Let_def
      update_where_def split: http_outcome.splits)

lemma redeliver_rows:
  assumes "redeliver oid did actor now d = (Inr response, d')"
  shows "webhook_deliveries d' = update_where (\<lambda>w. whd_organization w = oid \<and> whd_id w = did)
    (\<lambda>w. w\<lparr>whd_status := PendingDelivery, whd_next_attempt_at := now, whd_last_error := None\<rparr>) (webhook_deliveries d)"
  using assms by (auto simp: redeliver_def with_manager_Inr requeue_delivery_def split: if_splits)

lemma redeliver_row:
  assumes "redeliver oid did actor now d = (Inr response, d')" and "r' \<in> set (webhook_deliveries d')"
  obtains r where "r \<in> set (webhook_deliveries d)" "whd_id r' = whd_id r" "whd_attempts r' = whd_attempts r"
    "whd_id r \<noteq> did \<longrightarrow> r' = r" "whd_status r' \<in> {whd_status r, PendingDelivery}"
  using assms(2) that unfolding redeliver_rows [OF assms(1)] by (auto dest!: in_update_where split: if_splits)

lemma redeliver_keys:
  "redeliver oid did actor now d = (Inr response, d') \<Longrightarrow>
   map whd_id (webhook_deliveries d') = map whd_id (webhook_deliveries d)"
  by (simp add: redeliver_rows update_where_def)


section \<open>How often a delivery is tried\<close>

text \<open>
  One delivery: how often it was tried, its status, whether its latest change is a claim, the numbers of the
  attempts still in flight, and how many extra attempts redeliveries and lapsed leases gave it. A delivery
  that can be claimed counts with the claims in flight below six, each of which can open it once more.
\<close>

definition tries_within :: "int \<Rightarrow> delivery_status \<Rightarrow> bool \<Rightarrow> int multiset \<Rightarrow> int \<Rightarrow> bool" where
  "tries_within a s hanging held extra \<longleftrightarrow>
     (let claimable = (if s = PendingDelivery \<and> \<not> hanging then 1 else 0)
      in 0 \<le> a \<and> 0 \<le> extra \<and> (\<forall>n \<in># held. n \<le> a) \<and> (s = FailedDelivery \<longrightarrow> 6 \<le> a) \<and>
         (a < 6 \<longrightarrow> int (size held) + claimable \<le> 1 + extra) \<and>
         (6 \<le> a \<longrightarrow> a + int (size (filter_mset (\<lambda>n. n < 6) held)) + claimable \<le> 6 + extra))"

lemma tries_new: "0 \<le> extra \<Longrightarrow> tries_within 0 PendingDelivery False {#} extra"
  by (simp add: tries_within_def Let_def)

lemma tries_claim:
  assumes "tries_within a PendingDelivery hanging held extra" and "held' \<in> {held, add_mset (a + 1) held}"
  shows "tries_within (a + 1) PendingDelivery True held' (extra + (if hanging then 1 else 0))"
proof -
  define small where "small = int (size (filter_mset (\<lambda>n. n < 6) held))"
  have small: "small \<le> int (size held)" by (simp add: small_def)
  note t = assms(1) [unfolded tries_within_def Let_def small_def [symmetric]]
  have below: "\<forall>n \<in># held. n \<le> a + 1" using t by fastforce
  have sizes: "int (size held') \<le> int (size held) + 1"
      "int (size (filter_mset (\<lambda>n. n < 6) held')) \<le> small + (if a + 1 < 6 then 1 else 0)"
    using assms(2) by (auto simp: small_def)
  have "\<forall>n \<in># held'. n \<le> a + 1" using assms(2) below by auto
  moreover have "a + 1 < 6 \<longrightarrow> int (size held') \<le> 1 + (extra + (if hanging then 1 else 0))"
    using t sizes(1) by (auto split: if_splits)
  moreover have "6 \<le> a + 1 \<longrightarrow> a + 1 + int (size (filter_mset (\<lambda>n. n < 6) held')) \<le> 6 + (extra + (if hanging then 1 else 0))"
    using t sizes(2) small by (cases "a < 6") (auto split: if_splits)
  ultimately show ?thesis using t by (auto simp: tries_within_def)
qed

lemma tries_outcome:
  assumes "tries_within a s hanging (add_mset n held) extra"
    and "s' \<in> {Delivered, if n \<ge> 6 then FailedDelivery else PendingDelivery}"
  shows "tries_within a s' False held extra"
  using assms by (auto simp: tries_within_def Let_def split: if_splits)

lemma tries_redelivered:
  "tries_within a s hanging held extra \<Longrightarrow> s' \<in> {s, PendingDelivery} \<Longrightarrow> tries_within a s' False held (extra + 1)"
  by (auto simp: tries_within_def Let_def split: if_splits)

lemma tries_bound: "tries_within a s hanging held extra \<Longrightarrow> 0 \<le> a \<and> a \<le> 6 + extra"
  by (cases "a < 6") (auto simp: tries_within_def Let_def split: if_splits)

lemma tries_left:
  "tries_within a PendingDelivery False held extra \<Longrightarrow> a < 6 + extra"
  by (cases "a < 6") (auto simp: tries_within_def Let_def)

definition held :: "claimed_delivery multiset \<Rightarrow> uuid \<Rightarrow> int multiset" where
  "held M i = image_mset cld_attempts (filter_mset (\<lambda>c. cld_id c = i) M)"

definition extra_tries :: "delivery_world \<Rightarrow> uuid \<Rightarrow> int" where
  "extra_tries w i = int (dw_redelivered w i + dw_lapsed w i)"

definition row_within :: "delivery_world \<Rightarrow> webhook_delivery_row \<Rightarrow> bool" where
  "row_within w r \<longleftrightarrow> tries_within (whd_attempts r) (whd_status r) (whd_id r \<in> dw_hanging w)
     (held (dw_flight w) (whd_id r)) (extra_tries w (whd_id r))"

definition tries_inv :: "delivery_world \<Rightarrow> bool" where
  "tries_inv w \<longleftrightarrow> distinct (map whd_id (webhook_deliveries (dw_db w))) \<and>
     (\<forall>r \<in> set (webhook_deliveries (dw_db w)). row_within w r)"

lemma held_add: "held (M + N) i = held M i + held N i"
  by (simp add: held_def)

lemma held_mset: "held (mset cs) i = mset (map cld_attempts (filter (\<lambda>c. cld_id c = i) cs))"
  by (simp add: held_def flip: mset_filter)

lemma held_pairs:
  assumes "map cld_id cs = map whd_id rows" and "map cld_attempts cs = map whd_attempts rows"
  shows "map cld_attempts (filter (\<lambda>c. cld_id c = i) cs) = map whd_attempts (filter (\<lambda>r. whd_id r = i) rows)"
  using assms
proof (induction cs arbitrary: rows)
  case Nil
  then show ?case by simp
next
  case (Cons c cs)
  then show ?case by (cases rows) auto
qed

lemma filter_unique:
  "distinct (map f xs) \<Longrightarrow> x \<in> set xs \<Longrightarrow> filter (\<lambda>y. f y = f x) xs = [x]"
proof (induction xs)
  case (Cons y ys)
  then have "\<forall>z \<in> set ys. f z \<noteq> f y" by (auto simp: image_iff)
  with Cons show ?case by (cases "y = x") (auto simp: filter_empty_conv)
qed simp

lemma held_claimed:
  assumes "distinct (map whd_id (webhook_deliveries d))"
    and "claim_delivery_rows l DELIVERY_LEASE_SECONDS now d = (rows, d')"
    and "claim_due_deliveries l DELIVERY_LEASE_SECONDS now d = (handed, d')"
  shows "r \<in> set rows \<Longrightarrow> held (mset (case handed of Inl _ \<Rightarrow> [] | Inr cs \<Rightarrow> cs)) (whd_id r) \<in> {{#}, {#whd_attempts r#}}"
    and "i \<notin> whd_id ` set rows \<Longrightarrow> held (mset (case handed of Inl _ \<Rightarrow> [] | Inr cs \<Rightarrow> cs)) i = {#}"
proof -
  have pairs: "map cld_id cs = map whd_id rows \<and> map cld_attempts cs = map whd_attempts rows" if "handed = Inr cs" for cs
    using claim_due_deliveries_Inr [OF assms(3) [unfolded that]] assms(2) by (metis prod.inject)
  have held: "held (mset cs) i = mset (map whd_attempts (filter (\<lambda>r. whd_id r = i) rows))" if "handed = Inr cs" for cs i
    using pairs [OF that] by (simp only: held_mset held_pairs)
  have keys: "distinct (map whd_id rows)"
  proof -
    obtain t where "claim_rows (delivery_due now) (\<lambda>w. (whd_next_attempt_at w, whd_id w)) whd_id l
        (\<lambda>w. w\<lparr>whd_attempts := whd_attempts w + 1, whd_next_attempt_at := now + DELIVERY_LEASE_SECONDS\<rparr>)
        (webhook_deliveries d) = (rows, t)"
      using assms(2) by (auto simp: claim_delivery_rows_def split: prod.splits)
    from claim_rows_distinct [OF assms(1) _ this] show ?thesis by simp
  qed
  show "held (mset (case handed of Inl _ \<Rightarrow> [] | Inr cs \<Rightarrow> cs)) (whd_id r) \<in> {{#}, {#whd_attempts r#}}"
    if "r \<in> set rows"
    using held [of _ "whd_id r"] filter_unique [OF keys that] by (cases handed) (simp_all add: held_def)
  show "held (mset (case handed of Inl _ \<Rightarrow> [] | Inr cs \<Rightarrow> cs)) i = {#}" if "i \<notin> whd_id ` set rows"
  proof -
    have "filter (\<lambda>r. whd_id r = i) rows = []" using that by (auto simp: filter_empty_conv)
    with held [of _ i] show ?thesis by (cases handed) (simp_all add: held_def)
  qed
qed

lemma held_record:
  assumes "c \<in># M"
  shows "held M (cld_id c) = add_mset (cld_attempts c) (held (M - {#c#}) (cld_id c))"
    and "i \<noteq> cld_id c \<Longrightarrow> held (M - {#c#}) i = held M i"
  using assms by (auto simp: held_def dest!: multi_member_split)

lemma held_none: "i \<notin> cld_id ` set_mset M \<Longrightarrow> held M i = {#}"
  by (induction M) (auto simp: held_def)

lemma extra_nonneg: "0 \<le> extra_tries w i"
  by (simp add: extra_tries_def)

lemma tries_inv_event:
  assumes "delivery_event ext w lab w'" and "tries_inv w"
  shows "tries_inv w'"
  using assms(1)
proof (cases rule: delivery_event.cases)
  case (fan_out oid fid sid payload draw now queued d')
  from fan_out(3) show ?thesis
  proof (cases rule: create_deliveries_cases)
    case 1
    with assms(2) fan_out(2) show ?thesis by (simp add: tries_inv_def row_within_def extra_tries_def)
  next
    case (2 ts)
    let ?new = "delivery_ids d' - delivery_ids (dw_db w)"
    have "row_within w' r" if r: "r \<in> set (webhook_deliveries d')" for r
    proof (cases "r \<in> set (webhook_deliveries (dw_db w))")
      case True
      then have "whd_id r \<notin> ?new" by (auto simp: delivery_ids_def)
      with True assms(2) show ?thesis by (simp add: fan_out(2) tries_inv_def row_within_def extra_tries_def)
    next
      case False
      with r obtain e where e: "r = new_delivery oid sid payload now (draw (whe_id e)) (whe_id e)" "e \<in> set ts"
        by (auto simp: 2(3))
      have "whd_id r \<notin> delivery_ids (dw_db w)"
        using 2(4) e by (auto simp: 2(3) delivery_ids_def comp_def)
      with r have new: "whd_id r \<in> ?new" by (simp add: delivery_ids_def)
      with fan_out(4) have "held (dw_flight w) (whd_id r) = {#}" by (intro held_none) blast
      with new show ?thesis
        by (simp add: fan_out(2) row_within_def e new_delivery_def tries_new extra_nonneg)
    qed
    with 2(4) show ?thesis by (simp add: tries_inv_def fan_out(2))
  qed
next
  case (claimed l now rows d' handed)
  have keys: "distinct (map whd_id (webhook_deliveries (dw_db w)))" using assms(2) by (simp add: tries_inv_def)
  note held = held_claimed [OF keys claimed(3,4)]
  have "row_within w' r'" if r': "r' \<in> set (webhook_deliveries d')" for r'
    using claim_rows_of [OF keys claimed(3) r']
  proof (elim disjE conjE bexE)
    fix r
    assume r: "r' \<in> set rows" "r \<in> set (webhook_deliveries (dw_db w))" "delivery_due now r"
      and eq: "r' = r\<lparr>whd_attempts := whd_attempts r + 1, whd_next_attempt_at := now + DELIVERY_LEASE_SECONDS\<rparr>"
    have "row_within w r" using assms(2) r(2) by (simp add: tries_inv_def)
    then have t: "tries_within (whd_attempts r) PendingDelivery (whd_id r \<in> dw_hanging w)
        (held (dw_flight w) (whd_id r)) (extra_tries w (whd_id r))"
      using r(3) by (simp add: row_within_def delivery_due_def)
    have "held (dw_flight w') (whd_id r) \<in>
        {held (dw_flight w) (whd_id r), add_mset (whd_attempts r + 1) (held (dw_flight w) (whd_id r))}"
      using held(1) [OF r(1)] by (auto simp: claimed(2) held_add eq)
    moreover have id: "whd_id r \<in> whd_id ` set rows" using r(1) by (auto simp: eq intro: rev_image_eqI)
    then have "extra_tries w' (whd_id r) = extra_tries w (whd_id r) + (if whd_id r \<in> dw_hanging w then 1 else 0)"
      by (simp add: claimed(2) extra_tries_def)
    moreover have "whd_id r \<in> dw_hanging w'" using id by (simp add: claimed(2))
    ultimately show ?thesis
      using tries_claim [OF t] r(3) by (simp add: row_within_def eq delivery_due_def)
  next
    assume r: "r' \<in> set (webhook_deliveries (dw_db w))" "whd_id r' \<notin> whd_id ` set rows"
    with assms(2) held(2) [OF r(2)] show ?thesis
      by (auto simp: tries_inv_def row_within_def claimed(2) held_add extra_tries_def)
  qed
  moreover have "distinct (map whd_id (webhook_deliveries d'))"
    using delivery_queue.claim_keeps_keys [OF claimed(3)] keys by simp
  ultimately show ?thesis by (simp add: tries_inv_def claimed(2))
next
  case (recorded c timestamp receiver now)
  have keys: "distinct (map whd_id (webhook_deliveries (dw_db w)))" using assms(2) by (simp add: tries_inv_def)
  have "row_within w' r'" if r': "r' \<in> set (webhook_deliveries (dw_db w'))" for r'
  proof -
    from r' have "r' \<in> set (webhook_deliveries (deliver ext timestamp receiver now c (dw_db w)))" by (simp add: recorded(2))
    then obtain r where r: "r \<in> set (webhook_deliveries (dw_db w))" "whd_id r' = whd_id r" "whd_attempts r' = whd_attempts r"
      "whd_id r \<noteq> cld_id c \<longrightarrow> r' = r"
      "whd_id r = cld_id c \<longrightarrow> whd_status r' \<in> {Delivered, if cld_attempts c \<ge> 6 then FailedDelivery else PendingDelivery}"
      by (rule deliver_row)
    then have t: "row_within w r" using assms(2) by (simp add: tries_inv_def)
    show ?thesis
    proof (cases "whd_id r = cld_id c")
      case True
      with t have "tries_within (whd_attempts r) (whd_status r) (whd_id r \<in> dw_hanging w)
          (add_mset (cld_attempts c) (held (dw_flight w - {#c#}) (cld_id c))) (extra_tries w (whd_id r))"
        using held_record(1) [OF recorded(3)] by (simp add: row_within_def)
      from tries_outcome [OF this r(5) [rule_format, OF True]] True r(2,3) show ?thesis
        by (simp add: row_within_def recorded(2) extra_tries_def)
    next
      case False
      with t r(4) held_record(2) [OF recorded(3) False] show ?thesis
        by (simp add: row_within_def recorded(2) extra_tries_def)
    qed
  qed
  moreover have "distinct (map whd_id (webhook_deliveries (dw_db w')))" using keys by (simp add: recorded(2) deliver_keys)
  ultimately show ?thesis by (simp add: tries_inv_def)
next
  case (redelivered oid did actor now response d')
  have "row_within w' r'" if "r' \<in> set (webhook_deliveries d')" for r'
    using redelivered(3) that
  proof (rule redeliver_row)
    fix r assume r: "r \<in> set (webhook_deliveries (dw_db w))" "whd_id r' = whd_id r" "whd_attempts r' = whd_attempts r"
      "whd_id r \<noteq> did \<longrightarrow> r' = r" "whd_status r' \<in> {whd_status r, PendingDelivery}"
    then have t: "row_within w r" using assms(2) by (simp add: tries_inv_def)
    show ?thesis
    proof (cases "whd_id r = did")
      case True
      have "extra_tries w' did = extra_tries w did + 1" by (simp add: redelivered(2) extra_tries_def)
      with True tries_redelivered [OF t [unfolded row_within_def] r(5)] r(2,3) show ?thesis
        by (simp add: row_within_def redelivered(2))
    next
      case False
      with t r(4) show ?thesis by (simp add: row_within_def redelivered(2) extra_tries_def)
    qed
  qed
  with assms(2) redeliver_keys [OF redelivered(3)] show ?thesis by (simp add: tries_inv_def redelivered(2))
next
  case (elsewhere d')
  have "row_within w' r'" if "r' \<in> set (webhook_deliveries d')" for r'
  proof -
    from elsewhere(4) that obtain r where "r \<in> set (webhook_deliveries (dw_db w))" "delivery_core r' = delivery_core r"
      by blast
    with assms(2) show ?thesis
      by (auto simp: tries_inv_def row_within_def delivery_core_def elsewhere(2) extra_tries_def)
  qed
  with elsewhere(3) show ?thesis by (simp add: tries_inv_def elsewhere(2))
qed


section \<open>How long a delivery belongs to its worker\<close>

text \<open>The delivery \<open>i\<close> is held until \<open>until\<close>: the claim is in flight, and no row makes it due before.\<close>

definition leased :: "uuid \<Rightarrow> instant \<Rightarrow> delivery_world \<Rightarrow> bool" where
  "leased i until w \<longleftrightarrow> distinct (map whd_id (webhook_deliveries (dw_db w))) \<and>
     i \<in> cld_id ` set_mset (dw_flight w) \<and>
     (\<forall>r \<in> set (webhook_deliveries (dw_db w)). whd_id r = i \<longrightarrow>
        whd_status r \<noteq> PendingDelivery \<or> until \<le> whd_next_attempt_at r)"

lemma leased_event:
  assumes "delivery_event ext w lab w'" and "lab \<noteq> Some i" and "leased i until w"
  shows "leased i until w'"
  using assms(1)
proof (cases rule: delivery_event.cases)
  case (fan_out oid fid sid payload draw now queued d')
  from fan_out(3) show ?thesis
  proof (cases rule: create_deliveries_cases)
    case 1
    with assms(3) fan_out(2) show ?thesis by (simp add: leased_def)
  next
    case (2 ts)
    have "whd_id r \<noteq> i" if "r \<in> set (webhook_deliveries d')" "r \<notin> set (webhook_deliveries (dw_db w))" for r
    proof -
      from that have "whd_id r \<notin> delivery_ids (dw_db w)" using 2(4) by (auto simp: 2(3) delivery_ids_def comp_def)
      with that(1) have "whd_id r \<in> delivery_ids d' - delivery_ids (dw_db w)" by (simp add: delivery_ids_def)
      with fan_out(4) assms(3) show ?thesis by (auto simp: leased_def)
    qed
    with assms(3) 2(4) show ?thesis by (auto simp: leased_def fan_out(2))
  qed
next
  case (claimed l now rows d' handed)
  have keys: "distinct (map whd_id (webhook_deliveries (dw_db w)))" using assms(3) by (simp add: leased_def)
  have "whd_status r' \<noteq> PendingDelivery \<or> until \<le> whd_next_attempt_at r'"
    if r': "r' \<in> set (webhook_deliveries d')" "whd_id r' = i" for r'
    using claim_rows_of [OF keys claimed(3) r'(1)]
  proof (elim disjE conjE bexE)
    fix r
    assume r: "r \<in> set (webhook_deliveries (dw_db w))" "delivery_due now r"
      and eq: "r' = r\<lparr>whd_attempts := whd_attempts r + 1, whd_next_attempt_at := now + DELIVERY_LEASE_SECONDS\<rparr>"
    with assms(3) r'(2) have "until \<le> now" by (fastforce simp: leased_def delivery_due_def)
    then show ?thesis by (simp add: eq DELIVERY_LEASE_SECONDS_def)
  qed (use assms(3) r'(2) in \<open>auto simp: leased_def\<close>)
  moreover have "distinct (map whd_id (webhook_deliveries d'))"
    using delivery_queue.claim_keeps_keys [OF claimed(3)] keys by simp
  ultimately show ?thesis using assms(3) by (auto simp: leased_def claimed(2))
next
  case (recorded c timestamp receiver now)
  then have c: "cld_id c \<noteq> i" using assms(2) by auto
  have rows: "whd_status r' \<noteq> PendingDelivery \<or> until \<le> whd_next_attempt_at r'"
    if "r' \<in> set (webhook_deliveries (deliver ext timestamp receiver now c (dw_db w)))" "whd_id r' = i" for r'
    using that(1) by (rule deliver_row) (use assms(3) c that(2) in \<open>auto simp: leased_def\<close>)
  from assms(3) obtain k where k: "k \<in># dw_flight w" "cld_id k = i" by (auto simp: leased_def)
  with c have "k \<in># dw_flight w - {#c#}" by (auto simp: in_diff_count)
  with k(2) rows assms(3) show ?thesis by (auto simp: leased_def recorded(2) deliver_keys)
next
  case (redelivered oid did actor now response d')
  then have did: "did \<noteq> i" using assms(2) by auto
  have "whd_status r' \<noteq> PendingDelivery \<or> until \<le> whd_next_attempt_at r'"
    if "r' \<in> set (webhook_deliveries d')" "whd_id r' = i" for r'
    using redelivered(3) that(1) by (rule redeliver_row) (use assms(3) did that(2) in \<open>auto simp: leased_def\<close>)
  with assms(3) redeliver_keys [OF redelivered(3)] show ?thesis by (auto simp: leased_def redelivered(2))
next
  case (elsewhere d')
  have "whd_status r' \<noteq> PendingDelivery \<or> until \<le> whd_next_attempt_at r'"
    if "r' \<in> set (webhook_deliveries d')" "whd_id r' = i" for r'
  proof -
    from elsewhere(4) that(1) obtain r where "r \<in> set (webhook_deliveries (dw_db w))" "delivery_core r' = delivery_core r"
      by blast
    with assms(3) that(2) show ?thesis by (auto simp: leased_def delivery_core_def)
  qed
  with assms(3) elsewhere(3) show ?thesis by (auto simp: leased_def elsewhere(2))
qed

text \<open>A run of events, each with its label.\<close>

inductive delivery_run :: "externals \<Rightarrow> delivery_world \<Rightarrow> uuid option list \<Rightarrow> delivery_world \<Rightarrow> bool" for ext where
  none: "delivery_run ext w [] w"
| more: "delivery_run ext w labs w' \<Longrightarrow> delivery_event ext w' lab w'' \<Longrightarrow> delivery_run ext w (labs @ [lab]) w''"

lemma tries_inv_run: "delivery_run ext w labs w' \<Longrightarrow> tries_inv w \<Longrightarrow> tries_inv w'"
  by (induction rule: delivery_run.induct) (auto intro: tries_inv_event)

lemma leased_run:
  "delivery_run ext w labs w' \<Longrightarrow> Some i \<notin> set labs \<Longrightarrow> leased i until w \<Longrightarrow> leased i until w'"
  by (induction rule: delivery_run.induct) (auto intro: leased_event)

lemma leased_claim:
  assumes "distinct (map whd_id (webhook_deliveries (dw_db w)))"
    and "claim_due_deliveries l DELIVERY_LEASE_SECONDS now (dw_db w) = (Inr cs, d')" and "c \<in> set cs"
    and "dw_db w' = d'" and "c \<in># dw_flight w'"
  shows "leased (cld_id c) (now + DELIVERY_LEASE_SECONDS) w'"
proof -
  obtain rows where rows: "claim_delivery_rows l DELIVERY_LEASE_SECONDS now (dw_db w) = (rows, d')"
      "map cld_id cs = map whd_id rows"
    using assms(2) by (rule claim_due_deliveries_Inr)
  then have "cld_id c \<in> whd_id ` set rows" using assms(3) by (metis image_eqI set_map)
  have "now + DELIVERY_LEASE_SECONDS \<le> whd_next_attempt_at r'"
    if "r' \<in> set (webhook_deliveries d')" "whd_id r' = cld_id c" for r'
    using claim_rows_of [OF assms(1) rows(1) that(1)] \<open>cld_id c \<in> whd_id ` set rows\<close> that(2) by auto
  moreover have "distinct (map whd_id (webhook_deliveries d'))"
    using delivery_queue.claim_keeps_keys [OF rows(1)] assms(1) by simp
  ultimately show ?thesis using assms(4,5) by (auto simp: leased_def)
qed

lemma leased_not_claimed:
  assumes "leased i until w" and "claim_due_deliveries l lease t (dw_db w) = (Inr cs, d')" and "t < until"
  shows "i \<notin> set (map cld_id cs)"
proof
  assume i: "i \<in> set (map cld_id cs)"
  have keys: "distinct (map whd_id (webhook_deliveries (dw_db w)))" using assms(1) by (simp add: leased_def)
  obtain rows where rows: "claim_delivery_rows l lease t (dw_db w) = (rows, d')" "map cld_id cs = map whd_id rows"
    using assms(2) by (rule claim_due_deliveries_Inr)
  with i obtain r where "r \<in> set rows" "whd_id r = i" by auto
  with delivery_queue.claimed_was_due [OF keys rows(1)] obtain s where
    "s \<in> set (webhook_deliveries (dw_db w))" "delivery_due t s" "whd_id s = i" by metis
  with assms(1,3) show False by (auto simp: leased_def delivery_due_def)
qed

end
