(* ===== verification/Submissions.thy ===== *)
theory Submissions
  imports FormLifecycle
begin

text \<open>
  Public ingestion and the inbox: \<open>SubmissionRepository\<close>, the ledger of uploads
  (\<open>FileUploadRepository\<close>) and the submission half of \<open>FormService\<close>
  (\<open>src/src/modules/form/repository.rs\<close>, \<open>service.rs\<close>, \<open>model.rs\<close>, \<open>dto.rs\<close>). Whether the rate limiter
  (crate \<open>governor\<close>) lets a submission of this form through is the argument \<open>within_budget\<close>. A
  transaction that fails returns the database it found.
\<close>

section \<open>The write\<close>

record new_submission =
  new_organization :: uuid
  new_form :: uuid
  new_schema_version :: int
  new_data :: json
  new_files :: "json option"
  new_status :: submission_status
  new_ip_address :: "string option"
  new_user_agent :: "string option"
  new_referer :: "string option"
  new_notify :: bool

definition is_object :: "json \<Rightarrow> bool" where
  "is_object v \<longleftrightarrow> as_object v \<noteq> None"

text \<open>A \<open>jsonb\<close> value holds no text with the character U+0000: PostgreSQL refuses the parameter.\<close>

fun jsonb_ok :: "json \<Rightarrow> bool" where
  "jsonb_ok (JString s) = (CHR 0x00 \<notin> set s)"
| "jsonb_ok (JArray xs) = list_all jsonb_ok xs"
| "jsonb_ok (JObject m) = list_all (\<lambda>(k, v). CHR 0x00 \<notin> set k \<and> jsonb_ok v) m"
| "jsonb_ok _ = True"

text \<open>
  The outbox row is written by the same statement, when the form notifies somebody or an enabled
  endpoint of the organization watches the form. \<open>eid\<close> is the identity the table draws.
\<close>

definition webhook_matches :: "db \<Rightarrow> uuid \<Rightarrow> uuid \<Rightarrow> bool" where
  "webhook_matches d oid fid =
     exists_row (\<lambda>e. whe_organization e = oid \<and> whe_enabled e \<and> (whe_form e = None \<or> whe_form e = Some fid))
       (webhook_endpoints d)"

definition submission_event :: "externals \<Rightarrow> uuid \<Rightarrow> uuid \<Rightarrow> json" where
  "submission_event ext sid fid =
     JObject [(''form_id'', JString (uuid_text ext fid)), (''submission_id'', JString (uuid_text ext sid))]"

definition insert_submission ::
  "externals \<Rightarrow> new_submission \<Rightarrow> uuid \<Rightarrow> int \<Rightarrow> instant \<Rightarrow> db \<Rightarrow> (form_error + uuid) \<times> db" where
  "insert_submission ext n sid eid now d =
     (let files = (case new_files n of None \<Rightarrow> JObject [] | Some f \<Rightarrow> f);
          s = \<lparr>sub_id = sid, sub_organization = new_organization n, sub_form = new_form n,
               sub_schema_version = new_schema_version n, sub_data = new_data n, sub_files = files,
               sub_status = new_status n, sub_ip_address = new_ip_address n,
               sub_user_agent = new_user_agent n, sub_referer = new_referer n, sub_created_at = now\<rparr>;
          e = \<lparr>obx_id = eid, obx_organization = new_organization n, obx_kind = SubmissionReceivedKind,
               obx_payload = submission_event ext sid (new_form n), obx_attempts = 0,
               obx_available_at = now, obx_dispatched_at = None, obx_last_error = None,
               obx_created_at = now\<rparr>
      in if \<not> jsonb_ok (new_data n) \<or> \<not> jsonb_ok files
         then (Inl (Internal (OtherCause ''unsupported Unicode escape sequence'')), d)
         else if \<not> is_object (new_data n) \<or> \<not> is_object files then (Inl (Internal CheckViolation), d)
         else if exists_row (\<lambda>r. sub_id r = sid) (submissions d) then (Inl (Internal UniqueViolation), d)
         else if \<not> organization_exists d (new_organization n) \<or> \<not> form_exists d (new_form n)
         then (Inl (Internal ForeignKeyViolation), d)
         else (Inr sid,
               d\<lparr>submissions := submissions d @ [s],
                 outbox_events := outbox_events d @
                   (if new_notify n \<or> webhook_matches d (new_organization n) (new_form n)
                    then [e] else [])\<rparr>))"


section \<open>Claiming uploads\<close>

definition upload_metadata :: "file_upload_row \<Rightarrow> json" where
  "upload_metadata u =
     JObject [(''content_type'', JString (upl_content_type u)), (''filename'', JString (upl_filename u)),
              (''key'', JString (upl_object_key u)),
              (''size'', JNumber (if 0 \<le> upl_size_bytes u then PosInt (nat (upl_size_bytes u))
                                 else NegInt (upl_size_bytes u)))]"

definition lock_for_claim :: "db \<Rightarrow> uuid \<Rightarrow> string list \<Rightarrow> file_upload_row list" where
  "lock_for_claim d fid ks =
     sort_key upl_object_key (filter (\<lambda>u. upl_form u = fid \<and> upl_object_key u \<in> set ks) (file_uploads d))"

definition claimable :: "string list \<Rightarrow> file_upload_row \<Rightarrow> bool" where
  "claimable ks u \<longleftrightarrow> upl_object_key u \<in> set ks \<and> upl_submission u = None"

definition claim_uploads :: "uuid \<Rightarrow> string list \<Rightarrow> db \<Rightarrow> nat \<times> db" where
  "claim_uploads sid ks d =
     (rows_affected (claimable ks) (file_uploads d),
      d\<lparr>file_uploads :=
          update_where (claimable ks) (\<lambda>u. u\<lparr>upl_submission := Some sid\<rparr>) (file_uploads d)\<rparr>)"

text \<open>The file answers of a validated payload, as (field key, object key) pairs.\<close>

definition file_answers :: "form_schema \<Rightarrow> json \<Rightarrow> (string \<times> string) list" where
  "file_answers schema data =
     (case as_object data of
        None \<Rightarrow> []
      | Some answers \<Rightarrow>
          List.map_filter
            (\<lambda>f. map_option (\<lambda>k. (key f, k)) (Option.bind (map_of answers (key f)) as_str))
            (filter (\<lambda>f. field_type f = File) (schema_fields schema)))"

fun check_file_references ::
  "(string \<times> string) list \<Rightarrow> file_upload_row list \<Rightarrow> json_map \<Rightarrow> form_error + json_map" where
  "check_file_references [] recorded metadata = Inr metadata"
| "check_file_references ((field_key, object_key) # rest) recorded metadata =
     (case find (\<lambda>u. upl_object_key u = object_key) recorded of
        None \<Rightarrow> Inl (FileRejected (UnknownFile field_key))
      | Some u \<Rightarrow>
          if upl_submission u \<noteq> None then Inl (FileRejected (AlreadyUsed field_key))
          else if upl_field_key u \<noteq> field_key then Inl (FileRejected (OtherField field_key))
          else check_file_references rest recorded
                 (btree_insert field_key (upload_metadata u) metadata))"

definition insert_claiming_files ::
  "externals \<Rightarrow> new_submission \<Rightarrow> (string \<times> string) list \<Rightarrow> uuid \<Rightarrow> int \<Rightarrow> instant \<Rightarrow> db \<Rightarrow>
   (form_error + uuid) \<times> db" where
  "insert_claiming_files ext n answers sid eid now d =
     (let ks = map snd answers in
      guard_st (check_file_references answers (lock_for_claim d (new_form n) ks) []) d (\<lambda>metadata.
        case insert_submission ext (n\<lparr>new_files := Some (JObject metadata)\<rparr>) sid eid now d of
          (Inl e, _) \<Rightarrow> (Inl e, d)
        | (Inr i, d') \<Rightarrow>
            (case claim_uploads i ks d' of
               (claimed, d'') \<Rightarrow>
                 if claimed \<noteq> length ks then (Inl (FileRejected ClaimedMeanwhile), d)
                 else (Inr i, d''))))"


section \<open>Submitting\<close>

definition honeypot_was_filled :: "json_map \<Rightarrow> bool" where
  "honeypot_was_filled payload =
     (case map_of payload HONEYPOT_FIELD of
        None \<Rightarrow> False
      | Some JNull \<Rightarrow> False
      | Some (JString text) \<Rightarrow> trim text \<noteq> []
      | Some _ \<Rightarrow> True)"

record submission_accepted =
  acd_id :: uuid
  acd_success_message :: "string option"
  acd_redirect_url :: "string option"

definition submit ::
  "externals \<Rightarrow> bool \<Rightarrow> string \<Rightarrow> json_map \<Rightarrow> client_info \<Rightarrow> string option \<Rightarrow> uuid \<Rightarrow> int \<Rightarrow> instant \<Rightarrow> db \<Rightarrow>
   (form_error + submission_accepted) \<times> db" where
  "submit ext within_budget public payload client referer sid eid now d =
     guard_st (load_published d public) d (\<lambda>f.
       if \<not> within_budget then (Inl TooManySubmissions, d)
       else
         guard_st (map_err InvalidSubmission (validate_submission ext (frm_schema f) payload)) d (\<lambda>answers.
           let status = (if frm_honeypot_enabled f \<and> honeypot_was_filled payload then Spam else Unread);
               data = JObject answers;
               files = file_answers (frm_schema f) data;
               n = \<lparr>new_organization = frm_organization f, new_form = frm_id f,
                    new_schema_version = frm_schema_version f, new_data = data, new_files = None,
                    new_status = status, new_ip_address = ip_address client,
                    new_user_agent = user_agent client, new_referer = referer,
                    new_notify = frm_notify_emails f \<noteq> []\<rparr>
           in case (if files = [] then insert_submission ext n sid eid now d
                    else insert_claiming_files ext n files sid eid now d) of
                (Inl e, d') \<Rightarrow> (Inl e, d')
              | (Inr i, d') \<Rightarrow>
                  (Inr \<lparr>acd_id = i, acd_success_message = frm_success_message f,
                        acd_redirect_url = frm_redirect_url f\<rparr>, d')))"


section \<open>The inbox\<close>

record submission_filters =
  flt_form :: "uuid option"
  flt_status :: "submission_status option"
  flt_since :: "instant option"
  flt_until :: "instant option"
  flt_contains :: "(string \<times> json) option"

text \<open>
  \<open>data @> jsonb_build_object(key, value)\<close>: containment of \<open>jsonb\<close>, where numbers are compared by
  value, an object contains another when it has each of its entries, and an array when it has
  each of its elements in some order.
\<close>

fun number_value :: "number \<Rightarrow> rat" where
  "number_value (PosInt n) = of_nat n"
| "number_value (NegInt i) = of_int i"
| "number_value (Float f) = f"

lemma size_list_member: "y \<in> set ys \<Longrightarrow> size y < Suc (size_list size ys)"
  by (induction ys) auto

lemma size_entry_member: "(k, v) \<in> set m \<Longrightarrow> size v < Suc (size_list (size_prod (\<lambda>_. 0) size) m)"
  by (induction m) auto

function (sequential) json_contains :: "json \<Rightarrow> json \<Rightarrow> bool" where
  "json_contains (JObject m) (JObject m') =
     list_all (\<lambda>(k, v). case map_of m k of None \<Rightarrow> False | Some w \<Rightarrow> json_contains w v) m'"
| "json_contains (JArray xs) (JArray ys) = list_all (\<lambda>y. list_ex (\<lambda>x. json_contains x y) xs) ys"
| "json_contains (JNumber a) (JNumber b) = (number_value a = number_value b)"
| "json_contains (JString a) (JString b) = (a = b)"
| "json_contains (JBool a) (JBool b) = (a = b)"
| "json_contains JNull JNull = True"
| "json_contains _ _ = False"
  by pat_completeness auto

termination
  by (relation "measure (\<lambda>(_, v). size v)") (auto simp: size_list_member size_entry_member)

definition submission_matches :: "submission_filters \<Rightarrow> submission_row \<Rightarrow> bool" where
  "submission_matches flt s \<longleftrightarrow>
     (case flt_form flt of None \<Rightarrow> True | Some f \<Rightarrow> sub_form s = f) \<and>
     (case flt_status flt of None \<Rightarrow> True | Some st \<Rightarrow> sub_status s = st) \<and>
     (case flt_since flt of None \<Rightarrow> True | Some t \<Rightarrow> sub_created_at s \<ge> t) \<and>
     (case flt_until flt of None \<Rightarrow> True | Some t \<Rightarrow> sub_created_at s < t) \<and>
     (case flt_contains flt of None \<Rightarrow> True | Some (k, v) \<Rightarrow> json_contains (sub_data s) (JObject [(k, v)]))"

definition find_submission :: "db \<Rightarrow> uuid \<Rightarrow> uuid \<Rightarrow> submission_row option" where
  "find_submission d = scoped_find sub_organization sub_id (submissions d)"

text \<open>\<open>ORDER BY created_at DESC, id DESC\<close>: the ascending order, reversed.\<close>

definition inbox :: "db \<Rightarrow> uuid \<Rightarrow> submission_filters \<Rightarrow> submission_row list" where
  "inbox d oid flt =
     rev (sort_key (\<lambda>s. (sub_created_at s, sub_id s))
       (filter (\<lambda>s. sub_organization s = oid \<and> submission_matches flt s) (submissions d)))"

definition submissions_page :: "db \<Rightarrow> uuid \<Rightarrow> submission_filters \<Rightarrow> int \<Rightarrow> int \<Rightarrow> submission_row list" where
  "submissions_page d oid flt l i = limit_offset l i (inbox d oid flt)"

definition count_submissions :: "db \<Rightarrow> uuid \<Rightarrow> submission_filters \<Rightarrow> int" where
  "count_submissions d oid flt =
     int (rows_affected (\<lambda>s. sub_organization s = oid \<and> submission_matches flt s) (submissions d))"

definition set_submission_row_status :: "uuid \<Rightarrow> uuid \<Rightarrow> submission_status \<Rightarrow> db \<Rightarrow> bool \<times> db" where
  "set_submission_row_status oid sid status d =
     (find_submission d oid sid \<noteq> None,
      d\<lparr>submissions := update_where (\<lambda>s. sub_organization s = oid \<and> sub_id s = sid)
                          (\<lambda>s. s\<lparr>sub_status := status\<rparr>) (submissions d)\<rparr>)"

definition delete_submission_row :: "uuid \<Rightarrow> uuid \<Rightarrow> db \<Rightarrow> bool \<times> db" where
  "delete_submission_row oid sid d =
     (find_submission d oid sid \<noteq> None,
      drop_submissions (\<lambda>s. sub_organization s = oid \<and> sub_id s = sid) d)"

record submission_response =
  sre_id :: uuid
  sre_form :: uuid
  sre_schema_version :: int
  sre_data :: json
  sre_files :: json
  sre_status :: submission_status
  sre_created_at :: instant

definition submission_response_of :: "submission_row \<Rightarrow> submission_response" where
  "submission_response_of s =
     \<lparr>sre_id = sub_id s, sre_form = sub_form s, sre_schema_version = sub_schema_version s,
      sre_data = sub_data s, sre_files = sub_files s, sre_status = sub_status s,
      sre_created_at = sub_created_at s\<rparr>"

definition load_submission :: "db \<Rightarrow> uuid \<Rightarrow> uuid \<Rightarrow> form_error + submission_row" where
  "load_submission d oid sid = ok_or NotFound (find_submission d oid sid)"

definition list_submissions ::
  "uuid \<Rightarrow> uuid \<Rightarrow> submission_filters \<Rightarrow> int \<Rightarrow> int \<Rightarrow> db \<Rightarrow>
   (form_error + submission_response list \<times> int) \<times> db" where
  "list_submissions oid actor flt l i d =
     with_member of_organization_error d oid actor (\<lambda>_.
       (Inr (map submission_response_of (submissions_page d oid flt l i), count_submissions d oid flt), d))"

definition get_submission :: "uuid \<Rightarrow> uuid \<Rightarrow> uuid \<Rightarrow> db \<Rightarrow> (form_error + submission_response) \<times> db" where
  "get_submission oid sid actor d =
     with_member of_organization_error d oid actor (\<lambda>_.
     guard_st (load_submission d oid sid) d (\<lambda>s. (Inr (submission_response_of s), d)))"

definition set_submission_status ::
  "externals \<Rightarrow> uuid \<Rightarrow> uuid \<Rightarrow> submission_status \<Rightarrow> uuid \<Rightarrow> client_info \<Rightarrow> instant \<Rightarrow> db \<Rightarrow>
   (form_error + submission_response) \<times> db" where
  "set_submission_status ext oid sid status actor client now d =
     with_manager of_organization_error d oid actor (\<lambda>_.
     guard_st (load_submission d oid sid) d (\<lambda>s.
       case set_submission_row_status oid sid status d of
         (updated, d') \<Rightarrow>
           if \<not> updated then (Inl NotFound, d')
           else get_submission oid sid actor
                  (form_audit SubmissionStatusChanged oid actor sid
                    (Some (uuid_text ext (sub_form s))) client now d')))"

definition delete_submission ::
  "uuid \<Rightarrow> uuid \<Rightarrow> uuid \<Rightarrow> client_info \<Rightarrow> instant \<Rightarrow> db \<Rightarrow> (form_error + unit) \<times> db" where
  "delete_submission oid sid actor client now d =
     with_manager of_organization_error d oid actor (\<lambda>_.
       case delete_submission_row oid sid d of
         (gone, d') \<Rightarrow>
           if \<not> gone then (Inl NotFound, d')
           else (Inr (), form_audit SubmissionDeleted oid actor sid None client now d'))"

end
