(* ===== verification/Ingestion.thy ===== *)
theory Ingestion
  imports Submissions
begin

text \<open>
  What public ingestion promises: an accepted submission is stored once, in full, under the published
  form it names, with the outbox row it owes; a refused one leaves no trace; the honeypot gives
  nothing away; an upload belongs to one submission at most; the inbox shows a tenant its own.
\<close>

interpretation submission_table: tenant_table submissions sub_organization sub_id find_submission
  unfolding find_submission_def by (rule scoped_find_table)

section \<open>The insert\<close>

lemma insert_submission_Inl: "insert_submission ext n sid eid now d = (Inl e, d') \<Longrightarrow> d' = d"
  by (auto simp: insert_submission_def Let_def split: if_splits)

lemma insert_submission_error:
  "insert_submission ext n sid eid now d = (Inl e, d') \<Longrightarrow> e \<noteq> FileRejected r"
  by (auto simp: insert_submission_def Let_def split: if_splits)

lemma insert_submission_Inr:
  assumes "insert_submission ext n sid eid now d = (Inr i, d')"
  shows "i = sid" and "file_uploads d' = file_uploads d" and "forms d' = forms d"
    and "\<exists>s. submissions d' = submissions d @ [s] \<and> sub_id s = sid \<and> sub_form s = new_form n \<and>
      sub_organization s = new_organization n \<and> sub_data s = new_data n \<and> sub_status s = new_status n \<and>
      sub_schema_version s = new_schema_version n \<and> sub_created_at s = now \<and>
      sub_files s = (case new_files n of None \<Rightarrow> JObject [] | Some f \<Rightarrow> f)"
    and "sid \<notin> sub_id ` set (submissions d)"
    and "\<exists>es. outbox_events d' = outbox_events d @ es \<and>
      (es \<noteq> [] \<longleftrightarrow> new_notify n \<or> webhook_matches d (new_organization n) (new_form n)) \<and>
      (\<forall>e \<in> set es. obx_id e = eid \<and> obx_dispatched_at e = None \<and>
         obx_payload e = submission_event ext sid (new_form n) \<and> obx_organization e = new_organization n)"
  using assms by (auto simp: insert_submission_def Let_def table_simps split: if_splits)


text \<open>The rows the insert writes, in full.\<close>

definition stored_submission :: "new_submission \<Rightarrow> json \<Rightarrow> uuid \<Rightarrow> instant \<Rightarrow> submission_row" where
  "stored_submission n files sid now =
     \<lparr>sub_id = sid, sub_organization = new_organization n, sub_form = new_form n,
      sub_schema_version = new_schema_version n, sub_data = new_data n, sub_files = files,
      sub_status = new_status n, sub_ip_address = new_ip_address n, sub_user_agent = new_user_agent n,
      sub_referer = new_referer n, sub_created_at = now\<rparr>"

definition owed_event :: "externals \<Rightarrow> new_submission \<Rightarrow> uuid \<Rightarrow> int \<Rightarrow> instant \<Rightarrow> outbox_row" where
  "owed_event ext n sid eid now =
     \<lparr>obx_id = eid, obx_organization = new_organization n, obx_kind = SubmissionReceivedKind,
      obx_payload = submission_event ext sid (new_form n), obx_attempts = 0, obx_available_at = now,
      obx_dispatched_at = None, obx_last_error = None, obx_created_at = now\<rparr>"

lemma insert_submission_writes:
  assumes "insert_submission ext n sid eid now d = (Inr i, d')"
  shows "d' = d\<lparr>submissions := submissions d @
        [stored_submission n (case new_files n of None \<Rightarrow> JObject [] | Some f \<Rightarrow> f) sid now],
      outbox_events := outbox_events d @
        (if new_notify n \<or> webhook_matches d (new_organization n) (new_form n)
         then [owed_event ext n sid eid now] else [])\<rparr>"
  using assms by (auto simp: insert_submission_def stored_submission_def owed_event_def Let_def split: if_splits)


section \<open>Files\<close>

lemma map_fst_map_filter:
  "map fst (List.map_filter (\<lambda>x. map_option (\<lambda>k. (h x, k)) (g x)) xs) =
   map h (filter (\<lambda>x. g x \<noteq> None) xs)"
  by (induction xs) (auto simp: List.map_filter_simps)

lemma file_answers_distinct:
  assumes "well_formed_schema schema"
  shows "distinct (map fst (file_answers schema data))"
proof -
  have "distinct (map key (filter p (filter q (schema_fields schema))))" for p q
    using assms by (simp add: well_formed_schema_def distinct_map_filter)
  then show ?thesis
    by (auto simp: file_answers_def map_fst_map_filter split: option.splits)
qed

lemma check_file_references_Inr:
  "check_file_references answers recorded metadata = Inr m \<Longrightarrow> (fk, ok) \<in> set answers \<Longrightarrow>
   \<exists>u. find (\<lambda>u. upl_object_key u = ok) recorded = Some u \<and> upl_submission u = None \<and> upl_field_key u = fk"
  by (induction answers recorded metadata rule: check_file_references.induct)
    (auto split: option.splits if_splits)

lemma check_file_references_keys:
  assumes "check_file_references answers recorded metadata = Inr m" and "distinct (map fst answers)"
  shows "distinct (map snd answers)"
proof (rule ccontr)
  assume "\<not> distinct (map snd answers)"
  then obtain i j where ij: "i < j" "j < length answers" "snd (answers ! i) = snd (answers ! j)"
    by (auto simp: distinct_conv_nth) (metis linorder_neqE_nat)
  obtain fi ki fj kj where a: "answers ! i = (fi, ki)" "answers ! j = (fj, kj)"
    by (metis surj_pair)
  with ij have "(fi, ki) \<in> set answers" "(fj, ki) \<in> set answers"
    by (metis nth_mem order.strict_trans snd_conv)+
  from check_file_references_Inr [OF assms(1) this(1)] check_file_references_Inr [OF assms(1) this(2)]
  have "fi = fj" by auto
  moreover have "map fst answers ! i \<noteq> map fst answers ! j"
    using assms(2) ij(1,2) by (metis distinct_conv_nth length_map less_trans nat_neq_iff)
  then have "fi \<noteq> fj" using ij(1,2) a by simp
  ultimately show False by contradiction
qed

lemma check_file_references_metadata:
  "check_file_references answers recorded metadata = Inr m \<Longrightarrow> distinct (map fst answers) \<Longrightarrow>
   map_of m fk =
     (case map_of answers fk of
        None \<Rightarrow> map_of metadata fk
      | Some ok \<Rightarrow> map_option upload_metadata (find (\<lambda>u. upl_object_key u = ok) recorded))"
proof (induction answers recorded metadata rule: check_file_references.induct)
  case (1 recorded metadata)
  then show ?case by simp
next
  case (2 fk' ok rest recorded metadata)
  from "2.prems"(1) obtain u where u: "find (\<lambda>u. upl_object_key u = ok) recorded = Some u"
      "upl_submission u = None" "upl_field_key u = fk'"
      "check_file_references rest recorded (btree_insert fk' (upload_metadata u) metadata) = Inr m"
    by (auto split: option.splits if_splits)
  have fresh: "map_of rest fk' = None" and d: "distinct (map fst rest)"
    using "2.prems"(2) by (simp_all add: map_of_eq_None_iff)
  have "map_of m fk =
     (case map_of rest fk of
        None \<Rightarrow> map_of (btree_insert fk' (upload_metadata u) metadata) fk
      | Some ok \<Rightarrow> map_option upload_metadata (find (\<lambda>u. upl_object_key u = ok) recorded))"
    using "2.IH" [OF u(1)] u(2-4) d by simp
  then show ?case using fresh u(1) by (auto split: option.splits)
qed

lemma check_file_references_error:
  "check_file_references answers recorded metadata = Inl e \<Longrightarrow> \<exists>fk. e = FileRejected (UnknownFile fk) \<or>
   e = FileRejected (AlreadyUsed fk) \<or> e = FileRejected (OtherField fk)"
  by (induction answers recorded metadata rule: check_file_references.induct)
    (auto split: option.splits if_splits)

definition ledger_keys :: "db \<Rightarrow> bool" where
  "ledger_keys d \<longleftrightarrow> distinct (map upl_object_key (file_uploads d))"

lemma claim_count:
  assumes "ledger_keys d" and "distinct ks"
    and "\<And>k. k \<in> set ks \<Longrightarrow> \<exists>u \<in> set (file_uploads d). upl_object_key u = k \<and> upl_submission u = None"
  shows "fst (claim_uploads sid ks d) = length ks"
proof -
  let ?us = "filter (claimable ks) (file_uploads d)"
  have "set (map upl_object_key ?us) = set ks"
    using assms(3) by (force simp: claimable_def)
  moreover have "distinct (map upl_object_key ?us)"
    using assms(1) by (simp add: ledger_keys_def distinct_map_filter)
  ultimately have "length ?us = length ks"
    using assms(2) by (metis distinct_card length_map)
  then show ?thesis by (simp add: claim_uploads_def rows_affected_def)
qed

lemma lock_for_claim_find:
  "find (\<lambda>u. upl_object_key u = k) (lock_for_claim d fid ks) = Some u \<Longrightarrow>
   u \<in> set (file_uploads d) \<and> upl_object_key u = k \<and> upl_form u = fid \<and> k \<in> set ks"
  by (auto simp: lock_for_claim_def dest!: find_in_set)

text \<open>The branch of \<open>insert_claiming_files\<close> the comment calls unreachable is unreachable.\<close>

lemma insert_claiming_files_error:
  assumes "ledger_keys d" and "distinct (map fst answers)"
    and "insert_claiming_files ext n answers sid eid now d = (Inl e, d')"
  shows "e \<noteq> FileRejected ClaimedMeanwhile"
proof
  assume e: "e = FileRejected ClaimedMeanwhile"
  let ?ks = "map snd answers"
  obtain m where m: "check_file_references answers (lock_for_claim d (new_form n) ?ks) [] = Inr m"
    using assms(3) e check_file_references_error
    by (cases "check_file_references answers (lock_for_claim d (new_form n) ?ks) []")
      (fastforce simp: insert_claiming_files_def)+
  let ?n = "n\<lparr>new_files := Some (JObject m)\<rparr>"
  obtain i d1 where ins: "insert_submission ext ?n sid eid now d = (Inr i, d1)"
    and count: "fst (claim_uploads i ?ks d1) \<noteq> length ?ks"
  proof (cases "insert_submission ext ?n sid eid now d")
    case (Pair r d1)
    show ?thesis
    proof (cases r)
      case (Inl e')
      then have "e' = e" using assms(3) m Pair by (simp add: insert_claiming_files_def)
      then show ?thesis using insert_submission_error Pair Inl e by blast
    next
      case (Inr i)
      then show ?thesis
        using that assms(3) m Pair by (auto simp: insert_claiming_files_def split: prod.splits if_splits)
    qed
  qed
  have "fst (claim_uploads i ?ks d1) = length ?ks"
  proof (rule claim_count)
    show "ledger_keys d1" using assms(1) insert_submission_Inr(2) [OF ins] by (simp add: ledger_keys_def)
    show "distinct ?ks" by (rule check_file_references_keys [OF m assms(2)])
    show "\<exists>u \<in> set (file_uploads d1). upl_object_key u = k \<and> upl_submission u = None"
      if "k \<in> set ?ks" for k
    proof -
      from that obtain fk where "(fk, k) \<in> set answers" by auto
      from check_file_references_Inr [OF m this] show ?thesis
        using insert_submission_Inr(2) [OF ins] lock_for_claim_find by metis
    qed
  qed
  with count show False by contradiction
qed

lemma insert_claiming_files_step:
  assumes "insert_claiming_files ext n answers sid eid now d = (r, d')"
    and "check_file_references answers (lock_for_claim d (new_form n) (map snd answers)) [] = Inr m"
  shows "(\<exists>e. r = Inl e \<and> d' = d) \<or>
    (\<exists>i d1. insert_submission ext (n\<lparr>new_files := Some (JObject m)\<rparr>) sid eid now d = (Inr i, d1) \<and>
       r = Inr i \<and> d' = snd (claim_uploads i (map snd answers) d1))"
proof (cases "insert_submission ext (n\<lparr>new_files := Some (JObject m)\<rparr>) sid eid now d")
  case (Pair r1 d1)
  then show ?thesis
    using assms
    by (cases r1; cases "claim_uploads (projr r1) (map snd answers) d1")
      (auto simp: insert_claiming_files_def Let_def split: if_splits)
qed

lemma insert_claiming_files_Inl:
  assumes "insert_claiming_files ext n answers sid eid now d = (Inl e, d')"
  shows "d' = d"
  using assms insert_claiming_files_step [OF assms]
  by (cases "check_file_references answers (lock_for_claim d (new_form n) (map snd answers)) []")
    (auto simp: insert_claiming_files_def Let_def)

lemma insert_claiming_files_Inr:
  assumes "insert_claiming_files ext n answers sid eid now d = (Inr i, d')"
  obtains m d1 where
    "check_file_references answers (lock_for_claim d (new_form n) (map snd answers)) [] = Inr m"
    and "insert_submission ext (n\<lparr>new_files := Some (JObject m)\<rparr>) sid eid now d = (Inr i, d1)"
    and "d' = snd (claim_uploads i (map snd answers) d1)"
proof -
  from assms obtain m where
    m: "check_file_references answers (lock_for_claim d (new_form n) (map snd answers)) [] = Inr m"
    by (cases "check_file_references answers (lock_for_claim d (new_form n) (map snd answers)) []")
      (auto simp: insert_claiming_files_def Let_def)
  from insert_claiming_files_step [OF assms m] that [OF m] show ?thesis by auto
qed

text \<open>What a submission asks to store, from the form, the accepted answers and the request.\<close>

definition submission_to_store ::
  "form_record \<Rightarrow> json_map \<Rightarrow> json_map \<Rightarrow> client_info \<Rightarrow> string option \<Rightarrow> new_submission" where
  "submission_to_store f answers payload client referer =
     \<lparr>new_organization = frm_organization f, new_form = frm_id f,
      new_schema_version = frm_schema_version f, new_data = JObject answers, new_files = None,
      new_status = (if frm_honeypot_enabled f \<and> honeypot_was_filled payload then Spam else Unread),
      new_ip_address = ip_address client, new_user_agent = user_agent client, new_referer = referer,
      new_notify = frm_notify_emails f \<noteq> []\<rparr>"

definition store_answers ::
  "externals \<Rightarrow> form_record \<Rightarrow> json_map \<Rightarrow> new_submission \<Rightarrow> uuid \<Rightarrow> int \<Rightarrow> instant \<Rightarrow> db \<Rightarrow>
   (form_error + uuid) \<times> db" where
  "store_answers ext f answers n sid eid now d =
     (let files = file_answers (frm_schema f) (JObject answers)
      in if files = [] then insert_submission ext n sid eid now d
         else insert_claiming_files ext n files sid eid now d)"

lemma submit_steps:
  "submit ext ok public payload client referer sid eid now d =
     guard_st (load_published d public) d (\<lambda>f.
       if \<not> ok then (Inl TooManySubmissions, d)
       else guard_st (map_err InvalidSubmission (validate_submission ext (frm_schema f) payload)) d (\<lambda>answers.
         case store_answers ext f answers (submission_to_store f answers payload client referer)
                sid eid now d of
           (Inl e, d') \<Rightarrow> (Inl e, d')
         | (Inr i, d') \<Rightarrow>
             (Inr \<lparr>acd_id = i, acd_success_message = frm_success_message f,
                   acd_redirect_url = frm_redirect_url f\<rparr>, d')))"
  by (simp add: submit_def store_answers_def submission_to_store_def Let_def cong: if_cong)

lemma submit_Inr:
  assumes "submit ext ok public payload client referer sid eid now d = (Inr acc, d')"
  obtains f answers where
    "load_published d public = Inr f" and "ok"
    and "validate_submission ext (frm_schema f) payload = Inr answers"
    and "store_answers ext f answers (submission_to_store f answers payload client referer) sid eid now d
           = (Inr (acd_id acc), d')"
    and "acd_success_message acc = frm_success_message f" and "acd_redirect_url acc = frm_redirect_url f"
  using assms unfolding submit_steps by (auto simp: case_result_Inr split: if_splits)

lemma store_answers_Inl: "store_answers ext f answers n sid eid now d = (Inl e, d') \<Longrightarrow> d' = d"
  by (auto simp: store_answers_def Let_def split: if_splits
      dest: insert_submission_Inl insert_claiming_files_Inl)

lemma claim_uploads_frame [simp]:
  "submissions (snd (claim_uploads i ks d)) = submissions d"
  "outbox_events (snd (claim_uploads i ks d)) = outbox_events d"
  "forms (snd (claim_uploads i ks d)) = forms d"
  by (simp_all add: claim_uploads_def)

text \<open>The row and the events, whichever of the two paths stored them.\<close>

lemma store_answers_Inr:
  assumes "store_answers ext f answers n sid eid now d = (Inr i, d')"
  shows "i = sid" and "sid \<notin> sub_id ` set (submissions d)" and "forms d' = forms d"
    and "\<exists>s. submissions d' = submissions d @ [s] \<and> sub_id s = sid \<and> sub_form s = new_form n \<and>
      sub_organization s = new_organization n \<and> sub_data s = new_data n \<and> sub_status s = new_status n \<and>
      sub_schema_version s = new_schema_version n \<and> sub_created_at s = now"
    and "\<exists>es. outbox_events d' = outbox_events d @ es \<and>
      (es \<noteq> [] \<longleftrightarrow> new_notify n \<or> webhook_matches d (new_organization n) (new_form n)) \<and>
      (\<forall>e \<in> set es. obx_id e = eid \<and> obx_dispatched_at e = None \<and>
         obx_payload e = submission_event ext sid (new_form n) \<and> obx_organization e = new_organization n)"
proof -
  obtain n' d1 where ins: "insert_submission ext n' sid eid now d = (Inr i, d1)"
    and n': "n' = n\<lparr>new_files := new_files n'\<rparr>"
    and same: "submissions d' = submissions d1" "outbox_events d' = outbox_events d1" "forms d' = forms d1"
  proof (cases "file_answers (frm_schema f) (JObject answers) = []")
    case True
    with assms that [of n d'] show ?thesis by (simp add: store_answers_def)
  next
    case False
    with assms have "insert_claiming_files ext n (file_answers (frm_schema f) (JObject answers)) sid eid now d
        = (Inr i, d')" by (simp add: store_answers_def Let_def)
    then show ?thesis
      by (rule insert_claiming_files_Inr) (erule that; simp)
  qed
  have sel: "new_form n' = new_form n" "new_organization n' = new_organization n" "new_data n' = new_data n"
    "new_status n' = new_status n" "new_schema_version n' = new_schema_version n" "new_notify n' = new_notify n"
    by (subst n', simp)+
  note ins' = insert_submission_Inr [OF ins, unfolded sel]
  from ins'(1,5) show "i = sid" "sid \<notin> sub_id ` set (submissions d)" by simp_all
  from ins'(3) same(3) show "forms d' = forms d" by simp
  from ins'(4) show "\<exists>s. submissions d' = submissions d @ [s] \<and> sub_id s = sid \<and> sub_form s = new_form n \<and>
      sub_organization s = new_organization n \<and> sub_data s = new_data n \<and> sub_status s = new_status n \<and>
      sub_schema_version s = new_schema_version n \<and> sub_created_at s = now"
    unfolding same by blast
  from ins'(6) show "\<exists>es. outbox_events d' = outbox_events d @ es \<and>
      (es \<noteq> [] \<longleftrightarrow> new_notify n \<or> webhook_matches d (new_organization n) (new_form n)) \<and>
      (\<forall>e \<in> set es. obx_id e = eid \<and> obx_dispatched_at e = None \<and>
         obx_payload e = submission_event ext sid (new_form n) \<and> obx_organization e = new_organization n)"
    unfolding same .
qed

lemma store_answers_writes:
  assumes "store_answers ext f answers n sid eid now d = (Inr i, d')" and "new_files n = None"
  obtains m where
    "check_file_references (file_answers (frm_schema f) (JObject answers))
       (lock_for_claim d (new_form n) (map snd (file_answers (frm_schema f) (JObject answers)))) [] = Inr m"
    "submissions d' = submissions d @ [stored_submission n (JObject m) sid now]"
    "outbox_events d' = outbox_events d @
       (if new_notify n \<or> webhook_matches d (new_organization n) (new_form n)
        then [owed_event ext n sid eid now] else [])"
    "d'\<lparr>submissions := submissions d, outbox_events := outbox_events d, file_uploads := file_uploads d\<rparr> = d"
proof (cases "file_answers (frm_schema f) (JObject answers) = []")
  case True
  with assms(1) have "insert_submission ext n sid eid now d = (Inr i, d')" by (simp add: store_answers_def)
  from insert_submission_writes [OF this] True assms(2) that [of "[]"] show thesis by simp
next
  case False
  with assms(1) have "insert_claiming_files ext n (file_answers (frm_schema f) (JObject answers)) sid eid now d
      = (Inr i, d')" by (simp add: store_answers_def Let_def)
  then obtain m d1 where m: "check_file_references (file_answers (frm_schema f) (JObject answers))
       (lock_for_claim d (new_form n) (map snd (file_answers (frm_schema f) (JObject answers)))) [] = Inr m"
    and ins: "insert_submission ext (n\<lparr>new_files := Some (JObject m)\<rparr>) sid eid now d = (Inr i, d1)"
    and d': "d' = snd (claim_uploads i (map snd (file_answers (frm_schema f) (JObject answers))) d1)"
    by (rule insert_claiming_files_Inr)
  from insert_submission_writes [OF ins] d' show thesis
    by (intro that [OF m]) (simp_all add: claim_uploads_def stored_submission_def owed_event_def)
qed


section \<open>What the claim does\<close>

lemma claimed_row:
  assumes "ledger_keys d" and "check_file_references answers (lock_for_claim d fid ks) [] = Inr m"
    and "(fk, k) \<in> set answers"
  shows "\<exists>u \<in> set (file_uploads d). upl_object_key u = k \<and> upl_form u = fid \<and> upl_field_key u = fk \<and>
    upl_submission u = None \<and> find (\<lambda>u. upl_object_key u = k) (lock_for_claim d fid ks) = Some u"
  using check_file_references_Inr [OF assms(2,3)] lock_for_claim_find by metis

lemma claim_uploads_rows:
  assumes "ledger_keys d"
    and "\<And>k. k \<in> set ks \<Longrightarrow> \<exists>u \<in> set (file_uploads d). upl_object_key u = k \<and> upl_submission u = None"
  shows "file_uploads (snd (claim_uploads sid ks d)) =
    map (\<lambda>u. if upl_object_key u \<in> set ks then u\<lparr>upl_submission := Some sid\<rparr> else u) (file_uploads d)"
proof -
  have "claimable ks u \<longleftrightarrow> upl_object_key u \<in> set ks" if "u \<in> set (file_uploads d)" for u
    using that assms(2) [of "upl_object_key u"] assms(1) unique_key_eq [of upl_object_key "file_uploads d"]
    unfolding claimable_def ledger_keys_def by metis
  then show ?thesis by (simp add: claim_uploads_def update_where_def)
qed

lemma store_answers_claims:
  assumes "ledger_keys d" and "well_formed_schema (frm_schema f)"
    and "store_answers ext f answers n sid eid now d = (Inr i, d')"
  defines "answered \<equiv> file_answers (frm_schema f) (JObject answers)"
  shows "file_uploads d' = map (\<lambda>u. if upl_object_key u \<in> snd ` set answered
      then u\<lparr>upl_submission := Some sid\<rparr> else u) (file_uploads d)"
    and "(fk, k) \<in> set answered \<Longrightarrow> \<exists>u \<in> set (file_uploads d). upl_object_key u = k \<and>
      upl_form u = new_form n \<and> upl_field_key u = fk \<and> upl_submission u = None \<and>
      (\<exists>s m. submissions d' = submissions d @ [s] \<and> sub_files s = JObject m \<and>
         map_of m fk = Some (upload_metadata u))"
proof (atomize (full), cases "answered = []")
  case True
  with assms(3) have "insert_submission ext n sid eid now d = (Inr i, d')"
    by (simp add: store_answers_def answered_def)
  from insert_submission_Inr(2) [OF this] True
  show "file_uploads d' = map (\<lambda>u. if upl_object_key u \<in> snd ` set answered
      then u\<lparr>upl_submission := Some sid\<rparr> else u) (file_uploads d) \<and>
    ((fk, k) \<in> set answered \<longrightarrow> (\<exists>u \<in> set (file_uploads d). upl_object_key u = k \<and>
      upl_form u = new_form n \<and> upl_field_key u = fk \<and> upl_submission u = None \<and>
      (\<exists>s m. submissions d' = submissions d @ [s] \<and> sub_files s = JObject m \<and>
         map_of m fk = Some (upload_metadata u))))" by simp
next
  case False
  with assms(3) have "insert_claiming_files ext n answered sid eid now d = (Inr i, d')"
    by (simp add: store_answers_def Let_def answered_def)
  then obtain m d1 where m: "check_file_references answered (lock_for_claim d (new_form n) (map snd answered)) [] = Inr m"
    and ins: "insert_submission ext (n\<lparr>new_files := Some (JObject m)\<rparr>) sid eid now d = (Inr i, d1)"
    and d': "d' = snd (claim_uploads i (map snd answered) d1)"
    by (rule insert_claiming_files_Inr)
  note ins' = insert_submission_Inr [OF ins]
  have rows: "\<exists>u \<in> set (file_uploads d). upl_object_key u = k \<and> upl_submission u = None"
    if "k \<in> set (map snd answered)" for k
    using claimed_row [OF assms(1) m] that by fastforce
  have "file_uploads d' = map (\<lambda>u. if upl_object_key u \<in> snd ` set answered
      then u\<lparr>upl_submission := Some sid\<rparr> else u) (file_uploads d)"
    using claim_uploads_rows [of d1 "map snd answered"] rows assms(1) ins'(1,2)
    by (simp add: d' ledger_keys_def)
  moreover have "\<exists>u \<in> set (file_uploads d). upl_object_key u = k \<and>
      upl_form u = new_form n \<and> upl_field_key u = fk \<and> upl_submission u = None \<and>
      (\<exists>s m. submissions d' = submissions d @ [s] \<and> sub_files s = JObject m \<and>
         map_of m fk = Some (upload_metadata u))" if mem: "(fk, k) \<in> set answered"
  proof -
    have dist: "distinct (map fst answered)"
      unfolding answered_def by (rule file_answers_distinct [OF assms(2)])
    obtain u where u: "u \<in> set (file_uploads d)" "upl_object_key u = k" "upl_form u = new_form n"
      "upl_field_key u = fk" "upl_submission u = None"
      "find (\<lambda>u. upl_object_key u = k) (lock_for_claim d (new_form n) (map snd answered)) = Some u"
      using claimed_row [OF assms(1) m mem] by blast
    have "map_of m fk = Some (upload_metadata u)"
      using check_file_references_metadata [OF m dist, of fk] mem dist u(6) by simp
    moreover from ins'(4) obtain s where "submissions d' = submissions d @ [s]" "sub_files s = JObject m"
      by (auto simp: d')
    ultimately show ?thesis using u(1-5) by blast
  qed
  ultimately show "file_uploads d' = map (\<lambda>u. if upl_object_key u \<in> snd ` set answered
      then u\<lparr>upl_submission := Some sid\<rparr> else u) (file_uploads d) \<and>
    ((fk, k) \<in> set answered \<longrightarrow> (\<exists>u \<in> set (file_uploads d). upl_object_key u = k \<and>
      upl_form u = new_form n \<and> upl_field_key u = fk \<and> upl_submission u = None \<and>
      (\<exists>s m. submissions d' = submissions d @ [s] \<and> sub_files s = JObject m \<and>
         map_of m fk = Some (upload_metadata u))))" by blast
qed

section \<open>The honeypot\<close>

definition without_honeypot :: "json_map \<Rightarrow> json_map" where
  "without_honeypot payload = filter (\<lambda>(k, _). k \<noteq> HONEYPOT_FIELD) payload"

lemma honeypot_reserved: "is_reserved HONEYPOT_FIELD"
  by (simp add: is_reserved_def HONEYPOT_FIELD_def starts_with_def RESERVED_PREFIX_def)

lemma collect_answers_without_honeypot:
  "collect_answers ext schema (without_honeypot payload) acc = collect_answers ext schema payload acc"
  by (induction ext schema payload acc rule: collect_answers.induct)
    (auto simp: without_honeypot_def honeypot_reserved split: option.splits prod.splits)

lemma map_of_without_honeypot:
  "k \<noteq> HONEYPOT_FIELD \<Longrightarrow> map_of (without_honeypot payload) k = map_of payload k"
  by (induction payload) (auto simp: without_honeypot_def)

lemma validate_without_honeypot:
  assumes "well_formed_schema schema"
  shows "validate_submission ext schema (without_honeypot payload) = validate_submission ext schema payload"
proof -
  have "key f \<noteq> HONEYPOT_FIELD" if "f \<in> set (schema_fields schema)" for f
    using that assms honeypot_reserved valid_key_not_reserved
    by (auto simp: well_formed_schema_def well_formed_field_def)
  then have "missing_required schema (without_honeypot payload) = missing_required schema payload"
    by (auto simp: missing_required_def map_of_without_honeypot intro!: arg_cong [where f = "map _"] filter_cong)
  then show ?thesis by (simp add: validate_submission_def collect_answers_without_honeypot)
qed

lemma not_filled_without_honeypot: "\<not> honeypot_was_filled (without_honeypot payload)"
proof -
  have "map_of (without_honeypot payload) HONEYPOT_FIELD = None"
    by (induction payload) (auto simp: without_honeypot_def)
  then show ?thesis by (simp add: honeypot_was_filled_def)
qed

text \<open>Two databases that differ in the status of submissions only.\<close>

definition same_but_status :: "db \<Rightarrow> db \<Rightarrow> bool" where
  "same_but_status d d' \<longleftrightarrow>
     d' = d\<lparr>submissions := submissions d'\<rparr> \<and>
     map (\<lambda>s. s\<lparr>sub_status := Unread\<rparr>) (submissions d') = map (\<lambda>s. s\<lparr>sub_status := Unread\<rparr>) (submissions d)"

lemma same_but_status_refl [simp]: "same_but_status d d"
  by (simp add: same_but_status_def)

lemma insert_submission_status:
  "fst (insert_submission ext (n\<lparr>new_status := st\<rparr>) sid eid now d) = fst (insert_submission ext n sid eid now d) \<and>
   same_but_status (snd (insert_submission ext n sid eid now d))
     (snd (insert_submission ext (n\<lparr>new_status := st\<rparr>) sid eid now d))"
  by (simp add: insert_submission_def Let_def same_but_status_def)

lemma claim_uploads_status:
  assumes "same_but_status d d'"
  shows "fst (claim_uploads i ks d') = fst (claim_uploads i ks d) \<and>
    same_but_status (snd (claim_uploads i ks d)) (snd (claim_uploads i ks d'))"
proof -
  from assms obtain ss where "d' = d\<lparr>submissions := ss\<rparr>"
    "map (\<lambda>s. s\<lparr>sub_status := Unread\<rparr>) ss = map (\<lambda>s. s\<lparr>sub_status := Unread\<rparr>) (submissions d)"
    by (metis same_but_status_def)
  then show ?thesis by (simp add: claim_uploads_def same_but_status_def)
qed

lemma insert_claiming_files_status:
  "fst (insert_claiming_files ext (n\<lparr>new_status := st\<rparr>) answers sid eid now d) =
     fst (insert_claiming_files ext n answers sid eid now d) \<and>
   same_but_status (snd (insert_claiming_files ext n answers sid eid now d))
     (snd (insert_claiming_files ext (n\<lparr>new_status := st\<rparr>) answers sid eid now d))"
proof (cases "check_file_references answers (lock_for_claim d (new_form n) (map snd answers)) []")
  case (Inl e)
  then show ?thesis by (simp add: insert_claiming_files_def Let_def)
next
  case (Inr m)
  let ?n = "n\<lparr>new_files := Some (JObject m)\<rparr>"
  have swap: "n\<lparr>new_status := st, new_files := Some (JObject m)\<rparr> = ?n\<lparr>new_status := st\<rparr>" by simp
  obtain r d1 d2 where r: "insert_submission ext ?n sid eid now d = (r, d1)"
    "insert_submission ext (?n\<lparr>new_status := st\<rparr>) sid eid now d = (r, d2)" "same_but_status d1 d2"
    using insert_submission_status [of ext st ?n sid eid now d] by (metis prod.collapse)
  show ?thesis
  proof (cases r)
    case (Inl e)
    with Inr r show ?thesis by (simp add: insert_claiming_files_def Let_def swap del: new_submission.update_convs)
  next
    case (Inr i)
    obtain c d3 d4 where c: "claim_uploads i (map snd answers) d1 = (c, d3)"
      "claim_uploads i (map snd answers) d2 = (c, d4)" "same_but_status d3 d4"
      using claim_uploads_status [OF r(3)] by (metis prod.collapse)
    from \<open>check_file_references answers (lock_for_claim d (new_form n) (map snd answers)) [] = Inr m\<close> Inr r c
    show ?thesis
      by (simp add: insert_claiming_files_def Let_def swap del: new_submission.update_convs)
  qed
qed

lemma store_answers_status:
  "fst (store_answers ext f answers (n\<lparr>new_status := st\<rparr>) sid eid now d) =
     fst (store_answers ext f answers n sid eid now d) \<and>
   same_but_status (snd (store_answers ext f answers n sid eid now d))
     (snd (store_answers ext f answers (n\<lparr>new_status := st\<rparr>) sid eid now d))"
  using insert_submission_status insert_claiming_files_status by (simp add: store_answers_def Let_def)

lemma submission_to_store_without_honeypot:
  "submission_to_store f answers (without_honeypot payload) client referer =
     (submission_to_store f answers payload client referer)\<lparr>new_status := Unread\<rparr>"
  by (simp add: submission_to_store_def not_filled_without_honeypot)

lemma load_published_Inr:
  assumes "load_published d public = Inr f"
  shows "f \<in> set (forms d) \<and> frm_public_id f = public \<and> frm_status f = Published"
proof (cases "find_by_public_id d public")
  case None
  with assms show ?thesis by (simp add: load_published_def)
next
  case (Some g)
  with assms have "g = f \<and> frm_status g = Published"
    by (cases "frm_status g") (simp_all add: load_published_def)
  with Some show ?thesis by (auto simp: find_by_public_id_def dest: find_in_set)
qed

lemma resolve_access_role: "resolve_access d oid u = Inr a \<Longrightarrow> role_of d oid u = Some (acc_role a)"
  by (auto simp: resolve_access_def find_access_def split: option.split_asm)

section \<open>A published form, and one that asks for a file\<close>

lemma acme_published: "load_published (acme Published) contact_token = Inr (contact_form\<lparr>frm_status := Published\<rparr>)"
  by (simp add: load_published_def find_by_public_id_def acme_def contact_form_def)

lemma contact_no_files: "file_answers contact_schema data = []"
  by (simp add: file_answers_def contact_schema_def contact_field_def List.map_filter_simps split: option.splits)

lemma acme_rows:
  "submissions (acme s) = []" "outbox_events (acme s) = []" "file_uploads (acme s) = []"
  "organization_exists (acme s) 7" "form_exists (acme s) 9" "webhook_endpoints (acme s) = []"
  by (simp_all add: acme_def two_owners_def empty_db_def organization_exists_def form_exists_def exists_row_def
      contact_form_def)

lemma acme_submit:
  "submit sample_externals True contact_token contact_payload no_client None 77 3 60 (acme Published) =
     (Inr \<lparr>acd_id = 77, acd_success_message = None, acd_redirect_url = None\<rparr>,
      snd (submit sample_externals True contact_token contact_payload no_client None 77 3 60 (acme Published)))"
proof -
  have "frm_schema contact_form = contact_schema" "frm_success_message contact_form = None"
    "frm_redirect_url contact_form = None" "frm_organization contact_form = 7" "frm_id contact_form = 9"
    by (simp_all add: contact_form_def)
  then show ?thesis
    by (simp add: submit_steps acme_published contact_accepted store_answers_def contact_no_files
        insert_submission_def submission_to_store_def Let_def is_object_def exists_row_def acme_rows)
qed

definition cv_field :: field_definition where
  "cv_field = contact_field\<lparr>key := ''cv'', field_type := File, min_length := None, max_bytes := Some 4096\<rparr>"

definition cv_schema :: form_schema where
  "cv_schema = contact_schema\<lparr>schema_fields := [cv_field]\<rparr>"

definition cv_upload :: file_upload_row where
  "cv_upload = \<lparr>upl_id = 21, upl_organization = 7, upl_form = 9, upl_field_key = ''cv'', upl_object_key = ''k21'',
     upl_filename = ''cv.pdf'', upl_content_type = ''application/pdf'', upl_size_bytes = 900,
     upl_submission = None, upl_created_at = 55\<rparr>"

definition hiring_form :: form_record where
  "hiring_form = contact_form\<lparr>frm_status := Published, frm_schema := cv_schema\<rparr>"

definition hiring :: db where
  "hiring = two_owners\<lparr>forms := [hiring_form], file_uploads := [cv_upload]\<rparr>"

definition cv_payload :: json_map where "cv_payload = [(''cv'', JString ''k21'')]"

lemma cv_well_formed: "well_formed_schema cv_schema"
  by (simp add: well_formed_schema_def well_formed_field_def rules_hold_def is_valid_key_def cv_schema_def
      cv_field_def contact_simps is_blank_def is_ascii_lowercase_def schema_limits)

lemma hiring_inv: "forms_inv True hiring"
proof -
  have "storable True hiring_form"
    using contact_storable [of True Published] cv_well_formed
    by (simp add: storable_def hiring_form_def)
  then show ?thesis
    by (simp add: forms_inv_def hiring_def hiring_form_def contact_form_def organization_exists_def exists_row_def
        two_owners_def)
qed

lemma hiring_ledger: "ledger_keys hiring"
  by (simp add: ledger_keys_def hiring_def)

lemma cv_accepted: "validate_submission ext cv_schema cv_payload = Inr cv_payload"
  by (simp add: validate_submission_def cv_schema_def cv_field_def cv_payload_def contact_simps check_value_def
      is_null_def missing_required_def is_absent_def Let_def)

lemma cv_answers: "file_answers cv_schema (JObject cv_payload) = [(''cv'', ''k21'')]"
  by (simp add: file_answers_def cv_schema_def cv_field_def cv_payload_def contact_schema_def contact_field_def
      List.map_filter_simps)

lemma hiring_published: "load_published hiring contact_token = Inr hiring_form"
  by (simp add: load_published_def find_by_public_id_def hiring_def hiring_form_def contact_form_def)

lemma hiring_lock: "lock_for_claim hiring 9 [''k21''] = [cv_upload]"
  by (simp add: lock_for_claim_def hiring_def cv_upload_def)

lemma hiring_submit:
  "submit sample_externals True contact_token cv_payload no_client None 77 3 60 hiring =
     (Inr \<lparr>acd_id = 77, acd_success_message = None, acd_redirect_url = None\<rparr>,
      snd (submit sample_externals True contact_token cv_payload no_client None 77 3 60 hiring))"
proof -
  have sel: "frm_schema hiring_form = cv_schema" "frm_success_message hiring_form = None"
    "frm_redirect_url hiring_form = None" "frm_organization hiring_form = 7" "frm_id hiring_form = 9"
    by (simp_all add: contact_form_def hiring_form_def)
  have rows: "submissions hiring = []" "file_uploads hiring = [cv_upload]" "organization_exists hiring 7"
    "form_exists hiring 9"
    by (simp_all add: hiring_def two_owners_def empty_db_def organization_exists_def form_exists_def exists_row_def
      hiring_form_def contact_form_def)
  have check: "check_file_references [(''cv'', ''k21'')] [cv_upload] [] =
      Inr [(''cv'', upload_metadata cv_upload)]"
    by (simp add: cv_upload_def)
  have json: "jsonb_ok (upload_metadata cv_upload)" "jsonb_ok (JObject cv_payload)"
    by (simp_all add: upload_metadata_def cv_upload_def cv_payload_def)
  have "upl_object_key cv_upload = ''k21''" "upl_submission cv_upload = None" "upl_field_key cv_upload = ''cv''" by (simp_all add: cv_upload_def)
  with sel rows check json show ?thesis
    by (simp add: submit_steps hiring_published cv_accepted store_answers_def cv_answers insert_claiming_files_def
        hiring_lock insert_submission_def submission_to_store_def Let_def is_object_def
        exists_row_def claim_uploads_def rows_affected_def claimable_def)
qed

section \<open>Properties\<close>

text \<open>C9: An accepted submission is stored once and in full: exactly one new row, with the accepted answers,
  the metadata of the files they name and what is known of the sender, under the published form the handle
  names, its organization and its current version, marked spam exactly when the honeypot is on and filled;
  and, in the same statement, exactly one undispatched outbox event when the form notifies somebody or an
  enabled endpoint watches it, and none otherwise. But for the uploads it claims nothing else is written.
  A refused submission leaves the database as it was.\<close>

theorem submission_is_stored:
  assumes "submit ext ok public payload client referer sid eid now d = (res, d')"
  shows "case res of
      Inl e \<Rightarrow> d' = d
    | Inr acc \<Rightarrow> \<exists>f answers m.
        f \<in> set (forms d) \<and> frm_public_id f = public \<and> frm_status f = Published \<and> ok \<and>
        validate_submission ext (frm_schema f) payload = Inr answers \<and>
        check_file_references (file_answers (frm_schema f) (JObject answers))
          (lock_for_claim d (frm_id f) (map snd (file_answers (frm_schema f) (JObject answers)))) [] = Inr m \<and>
        sid \<notin> sub_id ` set (submissions d) \<and>
        submissions d' = submissions d @
          [\<lparr>sub_id = sid, sub_organization = frm_organization f, sub_form = frm_id f,
            sub_schema_version = frm_schema_version f, sub_data = JObject answers, sub_files = JObject m,
            sub_status = (if frm_honeypot_enabled f \<and> honeypot_was_filled payload then Spam else Unread),
            sub_ip_address = ip_address client, sub_user_agent = user_agent client,
            sub_referer = referer, sub_created_at = now\<rparr>] \<and>
        outbox_events d' = outbox_events d @
          (if frm_notify_emails f \<noteq> [] \<or> webhook_matches d (frm_organization f) (frm_id f)
           then [\<lparr>obx_id = eid, obx_organization = frm_organization f, obx_kind = SubmissionReceivedKind,
                  obx_payload = submission_event ext sid (frm_id f), obx_attempts = 0, obx_available_at = now,
                  obx_dispatched_at = None, obx_last_error = None, obx_created_at = now\<rparr>]
           else []) \<and>
        d'\<lparr>submissions := submissions d, outbox_events := outbox_events d, file_uploads := file_uploads d\<rparr> = d \<and>
        acc = \<lparr>acd_id = sid, acd_success_message = frm_success_message f,
               acd_redirect_url = frm_redirect_url f\<rparr>"
proof (cases res)
  case (Inl e)
  with assms have "d' = d"
    unfolding submit_steps
    by (auto simp: guard_st_Inl case_result_Inl split: if_splits dest: store_answers_Inl)
  with Inl show ?thesis by simp
next
  case (Inr acc)
  with assms obtain f answers where f: "load_published d public = Inr f" and ok
    and v: "validate_submission ext (frm_schema f) payload = Inr answers"
    and st: "store_answers ext f answers (submission_to_store f answers payload client referer) sid eid now d
           = (Inr (acd_id acc), d')"
    and acc: "acd_success_message acc = frm_success_message f" "acd_redirect_url acc = frm_redirect_url f"
    by (auto elim: submit_Inr)
  have "new_files (submission_to_store f answers payload client referer) = None"
    by (simp add: submission_to_store_def)
  from store_answers_writes [OF st this] obtain m where m:
    "check_file_references (file_answers (frm_schema f) (JObject answers))
       (lock_for_claim d (frm_id f) (map snd (file_answers (frm_schema f) (JObject answers)))) [] = Inr m"
    "submissions d' = submissions d @ [stored_submission (submission_to_store f answers payload client referer) (JObject m) sid now]"
    "outbox_events d' = outbox_events d @
       (if frm_notify_emails f \<noteq> [] \<or> webhook_matches d (frm_organization f) (frm_id f)
        then [owed_event ext (submission_to_store f answers payload client referer) sid eid now] else [])"
    "d'\<lparr>submissions := submissions d, outbox_events := outbox_events d, file_uploads := file_uploads d\<rparr> = d"
    by (auto simp: submission_to_store_def)
  have "acc = \<lparr>acd_id = sid, acd_success_message = frm_success_message f,
      acd_redirect_url = frm_redirect_url f\<rparr>"
    using acc store_answers_Inr(1) [OF st] by (cases acc) simp
  then show ?thesis
    unfolding Inr sum.case
    using load_published_Inr [OF f] \<open>ok\<close> v store_answers_Inr(2) [OF st] m
    by (intro exI [of _ f] exI [of _ answers] exI [of _ m])
      (simp add: stored_submission_def owed_event_def submission_to_store_def)
qed

theorem submission_is_stored_witness:
  "\<exists>s. submissions (snd (submit sample_externals True contact_token contact_payload no_client None 77 3 60
     (acme Published))) = [s] \<and> sub_status s = Unread \<and> sub_form s = 9"
proof -
  have "forms (acme Published) = [contact_form\<lparr>frm_status := Published\<rparr>]" by (simp add: acme_def)
  moreover have "frm_id contact_form = 9" by (simp add: contact_form_def)
  moreover have "\<not> honeypot_was_filled contact_payload"
    by (simp add: honeypot_was_filled_def contact_payload_def HONEYPOT_FIELD_def trim_def)
  ultimately show ?thesis
    using submission_is_stored [OF acme_submit] acme_rows(1) [of Published] by auto
qed

text \<open>C35: The honeypot gives nothing away: the answer to a payload that fills it is the answer to the same
  payload without it, errors included, and the databases they leave differ in nothing but the
  status of the stored submission.\<close>

theorem honeypot_gives_nothing_away:
  assumes "forms_inv uploads d"
  shows "fst (submit ext ok public (without_honeypot payload) client referer sid eid now d) =
      fst (submit ext ok public payload client referer sid eid now d) \<and>
    same_but_status (snd (submit ext ok public payload client referer sid eid now d))
      (snd (submit ext ok public (without_honeypot payload) client referer sid eid now d))"
proof (cases "load_published d public")
  case (Inl e)
  then show ?thesis by (simp add: submit_steps)
next
  case (Inr f)
  then have "well_formed_schema (frm_schema f)"
    using assms load_published_Inr by (auto simp: forms_inv_def storable_def)
  note same = validate_without_honeypot [OF this]
  show ?thesis
  proof (cases "validate_submission ext (frm_schema f) payload")
    case (Inl e)
    with Inr same show ?thesis by (simp add: submit_steps)
  next
    case v: (Inr answers)
    let ?n = "submission_to_store f answers payload client referer"
    obtain r d1 d2 where "store_answers ext f answers ?n sid eid now d = (r, d1)"
      "store_answers ext f answers (?n\<lparr>new_status := Unread\<rparr>) sid eid now d = (r, d2)" "same_but_status d1 d2"
      using store_answers_status [of ext f answers Unread ?n sid eid now d] by (metis prod.collapse)
    with Inr v same show ?thesis
      by (cases r) (simp_all add: submit_steps submission_to_store_without_honeypot)
  qed
qed

theorem honeypot_gives_nothing_away_witness:
  "fst (submit sample_externals True contact_token [(''name'', JString ''Ann'')] no_client None 77 3 60 (acme Published)) =
   fst (submit sample_externals True contact_token [(''_gotcha'', JString ''x''), (''name'', JString ''Ann'')]
     no_client None 77 3 60 (acme Published))"
  using honeypot_gives_nothing_away [OF acme_inv, of sample_externals True contact_token
      "[(''_gotcha'', JString ''x''), (''name'', JString ''Ann'')]" no_client None 77 3 60 Published]
  by (simp add: without_honeypot_def HONEYPOT_FIELD_def)

text \<open>C29: Files are claimed exactly: an accepted submission marks the uploads its file answers name and no
  others; each of them was recorded for this form and for the field that names it and was not
  claimed before, and its metadata is stored with the submission.\<close>

theorem files_are_claimed_exactly:
  assumes "forms_inv uploads d" and "ledger_keys d"
    and "submit ext ok public payload client referer sid eid now d = (Inr acc, d')"
  shows "\<exists>f answers s m. f \<in> set (forms d) \<and> frm_public_id f = public \<and>
    validate_submission ext (frm_schema f) payload = Inr answers \<and>
    submissions d' = submissions d @ [s] \<and> sub_data s = JObject answers \<and>
    (file_answers (frm_schema f) (sub_data s) \<noteq> [] \<longrightarrow> sub_files s = JObject m) \<and>
    file_uploads d' = map (\<lambda>u. if upl_object_key u \<in> snd ` set (file_answers (frm_schema f) (sub_data s))
      then u\<lparr>upl_submission := Some sid\<rparr> else u) (file_uploads d) \<and>
    (\<forall>(fk, k) \<in> set (file_answers (frm_schema f) (sub_data s)).
       \<exists>u \<in> set (file_uploads d). upl_object_key u = k \<and> upl_form u = frm_id f \<and> upl_field_key u = fk \<and>
         upl_submission u = None \<and> map_of m fk = Some (upload_metadata u))"
proof -
  from assms(3) obtain f answers where f: "load_published d public = Inr f"
    and v: "validate_submission ext (frm_schema f) payload = Inr answers"
    and st: "store_answers ext f answers (submission_to_store f answers payload client referer) sid eid now d
           = (Inr (acd_id acc), d')"
    by (auto elim: submit_Inr)
  have wf: "well_formed_schema (frm_schema f)"
    using assms(1) load_published_Inr [OF f] by (auto simp: forms_inv_def storable_def)
  note claims = store_answers_claims [OF assms(2) wf st]
  from store_answers_Inr(4) [OF st] obtain s where s: "submissions d' = submissions d @ [s]"
    "sub_data s = JObject answers" by (auto simp: submission_to_store_def)
  let ?a = "file_answers (frm_schema f) (sub_data s)"
  have each: "\<exists>u \<in> set (file_uploads d). upl_object_key u = k \<and> upl_form u = frm_id f \<and> upl_field_key u = fk \<and>
         upl_submission u = None \<and> (\<exists>m. sub_files s = JObject m \<and> map_of m fk = Some (upload_metadata u))"
    if "(fk, k) \<in> set ?a" for fk k
    using claims(2) [of fk k] that s by (fastforce simp: submission_to_store_def)
  define m where "m = (case sub_files s of JObject m \<Rightarrow> m | _ \<Rightarrow> [])"
  have "?a \<noteq> [] \<longrightarrow> sub_files s = JObject m"
  proof
    assume "?a \<noteq> []"
    then obtain fk k where "(fk, k) \<in> set ?a" by (cases ?a) auto
    from each [OF this] show "sub_files s = JObject m" by (auto simp: m_def)
  qed
  moreover have "\<forall>(fk, k) \<in> set ?a.
       \<exists>u \<in> set (file_uploads d). upl_object_key u = k \<and> upl_form u = frm_id f \<and> upl_field_key u = fk \<and>
         upl_submission u = None \<and> map_of m fk = Some (upload_metadata u)"
    using each by (fastforce simp: m_def)
  moreover have "file_uploads d' = map (\<lambda>u. if upl_object_key u \<in> snd ` set ?a
      then u\<lparr>upl_submission := Some sid\<rparr> else u) (file_uploads d)"
    using claims(1) s(2) by simp
  ultimately show ?thesis using load_published_Inr [OF f] s v by blast
qed

theorem files_are_claimed_exactly_witness:
  "map upl_submission (file_uploads (snd (submit sample_externals True contact_token cv_payload no_client None 77 3 60
     hiring))) = [Some 77]"
proof -
  have "forms hiring = [hiring_form]" by (simp add: hiring_def)
  moreover have "frm_schema hiring_form = cv_schema" by (simp add: hiring_form_def)
  moreover have "file_uploads hiring = [cv_upload]" "upl_object_key cv_upload = ''k21''"
    by (simp_all add: hiring_def cv_upload_def)
  ultimately show ?thesis
    using files_are_claimed_exactly [OF hiring_inv hiring_ledger hiring_submit]
      cv_accepted [of sample_externals] cv_answers by auto
qed

text \<open>A text answer with the character U+0000 passes the validation, and PostgreSQL refuses to store it
  as \<open>jsonb\<close>: an anonymous visitor gets an internal error (500), where every other answer the
  service cannot store is named in a validation error.\<close>

theorem nul_answer_is_internal:
  assumes "load_published d public = Inr f"
    and "validate_submission ext (frm_schema f) payload = Inr answers"
    and "\<not> jsonb_ok (JObject answers)" and "file_answers (frm_schema f) (JObject answers) = []"
  shows "\<exists>e. submit ext True public payload client referer sid eid now d = (Inl e, d) \<and>
    app_status (form_app_error e) = 500"
  using assms by (simp add: submit_steps store_answers_def insert_submission_def submission_to_store_def Let_def)

theorem nul_answer_is_internal_witness:
  "\<exists>e. submit sample_externals True contact_token [(''name'', JString [CHR ''A'', CHR 0x00])] no_client None 77 3 60
      (acme Published) = (Inl e, acme Published) \<and> app_status (form_app_error e) = 500"
proof (rule nul_answer_is_internal [OF acme_published])
  show "validate_submission sample_externals (frm_schema (contact_form\<lparr>frm_status := Published\<rparr>))
      [(''name'', JString [CHR ''A'', CHR 0x00])] = Inr [(''name'', JString [CHR ''A'', CHR 0x00])]"
    by (simp add: contact_form_def validate_submission_def contact_simps check_value_def is_null_def check_text_def
      char_count_u32_def missing_required_def is_absent_def schema_limits Let_def)
  show "\<not> jsonb_ok (JObject [(''name'', JString [CHR ''A'', CHR 0x00])])" by simp
  show "file_answers (frm_schema (contact_form\<lparr>frm_status := Published\<rparr>))
      (JObject [(''name'', JString [CHR ''A'', CHR 0x00])]) = []"
    by (simp add: contact_form_def contact_no_files)
qed

lemma inbox_set:
  "set (inbox d oid flt) = {s \<in> set (submissions d). sub_organization s = oid \<and> submission_matches flt s}"
  by (auto simp: inbox_def)

lemma sorted_wrt_rev_key:
  "sorted_wrt (\<lambda>s t. k t \<le> k s) (rev (sort_key k xs))"
  using sorted_sort_key [of k xs] by (simp add: sorted_wrt_rev sorted_wrt_map sorted_map)

text \<open>C36: The inbox: a member, and only a member, gets exactly the submissions of the organization that match
  the filters, newest first; the total is their number, and a page continues where the page before
  it ended.\<close>

theorem inbox_is_exact:
  assumes "list_submissions oid actor flt l i d = (Inr (page, n), d')" and "0 \<le> l" and "0 \<le> i"
  shows "d' = d \<and> role_of d oid actor \<noteq> None \<and>
    set (inbox d oid flt) = {s \<in> set (submissions d). sub_organization s = oid \<and> submission_matches flt s} \<and>
    sorted_wrt (\<lambda>s t. (sub_created_at t, sub_id t) \<le> (sub_created_at s, sub_id s)) (inbox d oid flt) \<and>
    n = int (length (inbox d oid flt)) \<and>
    map submission_response_of (take (nat i) (inbox d oid flt)) @ page =
      map submission_response_of (take (nat (i + l)) (inbox d oid flt))"
proof -
  from assms(1) have p: "d' = d" "page = map submission_response_of (submissions_page d oid flt l i)"
    "n = count_submissions d oid flt" and role: "role_of d oid actor \<noteq> None"
    by (auto simp: list_submissions_def with_member_Inr dest: resolve_access_role)
  have "sorted_wrt (\<lambda>s t. (sub_created_at t, sub_id t) \<le> (sub_created_at s, sub_id s)) (inbox d oid flt)"
    unfolding inbox_def by (rule sorted_wrt_rev_key)
  moreover have "n = int (length (inbox d oid flt))"
    by (simp add: p(3) count_submissions_def inbox_def rows_affected_def)
  moreover have "map submission_response_of (take (nat i) (inbox d oid flt)) @ page =
      map submission_response_of (take (nat (i + l)) (inbox d oid flt))"
    using pages_append [OF assms(2,3), of "inbox d oid flt"]
    by (simp add: p(2) submissions_page_def flip: map_append)
  ultimately show ?thesis using p(1) role inbox_set by blast
qed

definition everything :: submission_filters where
  "everything = \<lparr>flt_form = None, flt_status = None, flt_since = None, flt_until = None, flt_contains = None\<rparr>"

text \<open>The database \<open>hiring\<close> after one submission, which claimed the upload.\<close>

definition cv_submission :: submission_row where
  "cv_submission = \<lparr>sub_id = 77, sub_organization = 7, sub_form = 9, sub_schema_version = 1,
     sub_data = JObject cv_payload, sub_files = JObject [(''cv'', upload_metadata cv_upload)], sub_status = Unread,
     sub_ip_address = None, sub_user_agent = None, sub_referer = None, sub_created_at = 60\<rparr>"

definition received :: db where
  "received = hiring\<lparr>submissions := [cv_submission], file_uploads := [cv_upload\<lparr>upl_submission := Some 77\<rparr>]\<rparr>"

lemma received_access:
  "resolve_access received 7 11 =
     Inr \<lparr>acc_organization = \<lparr>org_id = 7, org_name = ''Acme'', org_created_at = 0\<rparr>,
          acc_member_count = 2, acc_role = Owner\<rparr>"
  by (simp add: resolve_access_def find_access_def member_count_def received_def hiring_def sample_simps)

theorem inbox_is_exact_witness: "inbox received 7 everything = [cv_submission]"
proof -
  have sel: "sub_organization cv_submission = 7" by (simp add: cv_submission_def)
  have match: "submission_matches everything cv_submission" by (simp add: submission_matches_def everything_def)
  have rows: "submissions received = [cv_submission]" by (simp add: received_def)
  have "count_submissions received 7 everything = 1"
    by (simp add: count_submissions_def rows_affected_def rows sel match)
  then have "list_submissions 7 11 everything 20 0 received =
      (Inr (map submission_response_of (submissions_page received 7 everything 20 0), 1), received)"
    by (simp add: list_submissions_def with_member_def received_access)
  from inbox_is_exact [OF this] have "set (inbox received 7 everything) = {cv_submission}"
    and "length (inbox received 7 everything) = 1" using sel match rows by auto
  then show ?thesis by (cases "inbox received 7 everything") auto
qed

text \<open>Deleting a submission, which only a manager does, removes that row and no other of the
  organization's inbox, leaves the submissions of every other organization alone, and releases the
  uploads the submission had claimed, so that the reaper or another submission can take them.\<close>

theorem deletion_releases_files:
  assumes "delete_submission oid sid actor c now d = (Inr (), d')" and "distinct (map sub_id (submissions d))"
  shows "(\<exists>r. role_of d oid actor = Some r \<and> is_manager r) \<and>
    (\<exists>s \<in> set (submissions d). sub_id s = sid \<and> sub_organization s = oid \<and>
       set (submissions d') = set (submissions d) - {s}) \<and>
    file_uploads d' = map (\<lambda>u. if upl_submission u = Some sid then u\<lparr>upl_submission := None\<rparr> else u)
      (file_uploads d) \<and>
    forms d' = forms d \<and> outbox_events d' = outbox_events d"
proof -
  let ?p = "\<lambda>s. sub_organization s = oid \<and> sub_id s = sid"
  from assms(1) have role: "\<exists>r. role_of d oid actor = Some r \<and> is_manager r"
    and d': "d' = form_audit SubmissionDeleted oid actor sid None c now (drop_submissions ?p d)"
    and "find_submission d oid sid \<noteq> None"
    by (auto simp: delete_submission_def with_manager_Inr delete_submission_row_def split: if_splits dest: resolve_access_role)
  then obtain s where s: "s \<in> set (submissions d)" "sub_id s = sid" "sub_organization s = oid"
    using submission_table.lookup_sound by blast
  have one: "?p t \<longleftrightarrow> t = s" if "t \<in> set (submissions d)" for t
    using that s unique_key_eq [OF assms(2)] by metis
  have "set (submissions d') = set (submissions d) - {s}"
    using one by (auto simp: d' form_audit_def set_delete_where)
  moreover have "exists_row (\<lambda>t. sub_id t = i \<and> ?p t) (submissions d) \<longleftrightarrow> i = sid" for i
    using s by (auto simp: table_simps)
  then have "file_uploads d' = map (\<lambda>u. if upl_submission u = Some sid then u\<lparr>upl_submission := None\<rparr> else u)
      (file_uploads d)"
    by (simp add: d' form_audit_def drop_submissions_def clear_ref_def split: option.splits)
  moreover have "forms d' = forms d \<and> outbox_events d' = outbox_events d"
    by (simp add: d' form_audit_def)
  ultimately show ?thesis using role s by blast
qed

theorem deletion_releases_files_witness:
  "map upl_submission (file_uploads (snd (delete_submission 7 77 11 no_client 90 received))) = [None]"
proof -
  have "find_submission received 7 77 = Some cv_submission"
    by (simp add: find_submission_def scoped_find_def received_def cv_submission_def)
  then have "delete_submission 7 77 11 no_client 90 received =
      (Inr (), snd (delete_submission 7 77 11 no_client 90 received))"
    by (simp add: delete_submission_def with_manager_def with_member_def received_access require_manager_def
        is_manager_def delete_submission_row_def)
  moreover have "distinct (map sub_id (submissions received))" by (simp add: received_def)
  ultimately show ?thesis
    using deletion_releases_files by (simp add: received_def)
qed

end
