(* ===== verification/WebhookGuarantees.thy ===== *)
theory WebhookGuarantees
  imports DeliveryRuns Ingestion
begin

text \<open>
  The properties of the webhook module: isolation, fan-out, retries, leases, signatures and the check of
  an endpoint's address; and the places where the code does less than its comments say.
\<close>

section \<open>Auxiliary facts\<close>

lemma create_deliveries_queued:
  assumes "create_deliveries oid fid sid payload draw now d = (Inr n, d1)"
    and "e \<in> set (webhook_endpoints d)" and "watches oid fid e"
  shows "already_queued d1 (whe_id e) sid"
  using assms(1)
proof (cases rule: create_deliveries_cases)
  case (2 ts)
  show ?thesis
  proof (cases "already_queued d (whe_id e) sid")
    case True
    then show ?thesis by (auto simp: already_queued_def exists_row_iff 2(3))
  next
    case False
    with assms(2,3) have "e \<in> set ts" by (simp add: 2(1))
    then show ?thesis by (force simp: already_queued_def exists_row_iff 2(3) new_delivery_def)
  qed
qed auto

lemma create_deliveries_frame:
  assumes "create_deliveries oid fid sid payload draw now d = (r, d1)"
  shows "d1\<lparr>webhook_deliveries := webhook_deliveries d\<rparr> = d"
  using assms by (cases rule: create_deliveries_cases) simp_all

lemma show_int_no_dot: "CHR ''.'' \<notin> set (show_int i)"
  using show_int_chars [of "CHR ''.''" i] by (auto simp: is_ascii_digit_def byte_def)

lemma split_at_dot:
  "x @ c # y = x' @ c # y' \<Longrightarrow> c \<notin> set x \<Longrightarrow> c \<notin> set x' \<Longrightarrow> x = x' \<and> y = y'"
  by (induction x arbitrary: x') (case_tac x'; auto)+

lemma signed_message_inject: "signed_message t b = signed_message t' b' \<Longrightarrow> t = t' \<and> b = b'"
  using split_at_dot [of "show_int t" "CHR ''.''" b "show_int t'" b'] show_int_no_dot show_int_inject
  by (auto simp: signed_message_def)


section \<open>A log with one delivery\<close>

definition hook :: webhook_endpoint_row where
  "hook = \<lparr>whe_id = 31, whe_organization = 7, whe_form = None, whe_url = ''https://example.com/hook'',
     whe_secret = ''0123456789abcdef'', whe_description = None, whe_enabled = True, whe_created_at = 0,
     whe_updated_at = 0\<rparr>"

definition hooked :: db where
  "hooked = received\<lparr>webhook_endpoints := [hook]\<rparr>"

text \<open>The one delivery, due at the instant 0.\<close>

definition one_delivery :: db where
  "one_delivery = hooked\<lparr>webhook_deliveries := [new_delivery 7 77 (JObject []) 0 41 31]\<rparr>"

lemma hooked_rows:
  "webhook_endpoints hooked = [hook]" "webhook_deliveries hooked = []" "organization_exists hooked 7"
  "submission_exists hooked 77"
  by (simp_all add: hooked_def received_def hiring_def two_owners_def empty_db_def organization_exists_def
      submission_exists_def exists_row_def cv_submission_def)

lemma one_delivery_rows:
  "webhook_endpoints one_delivery = [hook]"
  "webhook_deliveries one_delivery = [new_delivery 7 77 (JObject []) 0 41 31]"
  by (simp_all add: one_delivery_def hooked_rows)

lemma hook_watches: "watches 7 9 hook" "whe_id hook = 31"
  by (simp_all add: watches_def hook_def)

lemma hooked_fan_out:
  "create_deliveries 7 9 77 (JObject []) (\<lambda>_. 41) 0 hooked = (Inr 1, one_delivery)"
  by (simp add: create_deliveries_def hooked_rows already_queued_def exists_row_def hook_watches one_delivery_def
      new_delivery_def)

lemma hooked_reachable: "delivery_reachable ext allow hooked"
  by (rule delivery_reachable.start) (simp_all add: hooked_rows)

lemma one_delivery_reachable: "delivery_reachable ext allow one_delivery"
  using delivery_reachable.fan_out [OF hooked_reachable, of ext allow 7 9 77 "JObject []" "\<lambda>_. 41" 0]
  by (simp add: hooked_fan_out)

lemma claim_single:
  assumes "webhook_deliveries d = [w]" and "delivery_due now w" and "webhook_endpoints d = [hook]"
    and "whd_endpoint w = 31"
  shows "claim_due_deliveries 20 lease now d =
    (Inr [\<lparr>cld_id = whd_id w, cld_url = whe_url hook, cld_secret = whe_secret hook,
           cld_payload = whd_payload w, cld_attempts = whd_attempts w + 1\<rparr>],
     d\<lparr>webhook_deliveries := [w\<lparr>whd_attempts := whd_attempts w + 1, whd_next_attempt_at := now + lease\<rparr>]\<rparr>)"
proof -
  have "whe_id hook = 31" by (simp add: hook_def)
  with assms show ?thesis
    by (simp add: claim_due_deliveries_def claim_delivery_rows_def claim_rows_def limit_offset_def Let_def
        with_endpoint_def)
qed

section \<open>Properties\<close>

text \<open>The fan-out of a submission may run any number of times: once it has succeeded, every enabled
  endpoint of the organization that watches the form has a delivery, running it again, with whatever
  payload and at whatever time, adds nothing, and in the whole life of the log no endpoint gets the
  same submission in two deliveries.\<close>

theorem fan_out_is_idempotent:
  assumes "delivery_reachable ext allow d"
    and "create_deliveries oid fid sid payload draw now d = (Inr n, d1)"
  shows "(\<forall>e \<in> set (webhook_endpoints d). watches oid fid e \<longrightarrow>
      (\<exists>!w. w \<in> set (webhook_deliveries d1) \<and> whd_endpoint w = whe_id e \<and> whd_submission w = Some sid)) \<and>
    create_deliveries oid fid sid payload' draw' now' d1 = (Inr 0, d1)"
proof
  have inv: "deliveries_inv d1"
    using delivery_reachable_inv [OF assms(1)] create_deliveries_inv assms(2) by blast
  have eps: "webhook_endpoints d1 = webhook_endpoints d"
    using arg_cong [OF create_deliveries_frame [OF assms(2)], of webhook_endpoints] by simp
  show "\<forall>e \<in> set (webhook_endpoints d). watches oid fid e \<longrightarrow>
      (\<exists>!w. w \<in> set (webhook_deliveries d1) \<and> whd_endpoint w = whe_id e \<and> whd_submission w = Some sid)"
  proof (intro ballI impI)
    fix e assume "e \<in> set (webhook_endpoints d)" "watches oid fid e"
    with create_deliveries_queued [OF assms(2)] obtain w where
      w: "w \<in> set (webhook_deliveries d1)" "whd_endpoint w = whe_id e" "whd_submission w = Some sid"
      by (auto simp: already_queued_def exists_row_iff)
    then show "\<exists>!w. w \<in> set (webhook_deliveries d1) \<and> whd_endpoint w = whe_id e \<and> whd_submission w = Some sid"
      by (intro ex1I [of _ w] conjI) (auto simp: delivery_pair_def intro: same_pair_same_row [OF inv])
  qed
  have "filter (\<lambda>e. watches oid fid e \<and> \<not> already_queued d1 (whe_id e) sid) (webhook_endpoints d1) = []"
    using create_deliveries_queued [OF assms(2)] by (auto simp: eps filter_empty_conv)
  moreover have "distinct (map whd_id (webhook_deliveries d1))" using inv by (simp add: deliveries_inv_def)
  ultimately show "create_deliveries oid fid sid payload' draw' now' d1 = (Inr 0, d1)"
    by (simp add: create_deliveries_def Let_def)
qed

theorem fan_out_is_idempotent_witness:
  "create_deliveries 7 9 77 (JObject []) (\<lambda>_. 42) 500 one_delivery = (Inr 0, one_delivery)"
  using fan_out_is_idempotent [OF hooked_reachable hooked_fan_out] by blast

text \<open>C21: However workers claim, deliver, die, overlap and outlive their leases, a delivery is tried at most six
  times, and once more for every redelivery of it and for every lease of it that ran out with nothing
  recorded; it is given up on only after six attempts; and one that is pending and not waiting for its
  worker has an attempt left of these.\<close>

theorem attempts_are_bounded:
  assumes "delivery_run ext (fresh_world d) labs w" and "webhook_deliveries d = []"
    and "r \<in> set (webhook_deliveries (dw_db w))"
  shows "0 \<le> whd_attempts r \<and>
    whd_attempts r \<le> 6 + int (dw_redelivered w (whd_id r) + dw_lapsed w (whd_id r)) \<and>
    (whd_status r = FailedDelivery \<longrightarrow> 6 \<le> whd_attempts r) \<and>
    (whd_status r = PendingDelivery \<and> whd_id r \<notin> dw_hanging w \<longrightarrow>
       whd_attempts r < 6 + int (dw_redelivered w (whd_id r) + dw_lapsed w (whd_id r)))"
proof -
  have "tries_inv w" by (rule tries_inv_run [OF assms(1)]) (simp add: tries_inv_def fresh_world_def assms(2))
  then have t: "tries_within (whd_attempts r) (whd_status r) (whd_id r \<in> dw_hanging w)
      (held (dw_flight w) (whd_id r)) (extra_tries w (whd_id r))"
    using assms(3) by (simp add: tries_inv_def row_within_def)
  then have "whd_status r = FailedDelivery \<longrightarrow> 6 \<le> whd_attempts r" by (simp add: tries_within_def Let_def)
  with tries_bound [OF t] t tries_left show ?thesis by (auto simp: extra_tries_def)
qed

theorem attempts_are_bounded_witness:
  "whd_attempts (new_delivery 7 77 (JObject []) 0 41 31) < 6"
proof -
  let ?w = "(fresh_world hooked)\<lparr>dw_db := one_delivery\<rparr>"
  have "delivery_event sample_externals (fresh_world hooked) None ?w"
    using delivery_event.fan_out [of 7 9 77 "JObject []" "\<lambda>_. 41" 0 "fresh_world hooked" "Inr 1" one_delivery]
      hooked_fan_out by (simp add: fresh_world_def)
  from delivery_run.more [OF delivery_run.none this]
  have "delivery_run sample_externals (fresh_world hooked) [None] ?w" by simp
  from attempts_are_bounded [OF this hooked_rows(2), of "new_delivery 7 77 (JObject []) 0 41 31"] show ?thesis
    by (simp add: one_delivery_rows new_delivery_def fresh_world_def)
qed

text \<open>C31: A claimed delivery belongs to one worker for the length of its lease: whatever is claimed, recorded,
  queued, redelivered and deleted after a claim, as long as no outcome is recorded for the delivery and
  nobody redelivers it, no claim less than 120 seconds after the first returns it, however many rows it
  asks for.\<close>

theorem no_delivery_claimed_twice:
  assumes "distinct (map whd_id (webhook_deliveries (dw_db w)))"
    and "claim_due_deliveries l DELIVERY_LEASE_SECONDS now (dw_db w) = (Inr cs, d')" and "c \<in> set cs"
    and "delivery_run ext (w\<lparr>dw_db := d', dw_flight := dw_flight w + mset cs, dw_hanging := hanging,
           dw_lapsed := lapsed\<rparr>) labs w'"
    and "Some (cld_id c) \<notin> set labs"
    and "claim_due_deliveries l' lease t (dw_db w') = (Inr cs', d'')" and "t < now + 120"
  shows "cld_id c \<notin> set (map cld_id cs')"
proof -
  have "leased (cld_id c) (now + DELIVERY_LEASE_SECONDS)
      (w\<lparr>dw_db := d', dw_flight := dw_flight w + mset cs, dw_hanging := hanging, dw_lapsed := lapsed\<rparr>)"
    by (rule leased_claim [OF assms(1-3)]) (simp_all add: assms(3))
  from leased_run [OF assms(4,5) this] have "leased (cld_id c) (now + DELIVERY_LEASE_SECONDS) w'" .
  from leased_not_claimed [OF this assms(6)] assms(7) show ?thesis by (simp add: DELIVERY_LEASE_SECONDS_def)
qed

theorem no_delivery_claimed_twice_witness:
  "\<exists>c d1 cs d2. claim_due_deliveries 20 DELIVERY_LEASE_SECONDS 0 one_delivery = (Inr [c], d1) \<and>
     claim_due_deliveries 20 120 119 d1 = (Inr cs, d2) \<and> cld_id c \<notin> set (map cld_id cs)"
proof -
  have due: "delivery_due 0 (new_delivery 7 77 (JObject []) 0 41 31)" "whd_endpoint (new_delivery 7 77 (JObject []) 0 41 31) = 31"
    by (simp_all add: delivery_due_def new_delivery_def)
  obtain c d1 where c: "claim_due_deliveries 20 DELIVERY_LEASE_SECONDS 0 one_delivery = (Inr [c], d1)"
    using claim_single [OF one_delivery_rows(2) due(1) one_delivery_rows(1) due(2)] by blast
  let ?w = "fresh_world one_delivery"
  let ?w1 = "?w\<lparr>dw_db := d1, dw_flight := dw_flight ?w + mset [c], dw_hanging := {}, dw_lapsed := \<lambda>_. 0\<rparr>"
  have "deliveries_inv one_delivery" by (rule delivery_reachable_inv [OF one_delivery_reachable])
  then have keys: "distinct (map whd_id (webhook_deliveries (dw_db ?w)))" by (simp add: deliveries_inv_def fresh_world_def)
  have first: "claim_due_deliveries 20 DELIVERY_LEASE_SECONDS 0 (dw_db ?w) = (Inr [c], d1)"
    using c by (simp add: fresh_world_def)
  have none: "claim_delivery_rows 20 DELIVERY_LEASE_SECONDS t d1 = ([], d1)" if "t < 120" for t
    using that c claim_single [OF one_delivery_rows(2) due(1) one_delivery_rows(1) due(2), of DELIVERY_LEASE_SECONDS]
    by (auto simp: claim_delivery_rows_def claim_rows_def delivery_due_def Let_def limit_offset_def
        DELIVERY_LEASE_SECONDS_def)
  have "delivery_event sample_externals ?w1 None ?w1"
    using delivery_event.claimed [of 20 50 ?w1 "[]" d1 "Inr []" sample_externals] none [of 50]
    by (simp add: claim_due_deliveries_def)
  from delivery_run.more [OF delivery_run.none this] have run: "delivery_run sample_externals ?w1 [None] ?w1" by simp
  have second: "claim_due_deliveries 20 120 119 (dw_db ?w1) = (Inr [], d1)"
    using none [of 119] by (simp add: claim_due_deliveries_def DELIVERY_LEASE_SECONDS_def)
  have "cld_id c \<notin> set (map cld_id ([] :: claimed_delivery list))"
    by (rule no_delivery_claimed_twice [OF keys first _ run _ second]) simp_all
  with c second show ?thesis by fastforce
qed

text \<open>A signature binds the time and the body: two requests signed under one secret carry the same
  signature only if they carry the same timestamp and the same body, unless HMAC-SHA256 itself maps two
  different messages to the same digest.\<close>

theorem signature_binds_time_and_body:
  assumes "sign ext secret t body = sign ext secret t' body'"
  shows "(t = t' \<and> body = body') \<or> (\<exists>m m'. m \<noteq> m' \<and> hmac_sha256 ext secret m = hmac_sha256 ext secret m')"
  using assms signed_message_inject unfolding sign_def by (metis same_append_eq)

theorem signature_binds_time_and_body_witness:
  "sign sample_externals ''k'' 1 ''23'' \<noteq> sign sample_externals ''k'' 12 ''3''"
  using signature_binds_time_and_body [of sample_externals "''k''" 1 "''23''" 12 "''3''"]
  by (auto simp: sample_externals_def)

text \<open>Organizations are isolated in the webhook module: an endpoint narrowed to a form is narrowed to a
  form of its own organization, after every write on endpoints and forms, and no write on the
  endpoints of one organization touches the endpoints of another.\<close>

theorem endpoints_stay_in_their_organization:
  assumes "endpoints_inv d"
  shows "(endpoint_step ext uploads allow d d' \<longrightarrow>
      (\<forall>e \<in> set (webhook_endpoints d'). \<forall>f. whe_form e = Some f \<longrightarrow> form_belongs_to d' (whe_organization e) f)) \<and>
    endpoints_outside oid (snd (create_endpoint allow oid r actor c eid secret now d)) = endpoints_outside oid d \<and>
    endpoints_outside oid (snd (update_endpoint allow oid eid q actor c now d)) = endpoints_outside oid d \<and>
    endpoints_outside oid (snd (delete_endpoint oid eid actor c now d)) = endpoints_outside oid d \<and>
    endpoints_outside oid (snd (rotate_endpoint_secret oid eid actor c secret now d)) = endpoints_outside oid d"
proof (intro conjI implements_endpoint_isolated endpoint_operations_implement)
  show "endpoint_step ext uploads allow d d' \<longrightarrow>
      (\<forall>e \<in> set (webhook_endpoints d'). \<forall>f. whe_form e = Some f \<longrightarrow> form_belongs_to d' (whe_organization e) f)"
    using endpoint_step_inv [OF _ assms] by (fastforce simp: endpoints_inv_def endpoint_ok_def optional_def)
qed

theorem endpoints_stay_in_their_organization_witness:
  "endpoints_outside 7 (snd (delete_endpoint 7 31 11 no_client 90 hooked)) = []"
proof -
  have "endpoints_inv hooked"
    using hooked_rows
    by (simp add: endpoints_inv_def endpoint_ok_def hook_def optional_def endpoint_checks_def starts_with_def
        char_count_def is_cont_def byte_def)
  from endpoints_stay_in_their_organization [OF this]
  have "endpoints_outside 7 (snd (delete_endpoint 7 31 11 no_client 90 hooked)) = endpoints_outside 7 hooked"
    by blast
  then show ?thesis by (simp add: endpoints_outside_def hooked_rows hook_def)
qed

text \<open>A redelivered delivery that had been given up on gets one attempt: the requeue leaves the count at six
  or more, so the first failure gives it up again, although the comment on \<open>redeliver\<close> keeps the count
  so that a receiver is not given up on instantly.\<close>

theorem redelivery_gets_one_attempt:
  assumes "deliveries_inv d" and "find_delivery d oid did = Some w" and "whd_status w = FailedDelivery"
    and "whd_attempts w = 6"
    and "redeliver oid did actor now d = (Inr r, d1)"
    and "claim_due_deliveries l DELIVERY_LEASE_SECONDS t d1 = (Inr cs, d2)" and "c \<in> set cs" and "cld_id c = did"
    and "receiver (delivery_request ext t c) = TransportError line"
  shows "\<exists>w' \<in> set (webhook_deliveries (deliver ext t receiver t c d2)).
    whd_id w' = did \<and> whd_status w' = FailedDelivery \<and> whd_attempts w' = 7"
proof -
  let ?q = "\<lambda>w. whd_organization w = oid \<and> whd_id w = did"
  let ?g = "\<lambda>w. w\<lparr>whd_status := PendingDelivery, whd_next_attempt_at := now, whd_last_error := None\<rparr>"
  have d1: "webhook_deliveries d1 = update_where ?q ?g (webhook_deliveries d)"
    using assms(5) by (auto simp: redeliver_def with_manager_Inr requeue_delivery_def split: if_splits)
  have keys: "distinct (map whd_id (webhook_deliveries d))" using assms(1) by (simp add: deliveries_inv_def)
  then have keys1: "distinct (map whd_id (webhook_deliveries d1))"
    unfolding d1 by (rule distinct_update_where) simp
  have w: "w \<in> set (webhook_deliveries d)" "whd_organization w = oid" "whd_id w = did"
    using delivery_table.lookup_sound [OF assms(2)] by simp_all
  have tried: "whd_attempts r = 6" if r: "r \<in> set (webhook_deliveries d1)" "whd_id r = did" for r
  proof -
    obtain y where y: "y \<in> set (webhook_deliveries d)" "r = (if ?q y then ?g y else y)"
      using in_update_where [OF r(1) [unfolded d1]] by blast
    then have "whd_id y = did" using r(2) by (simp split: if_splits)
    then have "y = w" using unique_key_eq [OF keys y(1) w(1)] w(3) by simp
    with y(2) assms(4) show ?thesis by simp
  qed
  obtain rows where rows: "claim_delivery_rows l DELIVERY_LEASE_SECONDS t d1 = (rows, d2)"
    "map cld_id cs = map whd_id rows" "map cld_attempts cs = map whd_attempts rows"
    using assms(6) by (rule claim_due_deliveries_Inr)
  have "(did, cld_attempts c) \<in> set (map (\<lambda>c. (cld_id c, cld_attempts c)) cs)" using assms(7,8) by force
  also have "map (\<lambda>c. (cld_id c, cld_attempts c)) cs = map (\<lambda>w. (whd_id w, whd_attempts w)) rows"
    by (rule map_pairs_eq [OF rows(2,3)])
  finally obtain v where v: "v \<in> set rows" "whd_id v = did" "whd_attempts v = cld_attempts c" by auto
  have seven: "whd_attempts v = 7" using delivery_queue.claimed_was_due [OF keys1 rows(1) v(1)] v(2) tried by force
  have "v \<in> set (webhook_deliveries d2)" using delivery_queue.claimed_is_hidden [OF keys1 rows(1) v(1)] by simp
  moreover have "deliver ext t receiver t c d2 =
      snd (record_attempt_failure did 7 line (delivery_backoff 7) None t d2)"
    using assms(8,9) v(3) seven by (simp add: deliver_def record_failure_def)
  ultimately have "v\<lparr>whd_status := FailedDelivery, whd_response_status := None,
      whd_last_error := Some (take_chars 500 line), whd_next_attempt_at := t + delivery_backoff 7\<rparr>
      \<in> set (webhook_deliveries (deliver ext t receiver t c d2))"
    using v(2) by (simp add: record_attempt_failure_def Let_def MAX_ATTEMPTS_def update_where_def image_iff)
      (rule bexI [of _ v]; simp)
  from bexI [OF _ this] show ?thesis using v(2) seven by simp
qed

text \<open>The delivery, given up on after its sixth attempt.\<close>

definition given_up_row :: webhook_delivery_row where
  "given_up_row = (new_delivery 7 77 (JObject []) 0 41 31)\<lparr>whd_status := FailedDelivery, whd_attempts := 6\<rparr>"

definition given_up :: db where
  "given_up = hooked\<lparr>webhook_deliveries := [given_up_row]\<rparr>"

lemma given_up_access:
  "resolve_access given_up 7 11 =
     Inr \<lparr>acc_organization = \<lparr>org_id = 7, org_name = ''Acme'', org_created_at = 0\<rparr>,
          acc_member_count = 2, acc_role = Owner\<rparr>"
  by (simp add: resolve_access_def find_access_def member_count_def given_up_def hooked_def received_def
      hiring_def sample_simps)

lemma given_up_rows:
  "webhook_deliveries given_up = [given_up_row]" "webhook_endpoints given_up = [hook]"
  "whd_organization given_up_row = 7" "whd_id given_up_row = 41"
  by (simp_all add: given_up_def hooked_rows given_up_row_def new_delivery_def)

lemma given_up_inv: "deliveries_inv given_up"
  by (simp add: deliveries_inv_def given_up_def hooked_rows hook_watches given_up_row_def new_delivery_def
      List.map_filter_simps delivery_pair_def tried_within_bounds_def MAX_ATTEMPTS_def)

theorem redelivery_gets_one_attempt_witness:
  "\<exists>c d2. claim_due_deliveries 20 DELIVERY_LEASE_SECONDS 900 (snd (redeliver 7 41 11 900 given_up)) = (Inr [c], d2) \<and>
     (\<exists>w' \<in> set (webhook_deliveries (deliver sample_externals 900 (\<lambda>_. TransportError ''down'') 900 c d2)).
        whd_status w' = FailedDelivery)"
proof -
  let ?w = "given_up_row\<lparr>whd_status := PendingDelivery, whd_next_attempt_at := 900, whd_last_error := None\<rparr>"
  have row: "find_delivery given_up 7 41 = Some given_up_row" "whd_status given_up_row = FailedDelivery"
    "whd_attempts given_up_row = 6"
    by (simp_all add: find_delivery_def scoped_find_def given_up_def given_up_row_def new_delivery_def)
  have d1: "webhook_deliveries (snd (redeliver 7 41 11 900 given_up)) = [?w]"
    "webhook_endpoints (snd (redeliver 7 41 11 900 given_up)) = [hook]"
    and r: "\<exists>r. redeliver 7 41 11 900 given_up = (Inr r, snd (redeliver 7 41 11 900 given_up))"
    by (simp_all add: redeliver_def with_manager_def with_member_def given_up_access require_manager_def
        is_manager_def requeue_delivery_def exists_row_def given_up_rows find_delivery_def scoped_find_def)
  have due: "delivery_due 900 ?w" "whd_endpoint ?w = 31" "whd_id ?w = 41"
    by (simp_all add: delivery_due_def given_up_row_def new_delivery_def)
  obtain c d2 where c: "claim_due_deliveries 20 DELIVERY_LEASE_SECONDS 900 (snd (redeliver 7 41 11 900 given_up)) = (Inr [c], d2)"
    "cld_id c = 41"
    using claim_single [OF d1(1) due(1) d1(2) due(2), of DELIVERY_LEASE_SECONDS] due(3) by auto
  from r obtain r where r: "redeliver 7 41 11 900 given_up = (Inr r, snd (redeliver 7 41 11 900 given_up))" by blast
  have "(\<lambda>_. TransportError ''down'') (delivery_request sample_externals 900 c) = TransportError ''down''" by simp
  from redelivery_gets_one_attempt [OF given_up_inv row r c(1) _ c(2) this] c(1) show ?thesis by auto
qed

text \<open>A worker that outlives its lease undoes a success: the second worker delivers and records it, the first
  then records its own failure without looking at the status, the delivery is pending again, and a
  third claim sends it once more. A batch of twenty deliveries that each wait ten seconds outlives
  the lease of 120 seconds.\<close>

theorem stale_failure_reopens_delivered:
  "\<exists>a b c d1 d2 d4.
     claim_due_deliveries 20 DELIVERY_LEASE_SECONDS 0 one_delivery = (Inr [a], d1) \<and>
     claim_due_deliveries 20 DELIVERY_LEASE_SECONDS 120 d1 = (Inr [b], d2) \<and>
     map whd_status (webhook_deliveries (deliver ext 120 (\<lambda>_. Answered 200) 121 b d2)) = [Delivered] \<and>
     claim_due_deliveries 20 DELIVERY_LEASE_SECONDS 200
       (deliver ext 20 (\<lambda>_. TransportError ''timeout'') 140 a
         (deliver ext 120 (\<lambda>_. Answered 200) 121 b d2)) = (Inr [c], d4) \<and>
     cld_id c = cld_id b"
proof -
  define w where "w = new_delivery 7 77 (JObject []) 0 41 31"
  have w: "whd_id w = 41" "whd_status w = PendingDelivery" "whd_next_attempt_at w = 0" "whd_endpoint w = 31"
    "whd_attempts w = 0"
    by (simp_all add: w_def new_delivery_def)
  have d: "webhook_deliveries one_delivery = [w]" "webhook_endpoints one_delivery = [hook]"
    by (simp_all add: one_delivery_rows w_def)
  let ?c = "\<lambda>n. \<lparr>cld_id = 41, cld_url = whe_url hook, cld_secret = whe_secret hook,
      cld_payload = whd_payload w, cld_attempts = n\<rparr>"
  define d1 where "d1 = one_delivery\<lparr>webhook_deliveries := [w\<lparr>whd_attempts := 1, whd_next_attempt_at := 120\<rparr>]\<rparr>"
  define d2 where "d2 = one_delivery\<lparr>webhook_deliveries := [w\<lparr>whd_attempts := 2, whd_next_attempt_at := 240\<rparr>]\<rparr>"
  define d3 where "d3 = deliver ext 20 (\<lambda>_. TransportError ''timeout'') 140 (?c 1)
      (deliver ext 120 (\<lambda>_. Answered 200) 121 (?c 2) d2)"
  have c1: "claim_due_deliveries 20 DELIVERY_LEASE_SECONDS 0 one_delivery = (Inr [?c 1], d1)"
    using claim_single [OF d(1) _ d(2) w(4), of 0] w
    by (simp add: delivery_due_def DELIVERY_LEASE_SECONDS_def d1_def)
  have c2: "claim_due_deliveries 20 DELIVERY_LEASE_SECONDS 120 d1 = (Inr [?c 2], d2)"
    using claim_single [of d1 _ 120] w d(2)
    by (simp add: delivery_due_def DELIVERY_LEASE_SECONDS_def d1_def d2_def)
  have "deliver ext 120 (\<lambda>_. Answered 200) 121 (?c 2) d2 = mark_delivered 41 200 121 d2"
    by (simp add: deliver_def is_success_def)
  then have ok: "map whd_status (webhook_deliveries (deliver ext 120 (\<lambda>_. Answered 200) 121 (?c 2) d2)) = [Delivered]"
    using w by (simp add: mark_delivered_def d2_def)
  obtain w3 where w3: "webhook_deliveries d3 = [w3]" "whd_status w3 = PendingDelivery" "whd_id w3 = 41"
    "whd_endpoint w3 = 31" "whd_next_attempt_at w3 = 150"
    using w by (simp add: d3_def deliver_def is_success_def mark_delivered_def record_failure_def
        record_attempt_failure_def MAX_ATTEMPTS_def delivery_backoff_def d2_def)
  have "webhook_endpoints d3 = [hook]"
    using d(2) by (simp add: d3_def deliver_def is_success_def mark_delivered_def record_failure_def
        record_attempt_failure_def Let_def d2_def)
  from claim_single [OF w3(1) _ this w3(4), of 200] w3
  have "\<exists>c d4. claim_due_deliveries 20 DELIVERY_LEASE_SECONDS 200 d3 = (Inr [c], d4) \<and> cld_id c = 41"
    by (simp add: delivery_due_def)
  with c1 c2 ok show ?thesis unfolding d3_def by fastforce
qed

section \<open>Addresses\<close>

lemma first_piece_plain: "set s \<inter> set seps = {} \<Longrightarrow> first_piece seps (s @ t) = s @ first_piece seps t"
  by (induction s) (auto simp: first_piece_def)

lemma split_once_colon_None: "CHR '':'' \<notin> set s \<Longrightarrow> split_once '':'' s = None"
  by (induction s) (auto simp: starts_with_def)

lemma split_once_colon: "CHR '':'' \<notin> set s \<Longrightarrow> split_once '':'' (s @ CHR '':'' # t) = Some (s, t)"
  by (induction s) (auto simp: starts_with_def)

lemma ascii_digit_not: "is_ascii_digit c \<Longrightarrow> c \<notin> set ''/?#@:[]''"
  by (auto simp: is_ascii_digit_def byte_def)

lemma dotted_plain: "c \<in> set (dotted v) \<Longrightarrow> c \<notin> set ''/?#@:[]''"
  using dotted_chars [of c v] ascii_digit_not [of c] by auto

definition port_ok :: "string \<Rightarrow> bool" where
  "port_ok p \<longleftrightarrow> p = [] \<or> (\<exists>digits. p = CHR '':'' # digits \<and> list_all is_ascii_digit digits)"

definition path_ok :: "string \<Rightarrow> bool" where
  "path_ok p \<longleftrightarrow> (case p of [] \<Rightarrow> True | c # _ \<Rightarrow> List.member ''/?#'' c)"

definition userinfo_ok :: "string \<Rightarrow> bool" where
  "userinfo_ok u \<longleftrightarrow> u = [] \<or> (\<exists>n. u = n @ ''@'' \<and> \<not> contains_any ''/?#'' n)"

lemma host_of_dotted:
  assumes "userinfo_ok u" and "port_ok p" and "path_ok q"
  shows "host_of (u @ dotted v @ p @ q) = dotted v"
proof -
  have digits: "set p \<inter> set ''/?#@'' = {}"
    using assms(2) ascii_digit_not by (fastforce simp: port_ok_def list_all_iff)
  have hostchars: "set (dotted v) \<inter> set ''/?#@:[]'' = {}" using dotted_plain by blast
  have uchars: "set u \<inter> set ''/?#'' = {}"
    using assms(1) by (auto simp: userinfo_ok_def contains_any_iff)
  have "first_piece ''/?#'' q = []"
    using assms(3) by (cases q) (auto simp: path_ok_def first_piece_def)
  moreover have "set (u @ dotted v @ p) \<inter> set ''/?#'' = {}"
    using uchars hostchars digits by auto
  ultimately have authority: "first_piece ''/?#'' (u @ dotted v @ p @ q) = u @ dotted v @ p"
    using first_piece_plain [of "u @ dotted v @ p" "''/?#''" q] by simp
  have no_at: "CHR ''@'' \<notin> set (dotted v @ p)" using hostchars digits by auto
  have after: "last_piece ''@'' (u @ dotted v @ p) = dotted v @ p"
    using assms(1) last_piece_plain [OF no_at] last_piece_after [OF no_at] by (auto simp: userinfo_ok_def)
  have bracket: "\<not> starts_with (dotted v @ p) ''[''"
  proof -
    obtain c s where cs: "dotted v = c # s" by (cases "dotted v") auto
    then have "c \<noteq> CHR ''[''" using hostchars by auto
    with cs show ?thesis by (simp add: starts_with_def)
  qed
  have "CHR '':'' \<notin> set (dotted v)" using hostchars by auto
  then have "(case split_once '':'' (dotted v @ p) of Some (host, _) \<Rightarrow> host | None \<Rightarrow> dotted v @ p) = dotted v"
    using assms(2) split_once_colon_None [of "dotted v"] split_once_colon [of "dotted v"]
    by (auto simp: port_ok_def)
  with bracket show ?thesis
    by (simp add: host_of_def Let_def authority after del: append_assoc cong: option.case_cong)
qed

lemma trim_brackets_dotted: "trim_brackets (dotted v) = dotted v"
proof -
  have no: "\<not> ends_of_host c" if "c \<in> set (dotted v)" for c
    using dotted_plain [OF that] by (auto simp: ends_of_host_def)
  have keep: "dropWhile ends_of_host s = s" if "set s \<subseteq> set (dotted v)" for s
    using that no by (cases s) auto
  show ?thesis using keep [of "dotted v"] keep [of "rev (dotted v)"] by (simp add: trim_brackets_def)
qed

lemma split_scheme:
  "split_once ''://'' (''http://'' @ s) = Some (''http'', s)" "split_once ''://'' (''https://'' @ s) = Some (''https'', s)"
  by (simp_all add: starts_with_def)

text \<open>Without the opt-in, no endpoint points at a loopback, link-local or unspecified IPv4 address written
  in decimal: under either scheme, with or without user information, port, path, query and fragment,
  the address is found in the URL and refused.\<close>

theorem private_ipv4_is_refused:
  assumes "is_octets v" and "is_forbidden_address (V4 v)" and "scheme = ''http://'' \<or> scheme = ''https://''"
    and "userinfo_ok u" and "port_ok p" and "path_ok q"
    and "trim (scheme @ u @ dotted v @ p @ q) = scheme @ u @ dotted v @ p @ q"
  shows "check_url (scheme @ u @ dotted v @ p @ q) False = Inl (Invalid PrivateTarget)"
proof -
  have "split_once ''://'' (scheme @ u @ dotted v @ p @ q) =
      Some (if scheme = ''http://'' then ''http'' else ''https'', u @ dotted v @ p @ q)"
    using assms(3) split_scheme [of "u @ dotted v @ p @ q"] by auto
  moreover have "eq_ignore_ascii_case ''http'' ''http''" "eq_ignore_ascii_case ''https'' ''https''"
    by (simp_all add: eq_ignore_ascii_case_def)
  ultimately show ?thesis
    using assms(2) host_of_dotted [OF assms(4-6), of v] parse_ip_dotted [OF assms(1)]
    by (simp add: check_url_def Let_def assms(7) trim_brackets_dotted)
qed

lemma digit_chars:
  "digit_char 0 = CHR ''0''" "digit_char (Suc 0) = CHR ''1''" "digit_char 2 = CHR ''2''" "digit_char 7 = CHR ''7''"
  by (rule byte_inject [THEN iffD1], simp, simp add: byte_def)+

theorem private_ipv4_is_refused_witness:
  "check_url ''http://ann@127.0.0.1:9000/hooks'' False = Inl (Invalid PrivateTarget)"
proof -
  have digits: "show_nat 127 = ''127''" "show_nat 0 = ''0''" "show_nat (Suc 0) = ''1''"
    by (simp_all add: show_nat.simps digit_chars)
  have "check_url (''http://'' @ ''ann@'' @ dotted (127, 0, 0, 1) @ '':9000'' @ ''/hooks'') False =
      Inl (Invalid PrivateTarget)"
  proof (rule private_ipv4_is_refused)
    show "userinfo_ok ''ann@''"
      unfolding userinfo_ok_def by (intro disjI2 exI [of _ "''ann''"]) (simp add: contains_any_def)
    show "port_ok '':9000''" by (simp add: port_ok_def is_ascii_digit_def byte_def)
    show "trim (''http://'' @ ''ann@'' @ dotted (127, 0, 0, 1) @ '':9000'' @ ''/hooks'') =
        ''http://'' @ ''ann@'' @ dotted (127, 0, 0, 1) @ '':9000'' @ ''/hooks''"
      by (simp add: dotted_def digits trim_def is_whitespace_def is_cont_def byte_def)
  qed (simp_all add: is_octets_def path_ok_def)
  then show ?thesis by (simp add: dotted_def digits)
qed

lemmas trim_simps = trim_def is_whitespace_def is_cont_def byte_def

lemmas parse_simps =
  parse_ip_def read_ipv4_def read_ipv6_def read_separator_def read_octet_def read_number_def to_digit_def
  starts_with_def is_ascii_digit_def is_ascii_lowercase_def is_ascii_uppercase_def byte_def

text \<open>Unfolding \<open>read_groups\<close> at a number of groups written in decimal.\<close>

lemma read_groups_numeral:
  "read_groups i (numeral n) s =
     (let k = pred_numeral n in
      case (if k > 0 then read_separator (CHR '':'') i read_ipv4 s else None) of
        Some ((a, b, c, d), rest) \<Rightarrow> ([a * 256 + b, c * 256 + d], True, rest)
      | None \<Rightarrow>
          (case read_separator (CHR '':'') i (read_number 16 4 65535 True) s of
             None \<Rightarrow> ([], False, s)
           | Some (g, rest) \<Rightarrow>
               (case read_groups (Suc i) k rest of (gs, v4, rest') \<Rightarrow> (g # gs, v4, rest'))))"
proof -
  have "numeral n = Suc (pred_numeral n)" by (rule numeral_eq_Suc)
  then show ?thesis by (simp only: read_groups.simps Let_def)
qed

text \<open>The check of the address and the table disagree, and both miss a spelling: the IPv4-mapped form of a
  loopback address passes the check, and so does an upper-case scheme, which the constraint of the
  table then refuses, so that a manager gets an internal error (500) for an address the check
  accepts.\<close>

theorem address_check_gaps:
  "check_url ''http://[::ffff:127.0.0.1]/'' False = Inr () \<and>
   parse_ip ''::ffff:127.0.0.1'' = Some (V6 [0, 0, 0, 0, 0, 65535, 127 * 256, 1]) \<and>
   check_url ''HTTP://example.com'' False = Inr () \<and>
   (\<exists>e. fst (create_endpoint False 7 \<lparr>cer_url = ''HTTP://example.com'', cer_form = None, cer_description = None\<rparr>
      11 no_client 32 ''0123456789abcdef'' 90 given_up) = Inl e \<and> app_status (webhook_app_error e) = 500)"
proof -
  have mapped: "parse_ip ''::ffff:127.0.0.1'' = Some (V6 [0, 0, 0, 0, 0, 65535, 127 * 256, 1])"
    by (simp add: parse_simps read_groups_numeral Let_def) (simp add: numeral_eq_Suc)
  have t: "trim ''http://[::ffff:127.0.0.1]/'' = ''http://[::ffff:127.0.0.1]/''"
    "trim ''HTTP://example.com'' = ''HTTP://example.com''"
    by (simp_all add: trim_simps)
  have sp: "split_once ''://'' ''http://[::ffff:127.0.0.1]/'' = Some (''http'', ''[::ffff:127.0.0.1]/'')"
    "split_once ''://'' ''HTTP://example.com'' = Some (''HTTP'', ''example.com'')"
    by (simp_all add: starts_with_def)
  have h: "host_of ''[::ffff:127.0.0.1]/'' = ''[::ffff:127.0.0.1]''" "host_of ''example.com'' = ''example.com''"
    by (simp_all add: host_of_def first_piece_def last_piece_def starts_with_def)
  have "trim_brackets ''[::ffff:127.0.0.1]'' = ''::ffff:127.0.0.1''" "trim_brackets ''example.com'' = ''example.com''"
    by (simp_all add: trim_brackets_def ends_of_host_def)
  moreover have "parse_ip ''example.com'' = None"
    by (simp add: parse_simps read_groups_numeral Let_def)
  moreover have "eq_ignore_ascii_case ''HTTP'' ''http''"
    by (simp add: eq_ignore_ascii_case_def to_ascii_lowercase_def lower_char_def is_ascii_uppercase_def byte_def
        char_of_def bit_simps)
  moreover have "eq_ignore_ascii_case ''http'' ''http''" by (simp add: eq_ignore_ascii_case_def)
  ultimately have ok: "check_url ''http://[::ffff:127.0.0.1]/'' False = Inr ()"
    "check_url ''HTTP://example.com'' False = Inr ()"
    unfolding check_url_def Let_def t sp option.case prod.case h by (simp_all add: mapped)
  have "trim ''HTTP://example.com'' = ''HTTP://example.com''"
    by (simp add: trim_def is_whitespace_def is_cont_def byte_def)
  then have "\<not> endpoint_checks (trim ''HTTP://example.com'') s" for s
    by (simp add: endpoint_checks_def starts_with_def)
  then have "\<exists>e. fst (create_endpoint False 7 \<lparr>cer_url = ''HTTP://example.com'', cer_form = None, cer_description = None\<rparr>
      11 no_client 32 ''0123456789abcdef'' 90 given_up) = Inl e \<and> app_status (webhook_app_error e) = 500"
    by (simp add: create_endpoint_def with_manager_def with_member_def given_up_access require_manager_def
        is_manager_def ok insert_endpoint_def Let_def)
  with mapped ok show ?thesis by blast
qed

end
