(* ===== verification/Dispatcher.thy ===== *)
theory Dispatcher
  imports WebhookGuarantees
begin

text \<open>
  The outbox (\<open>src/src/shared/outbox.rs\<close>) and the dispatcher (\<open>src/src/dispatcher/\<close>): the event an
  accepted submission left is claimed, fanned out to the webhooks, turned into one e-mail per address,
  and settled or put back. The state is the database and the e-mail queue. Whether Redis takes a job is
  the argument \<open>redis\<close>: \<open>None\<close> when it does, the error line when it does not.
\<close>

section \<open>The outbox\<close>

definition OUTBOX_LEASE_SECONDS :: int where "OUTBOX_LEASE_SECONDS = 120"
definition MAX_BODY_BYTES :: nat where "MAX_BODY_BYTES = 256 * 1024"

definition outbox_backoff :: "int \<Rightarrow> int" where
  "outbox_backoff attempts =
     (if attempts = 0 \<or> attempts = 1 then 5
      else if attempts = 2 then 30
      else if attempts = 3 then 120
      else if attempts = 4 then 600
      else 3600)"

record submission_received =
  srv_form :: uuid
  srv_submission :: uuid

definition uuid_of_json :: "externals \<Rightarrow> json option \<Rightarrow> uuid option" where
  "uuid_of_json ext v = Option.bind (Option.bind v as_str) (uuid_parse ext)"

text \<open>\<open>serde_json::from_value\<close> for the derived struct: an object with both fields, whatever else it has, or
  the two values in an array.\<close>

definition submission_received_of :: "externals \<Rightarrow> json \<Rightarrow> submission_received option" where
  "submission_received_of ext payload =
     (let fields = (case payload of
                      JObject m \<Rightarrow> (map_of m ''form_id'', map_of m ''submission_id'')
                    | JArray [f, s] \<Rightarrow> (Some f, Some s)
                    | _ \<Rightarrow> (None, None))
      in case (uuid_of_json ext (fst fields), uuid_of_json ext (snd fields)) of
           (Some f, Some s) \<Rightarrow> Some \<lparr>srv_form = f, srv_submission = s\<rparr>
         | _ \<Rightarrow> None)"

definition outbox_due :: "instant \<Rightarrow> outbox_row \<Rightarrow> bool" where
  "outbox_due now e \<longleftrightarrow> obx_dispatched_at e = None \<and> obx_available_at e \<le> now"

definition claim_due :: "int \<Rightarrow> int \<Rightarrow> instant \<Rightarrow> db \<Rightarrow> outbox_row list \<times> db" where
  "claim_due l lease now d =
     (case claim_rows (outbox_due now) (\<lambda>e. (obx_available_at e, obx_id e)) obx_id l
             (\<lambda>e. e\<lparr>obx_attempts := obx_attempts e + 1, obx_available_at := now + lease\<rparr>) (outbox_events d) of
        (cs, t) \<Rightarrow> (cs, d\<lparr>outbox_events := t\<rparr>))"

definition mark_dispatched :: "int \<Rightarrow> instant \<Rightarrow> db \<Rightarrow> db" where
  "mark_dispatched i now d =
     d\<lparr>outbox_events := update_where (\<lambda>e. obx_id e = i)
         (\<lambda>e. e\<lparr>obx_dispatched_at := Some now, obx_last_error := None\<rparr>) (outbox_events d)\<rparr>"

definition reschedule :: "int \<Rightarrow> string \<Rightarrow> int \<Rightarrow> instant \<Rightarrow> db \<Rightarrow> db" where
  "reschedule i error delay now d =
     d\<lparr>outbox_events := update_where (\<lambda>e. obx_id e = i)
         (\<lambda>e. e\<lparr>obx_available_at := now + delay, obx_last_error := Some (take_chars 500 error)\<rparr>)
         (outbox_events d)\<rparr>"

definition pending_count :: "db \<Rightarrow> int" where
  "pending_count d = int (rows_affected (\<lambda>e. obx_dispatched_at e = None) (outbox_events d))"


section \<open>What there is to say\<close>

record notification_source =
  nsr_organization :: uuid
  nsr_form :: uuid
  nsr_form_name :: string
  nsr_schema :: form_schema
  nsr_notify_emails :: "string list"
  nsr_submission :: uuid
  nsr_data :: json
  nsr_status :: submission_status
  nsr_created_at :: instant

definition source_of :: "form_record \<Rightarrow> submission_row \<Rightarrow> notification_source" where
  "source_of f s =
     \<lparr>nsr_organization = frm_organization f, nsr_form = frm_id f, nsr_form_name = frm_name f,
      nsr_schema = frm_schema f, nsr_notify_emails = frm_notify_emails f, nsr_submission = sub_id s,
      nsr_data = sub_data s, nsr_status = sub_status s, nsr_created_at = sub_created_at s\<rparr>"

definition find_notification_source :: "db \<Rightarrow> uuid \<Rightarrow> notification_source option" where
  "find_notification_source d sid =
     (case find (\<lambda>s. sub_id s = sid) (submissions d) of
        None \<Rightarrow> None
      | Some s \<Rightarrow> map_option (\<lambda>f. source_of f s) (find (\<lambda>f. frm_id f = sub_form s) (forms d)))"

text \<open>The answers in the order of the form, then the ones it no longer asks for, in the order of their keys.\<close>

definition answers :: "notification_source \<Rightarrow> (string \<times> json) list" where
  "answers src =
     (case as_object (nsr_data src) of
        None \<Rightarrow> []
      | Some data \<Rightarrow>
          List.map_filter (\<lambda>f. map_option (\<lambda>v. (label f, v)) (map_of data (key f)))
            (schema_fields (nsr_schema src)) @
          sort_key fst (filter (\<lambda>(k, _). schema_field (nsr_schema src) k = None) data))"

fun render_value :: "externals \<Rightarrow> json \<Rightarrow> string" where
  "render_value ext JNull = []"
| "render_value ext (JString text) = text"
| "render_value ext (JBool b) = (if b then ''true'' else ''false'')"
| "render_value ext (JNumber n) = json_text ext (JNumber n)"
| "render_value ext (JArray items) = join '', '' (map (render_value ext) items)"
| "render_value ext (JObject m) = json_text ext (JObject m)"

text \<open>The loop that steps back to a character boundary.\<close>

fun boundary_before :: "string \<Rightarrow> nat \<Rightarrow> nat" where
  "boundary_before text 0 = 0"
| "boundary_before text (Suc n) =
     (if is_char_boundary text (Suc n) then Suc n else boundary_before text n)"

definition truncate_text :: "nat \<Rightarrow> string \<Rightarrow> string" where
  "truncate_text budget text =
     (if length text \<le> budget then text
      else take (boundary_before text budget) text @ newline @ newline @ ''[truncated]'' @ newline)"

definition full_body :: "externals \<Rightarrow> notification_source \<Rightarrow> string" where
  "full_body ext src =
     nsr_form_name src @ '' received a new submission.'' @ newline @ newline @
     concat (map (\<lambda>(k, v). ''  '' @ k @ '': '' @ render_value ext v @ newline) (answers src)) @
     newline @ ''Received '' @ utc_minute ext (nsr_created_at src) @ ''.'' @ newline"

definition email_body :: "externals \<Rightarrow> notification_source \<Rightarrow> string" where
  "email_body ext src = truncate_text MAX_BODY_BYTES (full_body ext src)"

definition notification_email :: "externals \<Rightarrow> notification_source \<Rightarrow> string \<Rightarrow> email_job" where
  "notification_email ext src recipient =
     \<lparr>job_to = recipient, job_subject = ''New submission for \"'' @ nsr_form_name src @ ''\"'',
      job_text_body = email_body ext src\<rparr>"

fun submission_status_text :: "submission_status \<Rightarrow> string" where
  "submission_status_text Unread = ''unread''"
| "submission_status_text Read = ''read''"
| "submission_status_text Spam = ''spam''"
| "submission_status_text Archived = ''archived''"

definition webhook_payload :: "externals \<Rightarrow> notification_source \<Rightarrow> json" where
  "webhook_payload ext src =
     JObject
       [(''event'', JString SUBMISSION_RECEIVED_EVENT),
        (''form'', JObject [(''id'', JString (uuid_text ext (nsr_form src))), (''name'', JString (nsr_form_name src))]),
        (''submission'', JObject
          [(''created_at'', JString (rfc3339 ext (nsr_created_at src))), (''data'', nsr_data src),
           (''id'', JString (uuid_text ext (nsr_submission src))),
           (''status'', JString (submission_status_text (nsr_status src)))])]"


section \<open>Dispatching\<close>

datatype dispatch_error = UnreadablePayload int | FanOutFailed | QueueFailed string

fun error_line :: "dispatch_error \<Rightarrow> string" where
  "error_line (UnreadablePayload i) = ''outbox event '' @ show_int i @ '' has an unreadable payload''"
| "error_line FanOutFailed = ''internal webhook error''"
| "error_line (QueueFailed line) = line"

definition fan_out_webhooks ::
  "externals \<Rightarrow> (uuid \<Rightarrow> uuid) \<Rightarrow> instant \<Rightarrow> notification_source \<Rightarrow> db \<Rightarrow> (dispatch_error + unit) \<times> db" where
  "fan_out_webhooks ext draw now src d =
     (case create_deliveries (nsr_organization src) (nsr_form src) (nsr_submission src)
             (webhook_payload ext src) draw now d of
        (Inl _, d') \<Rightarrow> (Inl FanOutFailed, d')
      | (Inr _, d') \<Rightarrow> (Inr (), d'))"

fun enqueue_emails ::
  "externals \<Rightarrow> (email_job \<Rightarrow> string option) \<Rightarrow> notification_source \<Rightarrow> string list \<Rightarrow> email_queue \<Rightarrow>
   (dispatch_error + unit) \<times> email_queue" where
  "enqueue_emails ext redis src [] q = (Inr (), q)"
| "enqueue_emails ext redis src (recipient # rest) q =
     (let job = notification_email ext src recipient
      in case redis job of
           Some line \<Rightarrow> (Inl (QueueFailed line), q)
         | None \<Rightarrow> enqueue_emails ext redis src rest (queue_enqueue job q))"

definition dispatch_submission ::
  "externals \<Rightarrow> (email_job \<Rightarrow> string option) \<Rightarrow> (uuid \<Rightarrow> uuid) \<Rightarrow> instant \<Rightarrow> outbox_row \<Rightarrow> db \<times> email_queue \<Rightarrow>
   (dispatch_error + unit) \<times> (db \<times> email_queue)" where
  "dispatch_submission ext redis draw now event s =
     (case s of (d, q) \<Rightarrow>
        (case submission_received_of ext (obx_payload event) of
           None \<Rightarrow> (Inl (UnreadablePayload (obx_id event)), (d, q))
         | Some payload \<Rightarrow>
             (case find_notification_source d (srv_submission payload) of
                None \<Rightarrow> (Inr (), (d, q))
              | Some src \<Rightarrow>
                  (case fan_out_webhooks ext draw now src d of
                     (Inl e, d') \<Rightarrow> (Inl e, (d', q))
                   | (Inr _, d') \<Rightarrow>
                       (case enqueue_emails ext redis src (nsr_notify_emails src) q of
                          (r, q') \<Rightarrow> (r, (d', q')))))))"

definition dispatch ::
  "externals \<Rightarrow> (email_job \<Rightarrow> string option) \<Rightarrow> (uuid \<Rightarrow> uuid) \<Rightarrow> instant \<Rightarrow> outbox_row \<Rightarrow> db \<times> email_queue \<Rightarrow>
   (dispatch_error + unit) \<times> (db \<times> email_queue)" where
  "dispatch ext redis draw now event s =
     (case obx_kind event of SubmissionReceivedKind \<Rightarrow> dispatch_submission ext redis draw now event s)"

text \<open>The body of the loop: settle the event or put it back.\<close>

definition settle_event ::
  "externals \<Rightarrow> (email_job \<Rightarrow> string option) \<Rightarrow> (int \<Rightarrow> uuid \<Rightarrow> uuid) \<Rightarrow> (int \<Rightarrow> instant) \<Rightarrow> outbox_row \<Rightarrow>
   db \<times> email_queue \<Rightarrow> db \<times> email_queue" where
  "settle_event ext redis draw clock event s =
     (case dispatch ext redis (draw (obx_id event)) (clock (obx_id event)) event s of
        (Inr _, (d, q)) \<Rightarrow> (mark_dispatched (obx_id event) (clock (obx_id event)) d, q)
      | (Inl e, (d, q)) \<Rightarrow>
          (reschedule (obx_id event) (error_line e) (outbox_backoff (obx_attempts event)) (clock (obx_id event)) d, q))"

definition dispatcher_run_once ::
  "externals \<Rightarrow> int \<Rightarrow> (email_job \<Rightarrow> string option) \<Rightarrow> (int \<Rightarrow> uuid \<Rightarrow> uuid) \<Rightarrow> (int \<Rightarrow> instant) \<Rightarrow> instant \<Rightarrow>
   db \<times> email_queue \<Rightarrow> nat \<times> (db \<times> email_queue)" where
  "dispatcher_run_once ext batch redis draw clock now s =
     (case s of (d, q) \<Rightarrow>
        (case claim_due batch OUTBOX_LEASE_SECONDS now d of
           (events, d') \<Rightarrow> (length events, fold (settle_event ext redis draw clock) events (d', q))))"


section \<open>The mail loop\<close>

text \<open>One pass of \<open>run_email_loop\<close> (\<open>src/src/bin/worker.rs\<close>): the mail that went out, if any, and the queue.\<close>

definition email_loop_step :: "(email_job \<Rightarrow> bool) \<Rightarrow> (email_job \<Rightarrow> bool) \<Rightarrow> email_queue \<Rightarrow> email_job option \<times> email_queue" where
  "email_loop_step send dead_letter_up q =
     (case queue_dequeue q of
        (None, q') \<Rightarrow> (None, q')
      | (Some job, q') \<Rightarrow>
          if send job then (Some job, q')
          else (None, if dead_letter_up job then queue_dead_letter job q' else q'))"

text \<open>\<open>run_outbox_loop\<close> without its pauses: one batch after the other, each at its instant and with Redis as it
  is then.\<close>

fun run_outbox_loop ::
  "externals \<Rightarrow> int \<Rightarrow> (int \<Rightarrow> uuid \<Rightarrow> uuid) \<Rightarrow> (int \<Rightarrow> instant) \<Rightarrow> (instant \<times> (email_job \<Rightarrow> string option)) list \<Rightarrow>
   db \<times> email_queue \<Rightarrow> db \<times> email_queue" where
  "run_outbox_loop ext batch draw clock [] s = s"
| "run_outbox_loop ext batch draw clock ((now, redis) # rounds) s =
     run_outbox_loop ext batch draw clock rounds (snd (dispatcher_run_once ext batch redis draw clock now s))"

end
