(* ===== verification/Dispatching.thy ===== *)
theory Dispatching
  imports Dispatcher "HOL-Library.Multiset" "HOL-Library.Countable"
begin

text \<open>
  What the dispatcher promises: every event is dispatched at least once, whatever the order of failures;
  a worker owns an event for the length of its lease; a healthy system drains the outbox; the mail shows
  every answer and stays within its size. And the mail a failure half way sends again.
\<close>

section \<open>The outbox is a lease queue\<close>

interpretation outbox_queue: lease_queue outbox_events obx_id outbox_due obx_attempts claim_due
proof (unfold_locales, goal_cases)
  case (1 d l lease now cs d' c)
  then obtain t where t: "claim_rows (outbox_due now) (\<lambda>e. (obx_available_at e, obx_id e)) obx_id l
      (\<lambda>e. e\<lparr>obx_attempts := obx_attempts e + 1, obx_available_at := now + lease\<rparr>) (outbox_events d) = (cs, t)"
    by (auto simp: claim_due_def split: prod.splits)
  from claim_rows_claimed [OF 1(1) t 1(3)] show ?case by auto
next
  case (2 d l lease now cs d' c)
  then obtain t where t: "claim_rows (outbox_due now) (\<lambda>e. (obx_available_at e, obx_id e)) obx_id l
      (\<lambda>e. e\<lparr>obx_attempts := obx_attempts e + 1, obx_available_at := now + lease\<rparr>) (outbox_events d) = (cs, t)"
    and d': "d' = d\<lparr>outbox_events := t\<rparr>"
    by (auto simp: claim_due_def split: prod.splits)
  from claim_rows_claimed [OF 2(1) t 2(3)] show ?case by (auto simp: d' outbox_due_def)
next
  case (3 l lease now d cs d')
  then obtain t where t: "claim_rows (outbox_due now) (\<lambda>e. (obx_available_at e, obx_id e)) obx_id l
      (\<lambda>e. e\<lparr>obx_attempts := obx_attempts e + 1, obx_available_at := now + lease\<rparr>) (outbox_events d) = (cs, t)"
    and d': "d' = d\<lparr>outbox_events := t\<rparr>"
    by (auto simp: claim_due_def split: prod.splits)
  from claim_rows_others(1) [OF t] show ?case by (simp add: d')
qed


section \<open>One event\<close>

text \<open>What a dispatched event stands for: the submission is gone, or every endpoint that watches the form
  has a delivery and every address a job.\<close>

definition served :: "externals \<Rightarrow> json \<Rightarrow> db \<times> email_queue \<Rightarrow> bool" where
  "served ext payload s \<longleftrightarrow>
     (case submission_received_of ext payload of
        None \<Rightarrow> False
      | Some p \<Rightarrow>
          (case find_notification_source (fst s) (srv_submission p) of
             None \<Rightarrow> True
           | Some src \<Rightarrow>
               (\<forall>w \<in> set (webhook_endpoints (fst s)). watches (nsr_organization src) (nsr_form src) w \<longrightarrow>
                  already_queued (fst s) (whe_id w) (nsr_submission src)) \<and>
               (\<forall>r \<in> set (nsr_notify_emails src). notification_email ext src r \<in> set (jobs (snd s)))))"

text \<open>All a dispatch does to the rest: deliveries and jobs are added, events settled.\<close>

definition grows :: "db \<times> email_queue \<Rightarrow> db \<times> email_queue \<Rightarrow> bool" where
  "grows s s' \<longleftrightarrow>
     (fst s')\<lparr>webhook_deliveries := [], outbox_events := []\<rparr> = (fst s)\<lparr>webhook_deliveries := [], outbox_events := []\<rparr> \<and>
     set (webhook_deliveries (fst s)) \<subseteq> set (webhook_deliveries (fst s')) \<and>
     set (jobs (snd s)) \<subseteq> set (jobs (snd s'))"

lemma grows_refl [simp]: "grows s s"
  by (simp add: grows_def)

lemma grows_trans: "grows s t \<Longrightarrow> grows t u \<Longrightarrow> grows s u"
  by (fastforce simp: grows_def)

lemma grows_tables:
  assumes "grows s s'"
  shows "submissions (fst s') = submissions (fst s)" "forms (fst s') = forms (fst s)"
    "webhook_endpoints (fst s') = webhook_endpoints (fst s)" "organizations (fst s') = organizations (fst s)"
proof -
  from assms have eq: "(fst s')\<lparr>webhook_deliveries := [], outbox_events := []\<rparr> =
      (fst s)\<lparr>webhook_deliveries := [], outbox_events := []\<rparr>" by (simp add: grows_def)
  from arg_cong [OF eq, of submissions] arg_cong [OF eq, of forms] arg_cong [OF eq, of webhook_endpoints]
    arg_cong [OF eq, of organizations]
  show "submissions (fst s') = submissions (fst s)" "forms (fst s') = forms (fst s)"
    "webhook_endpoints (fst s') = webhook_endpoints (fst s)" "organizations (fst s') = organizations (fst s)"
    by simp_all
qed

lemma grows_source:
  "grows s s' \<Longrightarrow> find_notification_source (fst s') sid = find_notification_source (fst s) sid"
  by (simp only: find_notification_source_def grows_tables)

lemma served_grows:
  assumes "served ext payload s" and "grows s s'"
  shows "served ext payload s'"
proof -
  have "already_queued (fst s) eid sid \<Longrightarrow> already_queued (fst s') eid sid" for eid sid
    using assms(2) by (auto simp: already_queued_def exists_row_iff grows_def)
  moreover have "j \<in> set (jobs (snd s)) \<Longrightarrow> j \<in> set (jobs (snd s'))" for j
    using assms(2) by (auto simp: grows_def)
  ultimately show ?thesis
    using assms(1) grows_source [OF assms(2)] grows_tables(3) [OF assms(2)]
    by (fastforce simp: served_def split: option.splits)
qed

lemma enqueue_emails_result:
  "enqueue_emails ext redis src rs q = (r, q') \<Longrightarrow>
   \<exists>k \<le> length rs. q' = q\<lparr>jobs := jobs q @ map (notification_email ext src) (take k rs)\<rparr> \<and>
     (r = Inr () \<longleftrightarrow> k = length rs)"
proof (induction rs arbitrary: q)
  case (Cons a rs)
  show ?case
  proof (cases "redis (notification_email ext src a)")
    case None
    with Cons.prems have "enqueue_emails ext redis src rs (queue_enqueue (notification_email ext src a) q) = (r, q')"
      by (simp add: Let_def)
    from Cons.IH [OF this] obtain k where "k \<le> length rs"
      "q' = q\<lparr>jobs := jobs q @ map (notification_email ext src) (take (Suc k) (a # rs))\<rparr>"
      "r = Inr () \<longleftrightarrow> Suc k = length (a # rs)"
      by (auto simp: queue_enqueue_def)
    then show ?thesis by (intro exI [of _ "Suc k"]) simp
  next
    case (Some line)
    with Cons.prems show ?thesis by (intro exI [of _ 0]) (auto simp: Let_def)
  qed
qed simp

lemma create_deliveries_grows:
  assumes "create_deliveries oid fid sid payload draw now d = (r, d1)"
  shows "set (webhook_deliveries d) \<subseteq> set (webhook_deliveries d1)"
  using assms by (cases rule: create_deliveries_cases) auto


lemma dispatch_submission_grows:
  assumes "dispatch_submission ext redis draw now e s = (r, s')"
  shows "grows s s'" and "outbox_events (fst s') = outbox_events (fst s)"
    and "r = Inr () \<Longrightarrow> served ext (obx_payload e) s'"
proof -
  obtain d q where s: "s = (d, q)" by (cases s)
  show "grows s s'" and "outbox_events (fst s') = outbox_events (fst s)"
    and "r = Inr () \<Longrightarrow> served ext (obx_payload e) s'"
  proof (atomize (full), goal_cases)
    case 1
    show ?case
    proof (cases "\<exists>p src. submission_received_of ext (obx_payload e) = Some p \<and>
        find_notification_source d (srv_submission p) = Some src")
      case False
      with assms show ?thesis
        by (auto simp: dispatch_submission_def s served_def split: option.splits)
    next
      case True
      then obtain p src where p: "submission_received_of ext (obx_payload e) = Some p"
        and src: "find_notification_source d (srv_submission p) = Some src" by blast
      obtain r1 d1 where fo: "create_deliveries (nsr_organization src) (nsr_form src) (nsr_submission src)
          (webhook_payload ext src) draw now d = (r1, d1)" by fastforce
      obtain r2 q2 where em: "enqueue_emails ext redis src (nsr_notify_emails src) q = (r2, q2)" by fastforce
      from fo have frame: "d1\<lparr>webhook_deliveries := webhook_deliveries d\<rparr> = d" by (rule create_deliveries_frame)
      have frame': "d1\<lparr>webhook_deliveries := [], outbox_events := []\<rparr> = d\<lparr>webhook_deliveries := [], outbox_events := []\<rparr>"
        and obx: "outbox_events d1 = outbox_events d"
        using arg_cong [OF frame, of "\<lambda>d. d\<lparr>webhook_deliveries := [], outbox_events := []\<rparr>"]
          arg_cong [OF frame, of outbox_events] by simp_all
      have more: "set (webhook_deliveries d) \<subseteq> set (webhook_deliveries d1)"
        using fo by (rule create_deliveries_grows)
      from enqueue_emails_result [OF em] obtain k where
        k: "k \<le> length (nsr_notify_emails src)"
          "q2 = q\<lparr>jobs := jobs q @ map (notification_email ext src) (take k (nsr_notify_emails src))\<rparr>"
          "r2 = Inr () \<longleftrightarrow> k = length (nsr_notify_emails src)" by blast
      show ?thesis
      proof (cases r1)
        case (Inl err)
        with assms have "r = Inl FanOutFailed" "s' = (d1, q)"
          by (simp_all add: dispatch_submission_def s p src fan_out_webhooks_def fo)
        then show ?thesis using frame' obx more by (simp add: grows_def s)
      next
        case (Inr n)
        with assms have r: "r = r2" "s' = (d1, q2)"
          by (simp_all add: dispatch_submission_def s p src fan_out_webhooks_def fo em)
        have grows: "grows s s'" using frame' more k(2) by (simp add: grows_def s r)
        have "served ext (obx_payload e) s'" if "r2 = Inr ()"
        proof -
          have "find_notification_source d1 (srv_submission p) = Some src"
            using grows_source [OF grows] src by (simp add: s r)
          moreover have "webhook_endpoints d1 = webhook_endpoints d"
            using grows_tables(3) [OF grows] by (simp add: s r)
          ultimately show ?thesis
            using that k create_deliveries_queued [OF fo [unfolded Inr]] by (simp add: served_def p r)
        qed
        with grows obx show ?thesis by (simp add: s r)
      qed
    qed
  qed
qed

text \<open>What became of the event itself.\<close>

lemma settle_event_cases:
  assumes "settle_event ext redis draw clock e s = s'"
  obtains (dispatched) "grows s s'"
      "outbox_events (fst s') = update_where (\<lambda>r. obx_id r = obx_id e)
         (\<lambda>r. r\<lparr>obx_dispatched_at := Some (clock (obx_id e)), obx_last_error := None\<rparr>) (outbox_events (fst s))"
      "served ext (obx_payload e) s'"
  | (rescheduled) line where "grows s s'"
      "outbox_events (fst s') = update_where (\<lambda>r. obx_id r = obx_id e)
         (\<lambda>r. r\<lparr>obx_available_at := clock (obx_id e) + outbox_backoff (obx_attempts e),
                obx_last_error := Some (take_chars 500 line)\<rparr>) (outbox_events (fst s))"
proof -
  obtain r d1 q1 where d: "dispatch ext redis (draw (obx_id e)) (clock (obx_id e)) e s = (r, (d1, q1))"
    by (metis prod.exhaust)
  then have ds: "dispatch_submission ext redis (draw (obx_id e)) (clock (obx_id e)) e s = (r, (d1, q1))"
    by (cases "obx_kind e") (simp add: dispatch_def)
  note facts = dispatch_submission_grows [OF ds]
  have obx: "outbox_events d1 = outbox_events (fst s)" using facts(2) by simp
  have set_outbox: "grows s (d1\<lparr>outbox_events := t\<rparr>, q1)" for t
    using facts(1) by (simp add: grows_def)
  show ?thesis
  proof (cases r)
    case (Inl err)
    with assms d have "s' = (reschedule (obx_id e) (error_line err) (outbox_backoff (obx_attempts e)) (clock (obx_id e)) d1, q1)"
      by (simp add: settle_event_def)
    then show ?thesis using rescheduled set_outbox by (simp add: reschedule_def obx)
  next
    case (Inr u)
    with assms d have s': "s' = (mark_dispatched (obx_id e) (clock (obx_id e)) d1, q1)"
      by (simp add: settle_event_def)
    have "served ext (obx_payload e) (d1, q1)" using facts(3) Inr by simp
    then have "served ext (obx_payload e) s'"
      by (rule served_grows) (simp add: s' grows_def mark_dispatched_def)
    then show ?thesis using dispatched set_outbox by (simp add: s' mark_dispatched_def obx)
  qed
qed

section \<open>One batch\<close>

definition row_fate ::
  "externals \<Rightarrow> (int \<Rightarrow> instant) \<Rightarrow> outbox_row list \<Rightarrow> db \<times> email_queue \<Rightarrow> outbox_row \<Rightarrow> outbox_row \<Rightarrow> bool" where
  "row_fate ext clock es s' r r' \<longleftrightarrow>
     (obx_id r \<notin> obx_id ` set es \<and> r' = r) \<or>
     (\<exists>e \<in> set es. obx_id e = obx_id r \<and>
        (r' = r\<lparr>obx_dispatched_at := Some (clock (obx_id e)), obx_last_error := None\<rparr> \<and> served ext (obx_payload e) s' \<or>
         (\<exists>line. r' = r\<lparr>obx_available_at := clock (obx_id e) + outbox_backoff (obx_attempts e),
                        obx_last_error := Some (take_chars 500 line)\<rparr>)))"

lemma list_all2_update_where:
  "list_all2 (\<lambda>r r'. r' = (if p r then f r else r)) t (update_where p f t)"
  by (simp add: update_where_def list_all2_conv_all_nth)

lemma settle_event_fate:
  assumes "settle_event ext redis draw clock e s = s1" and "grows s1 s'"
  shows "grows s s1"
    and "list_all2 (row_fate ext clock [e] s') (outbox_events (fst s)) (outbox_events (fst s1))"
  using assms(1)
proof (atomize (full), cases rule: settle_event_cases)
  case dispatched
  have "list_all2 (row_fate ext clock [e] s') (outbox_events (fst s)) (outbox_events (fst s1))"
    unfolding dispatched(2)
    by (rule list_all2_mono [OF list_all2_update_where])
       (use served_grows [OF dispatched(3) assms(2)] in \<open>auto simp: row_fate_def\<close>)
  with dispatched(1) show "grows s s1 \<and> list_all2 (row_fate ext clock [e] s') (outbox_events (fst s)) (outbox_events (fst s1))"
    by blast
next
  case (rescheduled line)
  have "list_all2 (row_fate ext clock [e] s') (outbox_events (fst s)) (outbox_events (fst s1))"
    unfolding rescheduled(2)
    by (rule list_all2_mono [OF list_all2_update_where]) (auto simp: row_fate_def)
  with rescheduled(1) show "grows s s1 \<and> list_all2 (row_fate ext clock [e] s') (outbox_events (fst s)) (outbox_events (fst s1))"
    by blast
qed

lemma row_fate_id: "row_fate ext clock es s' r r' \<Longrightarrow> obx_id r' = obx_id r"
  by (auto simp: row_fate_def)

lemma row_fate_other: "row_fate ext clock es s' r r' \<Longrightarrow> obx_id r \<notin> obx_id ` set es \<Longrightarrow> r' = r"
  unfolding row_fate_def by (metis image_eqI)

lemma row_fate_trans:
  assumes "row_fate ext clock [e] s' r r1" and "row_fate ext clock es s' r1 r'"
    and "obx_id e \<notin> obx_id ` set es"
  shows "row_fate ext clock (e # es) s' r r'"
proof (cases "obx_id r = obx_id e")
  case True
  with assms(3) row_fate_id [OF assms(1)] have "r' = r1" by (intro row_fate_other [OF assms(2)]) simp
  with assms(1) True show ?thesis by (auto simp: row_fate_def)
next
  case False
  with assms(1) have "r1 = r" by (intro row_fate_other [OF assms(1)]) simp
  with assms(2) False show ?thesis by (auto simp: row_fate_def)
qed

lemma settle_all_fate:
  assumes "distinct (map obx_id es)" and "fold (settle_event ext redis draw clock) es s = s'"
  shows "grows s s' \<and> list_all2 (row_fate ext clock es s') (outbox_events (fst s)) (outbox_events (fst s'))"
  using assms
proof (induction es arbitrary: s)
  case Nil
  then show ?case by (auto simp: row_fate_def list_all2_conv_all_nth)
next
  case (Cons e es)
  define s1 where "s1 = settle_event ext redis draw clock e s"
  from Cons.prems have ne: "obx_id e \<notin> obx_id ` set es" by simp
  from Cons have IH: "grows s1 s'" "list_all2 (row_fate ext clock es s') (outbox_events (fst s1)) (outbox_events (fst s'))"
    by (simp_all add: s1_def)
  note one = settle_event_fate [OF s1_def [symmetric] IH(1)]
  have "list_all2 (row_fate ext clock (e # es) s') (outbox_events (fst s)) (outbox_events (fst s'))"
    by (rule list_all2_trans [OF _ one(2) IH(2)]) (rule row_fate_trans [OF _ _ ne])
  with grows_trans [OF one(1) IH(1)] show ?case by blast
qed

text \<open>The claim, row by row.\<close>

definition leased :: "instant \<Rightarrow> outbox_row \<Rightarrow> outbox_row" where
  "leased now r = r\<lparr>obx_attempts := obx_attempts r + 1, obx_available_at := now + OUTBOX_LEASE_SECONDS\<rparr>"

lemma leased_id [simp]: "obx_id (leased now r) = obx_id r" "obx_payload (leased now r) = obx_payload r"
  "obx_attempts (leased now r) = obx_attempts r + 1"
  by (simp_all add: leased_def)

lemma claim_due_rows:
  assumes "distinct (map obx_id (outbox_events d))" and "claim_due l OUTBOX_LEASE_SECONDS now d = (es, d1)"
  shows "d1 = d\<lparr>outbox_events := outbox_events d1\<rparr>" and "distinct (map obx_id es)"
    and "list_all2 (\<lambda>r r1. (r1 = r \<and> obx_id r \<notin> obx_id ` set es) \<or>
           (outbox_due now r \<and> r1 = leased now r \<and> r1 \<in> set es)) (outbox_events d) (outbox_events d1)"
    and "\<forall>e \<in> set es. e \<in> set (outbox_events d1)"
proof -
  from assms(2) obtain t where t: "claim_rows (outbox_due now) (\<lambda>e. (obx_available_at e, obx_id e)) obx_id l
      (leased now) (outbox_events d) = (es, t)" and d1: "d1 = d\<lparr>outbox_events := t\<rparr>"
    by (auto simp: claim_due_def leased_def [abs_def] split: prod.splits)
  show "d1 = d\<lparr>outbox_events := outbox_events d1\<rparr>" by (simp add: d1)
  show "distinct (map obx_id es)"
    using claim_rows_distinct [OF assms(1) _ t] by simp
  show claimed: "\<forall>e \<in> set es. e \<in> set (outbox_events d1)"
    using claim_rows_claimed [OF assms(1) t] by (auto simp: d1)
  from claim_rows_update [OF t] obtain p where
    p: "t = update_where p (leased now) (outbox_events d)" "es = map (leased now) (filter p (outbox_events d))" by blast
  have due: "outbox_due now r" if r: "r \<in> set (outbox_events d)" "p r" for r
  proof -
    have "leased now r \<in> set es" using r by (auto simp: p(2))
    from claim_rows_claimed [OF assms(1) t this] obtain r' where
      r': "r' \<in> set (outbox_events d)" "outbox_due now r'" "leased now r = leased now r'" by blast
    from arg_cong [OF r'(3), of obx_id] have "obx_id r = obx_id r'" by simp
    with unique_key_eq [OF assms(1) r(1) r'(1)] r'(2) show ?thesis by simp
  qed
  have other: "obx_id r \<notin> obx_id ` set es" if r: "r \<in> set (outbox_events d)" "\<not> p r" for r
  proof
    assume "obx_id r \<in> obx_id ` set es"
    then obtain r' where "r' \<in> set (outbox_events d)" "p r'" "obx_id r = obx_id r'" by (auto simp: p(2))
    with unique_key_eq [OF assms(1) r(1)] r(2) show False by metis
  qed
  show "list_all2 (\<lambda>r r1. (r1 = r \<and> obx_id r \<notin> obx_id ` set es) \<or>
           (outbox_due now r \<and> r1 = leased now r \<and> r1 \<in> set es)) (outbox_events d) (outbox_events d1)"
    using due other by (auto simp: d1 p list_all2_conv_all_nth update_where_def)
qed

lemma row_fate_member:
  assumes "row_fate ext clock es s' r r'" and "distinct (map obx_id es)" and "r \<in> set es"
  shows "r' = r\<lparr>obx_dispatched_at := Some (clock (obx_id r)), obx_last_error := None\<rparr> \<and> served ext (obx_payload r) s' \<or>
         (\<exists>line. r' = r\<lparr>obx_available_at := clock (obx_id r) + outbox_backoff (obx_attempts r),
                        obx_last_error := Some (take_chars 500 line)\<rparr>)"
proof -
  from assms(1,3) obtain e where e: "e \<in> set es" "obx_id e = obx_id r" and
    fate: "r' = r\<lparr>obx_dispatched_at := Some (clock (obx_id e)), obx_last_error := None\<rparr> \<and> served ext (obx_payload e) s' \<or>
         (\<exists>line. r' = r\<lparr>obx_available_at := clock (obx_id e) + outbox_backoff (obx_attempts e),
                        obx_last_error := Some (take_chars 500 line)\<rparr>)"
    unfolding row_fate_def by (metis image_eqI)
  have "e = r" using unique_key_eq [OF assms(2) e(1) assms(3) e(2)] .
  with fate show ?thesis by simp
qed

text \<open>C10: Dispatching is at least once, row by row: after a batch an event is as it was, or it was due and is now
  either marked dispatched, and then its submission is gone or every endpoint that watches the form has a delivery
  and every address a job in the queue, or put back with the attempt counted, the error kept (500 characters
  of it) and a delay that widens with the attempts. No event disappears, and none is marked for less.\<close>

theorem no_event_is_dropped:
  assumes "distinct (map obx_id (outbox_events d))"
    and "dispatcher_run_once ext batch redis draw clock now (d, q) = (n, (d', q'))"
  shows "list_all2 (\<lambda>r r'.
      r' = r \<or>
      (outbox_due now r \<and>
        ((served ext (obx_payload r) (d', q') \<and>
          r' = (leased now r)\<lparr>obx_dispatched_at := Some (clock (obx_id r)), obx_last_error := None\<rparr>) \<or>
         (\<exists>line. r' = (leased now r)\<lparr>obx_available_at := clock (obx_id r) + outbox_backoff (obx_attempts r + 1),
                                      obx_last_error := Some (take_chars 500 line)\<rparr>))))
    (outbox_events d) (outbox_events d')"
proof -
  obtain es d1 where c: "claim_due batch OUTBOX_LEASE_SECONDS now d = (es, d1)" by fastforce
  with assms(2) have f: "fold (settle_event ext redis draw clock) es (d1, q) = (d', q')"
    by (simp add: dispatcher_run_once_def)
  note claim = claim_due_rows [OF assms(1) c]
  have keys: "distinct (map obx_id (outbox_events d1))"
    using outbox_queue.claim_keeps_keys [OF c] assms(1) by simp
  from settle_all_fate [OF claim(2) f] have fate:
    "list_all2 (row_fate ext clock es (d', q')) (outbox_events d1) (outbox_events d')" by simp
  show ?thesis
  proof (rule list_all2_trans [OF _ claim(3) fate])
    fix r r1 r' assume c1: "(r1 = r \<and> obx_id r \<notin> obx_id ` set es) \<or> (outbox_due now r \<and> r1 = leased now r \<and> r1 \<in> set es)"
      and f1: "row_fate ext clock es (d', q') r1 r'"
    show "r' = r \<or> (outbox_due now r \<and>
        ((served ext (obx_payload r) (d', q') \<and>
          r' = (leased now r)\<lparr>obx_dispatched_at := Some (clock (obx_id r)), obx_last_error := None\<rparr>) \<or>
         (\<exists>line. r' = (leased now r)\<lparr>obx_available_at := clock (obx_id r) + outbox_backoff (obx_attempts r + 1),
                                      obx_last_error := Some (take_chars 500 line)\<rparr>)))"
      using c1
    proof
      assume "r1 = r \<and> obx_id r \<notin> obx_id ` set es"
      with row_fate_other [OF f1] show ?thesis by simp
    next
      assume r1: "outbox_due now r \<and> r1 = leased now r \<and> r1 \<in> set es"
      from row_fate_member [OF f1 claim(2)] r1 show ?thesis by auto
    qed
  qed
qed

section \<open>A healthy system\<close>

lemma claim_rows_length:
  assumes "distinct (map ident t)" and "claim_rows due order ident l upd t = (cs, t')"
  shows "length cs = min (nat l) (length (filter due t))"
proof -
  define ids where "ids = map ident (limit_offset l 0 (sort_key order (filter due t)))"
  have "distinct (map ident (sort_key order (filter due t)))"
    using distinct_map_filter [OF assms(1)] by (metis distinct_map distinct_sort set_sort)
  then have dist: "distinct ids"
    unfolding ids_def limit_offset_def take_map [symmetric] by (simp del: distinct_map)
  have sub: "set ids \<subseteq> ident ` set t"
    by (auto simp: ids_def limit_offset_def dest!: in_set_takeD)
  have "length cs = card (set (map ident (filter (\<lambda>r. ident r \<in> set ids) t)))"
    using assms(2) distinct_map_filter [OF assms(1)]
    by (auto simp: claim_rows_def Let_def ids_def distinct_card simp del: set_map)
  also have "set (map ident (filter (\<lambda>r. ident r \<in> set ids) t)) = set ids" using sub by auto
  also have "card (set ids) = length ids" using dist by (rule distinct_card)
  finally show ?thesis by (simp add: ids_def limit_offset_def min.commute)
qed

text \<open>What the rest of the system keeps: keys are unique, a form has its organization, and the identifiers
  still to be drawn for the events \<open>I\<close> are new.\<close>

definition healthy :: "(int \<Rightarrow> uuid \<Rightarrow> uuid) \<Rightarrow> int set \<Rightarrow> db \<Rightarrow> bool" where
  "healthy draw I d \<longleftrightarrow>
     distinct (map whd_id (webhook_deliveries d)) \<and> distinct (map whe_id (webhook_endpoints d)) \<and>
     (\<forall>f \<in> set (forms d). organization_exists d (frm_organization f)) \<and>
     (\<forall>i \<in> I. \<forall>w. draw i w \<notin> whd_id ` set (webhook_deliveries d))"

definition up :: "email_job \<Rightarrow> string option" where "up j = None"

lemma enqueue_emails_up: "fst (enqueue_emails ext up src rs q) = Inr ()"
  by (induction rs arbitrary: q) (simp_all add: up_def Let_def)

lemma create_deliveries_healthy:
  assumes "healthy draw I d" and "i \<in> I" and "inj (\<lambda>(i, w). draw i w)"
    and "organization_exists d oid" and "submission_exists d sid"
  obtains n d' where "create_deliveries oid fid sid payload (draw i) now d = (Inr n, d')" "healthy draw (I - {i}) d'"
proof -
  define ts where "ts = filter (\<lambda>e. watches oid fid e \<and> \<not> already_queued d (whe_id e) sid) (webhook_endpoints d)"
  define rows where "rows = map (\<lambda>e. new_delivery oid sid payload now (draw i (whe_id e)) (whe_id e)) ts"
  have inj: "draw i w = draw j v \<longleftrightarrow> i = j \<and> w = v" for i j w v
    using injD [OF assms(3), of "(i, w)" "(j, v)"] by auto
  have ids: "map whd_id rows = map (draw i) (map whe_id ts)" by (simp add: rows_def new_delivery_def comp_def)
  have "distinct (map whe_id ts)"
    using assms(1) by (simp add: healthy_def ts_def distinct_map_filter)
  then have "distinct (map whd_id rows)" unfolding ids by (subst distinct_map) (auto simp: inj_on_def inj)
  moreover have "set (map whd_id rows) \<inter> whd_id ` set (webhook_deliveries d) = {}"
    using assms(1,2) unfolding ids by (auto simp: healthy_def)
  ultimately have dist: "distinct (map whd_id (webhook_deliveries d @ rows))"
    using assms(1) by (auto simp: healthy_def)
  then have "create_deliveries oid fid sid payload (draw i) now d =
      (Inr (length rows), d\<lparr>webhook_deliveries := webhook_deliveries d @ rows\<rparr>)"
    using assms(4,5) by (simp add: create_deliveries_def Let_def ts_def [symmetric] rows_def [symmetric] del: map_append)
  moreover have "healthy draw (I - {i}) (d\<lparr>webhook_deliveries := webhook_deliveries d @ rows\<rparr>)"
  proof -
    have "draw j w \<notin> whd_id ` set rows" if "j \<in> I - {i}" for j w
      using that ids [THEN arg_cong, of set] by (auto simp: inj)
    with assms(1) dist show ?thesis by (auto simp: healthy_def organization_exists_def image_Un)
  qed
  ultimately show ?thesis by (rule that)
qed

lemma settle_event_healthy:
  assumes "healthy draw I d" and "obx_id e \<in> I" and "inj (\<lambda>(i, w). draw i w)"
    and "submission_received_of ext (obx_payload e) \<noteq> None"
  obtains d' q' where "settle_event ext up draw clock e (d, q) = (d', q')" "healthy draw (I - {obx_id e}) d'"
    "outbox_events d' = update_where (\<lambda>r. obx_id r = obx_id e)
       (\<lambda>r. r\<lparr>obx_dispatched_at := Some (clock (obx_id e)), obx_last_error := None\<rparr>) (outbox_events d)"
proof -
  from assms(4) obtain p where p: "submission_received_of ext (obx_payload e) = Some p" by auto
  note result = that
  let ?i = "obx_id e"
  have settle: thesis if "dispatch_submission ext up (draw ?i) (clock ?i) e (d, q) = (Inr (), (d1, q1))"
    and "healthy draw (I - {?i}) d1" for d1 q1
  proof (rule result)
    have "settle_event ext up draw clock e (d, q) = (mark_dispatched ?i (clock ?i) d1, q1)"
      using that(1) by (cases "obx_kind e") (simp add: settle_event_def dispatch_def)
    then show "settle_event ext up draw clock e (d, q) = (mark_dispatched ?i (clock ?i) d1, q1)" .
    show "healthy draw (I - {?i}) (mark_dispatched ?i (clock ?i) d1)"
      using that(2) by (simp add: healthy_def mark_dispatched_def organization_exists_def)
    show "outbox_events (mark_dispatched ?i (clock ?i) d1) = update_where (\<lambda>r. obx_id r = ?i)
       (\<lambda>r. r\<lparr>obx_dispatched_at := Some (clock ?i), obx_last_error := None\<rparr>) (outbox_events d)"
      using dispatch_submission_grows(2) [OF that(1)] by (simp add: mark_dispatched_def)
  qed
  show thesis
  proof (cases "find_notification_source d (srv_submission p)")
    case None
    have "healthy draw (I - {?i}) d" using assms(1) by (auto simp: healthy_def)
    with None show thesis by (intro settle [of d q]) (simp_all add: dispatch_submission_def p)
  next
    case (Some src)
    then obtain sub f where sub: "find (\<lambda>s. sub_id s = srv_submission p) (submissions d) = Some sub"
      and f: "find (\<lambda>f. frm_id f = sub_form sub) (forms d) = Some f" and src: "src = source_of f sub"
      by (auto simp: find_notification_source_def split: option.splits)
    have "organization_exists d (nsr_organization src)"
      using find_in_set [OF f] assms(1) by (auto simp: healthy_def src source_of_def)
    moreover have "submission_exists d (nsr_submission src)"
      using find_in_set [OF sub] by (auto simp: submission_exists_def exists_row_iff src source_of_def)
    ultimately obtain n d1 where fo: "create_deliveries (nsr_organization src) (nsr_form src) (nsr_submission src)
        (webhook_payload ext src) (draw ?i) (clock ?i) d = (Inr n, d1)" and h: "healthy draw (I - {?i}) d1"
      using create_deliveries_healthy [OF assms(1-3)] by metis
    obtain r q1 where em: "enqueue_emails ext up src (nsr_notify_emails src) q = (r, q1)" by fastforce
    with enqueue_emails_up [of ext src "nsr_notify_emails src" q] have "r = Inr ()" by simp
    with fo em h Some show thesis
      by (intro settle [of d1 q1]) (simp_all add: dispatch_submission_def p fan_out_webhooks_def)
  qed
qed

definition settled :: "int set \<Rightarrow> outbox_row \<Rightarrow> outbox_row \<Rightarrow> bool" where
  "settled ids r r' \<longleftrightarrow> (if obx_id r \<in> ids then obx_id r' = obx_id r \<and> obx_dispatched_at r' \<noteq> None else r' = r)"

lemma settle_all_healthy:
  assumes "healthy draw I d" and "inj (\<lambda>(i, w). draw i w)" and "distinct (map obx_id es)"
    and "obx_id ` set es \<subseteq> I" and "\<forall>e \<in> set es. submission_received_of ext (obx_payload e) \<noteq> None"
    and "fold (settle_event ext up draw clock) es (d, q) = (d', q')"
  shows "healthy draw (I - obx_id ` set es) d' \<and>
    list_all2 (settled (obx_id ` set es)) (outbox_events d) (outbox_events d')"
  using assms
proof (induction es arbitrary: d q I)
  case Nil
  then show ?case by (auto simp: list_all2_conv_all_nth settled_def)
next
  case (Cons e es)
  from Cons.prems obtain d1 q1 where one: "settle_event ext up draw clock e (d, q) = (d1, q1)"
    "healthy draw (I - {obx_id e}) d1"
    and rows: "outbox_events d1 = update_where (\<lambda>r. obx_id r = obx_id e)
       (\<lambda>r. r\<lparr>obx_dispatched_at := Some (clock (obx_id e)), obx_last_error := None\<rparr>) (outbox_events d)"
    by (elim settle_event_healthy [of draw I d e ext clock q]) auto
  have ne: "obx_id e \<notin> obx_id ` set es" using Cons.prems(3) by simp
  have "healthy draw (I - {obx_id e} - obx_id ` set es) d' \<and>
      list_all2 (settled (obx_id ` set es)) (outbox_events d1) (outbox_events d')"
  proof (rule Cons.IH [OF one(2) Cons.prems(2)])
    show "obx_id ` set es \<subseteq> I - {obx_id e}" using Cons.prems(4) ne by (simp add: subset_Diff_insert)
  qed (use Cons.prems one(1) in simp_all)
  then have IH: "healthy draw (I - {obx_id e} - obx_id ` set es) d'"
    "list_all2 (settled (obx_id ` set es)) (outbox_events d1) (outbox_events d')" by blast+
  have "list_all2 (settled (obx_id ` set (e # es))) (outbox_events d) (outbox_events d')"
    by (rule list_all2_trans [OF _ list_all2_update_where IH(2) [unfolded rows]])
       (use ne in \<open>auto simp: settled_def split: if_splits\<close>)
  moreover have "I - {obx_id e} - obx_id ` set es = I - obx_id ` set (e # es)" by auto
  ultimately show ?case using IH(1) by simp
qed

definition pending :: "outbox_row \<Rightarrow> bool" where "pending r \<longleftrightarrow> obx_dispatched_at r = None"

lemma length_filter_split: "length (filter p xs) = length (filter (\<lambda>x. p x \<and> q x) xs) + length (filter (\<lambda>x. p x \<and> \<not> q x) xs)"
  by (induction xs) auto

lemma length_filter_all2: "list_all2 (\<lambda>x y. p x \<longleftrightarrow> q y) xs ys \<Longrightarrow> length (filter p xs) = length (filter q ys)"
  by (induction rule: list_all2_induct) auto

text \<open>What the loop rests on: the events still owed are due and readable, and the identifiers for them new.\<close>

definition drainable :: "externals \<Rightarrow> (int \<Rightarrow> uuid \<Rightarrow> uuid) \<Rightarrow> instant \<Rightarrow> db \<Rightarrow> bool" where
  "drainable ext draw now d \<longleftrightarrow>
     distinct (map obx_id (outbox_events d)) \<and>
     healthy draw (obx_id ` {e \<in> set (outbox_events d). pending e}) d \<and>
     (\<forall>e \<in> set (outbox_events d). pending e \<longrightarrow>
        submission_received_of ext (obx_payload e) \<noteq> None \<and> obx_available_at e \<le> now)"

lemma healthy_run:
  assumes d: "drainable ext draw now d" and inj: "inj (\<lambda>(i, w). draw i w)"
    and run: "dispatcher_run_once ext batch up draw clock now (d, q) = (n, (d', q'))"
  shows "drainable ext draw now d' \<and>
    length (filter pending (outbox_events d')) = length (filter pending (outbox_events d)) - nat batch"
proof -
  obtain es d1 where c: "claim_due batch OUTBOX_LEASE_SECONDS now d = (es, d1)" by fastforce
  with run have f: "fold (settle_event ext up draw clock) es (d1, q) = (d', q')"
    by (simp add: dispatcher_run_once_def)
  have keys: "distinct (map obx_id (outbox_events d))" using d by (simp add: drainable_def)
  note claim = claim_due_rows [OF keys c]
  define ids where "ids = obx_id ` set es"
  have due: "outbox_due now e \<longleftrightarrow> pending e" if "e \<in> set (outbox_events d)" for e
    using d that by (auto simp: drainable_def outbox_due_def pending_def)
  have es: "\<exists>r \<in> set (outbox_events d). pending r \<and> e = leased now r" if "e \<in> set es" for e
  proof -
    have "e \<in> set (outbox_events d1)" using claim(4) that by blast
    then obtain i where i: "i < length (outbox_events d1)" "e = outbox_events d1 ! i" by (metis in_set_conv_nth)
    with claim(3) have "(e = outbox_events d ! i \<and> obx_id (outbox_events d ! i) \<notin> ids) \<or>
        (outbox_due now (outbox_events d ! i) \<and> e = leased now (outbox_events d ! i))"
      "outbox_events d ! i \<in> set (outbox_events d)"
      by (auto simp: list_all2_conv_all_nth ids_def)
    with that due show ?thesis by (auto simp: ids_def)
  qed
  have sub: "ids \<subseteq> obx_id ` {e \<in> set (outbox_events d). pending e}"
    using es by (fastforce simp: ids_def)
  have h1: "healthy draw (obx_id ` {e \<in> set (outbox_events d). pending e}) d1"
    using d by (subst claim(1)) (simp add: drainable_def healthy_def organization_exists_def)
  have "\<forall>e \<in> set es. submission_received_of ext (obx_payload e) \<noteq> None"
    using es d by (fastforce simp: drainable_def)
  from settle_all_healthy [OF h1 inj claim(2) sub [unfolded ids_def] this f]
  have h': "healthy draw (obx_id ` {e \<in> set (outbox_events d). pending e} - ids) d'"
    and rows1: "list_all2 (settled ids) (outbox_events d1) (outbox_events d')"
    by (simp_all add: ids_def)
  have rows: "list_all2 (\<lambda>r r'. obx_id r' = obx_id r \<and>
      (if obx_id r \<in> ids then \<not> pending r' else r' = r)) (outbox_events d) (outbox_events d')"
    by (rule list_all2_trans [OF _ claim(3) rows1]) (auto simp: ids_def pending_def settled_def split: if_splits)
  have same_ids: "map obx_id (outbox_events d') = map obx_id (outbox_events d)"
    using rows by (simp add: list_all2_conv_all_nth list_eq_iff_nth_eq)
  have kept: "e \<in> set (outbox_events d) \<and> obx_id e \<notin> ids" if "e \<in> set (outbox_events d')" "pending e" for e
    using rows that by (fastforce simp: list_all2_conv_all_nth in_set_conv_nth split: if_splits)
  have "drainable ext draw now d'"
    using kept d h' keys same_ids by (fastforce simp: drainable_def healthy_def)
  moreover have "length (filter pending (outbox_events d')) =
      length (filter (\<lambda>e. pending e \<and> obx_id e \<notin> ids) (outbox_events d))"
    by (rule length_filter_all2 [symmetric], rule list_all2_mono [OF rows]) (auto split: if_splits)
  moreover have "length (filter (\<lambda>e. pending e \<and> obx_id e \<in> ids) (outbox_events d)) = length es"
  proof -
    have "length (filter (\<lambda>e. pending e \<and> obx_id e \<in> ids) (outbox_events d)) =
        card (obx_id ` set (filter (\<lambda>e. pending e \<and> obx_id e \<in> ids) (outbox_events d)))"
      using distinct_card [OF distinct_map_filter [OF keys]] by simp
    also have "obx_id ` set (filter (\<lambda>e. pending e \<and> obx_id e \<in> ids) (outbox_events d)) = ids"
      using sub by auto
    also have "card ids = length es" using distinct_card [OF claim(2)] by (simp add: ids_def)
    finally show ?thesis .
  qed
  moreover have "length es = min (nat batch) (length (filter pending (outbox_events d)))"
  proof -
    from c obtain t where "claim_rows (outbox_due now) (\<lambda>e. (obx_available_at e, obx_id e)) obx_id batch
        (leased now) (outbox_events d) = (es, t)"
      by (auto simp: claim_due_def leased_def [abs_def] split: prod.splits)
    from claim_rows_length [OF keys this] due show ?thesis by (simp cong: filter_cong)
  qed
  ultimately show ?thesis
    using length_filter_split [of pending "outbox_events d" "\<lambda>e. obx_id e \<in> ids"] by simp
qed

lemma drainable_mono: "drainable ext draw t d \<Longrightarrow> t \<le> t' \<Longrightarrow> drainable ext draw t' d"
  by (fastforce simp: drainable_def)

lemma healthy_loop:
  assumes "drainable ext draw t d" and "inj (\<lambda>(i, w). draw i w)" and "sorted (t # nows)"
    and "length (filter pending (outbox_events d)) \<le> length nows * nat batch"
  shows "filter pending (outbox_events (fst (run_outbox_loop ext batch draw clock (map (\<lambda>t. (t, up)) nows) (d, q)))) = []"
  using assms
proof (induction nows arbitrary: t d q)
  case (Cons now nows)
  obtain n d1 q1 where run: "dispatcher_run_once ext batch up draw clock now (d, q) = (n, (d1, q1))"
    by (metis prod.exhaust)
  have "drainable ext draw now d" using Cons.prems by (auto intro: drainable_mono)
  from healthy_run [OF this Cons.prems(2) run] Cons.prems show ?case
    by (auto simp: run intro!: Cons.IH [of now])
qed simp


section \<open>The mail\<close>

lemma boundary_before_le: "boundary_before t n \<le> n"
  by (induction n) auto

lemma boundary_before_boundary: "is_char_boundary t 0 \<Longrightarrow> is_char_boundary t (boundary_before t n)"
  by (induction n) auto

lemma boundary_before_max: "is_char_boundary t j \<Longrightarrow> j \<le> n \<Longrightarrow> j \<le> boundary_before t n"
  by (induction n) (auto simp: le_Suc_eq)

lemma truncate_text_length: "length (truncate_text n t) \<le> n + 14"
  using boundary_before_le [of t n] by (simp add: truncate_text_def newline_def)

text \<open>The answers of a form whose keys are distinct: each once.\<close>

lemma map_filter_keys:
  fixes fs :: "field_definition list"
  assumes "distinct (map key fs)" and "distinct (map fst data)"
  shows "mset (List.map_filter (\<lambda>f. map_option (\<lambda>v. (label f, v)) (map_of data (key f))) fs) =
    mset (map (\<lambda>(k, v). (label (the (find (\<lambda>f. key f = k) fs)), v)) (filter (\<lambda>(k, _). find (\<lambda>f. key f = k) fs \<noteq> None) data))"
proof -
  let ?field = "\<lambda>k. find (\<lambda>f. key f = k) fs"
  define A where "A = filter (\<lambda>f. key f \<in> dom (map_of data)) fs"
  define B where "B = filter (\<lambda>(k, _). ?field k \<noteq> None) data"
  let ?g = "\<lambda>f :: field_definition. (label f, the (map_of data (key f)))"
  have found: "?field (key f) = Some f" if "f \<in> set fs" for f
    using find_unique [OF assms(1) that, of "\<lambda>f'. key f' = key f"] by simp
  have B: "the (?field k) \<in> set fs \<and> key (the (?field k)) = k \<and> map_of data k = Some v" if "(k, v) \<in> set B" for k v
    using that assms(2) by (auto simp: B_def dest: find_in_set)
  have mf: "List.map_filter (\<lambda>f. map_option (\<lambda>v. (label f, v)) (map_of data (key f))) fs = map ?g A"
    unfolding A_def by (induction fs) (auto simp: List.map_filter_simps domIff split: option.splits)
  have AB: "mset A = mset (map (\<lambda>(k, v). the (?field k)) B)"
  proof (rule set_eq_iff_mset_eq_distinct [THEN iffD1])
    show "distinct A" using assms(1) by (simp add: A_def distinct_map)
    have "map key (map (\<lambda>(k, v). the (?field k)) B) = map fst B" using B by auto
    moreover have "distinct (map fst B)" using assms(2) by (simp add: B_def distinct_map_filter)
    ultimately show "distinct (map (\<lambda>(k, v). the (?field k)) B)" by (metis distinct_map)
    show "set A = set (map (\<lambda>(k, v). the (?field k)) B)"
    proof
      show "set A \<subseteq> set (map (\<lambda>(k, v). the (?field k)) B)"
      proof
        fix f assume "f \<in> set A"
        then obtain v where "f \<in> set fs" "map_of data (key f) = Some v" by (auto simp: A_def)
        with found [of f] have "(key f, v) \<in> set B" "the (?field (key f)) = f"
          by (auto simp: B_def dest: map_of_SomeD)
        then show "f \<in> set (map (\<lambda>(k, v). the (?field k)) B)" by (force simp: image_iff)
      qed
      show "set (map (\<lambda>(k, v). the (?field k)) B) \<subseteq> set A" using B by (force simp: A_def)
    qed
  qed
  have "mset (map ?g A) = mset (map ?g (map (\<lambda>(k, v). the (?field k)) B))"
    using AB by (simp del: map_map)
  also have "map ?g (map (\<lambda>(k, v). the (?field k)) B) = map (\<lambda>(k, v). (label (the (?field k)), v)) B"
    using B by auto
  finally show ?thesis unfolding mf B_def .
qed


section \<open>A system with one event\<close>

definition watched_form :: form_record where
  "watched_form = hiring_form\<lparr>frm_notify_emails := [''a@x.org'', ''b@x.org'']\<rparr>"

definition owed_event :: outbox_row where
  "owed_event = \<lparr>obx_id = 1, obx_organization = 7, obx_kind = SubmissionReceivedKind,
     obx_payload = submission_event sample_externals 77 9, obx_attempts = 0, obx_available_at = 60,
     obx_dispatched_at = None, obx_last_error = None, obx_created_at = 60\<rparr>"

definition owed :: db where
  "owed = received\<lparr>forms := [watched_form], webhook_endpoints := [hook], outbox_events := [owed_event]\<rparr>"

definition no_mail :: email_queue where "no_mail = \<lparr>jobs = [], dead_letters = []\<rparr>"

abbreviation drawn :: "int \<Rightarrow> uuid \<Rightarrow> uuid" where "drawn i w \<equiv> to_nat (i, w)"

lemma drawn_inj: "inj (\<lambda>(i, w). drawn i w)"
  by (auto simp: inj_on_def)

lemma owed_event_fields [simp]:
  "obx_id owed_event = 1" "obx_attempts owed_event = 0" "obx_dispatched_at owed_event = None"
  "obx_available_at owed_event = 60" "pending owed_event" "outbox_due 60 owed_event"
  "submission_received_of sample_externals (obx_payload owed_event) = Some \<lparr>srv_form = 9, srv_submission = 77\<rparr>"
  by (simp_all add: owed_event_def pending_def outbox_due_def submission_event_def submission_received_of_def
      uuid_of_json_def sample_uuid_roundtrip)

lemma owed_rows:
  "outbox_events owed = [owed_event]" "forms owed = [watched_form]" "webhook_endpoints owed = [hook]"
  "submissions owed = [cv_submission]" "webhook_deliveries owed = []" "organization_exists owed 7"
  "frm_organization watched_form = 7" "frm_id watched_form = 9" "frm_schema watched_form = cv_schema"
  "frm_notify_emails watched_form = [''a@x.org'', ''b@x.org'']"
  by (simp_all add: owed_def received_def hiring_def two_owners_def empty_db_def organization_exists_def
      exists_row_def watched_form_def hiring_form_def contact_form_def)

lemma owed_drainable: "drainable sample_externals drawn 60 owed"
  by (simp add: drainable_def owed_rows healthy_def)

definition owed_once :: db where
  "owed_once = owed\<lparr>webhook_deliveries :=
     [new_delivery 7 77 (webhook_payload sample_externals (source_of watched_form cv_submission)) 61 (drawn 1 31) 31]\<rparr>"

definition first_job :: email_job where
  "first_job = notification_email sample_externals (source_of watched_form cv_submission) ''a@x.org''"

lemma owed_source: "find_notification_source owed 77 = Some (source_of watched_form cv_submission)"
  by (simp add: find_notification_source_def owed_rows cv_submission_def)


section \<open>Properties\<close>

text \<open>C20: No event is owed forever: with the database and Redis up, fresh
  identifiers and readable events that are due, the loop leaves no event owed after as many passes as the
  batch size needs, whatever the passes' instants.\<close>

theorem healthy_loop_drains:
  assumes "drainable ext draw t d" and "inj (\<lambda>(i, w). draw i w)" and "sorted (t # nows)"
    and "length (filter pending (outbox_events d)) \<le> length nows * nat batch"
  shows "pending_count (fst (run_outbox_loop ext batch draw clock (map (\<lambda>t. (t, up)) nows) (d, q))) = 0"
  using healthy_loop [OF assms] by (simp add: pending_count_def rows_affected_def pending_def [abs_def])

theorem healthy_loop_drains_witness:
  "pending_count owed = 1 \<and>
   pending_count (fst (run_outbox_loop sample_externals 20 drawn (\<lambda>_. 61) (map (\<lambda>t. (t, up)) [60]) (owed, no_mail))) = 0"
proof
  show "pending_count owed = 1"
    using owed_event_fields(5) by (simp add: pending_count_def rows_affected_def owed_rows pending_def)
  show "pending_count (fst (run_outbox_loop sample_externals 20 drawn (\<lambda>_. 61) (map (\<lambda>t. (t, up)) [60]) (owed, no_mail))) = 0"
    by (rule healthy_loop_drains [OF owed_drainable drawn_inj]) (simp_all add: owed_rows)
qed

theorem no_event_is_dropped_witness:
  "\<exists>r. outbox_events (fst (snd (dispatcher_run_once sample_externals 20 (\<lambda>_. Some ''down'') drawn (\<lambda>_. 61) 60
     (owed, no_mail)))) = [r] \<and> (r = owed_event \<or> obx_attempts r = 1)"
proof -
  obtain n d' q' where run: "dispatcher_run_once sample_externals 20 (\<lambda>_. Some ''down'') drawn (\<lambda>_. 61) 60 (owed, no_mail) =
      (n, (d', q'))" by (metis prod.exhaust)
  have "distinct (map obx_id (outbox_events owed))" by (simp add: owed_rows)
  from no_event_is_dropped [OF this run] show ?thesis
    by (auto simp: run owed_rows list_all2_Cons1 leased_def)
qed

text \<open>The mail of an event can go out twice without any crash: when Redis takes the job of the first address
  and refuses a later one, the event is put back, and the retry queues the first address again.\<close>

theorem retry_repeats_mail:
  assumes "submission_received_of ext (obx_payload e) = Some p"
    and "find_notification_source d (srv_submission p) = Some src" and "nsr_notify_emails src = r # rs"
    and "redis (notification_email ext src r) = None"
    and "dispatch_submission ext redis draw now e (d, q) = (Inl (QueueFailed line), (d1, q1))"
    and "dispatch_submission ext redis' draw' now' e (d1, q1) = (Inr (), (d2, q2))"
  shows "count_list (jobs q2) (notification_email ext src r) \<ge> 2 + count_list (jobs q) (notification_email ext src r)"
proof -
  let ?job = "notification_email ext src"
  obtain n da where fo: "fan_out_webhooks ext draw now src d = (Inr n, da)"
    using assms(1,2,5) by (cases "fan_out_webhooks ext draw now src d"; cases "fst (fan_out_webhooks ext draw now src d)")
      (auto simp: dispatch_submission_def fan_out_webhooks_def split: prod.splits sum.splits)
  obtain o1 qa where em: "enqueue_emails ext redis src rs (queue_enqueue (?job r) q) = (o1, qa)" by fastforce
  with fo assms(1-5) have q1: "q1 = qa" by (simp add: dispatch_submission_def Let_def)
  from enqueue_emails_result [OF em] have "count_list (jobs q1) (?job r) \<ge> Suc (count_list (jobs q) (?job r))"
    by (auto simp: q1 queue_enqueue_def)
  moreover have "find_notification_source d1 (srv_submission p) = Some src"
    using grows_source [OF dispatch_submission_grows(1) [OF assms(5)]] assms(2) by simp
  with assms(1,6) obtain o2 where "enqueue_emails ext redis' src (nsr_notify_emails src) q1 = (o2, q2)" "o2 = Inr ()"
    by (auto simp: dispatch_submission_def split: prod.splits sum.splits)
  with enqueue_emails_result [of ext redis' src "nsr_notify_emails src" q1 o2 q2] assms(3)
  have "count_list (jobs q2) (?job r) \<ge> Suc (count_list (jobs q1) (?job r))" by auto
  ultimately show ?thesis by linarith
qed

text \<open>The mail reads like the form: under a definition with distinct keys the answers it lists are exactly the
  stored ones, each once, under the label of the field that asks for it or, when the form no longer does, under
  its key.\<close>

theorem mail_shows_every_answer:
  assumes "distinct (map key (schema_fields (nsr_schema src)))" and "nsr_data src = JObject m" and "is_btree m"
  shows "mset (answers src) =
    mset (map (\<lambda>(k, v). (case schema_field (nsr_schema src) k of Some f \<Rightarrow> label f | None \<Rightarrow> k, v)) m)"
proof -
  let ?fs = "schema_fields (nsr_schema src)"
  let ?asked = "\<lambda>(k, v :: json). find (\<lambda>f. key f = k) ?fs \<noteq> None"
  let ?name = "\<lambda>(k, v). (case schema_field (nsr_schema src) k of Some f \<Rightarrow> label f | None \<Rightarrow> k, v)"
  have dist: "distinct (map fst m)"
    using assms(3) by (simp add: is_btree_def strict_sorted_iff)
  have asked: "map (\<lambda>(k, v). (label (the (find (\<lambda>f. key f = k) ?fs)), v)) (filter ?asked m) = map ?name (filter ?asked m)"
    by (auto simp: schema_field_def)
  have gone: "filter (\<lambda>(k, _). schema_field (nsr_schema src) k = None) m = map ?name (filter (\<lambda>x. \<not> ?asked x) m)"
    by (induction m) (auto simp: schema_field_def)
  have "mset (answers src) = mset (map ?name (filter ?asked m)) + mset (map ?name (filter (\<lambda>x. \<not> ?asked x) m))"
    using map_filter_keys [OF assms(1) dist] by (simp only: answers_def assms(2) as_object.simps option.case mset_append mset_sort gone asked)
  also have "\<dots> = image_mset ?name (filter_mset ?asked (mset m) + filter_mset (\<lambda>x. \<not> ?asked x) (mset m))"
    by (simp only: mset_map mset_filter image_mset_union)
  also have "\<dots> = mset (map ?name m)" by (simp only: multiset_partition [symmetric] mset_map)
  finally show ?thesis .
qed

text \<open>A notification fits: whatever was submitted, its text is at most 14 bytes longer than the limit of 256 KiB;
  it is the whole text when that fits, and otherwise the longest beginning of it that fits and ends between two
  characters, with the note that it was cut.\<close>

theorem mail_is_bounded:
  "length (email_body ext src) \<le> MAX_BODY_BYTES + 14 \<and>
   (if length (full_body ext src) \<le> MAX_BODY_BYTES then email_body ext src = full_body ext src
    else \<exists>i. is_char_boundary (full_body ext src) i \<and>
      (\<forall>j. is_char_boundary (full_body ext src) j \<longrightarrow> j \<le> i \<or> MAX_BODY_BYTES < j) \<and>
      email_body ext src = take i (full_body ext src) @ newline @ newline @ ''[truncated]'' @ newline)"
proof -
  let ?i = "boundary_before (full_body ext src) MAX_BODY_BYTES"
  have "is_char_boundary (full_body ext src) ?i"
    by (rule boundary_before_boundary) (simp add: is_char_boundary_def)
  moreover have "\<forall>j. is_char_boundary (full_body ext src) j \<longrightarrow> j \<le> ?i \<or> MAX_BODY_BYTES < j"
    using boundary_before_max by (metis not_less)
  ultimately show ?thesis
    by (auto simp: email_body_def truncate_text_length) (auto simp: truncate_text_def)
qed

lemma owed_first_try:
  "dispatch_submission sample_externals (\<lambda>j. if job_to j = ''a@x.org'' then None else Some ''down'') (drawn 1) 61 owed_event
     (owed, no_mail) =
   (Inl (QueueFailed ''down''), (owed_once, \<lparr>jobs = [first_job], dead_letters = []\<rparr>))"
proof -
  let ?src = "source_of watched_form cv_submission"
  have src: "nsr_organization ?src = 7" "nsr_form ?src = 9" "nsr_submission ?src = 77"
    "nsr_notify_emails ?src = [''a@x.org'', ''b@x.org'']"
    by (simp_all add: source_of_def owed_rows cv_submission_def)
  have "create_deliveries 7 9 77 (webhook_payload sample_externals ?src) (drawn 1) 61 owed = (Inr 1, owed_once)"
    by (simp add: create_deliveries_def owed_rows hook_watches already_queued_def exists_row_def submission_exists_def
        owed_once_def cv_submission_def new_delivery_def)
  then show ?thesis
    by (simp add: dispatch_submission_def owed_source fan_out_webhooks_def src Let_def notification_email_def
        queue_enqueue_def no_mail_def first_job_def)
qed

lemma owed_second_try:
  "\<exists>q2. dispatch_submission sample_externals up (drawn 1) 66 owed_event (owed_once, \<lparr>jobs = [first_job], dead_letters = []\<rparr>) =
     (Inr (), (owed_once, q2))"
proof -
  let ?src = "source_of watched_form cv_submission"
  have src: "nsr_organization ?src = 7" "nsr_form ?src = 9" "nsr_submission ?src = 77"
    "nsr_notify_emails ?src = [''a@x.org'', ''b@x.org'']"
    by (simp_all add: source_of_def owed_rows cv_submission_def)
  have rows: "webhook_endpoints owed_once = [hook]" "webhook_deliveries owed_once =
      [new_delivery 7 77 (webhook_payload sample_externals ?src) 61 (drawn 1 31) 31]"
    by (simp_all add: owed_once_def owed_rows)
  have found: "find_notification_source owed_once 77 = Some ?src"
    by (simp add: owed_once_def find_notification_source_def owed_rows cv_submission_def)
  have "already_queued owed_once 31 77" by (simp add: already_queued_def rows exists_row_def new_delivery_def)
  then have "create_deliveries 7 9 77 (webhook_payload sample_externals ?src) (drawn 1) 66 owed_once = (Inr 0, owed_once)"
    by (simp add: create_deliveries_def rows hook_watches)
  then show ?thesis
    by (simp add: dispatch_submission_def found fan_out_webhooks_def src Let_def up_def)
qed

theorem mail_is_bounded_witness:
  "length (email_body sample_externals (source_of watched_form cv_submission)) \<le> 262158"
  using mail_is_bounded [of sample_externals "source_of watched_form cv_submission"] by (simp add: MAX_BODY_BYTES_def)

theorem retry_repeats_mail_witness:
  "\<exists>q1 q2 d1 d2. dispatch_submission sample_externals (\<lambda>j. if job_to j = ''a@x.org'' then None else Some ''down'')
      (drawn 1) 61 owed_event (owed, no_mail) = (Inl (QueueFailed ''down''), (d1, q1)) \<and>
    dispatch_submission sample_externals up (drawn 1) 66 owed_event (d1, q1) = (Inr (), (d2, q2)) \<and>
    2 \<le> count_list (jobs q2) (notification_email sample_externals (source_of watched_form cv_submission) ''a@x.org'')"
proof -
  let ?src = "source_of watched_form cv_submission"
  obtain q2 where q2: "dispatch_submission sample_externals up (drawn 1) 66 owed_event
      (owed_once, \<lparr>jobs = [first_job], dead_letters = []\<rparr>) = (Inr (), (owed_once, q2))"
    using owed_second_try by blast
  have "2 + count_list (jobs no_mail) (notification_email sample_externals ?src ''a@x.org'') \<le>
      count_list (jobs q2) (notification_email sample_externals ?src ''a@x.org'')"
    by (rule retry_repeats_mail [OF _ _ _ _ owed_first_try q2, of "\<lparr>srv_form = 9, srv_submission = 77\<rparr>" _ _ "[''b@x.org'']"])
       (simp_all add: owed_source source_of_def owed_rows notification_email_def)
  with owed_first_try q2 show ?thesis by auto
qed

theorem mail_shows_every_answer_witness:
  "mset (answers (source_of watched_form cv_submission)) = {#(''Name'', JString ''k21'')#}"
proof -
  let ?src = "source_of watched_form cv_submission"
  have "distinct (map key (schema_fields (nsr_schema ?src)))" "nsr_data ?src = JObject cv_payload" "is_btree cv_payload"
    by (simp_all add: source_of_def owed_rows cv_schema_def contact_schema_def cv_submission_def cv_payload_def)
  from mail_shows_every_answer [OF this] show ?thesis
    by (simp add: cv_payload_def schema_field_def source_of_def owed_rows cv_schema_def contact_schema_def cv_field_def contact_field_def)
qed

end
