(* ===== verification/Export.thy ===== *)
theory Export
  imports Dispatcher
begin

text \<open>
  The export of a form's submissions: the encoding of a row (\<open>src/src/modules/form/export.rs\<close>), the pages it
  is read in (\<open>SubmissionRepository::page_after\<close>), and the stream (\<open>FormService::export\<close>). Each page is
  read from the database as it is then: the reads of an export are a list, one entry per query, an
  error or the database the query saw. \<open>None\<close> is an export whose reads have run out before it ended. A
  client that goes away gets a beginning of the stream.
\<close>

section \<open>Encoding\<close>

definition replace_quote :: "string \<Rightarrow> string" where
  "replace_quote s = replace_char (CHR 0x22) [CHR 0x22, CHR 0x22] s"

definition csv_special :: "char list" where
  "csv_special = [CHR '','', CHR 0x22, CHR 0x0A, CHR 0x0D]"

definition escape :: "string \<Rightarrow> string" where
  "escape value =
     (if contains_any csv_special value then [CHR 0x22] @ replace_quote value @ [CHR 0x22] else value)"

fun render_cell :: "externals \<Rightarrow> json \<Rightarrow> string" where
  "render_cell ext JNull = []"
| "render_cell ext (JString text) = text"
| "render_cell ext (JBool flag) = (if flag then ''true'' else ''false'')"
| "render_cell ext (JNumber n) = json_text ext (JNumber n)"
| "render_cell ext (JArray xs) = json_text ext (JArray xs)"
| "render_cell ext (JObject m) = json_text ext (JObject m)"

definition cells :: "externals \<Rightarrow> string list \<Rightarrow> submission_row \<Rightarrow> string list" where
  "cells ext columns s =
     map (\<lambda>c. case json_get c (sub_data s) of Some v \<Rightarrow> render_cell ext v | None \<Rightarrow> []) columns"

definition csv_row :: "externals \<Rightarrow> string list \<Rightarrow> submission_row \<Rightarrow> string" where
  "csv_row ext columns s =
     escape (uuid_text ext (sub_id s)) @ '','' @ escape (to_rfc3339 ext (sub_created_at s)) @ '','' @
     escape (submission_status_text (sub_status s)) @
     concat (map (\<lambda>field. '','' @ escape field) (cells ext columns s)) @ newline"

definition csv_header :: "string list \<Rightarrow> string" where
  "csv_header columns = ''id,created_at,status'' @ concat (map (\<lambda>c. '','' @ escape c) columns) @ newline"

definition export_object :: "externals \<Rightarrow> submission_row \<Rightarrow> json" where
  "export_object ext s =
     JObject [(''created_at'', JString (rfc3339 ext (sub_created_at s))), (''data'', sub_data s),
       (''id'', JString (uuid_text ext (sub_id s))), (''status'', JString (submission_status_text (sub_status s)))]"

definition json_row :: "externals \<Rightarrow> submission_row \<Rightarrow> string \<Rightarrow> string" where
  "json_row ext s separator = separator @ json_text ext (export_object ext s)"


section \<open>Pages\<close>

definition EXPORT_BATCH :: int where "EXPORT_BATCH = 500"

definition export_key :: "submission_row \<Rightarrow> instant \<times> uuid" where
  "export_key s = (sub_created_at s, sub_id s)"

definition page_after :: "db \<Rightarrow> uuid \<Rightarrow> (instant \<times> uuid) option \<Rightarrow> int \<Rightarrow> submission_row list" where
  "page_after d fid after l =
     limit_offset l 0 (sort_key export_key
       (filter (\<lambda>s. sub_form s = fid \<and> optional (\<lambda>k. k < export_key s) after) (submissions d)))"

text \<open>\<open>SELECT DISTINCT jsonb_object_keys(data)\<close>, in the order they first appear in.\<close>

definition distinct_answer_keys :: "db \<Rightarrow> uuid \<Rightarrow> string list" where
  "distinct_answer_keys d fid =
     rev (remdups (rev (concat (map (\<lambda>s. case sub_data s of JObject m \<Rightarrow> map fst m | _ \<Rightarrow> [])
       (filter (\<lambda>s. sub_form s = fid) (submissions d))))))"


section \<open>The stream\<close>

datatype export_format = Csv | JsonFormat

definition row_text :: "externals \<Rightarrow> export_format \<Rightarrow> string list \<Rightarrow> bool \<Rightarrow> submission_row \<Rightarrow> string" where
  "row_text ext fmt columns first_row s =
     (case fmt of
        Csv \<Rightarrow> csv_row ext columns s
      | JsonFormat \<Rightarrow> json_row ext s (if first_row then [] else '',''))"

fun batch_text :: "externals \<Rightarrow> export_format \<Rightarrow> string list \<Rightarrow> bool \<Rightarrow> submission_row list \<Rightarrow> string" where
  "batch_text ext fmt columns first_row [] = []"
| "batch_text ext fmt columns first_row (s # ss) =
     row_text ext fmt columns first_row s @ batch_text ext fmt columns False ss"

text \<open>The chunks the loop sends, and whether it ended by itself or with the error of a read.\<close>

fun export_loop ::
  "externals \<Rightarrow> export_format \<Rightarrow> string list \<Rightarrow> uuid \<Rightarrow> (form_error + db) list \<Rightarrow> (instant \<times> uuid) option \<Rightarrow> bool \<Rightarrow>
   (string list \<times> form_error option) option" where
  "export_loop ext fmt columns fid [] after first_row = None"
| "export_loop ext fmt columns fid (Inl e # reads) after first_row = Some ([], Some e)"
| "export_loop ext fmt columns fid (Inr d # reads) after first_row =
     (let batch = page_after d fid after EXPORT_BATCH
      in if batch = [] then Some ([], None)
         else map_option (\<lambda>(chunks, broken). (batch_text ext fmt columns first_row batch # chunks, broken))
           (export_loop ext fmt columns fid reads (Some (export_key (last batch))) False))"

record export_stream =
  exp_content_type :: string
  exp_filename :: string
  exp_chunks :: "string list"
  exp_broken :: "form_error option"

definition export_columns :: "form_record \<Rightarrow> string list \<Rightarrow> string list" where
  "export_columns f stored =
     fold (\<lambda>k cs. if List.member cs k then cs else cs @ [k]) stored (map key (schema_fields (frm_schema f)))"

definition export_submissions ::
  "externals \<Rightarrow> uuid \<Rightarrow> uuid \<Rightarrow> uuid \<Rightarrow> export_format \<Rightarrow> (form_error + db) list \<Rightarrow> db \<Rightarrow>
   (form_error + export_stream option) \<times> db" where
  "export_submissions ext oid fid actor fmt reads d =
     with_member of_organization_error d oid actor (\<lambda>_.
     guard_st (load_form d oid fid) d (\<lambda>f.
       let columns = export_columns f (distinct_answer_keys d fid);
           opening = (case fmt of Csv \<Rightarrow> csv_header columns | JsonFormat \<Rightarrow> ''['')
       in (Inr (map_option (\<lambda>(chunks, broken).
             \<lparr>exp_content_type = (case fmt of Csv \<Rightarrow> ''text/csv; charset=utf-8''
                                             | JsonFormat \<Rightarrow> ''application/json; charset=utf-8''),
              exp_filename = frm_name f @ ''-submissions.'' @ (case fmt of Csv \<Rightarrow> ''csv'' | JsonFormat \<Rightarrow> ''json''),
              exp_chunks = opening # chunks @ (if broken = None \<and> fmt = JsonFormat then ['']''] else []),
              exp_broken = broken\<rparr>)
             (export_loop ext fmt columns fid reads None True)), d)))"

text \<open>\<open>export_response\<close> (\<open>handler.rs\<close>): the header of the download.\<close>

definition export_disposition :: "export_stream \<Rightarrow> string" where
  "export_disposition x = ''attachment; filename=\"'' @ replace_char (CHR 0x22) [] (exp_filename x) @ ''\"''"

end
