(* ===== verification/ExportGuarantees.thy ===== *)
theory ExportGuarantees
  imports Export
begin

text \<open>
  What an export promises: it ends, it holds every submission once and in order even while others arrive,
  and a reader of CSV gets back the cells that were written.
\<close>

section \<open>The pages\<close>

definition form_rows :: "db \<Rightarrow> uuid \<Rightarrow> submission_row list" where
  "form_rows d fid = sort_key export_key (filter (\<lambda>s. sub_form s = fid) (submissions d))"

definition later :: "(instant \<times> uuid) option \<Rightarrow> submission_row \<Rightarrow> bool" where
  "later after s \<longleftrightarrow> optional (\<lambda>k. k < export_key s) after"

definition submission_keys :: "db \<Rightarrow> bool" where
  "submission_keys d \<longleftrightarrow> distinct (map sub_id (submissions d))"

text \<open>The rows an export reads before it stops.\<close>

fun export_rows :: "uuid \<Rightarrow> (form_error + db) list \<Rightarrow> (instant \<times> uuid) option \<Rightarrow> submission_row list" where
  "export_rows fid [] after = []"
| "export_rows fid (Inl e # reads) after = []"
| "export_rows fid (Inr d # reads) after =
     (let batch = page_after d fid after EXPORT_BATCH
      in if batch = [] then [] else batch @ export_rows fid reads (Some (export_key (last batch))))"

lemma page_after_eq: "page_after d fid after l = take (nat l) (filter (later after) (form_rows d fid))"
  by (simp add: page_after_def form_rows_def limit_offset_def later_def [abs_def] filter_sort conj_commute)

lemma form_rows_sorted:
  assumes "submission_keys d"
  shows "sorted_wrt (<) (map export_key (form_rows d fid))"
proof -
  have "distinct (map sub_id (form_rows d fid))"
    using assms by (auto simp: form_rows_def submission_keys_def distinct_map inj_on_def)
  then have "distinct (map export_key (form_rows d fid))"
    by (auto simp: distinct_map inj_on_def export_key_def)
  moreover have "sorted (map export_key (form_rows d fid))" by (simp add: form_rows_def)
  ultimately show ?thesis by (simp add: strict_sorted_iff)
qed

lemma take_prefix_le:
  fixes f :: "'a \<Rightarrow> 'b :: linorder"
  assumes "sorted_wrt (<) (map f xs)" and "n < length xs" and "x \<in> set xs" and "f x \<le> f (last (take n xs))" and "0 < n"
  shows "x \<in> set (take n xs)"
proof -
  obtain i where i: "i < length xs" "x = xs ! i" using assms(3) by (metis in_set_conv_nth)
  have l: "last (take n xs) = xs ! (n - 1)" 
    using assms(2,5) by (cases "take n xs = []") (auto simp: last_conv_nth)
  have "i \<le> n - 1"
  proof (rule ccontr)
    assume "\<not> i \<le> n - 1"
    then have "f (xs ! (n - 1)) < f (xs ! i)"
      using sorted_wrt_nth_less [OF assms(1), of "n - 1" i] i(1) by simp
    with assms(4) i(2) l show False by simp
  qed
  with assms(2,5) i show ?thesis by (auto simp: in_set_conv_nth intro!: exI [of _ i])
qed

lemma sorted_le_last: "sorted xs \<Longrightarrow> x \<in> set xs \<Longrightarrow> x \<le> last xs"
  by (induction xs) auto

lemma filter_later_last:
  fixes f :: "'a \<Rightarrow> 'b :: linorder"
  assumes "sorted_wrt (<) (map f xs)" and "xs \<noteq> []" and "0 < n"
  shows "filter (\<lambda>x. f (last (take n xs)) < f x) xs = drop n xs"
proof -
  have "sorted_wrt (<) (map f (take n xs @ drop n xs))" using assms(1) by simp
  then have split: "sorted_wrt (<) (map f (take n xs))" "\<forall>x \<in> set (take n xs). \<forall>y \<in> set (drop n xs). f x < f y"
    unfolding map_append sorted_wrt_append by auto
  have ne: "take n xs \<noteq> []" using assms(2,3) by simp
  have "\<forall>x \<in> set (take n xs). f x \<le> f (last (take n xs))"
    using sorted_le_last [OF strict_sorted_imp_sorted [OF split(1)]] ne by (simp add: last_map)
  then have "filter (\<lambda>x. f (last (take n xs)) < f x) (take n xs) = []"
    by (auto simp: filter_empty_conv not_less)
  moreover have "filter (\<lambda>x. f (last (take n xs)) < f x) (drop n xs) = drop n xs"
    using split(2) ne last_in_set by (force simp: filter_id_conv)
  ultimately show ?thesis by (metis append_Nil append_take_drop_id filter_append)
qed

lemma sorted_wrt_filter_map: "sorted_wrt (<) (map f xs) \<Longrightarrow> sorted_wrt (<) (map f (filter p xs))"
  by (induction xs) auto

lemma export_batch_pos: "0 < nat EXPORT_BATCH"
  by (simp add: EXPORT_BATCH_def)

text \<open>On a database at rest the pages are the rows of the form, cut into batches.\<close>

lemma export_rows_stable:
  assumes "submission_keys d"
    and "length (filter (later after) (form_rows d fid)) \<le> n * nat EXPORT_BATCH"
  shows "export_rows fid (replicate (Suc n) (Inr d)) after = filter (later after) (form_rows d fid) \<and>
    (\<exists>chunks. export_loop ext fmt columns fid (replicate (Suc n) (Inr d)) after first_row = Some (chunks, None))"
  using assms(2)
proof (induction n arbitrary: after first_row)
  case 0
  then show ?case by (simp add: page_after_eq)
next
  case (Suc n)
  define R where "R = filter (later after) (form_rows d fid)"
  have page: "page_after d fid after EXPORT_BATCH = take (nat EXPORT_BATCH) R"
    by (simp add: page_after_eq R_def)
  show ?case
  proof (cases "R = []")
    case True
    then show ?thesis by (simp add: page Let_def R_def [symmetric])
  next
    case False
    define k where "k = export_key (last (take (nat EXPORT_BATCH) R))"
    have sorted: "sorted_wrt (<) (map export_key R)"
      unfolding R_def using form_rows_sorted [OF assms(1)] by (rule sorted_wrt_filter_map)
    have "take (nat EXPORT_BATCH) R \<noteq> []" using False export_batch_pos by simp
    then have "last (take (nat EXPORT_BATCH) R) \<in> set R" by (metis last_in_set in_set_takeD)
    then have "later after (last (take (nat EXPORT_BATCH) R))" by (simp add: R_def)
    then have "later (Some k) s \<Longrightarrow> later after s" for s
      by (cases after) (auto simp: later_def k_def optional_def)
    then have "filter (later (Some k)) (form_rows d fid) = filter (later (Some k)) R"
      by (auto simp: R_def intro: filter_cong)
    also have "\<dots> = drop (nat EXPORT_BATCH) R"
      using filter_later_last [OF sorted False export_batch_pos] by (simp add: later_def [abs_def] k_def optional_def)
    finally have rest: "filter (later (Some k)) (form_rows d fid) = drop (nat EXPORT_BATCH) R" .
    have "length (drop (nat EXPORT_BATCH) R) \<le> n * nat EXPORT_BATCH"
      using Suc.prems unfolding R_def [symmetric] by simp
    from Suc.IH [of "Some k" False, unfolded rest, OF this] show ?thesis
      using \<open>take (nat EXPORT_BATCH) R \<noteq> []\<close>
      by (auto simp: page Let_def k_def [symmetric] R_def [symmetric] simp del: replicate_Suc simp add: replicate_Suc [of "Suc n"])
  qed
qed

text \<open>The reads an export that ended by itself got an answer to.\<close>

lemma export_rows_after: "s \<in> set (export_rows fid reads after) \<Longrightarrow>
    \<forall>d. Inr d \<in> set reads \<longrightarrow> submission_keys d \<Longrightarrow> later after s"
proof (induction fid reads after rule: export_rows.induct)
  case (3 fid d reads after)
  let ?b = "page_after d fid after EXPORT_BATCH"
  have sel: "later after x" if "x \<in> set ?b" for x
    using that by (auto simp: page_after_eq dest: in_set_takeD)
  show ?case
  proof (cases "?b = []")
    case False
    show ?thesis
    proof (cases "s \<in> set ?b")
      case True
      then show ?thesis by (rule sel)
    next
      case out: False
      with 3(2) False have "s \<in> set (export_rows fid reads (Some (export_key (last ?b))))" by (simp add: Let_def)
      from 3(1) [OF refl False this] 3(3) have "later (Some (export_key (last ?b))) s" by auto
      with sel [OF last_in_set [OF False]] show ?thesis
        by (cases after) (auto simp: later_def optional_def)
    qed
  qed (use 3(2) in simp)
qed simp_all

lemma export_rows_strict:
  "\<forall>d. Inr d \<in> set reads \<longrightarrow> submission_keys d \<Longrightarrow> sorted_wrt (<) (map export_key (export_rows fid reads after))"
proof (induction fid reads after rule: export_rows.induct)
  case (3 fid d reads after)
  let ?b = "page_after d fid after EXPORT_BATCH"
  show ?case
  proof (cases "?b = []")
    case False
    have keys: "submission_keys d" "\<forall>d. Inr d \<in> set reads \<longrightarrow> submission_keys d" using 3(2) by auto
    have b: "sorted_wrt (<) (map export_key ?b)"
      using sorted_wrt_filter_map [OF form_rows_sorted [OF keys(1)]]
      by (simp add: page_after_eq sorted_wrt_take flip: take_map)
    have "export_key x < export_key y"
      if "x \<in> set ?b" "y \<in> set (export_rows fid reads (Some (export_key (last ?b))))" for x y
    proof -
      have "export_key x \<le> export_key (last ?b)"
        using sorted_le_last [OF strict_sorted_imp_sorted [OF b], of "export_key x"] that(1) False by (simp add: last_map)
      also have "\<dots> < export_key y"
        using export_rows_after [OF that(2) keys(2)] by (simp add: later_def optional_def)
      finally show ?thesis .
    qed
    with b 3(1) [OF refl False keys(2)] False show ?thesis by (simp add: Let_def sorted_wrt_append)
  qed (use 3 in simp)
qed simp_all

lemma export_rows_complete:
  assumes "\<forall>d. Inr d \<in> set reads \<longrightarrow> submission_keys d \<and> (\<exists>s \<in> set (submissions d). sub_form s = fid \<and> export_key s = k)"
    and "optional (\<lambda>a. a < k) after"
    and "export_loop ext fmt columns fid reads after first_row = Some (chunks, None)"
  shows "k \<in> export_key ` set (export_rows fid reads after)"
  using assms
proof (induction ext fmt columns fid reads after first_row arbitrary: chunks rule: export_loop.induct)
  case (3 ext fmt columns fid d reads after first_row)
  let ?R = "filter (later after) (form_rows d fid)"
  let ?n = "nat EXPORT_BATCH"
  let ?b = "take ?n ?R"
  have page: "page_after d fid after EXPORT_BATCH = ?b" by (rule page_after_eq)
  from 3(2) obtain s where keys: "submission_keys d" and
    s: "s \<in> set (submissions d)" "sub_form s = fid" "export_key s = k" by auto
  then have sR: "s \<in> set ?R" using 3(3) by (simp add: form_rows_def later_def)
  then have ne: "?b \<noteq> []" using export_batch_pos by (auto simp del: set_filter)
  show ?case
  proof (cases "s \<in> set ?b")
    case True
    with ne s(3) show ?thesis by (force simp: page Let_def)
  next
    case False
    have "?n < length ?R" using False sR by (cases "?n < length ?R") auto
    have "export_key (last ?b) < k"
      using take_prefix_le [OF sorted_wrt_filter_map [OF form_rows_sorted [OF keys]] \<open>?n < length ?R\<close> sR _ export_batch_pos]
        False s(3) by (metis not_le)
    moreover obtain cs where
      "export_loop ext fmt columns fid reads (Some (export_key (last ?b))) False = Some (cs, None)"
      using 3(4) ne by (auto simp: page Let_def)
    ultimately have "k \<in> export_key ` set (export_rows fid reads (Some (export_key (last ?b))))"
      using 3(2) ne by (intro 3(1) [of ?b]) (auto simp: page optional_def)
    with ne show ?thesis by (auto simp: page Let_def)
  qed
qed simp_all

lemma batch_text_append:
  "batch_text ext fmt columns first_row (xs @ ys) =
   batch_text ext fmt columns first_row xs @ batch_text ext fmt columns (first_row \<and> xs = []) ys"
  by (induction xs arbitrary: first_row) simp_all

lemma export_loop_text:
  "export_loop ext fmt columns fid reads after first_row = Some (chunks, broken) \<Longrightarrow>
   concat chunks = batch_text ext fmt columns first_row (export_rows fid reads after)"
proof (induction ext fmt columns fid reads after first_row arbitrary: chunks rule: export_loop.induct)
  case (3 ext fmt columns fid d reads after first_row)
  then show ?case by (cases "page_after d fid after EXPORT_BATCH = []") (auto simp: Let_def batch_text_append)
qed simp_all


section \<open>Reading CSV\<close>

text \<open>A reader of RFC 4180: what it is in, the cell so far, the cells before it.\<close>

datatype csv_mode = Plain | Quoted | QuoteSeen

fun read_csv :: "csv_mode \<Rightarrow> string \<Rightarrow> string list \<Rightarrow> string \<Rightarrow> string list list" where
  "read_csv m cell row [] = (if m = Plain \<and> cell = [] \<and> row = [] then [] else [row @ [cell]])"
| "read_csv Plain cell row (c # s) =
     (if c = CHR '','' then read_csv Plain [] (row @ [cell]) s
      else if c = CHR 0x0A then (row @ [cell]) # read_csv Plain [] [] s
      else if c = CHR 0x22 \<and> cell = [] then read_csv Quoted [] row s
      else read_csv Plain (cell @ [c]) row s)"
| "read_csv Quoted cell row (c # s) =
     (if c = CHR 0x22 then read_csv QuoteSeen cell row s else read_csv Quoted (cell @ [c]) row s)"
| "read_csv QuoteSeen cell row (c # s) =
     (if c = CHR 0x22 then read_csv Quoted (cell @ [c]) row s
      else if c = CHR '','' then read_csv Plain [] (row @ [cell]) s
      else if c = CHR 0x0A then (row @ [cell]) # read_csv Plain [] [] s
      else read_csv Plain (cell @ [c]) row s)"

definition csv_records :: "string \<Rightarrow> string list list" where
  "csv_records = read_csv Plain [] []"

lemma read_plain:
  "\<not> contains_any csv_special v \<Longrightarrow> read_csv Plain cell row (v @ s) = read_csv Plain (cell @ v) row s"
  by (induction v arbitrary: cell) (auto simp: contains_any_iff csv_special_def)

lemma read_quoted: "read_csv Quoted cell row (replace_quote v @ s) = read_csv Quoted (cell @ v) row s"
  by (induction v arbitrary: cell) (simp_all add: replace_quote_def)

lemma read_escaped:
  assumes "c = CHR '','' \<or> c = CHR 0x0A"
  shows "read_csv Plain [] row (escape v @ c # s) =
    (if c = CHR '','' then read_csv Plain [] (row @ [v]) s else (row @ [v]) # read_csv Plain [] [] s)"
  using assms by (auto simp: escape_def read_plain read_quoted)

definition csv_line :: "string list \<Rightarrow> string" where
  "csv_line vs = (case vs of [] \<Rightarrow> newline | v # rest \<Rightarrow> escape v @ concat (map (\<lambda>f. '','' @ escape f) rest) @ newline)"

lemma read_csv_line: "vs \<noteq> [] \<Longrightarrow> csv_records (csv_line vs @ s) = vs # csv_records s"
proof -
  have rest: "read_csv Plain [] row (escape v @ concat (map (\<lambda>f. '','' @ escape f) ws) @ newline @ s) =
      (row @ v # ws) # csv_records s" for row v ws
  proof (induction ws arbitrary: row v)
    case Nil
    then show ?case using read_escaped [of "CHR 0x0A" row v s] by (simp add: newline_def csv_records_def)
  next
    case (Cons w ws)
    then show ?case using read_escaped [of "CHR '',''" row v] by simp
  qed
  assume "vs \<noteq> []"
  then obtain v ws where "vs = v # ws" by (cases vs) auto
  with rest [of "[]" v ws] show ?thesis unfolding csv_records_def by (simp add: csv_line_def)
qed

lemma csv_header_line: "csv_header columns = csv_line ([''id'', ''created_at'', ''status''] @ columns)"
  by (simp add: csv_header_def csv_line_def escape_def contains_any_iff csv_special_def)

definition record_cells :: "externals \<Rightarrow> string list \<Rightarrow> submission_row \<Rightarrow> string list" where
  "record_cells ext columns s =
     [uuid_text ext (sub_id s), to_rfc3339 ext (sub_created_at s), submission_status_text (sub_status s)] @
     cells ext columns s"

lemma csv_row_line: "csv_row ext columns s = csv_line (record_cells ext columns s)"
  by (simp add: csv_row_def csv_line_def record_cells_def)

lemma csv_batch: "csv_records (batch_text ext Csv columns first_row ss) = map (record_cells ext columns) ss"
proof (induction ss arbitrary: first_row)
  case (Cons s ss)
  then show ?case
    using read_csv_line [of "record_cells ext columns s"] by (simp add: row_text_def csv_row_line record_cells_def)
qed (simp add: csv_records_def)

lemma json_batch:
  "batch_text ext JsonFormat columns first_row ss =
   (if first_row \<or> ss = [] then [] else '','') @ join '','' (map (\<lambda>s. json_text ext (export_object ext s)) ss)"
  by (induction ss arbitrary: first_row rule: induct_list012) (auto simp: row_text_def json_row_def)

lemma export_submissions_Some:
  assumes "export_submissions ext oid fid actor fmt reads d = (Inr (Some x), d')"
  obtains f chunks where "find_form d oid fid = Some f"
    and "export_loop ext fmt (export_columns f (distinct_answer_keys d fid)) fid reads None True = Some (chunks, exp_broken x)"
    and "exp_chunks x = (case fmt of Csv \<Rightarrow> csv_header (export_columns f (distinct_answer_keys d fid)) | JsonFormat \<Rightarrow> ''['') #
           chunks @ (if exp_broken x = None \<and> fmt = JsonFormat then ['']''] else [])"
  using assms by (auto simp: export_submissions_def with_member_def load_form_def Let_def)


section \<open>Properties\<close>

text \<open>C22: An export ends: on a database at rest, one read more than the batches its rows fill is enough, it ends
  without an error, and the rows it wrote are all submissions of the form, oldest first.\<close>

theorem export_ends:
  assumes "submission_keys d" and "export_submissions ext oid fid actor fmt [] d = (Inr None, d)"
    and "length (form_rows d fid) \<le> n * nat EXPORT_BATCH"
  shows "\<exists>x. export_submissions ext oid fid actor fmt (replicate (Suc n) (Inr d)) d = (Inr (Some x), d) \<and>
    exp_broken x = None \<and> export_rows fid (replicate (Suc n) (Inr d)) None = form_rows d fid"
proof -
  have all: "filter (later None) (form_rows d fid) = form_rows d fid" by (simp add: later_def optional_def)
  from assms(2) obtain a f where "resolve_access d oid actor = Inr a" "find_form d oid fid = Some f"
    by (auto simp: export_submissions_def with_member_def load_form_def Let_def)
  moreover from export_rows_stable [OF assms(1), of None fid n] assms(3) obtain chunks where
    "export_loop ext fmt (export_columns f (distinct_answer_keys d fid)) fid (replicate (Suc n) (Inr d)) None True = Some (chunks, None)"
    "export_rows fid (replicate (Suc n) (Inr d)) None = form_rows d fid"
    unfolding all by blast
  ultimately show ?thesis
    by (simp add: export_submissions_def with_member_def load_form_def Let_def del: replicate_Suc)
qed

text \<open>Submissions that arrive, change or go while an export runs do not damage it: an export that ended by itself
  wrote no submission twice, in order of arrival, and every submission of the form that was there at each of its
  reads.\<close>

theorem concurrent_export_is_sound:
  assumes "export_submissions ext oid fid actor fmt reads d = (Inr (Some x), d')" and "exp_broken x = None"
    and "\<forall>r. Inr r \<in> set reads \<longrightarrow> submission_keys r"
  shows "sorted_wrt (<) (map export_key (export_rows fid reads None)) \<and>
    (\<forall>k. (\<forall>r. Inr r \<in> set reads \<longrightarrow> (\<exists>s \<in> set (submissions r). sub_form s = fid \<and> export_key s = k)) \<longrightarrow>
       k \<in> export_key ` set (export_rows fid reads None))"
proof -
  from assms(1) obtain f chunks where
    "export_loop ext fmt (export_columns f (distinct_answer_keys d fid)) fid reads None True = Some (chunks, None)"
    using assms(2) by (auto elim!: export_submissions_Some)
  from export_rows_complete [OF _ _ this] export_rows_strict [OF assms(3)] assms(3)
  show ?thesis by (auto simp: optional_def)
qed

text \<open>C30: What an export writes can be read back: a reader of RFC 4180 gets a header record and then for every row
  exactly the cells written, whatever commas, quotes and line breaks the answers hold; the JSON form is one
  array of the rows' objects.\<close>

theorem export_reads_back:
  assumes "export_submissions ext oid fid actor fmt reads d = (Inr (Some x), d')" and "exp_broken x = None"
  shows "\<exists>f columns. find_form d oid fid = Some f \<and> columns = export_columns f (distinct_answer_keys d fid) \<and>
    (fmt = Csv \<longrightarrow> csv_records (concat (exp_chunks x)) =
       ([''id'', ''created_at'', ''status''] @ columns) # map (record_cells ext columns) (export_rows fid reads None)) \<and>
    (fmt = JsonFormat \<longrightarrow> concat (exp_chunks x) =
       ''['' @ join '','' (map (\<lambda>s. json_text ext (export_object ext s)) (export_rows fid reads None)) @ '']'')"
proof -
  from assms(1) obtain f chunks where f: "find_form d oid fid = Some f"
    and loop: "export_loop ext fmt (export_columns f (distinct_answer_keys d fid)) fid reads None True = Some (chunks, exp_broken x)"
    and out: "exp_chunks x = (case fmt of Csv \<Rightarrow> csv_header (export_columns f (distinct_answer_keys d fid)) | JsonFormat \<Rightarrow> ''['') #
           chunks @ (if exp_broken x = None \<and> fmt = JsonFormat then ['']''] else [])"
    by (rule export_submissions_Some)
  note t = export_loop_text [OF loop]
  show ?thesis
    using f t out assms(2) read_csv_line [of "[''id'', ''created_at'', ''status''] @ export_columns f (distinct_answer_keys d fid)"]
    by (cases fmt) (simp_all add: csv_header_line csv_batch json_batch)
qed

section \<open>Instances\<close>

lemma received_submissions: "submissions received = [cv_submission]" "sub_form cv_submission = 9" "sub_id cv_submission = 77"
  by (simp_all add: received_def cv_submission_def)

lemma received_form: "find_form received 7 9 = Some hiring_form"
  by (simp add: find_form_def scoped_find_def received_def hiring_def hiring_form_def contact_form_def)

lemma received_keys: "submission_keys received"
  by (simp add: submission_keys_def received_submissions)

lemma received_rows: "form_rows received 9 = [cv_submission]"
  by (simp add: form_rows_def received_submissions)

lemma received_started: "export_submissions ext 7 9 11 fmt [] received = (Inr None, received)"
  by (simp add: export_submissions_def with_member_def received_access load_form_def received_form Let_def)

theorem export_ends_witness:
  "\<exists>x. export_submissions sample_externals 7 9 11 Csv [Inr received, Inr received] received = (Inr (Some x), received) \<and>
     exp_broken x = None \<and> export_rows 9 [Inr received, Inr received] None = [cv_submission]"
  using export_ends [OF received_keys received_started, of 1 sample_externals Csv]
  by (simp add: received_rows EXPORT_BATCH_def numeral_2_eq_2)

lemma received_export:
  obtains x where "export_submissions sample_externals 7 9 11 fmt [Inr received, Inr received] received = (Inr (Some x), received)"
    and "exp_broken x = None"
proof -
  have page: "page_after received 9 None EXPORT_BATCH = [cv_submission]"
    by (simp add: page_after_eq received_rows later_def optional_def EXPORT_BATCH_def)
  have rest: "page_after received 9 (Some (export_key cv_submission)) EXPORT_BATCH = []"
    by (simp add: page_after_eq received_rows later_def optional_def)
  have "\<exists>x. export_submissions sample_externals 7 9 11 fmt [Inr received, Inr received] received = (Inr (Some x), received) \<and>
      exp_broken x = None"
    by (simp add: export_submissions_def with_member_def received_access load_form_def received_form Let_def page rest)
  with that show ?thesis by blast
qed

lemma received_export_rows: "export_rows 9 [Inr received, Inr received] None = [cv_submission]"
proof -
  have "page_after received 9 None EXPORT_BATCH = [cv_submission]"
    "page_after received 9 (Some (export_key cv_submission)) EXPORT_BATCH = []"
    by (simp_all add: page_after_eq received_rows later_def optional_def EXPORT_BATCH_def)
  then show ?thesis by simp
qed

theorem concurrent_export_is_sound_witness:
  "export_key cv_submission \<in> export_key ` set (export_rows 9 [Inr received, Inr received] None)"
proof -
  obtain x where x: "export_submissions sample_externals 7 9 11 Csv [Inr received, Inr received] received = (Inr (Some x), received)"
    "exp_broken x = None" by (rule received_export)
  from concurrent_export_is_sound [OF this] show ?thesis by (simp add: received_keys received_submissions)
qed

theorem export_reads_back_witness:
  "\<exists>x. export_submissions sample_externals 7 9 11 Csv [Inr received, Inr received] received = (Inr (Some x), received) \<and>
     csv_records (concat (exp_chunks x)) =
       [[''id'', ''created_at'', ''status'', ''cv''], [''77'', ''60'', ''unread'', ''k21'']]"
proof -
  obtain x where x: "export_submissions sample_externals 7 9 11 Csv [Inr received, Inr received] received = (Inr (Some x), received)"
    "exp_broken x = None" by (rule received_export)
  have keys: "export_columns hiring_form (distinct_answer_keys received 9) = [''cv'']"
    by (simp add: export_columns_def distinct_answer_keys_def received_submissions hiring_form_def cv_schema_def cv_field_def
        cv_submission_def cv_payload_def)
  have cells: "record_cells sample_externals [''cv''] cv_submission = [''77'', ''60'', ''unread'', ''k21'']"
    by code_simp
  from export_reads_back [OF x] x show ?thesis
    by (simp add: received_form keys received_export_rows cells del: export_rows.simps)
qed

end
