(* ===== verification/Uploads.thy ===== *)
theory Uploads
  imports Submissions
begin

text \<open>
  File answers: the type a file's first bytes give away (\<open>src/src/shared/sniff.rs\<close>), the bucket and the
  counting writer (\<open>src/src/shared/storage.rs\<close>), the ledger (\<open>FileUploadRepository\<close>), and upload, download and
  the reaper (\<open>src/src/modules/form/service.rs\<close>, \<open>handler.rs\<close>). The bucket maps object keys to bytes; what
  it refuses in a request is an argument (\<open>bucket_faults\<close>). A multipart upload is in the bucket when it is
  finished, and not before. The body of a request is the list of its chunks, each the bytes or the
  error that broke it.
\<close>

section \<open>Sniffing\<close>

datatype sniffed = Png | Jpeg | Gif | Webp | Pdf | Zip | Gzip | UnknownFormat

definition SUGGESTED_HEAD_BYTES :: nat where "SUGGESTED_HEAD_BYTES = 16"

definition sniff :: "string \<Rightarrow> sniffed" where
  "sniff h =
     (if starts_with h ([CHR 0x89] @ ''PNG'' @ [CHR 0x0D, CHR 0x0A, CHR 0x1A, CHR 0x0A]) then Png
      else if starts_with h [CHR 0xFF, CHR 0xD8, CHR 0xFF] then Jpeg
      else if starts_with h ''GIF87a'' \<or> starts_with h ''GIF89a'' then Gif
      else if length h \<ge> 12 \<and> starts_with h ''RIFF'' \<and> take 4 (drop 8 h) = ''WEBP'' then Webp
      else if starts_with h ''%PDF-'' then Pdf
      else if starts_with h [CHR 0x50, CHR 0x4B, CHR 0x03, CHR 0x04] then Zip
      else if starts_with h [CHR 0x1F, CHR 0x8B] then Gzip
      else UnknownFormat)"

fun sniffed_content_type :: "sniffed \<Rightarrow> string option" where
  "sniffed_content_type Png = Some ''image/png''"
| "sniffed_content_type Jpeg = Some ''image/jpeg''"
| "sniffed_content_type Gif = Some ''image/gif''"
| "sniffed_content_type Webp = Some ''image/webp''"
| "sniffed_content_type Pdf = Some ''application/pdf''"
| "sniffed_content_type Gzip = Some ''application/gzip''"
| "sniffed_content_type Zip = None"
| "sniffed_content_type UnknownFormat = None"

definition is_consistent_with :: "sniffed \<Rightarrow> string \<Rightarrow> bool" where
  "is_consistent_with x declared =
     (let declared = to_ascii_lowercase (trim (first_piece [CHR '';''] declared))
      in case x of
           UnknownFormat \<Rightarrow> True
         | Png \<Rightarrow> declared = ''image/png''
         | Jpeg \<Rightarrow> declared = ''image/jpeg''
         | Gif \<Rightarrow> declared = ''image/gif''
         | Webp \<Rightarrow> declared = ''image/webp''
         | Pdf \<Rightarrow> declared = ''application/pdf''
         | Gzip \<Rightarrow> declared = ''application/gzip'' \<or> declared = ''application/x-gzip''
         | Zip \<Rightarrow> declared = ''application/zip'' \<or>
             starts_with declared ''application/vnd.openxmlformats-officedocument.'' \<or>
             starts_with declared ''application/vnd.oasis.opendocument.'')"


section \<open>Storage\<close>

datatype file_storage = Disabled | S3

datatype storage_error = NotConfigured | TooLarge nat | NotFound | Internal cause

fun of_storage_error :: "storage_error \<Rightarrow> form_error" where
  "of_storage_error NotConfigured = form_error.FileUploadsUnavailable"
| "of_storage_error (TooLarge limit) = form_error.FileTooLarge limit"
| "of_storage_error NotFound = form_error.FileMissing"
| "of_storage_error (Internal c) = form_error.Internal c"

definition is_enabled :: "file_storage \<Rightarrow> bool" where
  "is_enabled s \<longleftrightarrow> s = S3"

type_synonym bucket = "string \<Rightarrow> string option"

text \<open>What the bucket answers to the start of a write, to the part that begins at a byte, to its end, to a read
  and to a deletion; \<open>None\<close> is success.\<close>

record bucket_faults =
  begin_fault :: "cause option"
  part_fault :: "nat \<Rightarrow> cause option"
  finish_fault :: "cause option"
  open_fault :: "cause option"
  delete_fault :: "string \<Rightarrow> cause option"

definition no_faults :: bucket_faults where
  "no_faults = \<lparr>begin_fault = None, part_fault = (\<lambda>_. None), finish_fault = None, open_fault = None,
     delete_fault = (\<lambda>_. None)\<rparr>"

definition fault_of :: "cause option \<Rightarrow> storage_error + unit" where
  "fault_of x = (case x of None \<Rightarrow> Inr () | Some c \<Rightarrow> Inl (Internal c))"

record upload_writer =
  wrt_key :: string
  wrt_parts :: string
  wrt_written :: nat
  wrt_limit :: nat

definition begin_upload :: "file_storage \<Rightarrow> bucket_faults \<Rightarrow> string \<Rightarrow> nat \<Rightarrow> storage_error + upload_writer" where
  "begin_upload s faults k limit =
     (case s of
        Disabled \<Rightarrow> Inl NotConfigured
      | S3 \<Rightarrow> and_then (fault_of (begin_fault faults)) (\<lambda>_.
          Inr \<lparr>wrt_key = k, wrt_parts = [], wrt_written = 0, wrt_limit = limit\<rparr>))"

definition writer_write :: "bucket_faults \<Rightarrow> string \<Rightarrow> upload_writer \<Rightarrow> (storage_error + unit) \<times> upload_writer" where
  "writer_write faults chunk w =
     (let total = wrt_written w + length chunk
      in if total > wrt_limit w then (Inl (TooLarge (wrt_limit w)), w)
         else guard_st (fault_of (part_fault faults (wrt_written w))) w (\<lambda>_.
           (Inr (), w\<lparr>wrt_parts := wrt_parts w @ chunk, wrt_written := total\<rparr>)))"

definition writer_finish :: "bucket_faults \<Rightarrow> upload_writer \<Rightarrow> bucket \<Rightarrow> (storage_error + nat) \<times> bucket" where
  "writer_finish faults w b =
     guard_st (fault_of (finish_fault faults)) b (\<lambda>_. (Inr (wrt_written w), b(wrt_key w \<mapsto> wrt_parts w)))"

text \<open>An aborted write leaves no object, whether the bucket acknowledges it or not.\<close>

definition writer_abort :: "upload_writer \<Rightarrow> bucket \<Rightarrow> bucket" where
  "writer_abort w b = b"

definition storage_open :: "file_storage \<Rightarrow> bucket_faults \<Rightarrow> string \<Rightarrow> bucket \<Rightarrow> storage_error + string" where
  "storage_open s faults k b =
     (case s of
        Disabled \<Rightarrow> Inl NotConfigured
      | S3 \<Rightarrow> and_then (fault_of (open_fault faults)) (\<lambda>_. ok_or NotFound (b k)))"

definition storage_delete :: "file_storage \<Rightarrow> bucket_faults \<Rightarrow> string \<Rightarrow> bucket \<Rightarrow> (storage_error + unit) \<times> bucket" where
  "storage_delete s faults k b =
     (case s of
        Disabled \<Rightarrow> (Inl NotConfigured, b)
      | S3 \<Rightarrow> guard_st (fault_of (delete_fault faults k)) b (\<lambda>_. (Inr (), b(k := None))))"


section \<open>The ledger\<close>

definition uploads_checks :: "int \<Rightarrow> bool" where
  "uploads_checks size_bytes \<longleftrightarrow> size_bytes > 0"

definition insert_upload :: "file_upload_row \<Rightarrow> db \<Rightarrow> (form_error + file_upload_row) \<times> db" where
  "insert_upload u d =
     (if \<not> uploads_checks (upl_size_bytes u) then (Inl (form_error.Internal CheckViolation), d)
      else if exists_row (\<lambda>r. upl_id r = upl_id u \<or> upl_object_key r = upl_object_key u) (file_uploads d)
      then (Inl (form_error.Internal UniqueViolation), d)
      else if \<not> organization_exists d (upl_organization u) \<or> \<not> form_exists d (upl_form u)
      then (Inl (form_error.Internal ForeignKeyViolation), d)
      else (Inr u, d\<lparr>file_uploads := file_uploads d @ [u]\<rparr>))"

definition abandoned :: "db \<Rightarrow> instant \<Rightarrow> int \<Rightarrow> file_upload_row list" where
  "abandoned d older_than l =
     limit_offset l 0 (sort_key upl_created_at
       (filter (\<lambda>u. upl_submission u = None \<and> upl_created_at u < older_than) (file_uploads d)))"

definition forget :: "uuid \<Rightarrow> db \<Rightarrow> db" where
  "forget i d = d\<lparr>file_uploads := delete_where (\<lambda>u. upl_id u = i) (file_uploads d)\<rparr>"


section \<open>Uploading\<close>

definition normalise_content_type :: "string option \<Rightarrow> string option" where
  "normalise_content_type raw =
     Option.bind raw (\<lambda>raw.
       let raw = trim (first_piece [CHR '';''] raw)
       in if raw \<noteq> [] then Some (to_ascii_lowercase raw) else None)"

definition new_object_key :: "externals \<Rightarrow> string \<Rightarrow> uuid \<Rightarrow> uuid \<Rightarrow> string" where
  "new_object_key ext token oid fid = uuid_text ext oid @ ''/'' @ uuid_text ext fid @ ''/'' @ token"

definition clean_filename :: "string option \<Rightarrow> string" where
  "clean_filename raw =
     (let base = trim (last_piece [CHR ''/'', CHR 0x5C] (case raw of None \<Rightarrow> [] | Some r \<Rightarrow> r));
          cleaned = concat (take 200 (filter (\<lambda>c. \<not> is_control c) (chars base)))
      in if cleaned = [] then ''file'' else cleaned)"

definition check_bytes :: "string \<Rightarrow> string option \<Rightarrow> form_error + unit" where
  "check_bytes h declared =
     (case declared of
        None \<Rightarrow> Inr ()
      | Some declared \<Rightarrow>
          if is_consistent_with (sniff h) declared then Inr ()
          else Inl (form_error.FileRejected (ContentsMismatch declared)))"

definition check_declared_type :: "field_definition \<Rightarrow> string option \<Rightarrow> form_error + unit" where
  "check_declared_type field declared =
     (case declared of
        None \<Rightarrow> Inl (form_error.FileRejected ContentTypeRequired)
      | Some declared \<Rightarrow>
          if accepts field declared then Inr ()
          else Inl (form_error.FileRejected (TypeNotAccepted (key field) declared)))"

fun stream_loop ::
  "bucket_faults \<Rightarrow> string option \<Rightarrow> nat \<Rightarrow> (cause + string) list \<Rightarrow> upload_writer \<Rightarrow> string \<Rightarrow> bool \<Rightarrow>
   (form_error + unit) \<times> upload_writer" where
  "stream_loop faults declared limit [] w h inspected =
     (if inspected then (Inr (), w) else (check_bytes h declared, w))"
| "stream_loop faults declared limit (Inl c # body) w h inspected =
     (Inl (if wrt_written w \<ge> limit then form_error.FileTooLarge limit else form_error.Internal c), w)"
| "stream_loop faults declared limit (Inr chunk # body) w h inspected =
     (let h = (if length h < SUGGESTED_HEAD_BYTES then h @ take (SUGGESTED_HEAD_BYTES - length h) chunk else h)
      in case writer_write faults chunk w of
           (Inl e, w') \<Rightarrow> (Inl (of_storage_error e), w')
         | (Inr _, w') \<Rightarrow>
             if \<not> inspected \<and> length h \<ge> SUGGESTED_HEAD_BYTES
             then guard_st (check_bytes h declared) w' (\<lambda>_. stream_loop faults declared limit body w' h True)
             else stream_loop faults declared limit body w' h inspected)"

definition stream_upload ::
  "bucket_faults \<Rightarrow> string option \<Rightarrow> nat \<Rightarrow> (cause + string) list \<Rightarrow> upload_writer \<Rightarrow> (form_error + unit) \<times> upload_writer" where
  "stream_upload faults declared limit body w = stream_loop faults declared limit body w [] False"

definition DEFAULT_CONTENT_TYPE :: string where "DEFAULT_CONTENT_TYPE = ''application/octet-stream''"

record uploaded_file =
  upf_key :: string
  upf_filename :: string
  upf_content_type :: string
  upf_size :: int

text \<open>\<open>size as i64\<close>.\<close>

definition as_i64 :: "nat \<Rightarrow> int" where
  "as_i64 n = (let i = int n mod 2 ^ 64 in if i < 2 ^ 63 then i else i - 2 ^ 64)"

definition upload_limit :: "field_definition \<Rightarrow> nat \<Rightarrow> nat" where
  "upload_limit field max_upload = min (case max_bytes field of Some m \<Rightarrow> m | None \<Rightarrow> max_upload) max_upload"

definition upload ::
  "externals \<Rightarrow> file_storage \<Rightarrow> nat \<Rightarrow> bucket_faults \<Rightarrow> bool \<Rightarrow> string \<Rightarrow> string \<Rightarrow> string option \<Rightarrow> string option \<Rightarrow>
   (cause + string) list \<Rightarrow> string \<Rightarrow> uuid \<Rightarrow> instant \<Rightarrow> db \<times> bucket \<Rightarrow> (form_error + uploaded_file) \<times> (db \<times> bucket)" where
  "upload ext storage max_upload faults within_budget public field_key filename declared_type body token uid now s =
     (case s of (d, b) \<Rightarrow>
        if \<not> is_enabled storage then (Inl form_error.FileUploadsUnavailable, s)
        else guard_st (load_published d public) s (\<lambda>f.
          if \<not> within_budget then (Inl form_error.TooManySubmissions, s)
          else guard_st (ok_or (form_error.FileRejected (NotAFileField field_key))
              (case schema_field (frm_schema f) field_key of
                 Some field \<Rightarrow> if field_type field = File then Some field else None
               | None \<Rightarrow> None)) s (\<lambda>field.
            let declared = normalise_content_type declared_type
            in guard_st (check_declared_type field declared) s (\<lambda>_.
              let limit = upload_limit field max_upload;
                  object_key = new_object_key ext token (frm_organization f) (frm_id f);
                  filename = clean_filename filename
              in guard_st (map_err of_storage_error (begin_upload storage faults object_key limit)) s (\<lambda>writer.
                case stream_upload faults declared limit body writer of
                  (Inl e, w) \<Rightarrow> (Inl e, (d, writer_abort w b))
                | (Inr _, w) \<Rightarrow>
                    (case writer_finish faults w b of
                       (Inl e, b') \<Rightarrow> (Inl (of_storage_error e), (d, b'))
                     | (Inr size_bytes, b') \<Rightarrow>
                         let u = \<lparr>upl_id = uid, upl_organization = frm_organization f, upl_form = frm_id f,
                                  upl_field_key = field_key, upl_object_key = object_key, upl_filename = filename,
                                  upl_content_type = (case declared of Some c \<Rightarrow> c | None \<Rightarrow> DEFAULT_CONTENT_TYPE),
                                  upl_size_bytes = as_i64 size_bytes, upl_submission = None, upl_created_at = now\<rparr>
                         in case insert_upload u d of
                              (Inl e, d') \<Rightarrow> (Inl e, (d', snd (storage_delete storage faults object_key b')))
                            | (Inr r, d') \<Rightarrow>
                                (Inr \<lparr>upf_key = upl_object_key r, upf_filename = upl_filename r,
                                      upf_content_type = upl_content_type r, upf_size = upl_size_bytes r\<rparr>, (d', b')))))))
     )"


section \<open>Downloading\<close>

record download =
  dld_object :: string
  dld_filename :: string
  dld_content_type :: string

definition submission_file ::
  "file_storage \<Rightarrow> bucket_faults \<Rightarrow> uuid \<Rightarrow> uuid \<Rightarrow> string \<Rightarrow> uuid \<Rightarrow> bucket \<Rightarrow> db \<Rightarrow> (form_error + download) \<times> db" where
  "submission_file storage faults oid sid field_key actor b d =
     (if \<not> is_enabled storage then (Inl form_error.FileUploadsUnavailable, d)
      else with_member of_organization_error d oid actor (\<lambda>_.
        guard_st (load_submission d oid sid) d (\<lambda>s.
        guard_st (ok_or form_error.FileMissing (json_get field_key (sub_files s))) d (\<lambda>attachment.
        guard_st (ok_or form_error.FileMissing (Option.bind (json_get ''key'' attachment) as_str)) d (\<lambda>object_key.
          let filename = (case Option.bind (json_get ''filename'' attachment) as_str of Some n \<Rightarrow> n | None \<Rightarrow> ''file'');
              content_type = (case Option.bind (json_get ''content_type'' attachment) as_str of
                                Some c \<Rightarrow> c | None \<Rightarrow> DEFAULT_CONTENT_TYPE)
          in guard_st (map_err of_storage_error (storage_open storage faults object_key b)) d (\<lambda>object.
               (Inr \<lparr>dld_object = object, dld_filename = filename, dld_content_type = content_type\<rparr>, d)))))))"

text \<open>\<open>content_disposition\<close>: a character that is not printable ASCII, a quote or a backslash becomes an
  underscore in the quoted form; in the extended form a byte outside the unreserved ones is percent-encoded.\<close>

definition hex_digit :: "nat \<Rightarrow> char" where
  "hex_digit n = (if n < 10 then char_of (48 + n) else char_of (55 + n))"

definition quoted_char :: "string \<Rightarrow> char" where
  "quoted_char g =
     (case g of
        [c] \<Rightarrow> if c = CHR 0x22 \<or> c = CHR 0x5C then CHR ''_''
               else if is_ascii_graphic c \<or> c = CHR '' '' then c else CHR ''_''
      | _ \<Rightarrow> CHR ''_'')"

definition encoded_byte :: "char \<Rightarrow> string" where
  "encoded_byte c =
     (if is_ascii_alphanumeric c \<or> c = CHR ''-'' \<or> c = CHR ''.'' \<or> c = CHR ''_'' \<or> c = CHR ''~'' then [c]
      else [CHR ''%'', hex_digit (byte c div 16), hex_digit (byte c mod 16)])"

definition content_disposition :: "string \<Rightarrow> string" where
  "content_disposition filename =
     ''attachment; filename=\"'' @ map quoted_char (chars filename) @ ''\"; filename*=UTF-8'' @ [CHR 0x27, CHR 0x27] @
     concat (map encoded_byte filename)"


section \<open>The reaper\<close>

definition REAP_BATCH :: int where "REAP_BATCH = 200"

text \<open>\<open>chrono::Duration::from_std(ttl).unwrap_or_default()\<close>: a duration \<open>chrono\<close> cannot hold is none at all.\<close>

definition reap_age :: "nat \<Rightarrow> int" where
  "reap_age ttl_seconds = (if int ttl_seconds \<le> I64_MAX div 1000 then int ttl_seconds else 0)"

definition reap_one ::
  "file_storage \<Rightarrow> bucket_faults \<Rightarrow> file_upload_row \<Rightarrow> nat \<times> db \<times> bucket \<Rightarrow> nat \<times> db \<times> bucket" where
  "reap_one storage faults u s =
     (case s of (collected, d, b) \<Rightarrow>
        (case storage_delete storage faults (upl_object_key u) b of
           (Inl _, b') \<Rightarrow> (collected, d, b')
         | (Inr _, b') \<Rightarrow> (collected + 1, forget (upl_id u) d, b')))"

definition reap_abandoned_uploads ::
  "file_storage \<Rightarrow> nat \<Rightarrow> bucket_faults \<Rightarrow> instant \<Rightarrow> db \<times> bucket \<Rightarrow> nat \<times> db \<times> bucket" where
  "reap_abandoned_uploads storage ttl_seconds faults now s =
     (case s of (d, b) \<Rightarrow>
        if \<not> is_enabled storage then (0, d, b)
        else fold (reap_one storage faults) (abandoned d (now - reap_age ttl_seconds) REAP_BATCH) (0, d, b))"

end
