(* ===== verification/UploadGuarantees.thy ===== *)
theory UploadGuarantees
  imports Uploads Ingestion
begin

text \<open>
  What the file answers promise: the bytes are checked as they arrive, a refused upload leaves nothing, the
  ledger covers the bucket but for the files of deleted forms and organizations, the reaper takes only what
  nobody claimed, a download's header cannot be broken out of. And the two ways a file is lost or left behind.
\<close>

section \<open>The stream\<close>

lemma fault_of_Inr [simp]: "fault_of x = Inr u \<longleftrightarrow> x = None"
  by (cases x) (simp_all add: fault_of_def)

lemma writer_write_Inr:
  "writer_write faults chunk w = (Inr u, w') \<longleftrightarrow>
   wrt_written w + length chunk \<le> wrt_limit w \<and> part_fault faults (wrt_written w) = None \<and>
   w' = w\<lparr>wrt_parts := wrt_parts w @ chunk, wrt_written := wrt_written w + length chunk\<rparr>"
  by (auto simp: writer_write_def Let_def)

text \<open>What the loop keeps: the head is the beginning of what was handed over, which was counted and fits, and an
  inspected head agrees with the declared type.\<close>

definition stream_inv :: "string option \<Rightarrow> upload_writer \<Rightarrow> string \<Rightarrow> bool \<Rightarrow> bool" where
  "stream_inv declared w h inspected \<longleftrightarrow>
     h = take SUGGESTED_HEAD_BYTES (wrt_parts w) \<and> wrt_written w = length (wrt_parts w) \<and>
     wrt_written w \<le> wrt_limit w \<and>
     (inspected \<longrightarrow> SUGGESTED_HEAD_BYTES \<le> length h \<and> check_bytes h declared = Inr ())"

lemma take_head: "take n (take n xs @ take (n - length (take n xs)) ys) = take n (xs @ ys)"
  by (simp add: min_def)

lemma stream_inv_write:
  assumes "stream_inv declared w h inspected" and "writer_write faults chunk w = (Inr u, w')"
  shows "stream_inv declared w'
    (if length h < SUGGESTED_HEAD_BYTES then h @ take (SUGGESTED_HEAD_BYTES - length h) chunk else h) inspected"
  using assms by (auto simp: stream_inv_def writer_write_Inr min_def)

lemma stream_loop_Inr:
  assumes "stream_loop faults declared limit body w h inspected = (Inr (), w')" and "stream_inv declared w h inspected"
  shows "stream_inv declared w' (take SUGGESTED_HEAD_BYTES (wrt_parts w')) False \<and>
    check_bytes (take SUGGESTED_HEAD_BYTES (wrt_parts w')) declared = Inr () \<and>
    (\<forall>x \<in> set body. \<not> isl x) \<and> wrt_parts w' = wrt_parts w @ concat (map projr body) \<and>
    wrt_limit w' = wrt_limit w \<and> wrt_key w' = wrt_key w"
  using assms
proof (induction faults declared limit body w h inspected rule: stream_loop.induct)
  case (1 faults declared limit w h inspected)
  then show ?case by (cases inspected) (auto simp: stream_inv_def)
next
  case (2 faults declared limit c body w h inspected)
  then show ?case by simp
next
  case (3 faults declared limit chunk body w h inspected)
  let ?h = "if length h < SUGGESTED_HEAD_BYTES then h @ take (SUGGESTED_HEAD_BYTES - length h) chunk else h"
  obtain r w1 where wr: "writer_write faults chunk w = (r, w1)" by fastforce
  with 3(3) obtain u where r: "r = Inr u" by (cases r) (auto simp: Let_def)
  note wr' = wr [unfolded r]
  have inv: "stream_inv declared w1 ?h inspected" using stream_inv_write [OF 3(4) wr'] .
  have w1: "wrt_parts w1 = wrt_parts w @ chunk" "wrt_limit w1 = wrt_limit w" "wrt_key w1 = wrt_key w"
    using wr' by (simp_all add: writer_write_Inr)
  show ?case
  proof (cases "\<not> inspected \<and> SUGGESTED_HEAD_BYTES \<le> length ?h")
    case True
    with 3(3) wr' have c: "check_bytes ?h declared = Inr ()"
      and rest: "stream_loop faults declared limit body w1 ?h True = (Inr (), w')" by (auto simp: Let_def)
    from inv c True have "stream_inv declared w1 ?h True" by (simp add: stream_inv_def)
    from 3(1) [OF refl wr' [symmetric] refl True rest this] w1 show ?thesis by auto
  next
    case False
    with 3(3) wr' have rest: "stream_loop faults declared limit body w1 ?h inspected = (Inr (), w')" by (auto simp: Let_def)
    from 3(2) [OF refl wr' [symmetric] refl False rest inv] w1 show ?thesis by auto
  qed
qed

lemma as_i64_small: "n < 2 ^ 63 \<Longrightarrow> as_i64 n = int n"
  by (simp add: as_i64_def Let_def)

lemma as_i64_pos: "n < 2 ^ 64 \<Longrightarrow> 0 < as_i64 n \<Longrightarrow> as_i64 n = int n \<and> 0 < n"
  by (auto simp: as_i64_def Let_def split: if_splits)

lemma insert_upload_Inr:
  "insert_upload u d = (Inr r, d') \<longleftrightarrow>
   r = u \<and> 0 < upl_size_bytes u \<and>
   \<not> exists_row (\<lambda>r. upl_id r = upl_id u \<or> upl_object_key r = upl_object_key u) (file_uploads d) \<and>
   organization_exists d (upl_organization u) \<and> form_exists d (upl_form u) \<and>
   d' = d\<lparr>file_uploads := file_uploads d @ [u]\<rparr>"
  by (auto simp: insert_upload_def uploads_checks_def)

lemma insert_upload_Inl: "insert_upload u d = (Inl e, d') \<Longrightarrow> d' = d"
  by (auto simp: insert_upload_def split: if_splits)

lemma only_if_Some: "(case x of None \<Rightarrow> None | Some y \<Rightarrow> if P y then Some y else None) = Some z \<longleftrightarrow> x = Some z \<and> P z"
  by (cases x) auto

lemma only_if_Inr: "(if P then Inr u else Inl e) = Inr v \<longleftrightarrow> P \<and> u = v"
  by simp

text \<open>An accepted upload, step by step.\<close>

lemma upload_Inr:
  assumes "upload ext storage max_upload faults ok public field_key filename declared_type body token uid now (d, b) =
    (Inr r, (d', b'))"
  obtains f field ct w where "storage = S3" "load_published d public = Inr f" "ok"
    "schema_field (frm_schema f) field_key = Some field" "field_type field = File"
    "normalise_content_type declared_type = Some ct" "accepts field ct"
    "stream_upload faults (Some ct) (upload_limit field max_upload) body
       \<lparr>wrt_key = new_object_key ext token (frm_organization f) (frm_id f), wrt_parts = [], wrt_written = 0,
        wrt_limit = upload_limit field max_upload\<rparr> = (Inr (), w)"
    "b' = b(wrt_key w \<mapsto> wrt_parts w)"
    "insert_upload \<lparr>upl_id = uid, upl_organization = frm_organization f, upl_form = frm_id f, upl_field_key = field_key,
       upl_object_key = new_object_key ext token (frm_organization f) (frm_id f),
       upl_filename = clean_filename filename, upl_content_type = ct,
       upl_size_bytes = as_i64 (wrt_written w), upl_submission = None, upl_created_at = now\<rparr> d =
     (Inr \<lparr>upl_id = uid, upl_organization = frm_organization f, upl_form = frm_id f, upl_field_key = field_key,
       upl_object_key = new_object_key ext token (frm_organization f) (frm_id f),
       upl_filename = clean_filename filename, upl_content_type = ct,
       upl_size_bytes = as_i64 (wrt_written w), upl_submission = None, upl_created_at = now\<rparr>, d')"
    "r = \<lparr>upf_key = new_object_key ext token (frm_organization f) (frm_id f), upf_filename = clean_filename filename,
          upf_content_type = ct, upf_size = as_i64 (wrt_written w)\<rparr>"
proof -
  have S3: "storage = S3"
    using assms by (cases storage) (simp_all add: upload_def is_enabled_def)
  from assms obtain ct where ct: "normalise_content_type declared_type = Some ct"
    by (auto simp: upload_def S3 is_enabled_def Let_def check_declared_type_def split: option.splits if_splits)
  have ok using assms by (auto simp: upload_def S3 is_enabled_def split: if_splits)
  note steps = assms [unfolded upload_def, simplified S3 is_enabled_def \<open>ok\<close> Let_def check_declared_type_def ct
    begin_upload_def, simplified, unfolded case_result_Inr]
  show ?thesis
    using steps
    by (auto simp: only_if_Some only_if_Inr writer_finish_def insert_upload_Inr
        intro!: that [OF S3 _ \<open>ok\<close> _ _ ct])
qed

section \<open>The reaper, row by row\<close>

lemma reap_one_S3:
  "reap_one S3 faults u (c, d, b) =
   (if delete_fault faults (upl_object_key u) = None
    then (c + 1, forget (upl_id u) d, b(upl_object_key u := None)) else (c, d, b))"
  by (auto simp: reap_one_def storage_delete_def fault_of_def split: option.splits)

lemma reap_all:
  "fold (reap_one S3 faults) us (c, d, b) =
   (let gs = filter (\<lambda>u. delete_fault faults (upl_object_key u) = None) us
    in (c + length gs, d\<lparr>file_uploads := filter (\<lambda>u. upl_id u \<notin> upl_id ` set gs) (file_uploads d)\<rparr>,
        \<lambda>k. if k \<in> upl_object_key ` set gs then None else b k))"
proof (induction us arbitrary: c d b)
  case Nil
  then show ?case by simp
next
  case (Cons u us)
  show ?case
  proof (cases "delete_fault faults (upl_object_key u) = None")
    case True
    let ?gs = "filter (\<lambda>u. delete_fault faults (upl_object_key u) = None) us"
    have drop: "filter (\<lambda>x. upl_id x \<notin> ids) (delete_where (\<lambda>x. upl_id x = upl_id u) t) =
        filter (\<lambda>x. upl_id x \<notin> insert (upl_id u) ids) t" for ids t
      by (induction t) auto
    have rows: "filter (\<lambda>x. upl_id x \<notin> upl_id ` set ?gs) (file_uploads (forget (upl_id u) d)) =
        filter (\<lambda>x. upl_id x \<notin> upl_id ` set (u # ?gs)) (file_uploads d)"
      unfolding forget_def using drop [of "upl_id ` set ?gs" "file_uploads d"] by simp
    have twice: "(forget (upl_id u) d)\<lparr>file_uploads := t\<rparr> = d\<lparr>file_uploads := t\<rparr>" for t
      by (simp add: forget_def)
    have "fold (reap_one S3 faults) (u # us) (c, d, b) =
        fold (reap_one S3 faults) us (c + 1, forget (upl_id u) d, b(upl_object_key u := None))"
      using True by (simp add: reap_one_S3)
    also have "\<dots> = (let gs = u # ?gs
        in (c + length gs, d\<lparr>file_uploads := filter (\<lambda>u. upl_id u \<notin> upl_id ` set gs) (file_uploads d)\<rparr>,
            \<lambda>k. if k \<in> upl_object_key ` set gs then None else b k))"
      unfolding Cons.IH Let_def rows twice prod.inject
    proof (intro conjI)
      show "c + 1 + length ?gs = c + length (u # ?gs)" by simp
      show "(\<lambda>k. if k \<in> upl_object_key ` set ?gs then None else (b(upl_object_key u := None)) k) =
          (\<lambda>k. if k \<in> upl_object_key ` set (u # ?gs) then None else b k)"
        by (rule ext) (simp del: set_filter)
    qed (rule refl)
    also have "u # ?gs = filter (\<lambda>u. delete_fault faults (upl_object_key u) = None) (u # us)"
      using True by simp
    finally show ?thesis .
  next
    case False
    have "fold (reap_one S3 faults) (u # us) (c, d, b) = fold (reap_one S3 faults) us (c, d, b)"
      using False by (auto simp: reap_one_S3)
    moreover have "filter (\<lambda>u. delete_fault faults (upl_object_key u) = None) (u # us) =
        filter (\<lambda>u. delete_fault faults (upl_object_key u) = None) us" using False by simp
    ultimately show ?thesis by (simp only: Cons.IH)
  qed
qed


section \<open>The ledger and the bucket\<close>

definition upload_keys :: "db \<Rightarrow> bool" where
  "upload_keys d \<longleftrightarrow> distinct (map upl_id (file_uploads d)) \<and> distinct (map upl_object_key (file_uploads d))"

text \<open>Every object has a row of the ledger.\<close>

definition ledger_covers :: "db \<times> bucket \<Rightarrow> bool" where
  "ledger_covers s \<longleftrightarrow> dom (snd s) \<subseteq> upl_object_key ` set (file_uploads (fst s))"

text \<open>
  Deleting a form, or an organization with its forms, takes the rows of its files out of the ledger by a
  cascade, while the objects stay in the bucket. The third part of the state keeps account of the keys
  whose rows went that way.
\<close>

definition form_files :: "db \<Rightarrow> uuid \<Rightarrow> string set" where
  "form_files d fid = upl_object_key ` {u \<in> set (file_uploads d). upl_form u = fid}"

definition organization_files :: "db \<Rightarrow> uuid \<Rightarrow> string set" where
  "organization_files d oid = upl_object_key ` {u \<in> set (file_uploads d).
     upl_organization u = oid \<or> (\<exists>f \<in> set (forms d). frm_id f = upl_form u \<and> frm_organization f = oid)}"

type_synonym file_world = "db \<times> bucket \<times> string set"

inductive file_step :: "externals \<Rightarrow> file_storage \<Rightarrow> file_world \<Rightarrow> file_world \<Rightarrow> bool" for ext storage where
  uploaded: "upload ext storage max_upload faults ok public field_key filename declared_type body token uid now (d, b) = (r, d', b') \<Longrightarrow>
    delete_fault faults = (\<lambda>_. None) \<Longrightarrow> file_step ext storage (d, b, left) (d', b', left)"
| reaped: "reap_abandoned_uploads storage ttl faults now (d, b) = (n, d', b') \<Longrightarrow>
    file_step ext storage (d, b, left) (d', b', left)"
| submitted: "submit ext ok public payload client referer sid eid now d = (res, d') \<Longrightarrow>
    file_step ext storage (d, b, left) (d', b, left)"
| discarded: "delete_submission oid sid actor client now d = (del, d') \<Longrightarrow>
    file_step ext storage (d, b, left) (d', b, left)"
| form_deleted: "delete_form oid fid actor client now d = (rf, d') \<Longrightarrow>
    file_step ext storage (d, b, left) (d', b, if isl rf then left else left \<union> form_files d fid)"
| organization_deleted: "delete_organization oid actor client now d = (ro, d') \<Longrightarrow>
    file_step ext storage (d, b, left) (d', b, if isl ro then left else left \<union> organization_files d oid)"
| elsewhere: "file_uploads d' = file_uploads d \<Longrightarrow> file_step ext storage (d, b, left) (d', b, left)"

definition accounted :: "file_world \<Rightarrow> bool" where
  "accounted w = (case w of (d, b, left) \<Rightarrow>
     upload_keys d \<and> dom b \<subseteq> upl_object_key ` set (file_uploads d) \<union> left)"

text \<open>The rows \<open>P\<close> remain, in order and under their keys.\<close>

lemma kept_rows:
  assumes "map upl_id (file_uploads d') = map upl_id (filter P (file_uploads d))"
    and "map upl_object_key (file_uploads d') = map upl_object_key (filter P (file_uploads d))"
    and "accounted (d, b, left)"
  shows "accounted (d', b, left \<union> upl_object_key ` {u \<in> set (file_uploads d). \<not> P u})"
proof -
  have "upl_object_key ` set (file_uploads d') = upl_object_key ` set (filter P (file_uploads d))"
    using assms(2) by (metis set_map)
  moreover have "upl_object_key ` set (file_uploads d) =
      upl_object_key ` set (filter P (file_uploads d)) \<union> upl_object_key ` {u \<in> set (file_uploads d). \<not> P u}"
    by auto
  ultimately show ?thesis using assms
    by (simp add: accounted_def upload_keys_def distinct_map_filter Un_assoc Un_left_commute Un_commute)
qed

lemma kept_all:
  assumes "map upl_id (file_uploads d') = map upl_id (file_uploads d)"
    and "map upl_object_key (file_uploads d') = map upl_object_key (file_uploads d)"
    and "accounted (d, b, left)"
  shows "accounted (d', b, left)"
  using kept_rows [where P = "\<lambda>_. True"] assms by simp

lemma accounted_mono: "accounted (d, b, left) \<Longrightarrow> left \<subseteq> left' \<Longrightarrow> accounted (d, b, left')"
  by (auto simp: accounted_def)

lemma delete_where_map:
  "(\<And>x. p (f x) = p x) \<Longrightarrow> map g (delete_where p (map f t)) = map (g \<circ> f) (filter (\<lambda>x. \<not> p x) t)"
  by (induction t) (auto simp: delete_where_def)

lemma drop_forms_uploads:
  assumes "\<And>u x. g (u\<lparr>upl_submission := x\<rparr>) = g u"
  shows "map g (file_uploads (drop_forms p d)) =
    map g (filter (\<lambda>u. \<not> (\<exists>f \<in> set (forms d). frm_id f = upl_form u \<and> p f)) (file_uploads d))"
  using assms
  by (auto simp: drop_forms_def drop_submissions_def drop_endpoints_def Let_def delete_where_map
      exists_row_iff comp_def)

lemma delete_form_cases:
  assumes "delete_form oid fid actor client now d = (r, d')"
  shows "(isl r \<and> d' = d) \<or> (\<not> isl r \<and> (\<exists>name. d' = form_audit FormDeleted oid actor fid name client now
           (drop_forms (\<lambda>f. frm_organization f = oid \<and> frm_id f = fid) d)))"
  using assms
  by (cases "resolve_access d oid actor"; cases "find_form d oid fid")
    (auto simp: delete_form_def with_manager_def with_member_def load_form_def delete_form_row_def
      require_manager_def split: if_splits)

lemma delete_form_keeps:
  assumes "delete_form oid fid actor client now d = (r, d')" and "accounted (d, b, left)"
  shows "accounted (d', b, if isl r then left else left \<union> form_files d fid)"
proof (cases "isl r")
  case True
  with delete_form_cases [OF assms(1)] assms(2) show ?thesis by simp
next
  case False
  let ?p = "\<lambda>f. frm_organization f = oid \<and> frm_id f = fid"
  obtain name where d': "d' = form_audit FormDeleted oid actor fid name client now (drop_forms ?p d)"
    using delete_form_cases [OF assms(1)] False by blast
  have "accounted (d', b, left \<union> upl_object_key ` {u \<in> set (file_uploads d).
      \<not> \<not> (\<exists>f \<in> set (forms d). frm_id f = upl_form u \<and> ?p f)})"
    by (rule kept_rows [OF _ _ assms(2)]) (simp_all add: d' form_audit_def record_event_def drop_forms_uploads)
  then have "accounted (d', b, left \<union> form_files d fid)"
    by (rule accounted_mono) (auto simp: form_files_def)
  with False show ?thesis by simp
qed

lemma delete_organization_cases:
  assumes "delete_organization oid actor client now d = (r, d')"
  shows "(isl r \<and> d' = d) \<or> (\<not> isl r \<and> (\<exists>email. d' = drop_organizations (\<lambda>r. org_id r = oid)
           (organization_audit OrganizationDeleted oid actor (Some actor) email client now d)))"
proof (cases "resolve_access d oid actor")
  case (Inl e)
  with assms show ?thesis by (auto simp: delete_organization_def)
next
  case (Inr a)
  then have "organization_exists d oid" using resolve_access_Inr by blast
  then have "organization_exists (organization_audit k oid actor w email client now d) oid" for k w email
    by (simp add: organization_audit_def organization_exists_def record_event_def)
  with assms Inr show ?thesis
    by (auto simp: delete_organization_def delete_organization_row_def Let_def require_owner_def split: if_splits)
qed

lemma drop_organizations_uploads:
  assumes "\<And>u x. g (u\<lparr>upl_submission := x\<rparr>) = g u"
  shows "map g (file_uploads (drop_organizations (\<lambda>r. org_id r = oid) d)) =
    map g (filter (\<lambda>u. \<not> (organization_exists d oid \<and> (upl_organization u = oid \<or>
        (\<exists>f \<in> set (forms d). frm_id f = upl_form u \<and> frm_organization f = oid)))) (file_uploads d))"
proof (cases "organization_exists d oid")
  case True
  then have "exists_row (\<lambda>r. org_id r = i \<and> org_id r = oid) (organizations d) \<longleftrightarrow> i = oid" for i
    by (auto simp: organization_exists_def exists_row_iff)
  with assms True show ?thesis
    by (auto simp: drop_organizations_def drop_forms_def drop_submissions_def drop_endpoints_def Let_def
        delete_where_map delete_where_def exists_row_iff comp_def filter_map intro!: arg_cong [where f = "map _"] filter_cong)
next
  case False
  then have "\<not> exists_row (\<lambda>r. org_id r = i \<and> org_id r = oid) (organizations d)" for i
    by (auto simp: organization_exists_def exists_row_iff)
  with assms False show ?thesis
    by (auto simp: drop_organizations_def drop_forms_def drop_submissions_def drop_endpoints_def Let_def
        delete_where_map delete_where_def exists_row_iff comp_def)
qed

lemma delete_organization_keeps:
  assumes "delete_organization oid actor client now d = (r, d')" and "accounted (d, b, left)"
  shows "accounted (d', b, if isl r then left else left \<union> organization_files d oid)"
proof (cases "isl r")
  case True
  with delete_organization_cases [OF assms(1)] assms(2) show ?thesis by simp
next
  case False
  then obtain email where d': "d' = drop_organizations (\<lambda>r. org_id r = oid)
      (organization_audit OrganizationDeleted oid actor (Some actor) email client now d)"
    using delete_organization_cases [OF assms(1)] by blast
  let ?d = "organization_audit OrganizationDeleted oid actor (Some actor) email client now d"
  have frame: "file_uploads ?d = file_uploads d" "forms ?d = forms d"
    by (simp_all add: organization_audit_def record_event_def)
  have "accounted (d', b, left \<union> upl_object_key ` {u \<in> set (file_uploads d).
      \<not> \<not> (organization_exists ?d oid \<and> (upl_organization u = oid \<or>
        (\<exists>f \<in> set (forms d). frm_id f = upl_form u \<and> frm_organization f = oid)))})"
    by (rule kept_rows [OF _ _ assms(2)]) (simp_all add: d' drop_organizations_uploads frame)
  then have "accounted (d', b, left \<union> organization_files d oid)"
    by (rule accounted_mono) (auto simp: organization_files_def)
  with False show ?thesis by simp
qed

lemma insert_submission_uploads:
  "insert_submission ext n sid eid now d = (r, d') \<Longrightarrow> file_uploads d' = file_uploads d"
  by (auto simp: insert_submission_def Let_def split: if_splits)

lemma claim_uploads_keys:
  "claim_uploads sid ks d = (n, d') \<Longrightarrow> map upl_id (file_uploads d') = map upl_id (file_uploads d) \<and>
     map upl_object_key (file_uploads d') = map upl_object_key (file_uploads d)"
  by (auto simp: claim_uploads_def update_where_def)

lemma submit_keys:
  assumes "submit ext ok public payload client referer sid eid now d = (r, d')"
  shows "map upl_id (file_uploads d') = map upl_id (file_uploads d) \<and>
    map upl_object_key (file_uploads d') = map upl_object_key (file_uploads d)"
proof (cases r)
  case (Inl e)
  with assms have "d' = d"
    unfolding submit_steps
    by (auto simp: guard_st_Inl case_result_Inl split: if_splits dest: store_answers_Inl)
  then show ?thesis by simp
next
  case (Inr acc)
  with assms obtain f answers n where
    st: "store_answers ext f answers n sid eid now d = (Inr (acd_id acc), d')"
    by (auto elim: submit_Inr)
  show ?thesis
  proof (cases "file_answers (frm_schema f) (JObject answers) = []")
    case True
    with st have "insert_submission ext n sid eid now d = (Inr (acd_id acc), d')" by (simp add: store_answers_def)
    from insert_submission_uploads [OF this] show ?thesis by simp
  next
    case False
    with st have "insert_claiming_files ext n (file_answers (frm_schema f) (JObject answers)) sid eid now d = (Inr (acd_id acc), d')"
      by (simp add: store_answers_def Let_def)
    then obtain m d1 where "insert_submission ext (n\<lparr>new_files := Some (JObject m)\<rparr>) sid eid now d = (Inr (acd_id acc), d1)"
      and "d' = snd (claim_uploads (acd_id acc) (map snd (file_answers (frm_schema f) (JObject answers))) d1)"
      by (rule insert_claiming_files_Inr)
    with insert_submission_uploads claim_uploads_keys [OF prod.collapse [symmetric]] show ?thesis by metis
  qed
qed

lemma delete_submission_keys:
  assumes "delete_submission oid sid actor client now d = (r, d')"
  shows "map upl_id (file_uploads d') = map upl_id (file_uploads d) \<and>
    map upl_object_key (file_uploads d') = map upl_object_key (file_uploads d)"
proof -
  have audit: "file_uploads (form_audit k oid actor sid l client now x) = file_uploads x" for k l x
    by (simp add: form_audit_def record_event_def Let_def)
  have "(\<lambda>x. map upl_id (file_uploads x) = map upl_id (file_uploads d) \<and>
    map upl_object_key (file_uploads x) = map upl_object_key (file_uploads d)) (snd (delete_submission oid sid actor client now d))"
    unfolding delete_submission_def
    by (rule with_manager_snd) (simp_all add: delete_submission_row_def drop_submissions_def Let_def audit comp_def)
  with assms show ?thesis by simp
qed

text \<open>A refused upload puts nothing anywhere, if the bucket acknowledges the deletion of an object nobody can claim.\<close>

lemma guard_st_all:
  "(\<And>e. r = Inl e \<Longrightarrow> P (Inl e, s)) \<Longrightarrow> (\<And>a. r = Inr a \<Longrightarrow> P (f a)) \<Longrightarrow> P (guard_st r s f)"
  by (cases r) simp_all

lemma if_all: "P x \<Longrightarrow> P y \<Longrightarrow> P (if c then x else y)"
  by simp

definition left_nothing :: "externals \<Rightarrow> string \<Rightarrow> db \<Rightarrow> bucket \<Rightarrow> (form_error + uploaded_file) \<times> (db \<times> bucket) \<Rightarrow> bool" where
  "left_nothing ext token d b x \<longleftrightarrow>
     (isl (fst x) \<longrightarrow> fst (snd x) = d \<and>
        (snd (snd x) = b \<or> (\<exists>oid fid. snd (snd x) = b(new_object_key ext token oid fid := None))))"

lemma upload_left_nothing:
  assumes "delete_fault faults = (\<lambda>_. None)"
  shows "left_nothing ext token d b
    (upload ext storage max_upload faults ok public field_key filename declared_type body token uid now (d, b))"
proof -
  have refused [simp]: "left_nothing ext token d b (Inl e, (d, b))" for e by (simp add: left_nothing_def)
  have stored: "left_nothing ext token d b
      (case insert_upload u d of
         (Inl e, d') \<Rightarrow> (Inl e, (d', snd (storage_delete storage faults (new_object_key ext token oid fid) (b(k \<mapsto> x)))))
       | (Inr r, d') \<Rightarrow> (Inr (g r), (d', b(k \<mapsto> x))))"
    if "storage = S3" "k = new_object_key ext token oid fid" for u oid fid k x g
  proof (cases "insert_upload u d")
    case (Pair r d')
    then show ?thesis
      using that assms insert_upload_Inl [of u d _ d']
      by (cases r) (auto simp: left_nothing_def storage_delete_def fault_of_def)
  qed
  have written: "left_nothing ext token d b
      (case stream_upload faults declared limit body w0 of
         (Inl e, w) \<Rightarrow> (Inl e, (d, writer_abort w b))
       | (Inr _, w) \<Rightarrow>
           (case writer_finish faults w b of
              (Inl e, b') \<Rightarrow> (Inl (of_storage_error e), (d, b'))
            | (Inr n, b') \<Rightarrow>
                (case insert_upload (u n) d of
                   (Inl e, d') \<Rightarrow> (Inl e, (d', snd (storage_delete storage faults (new_object_key ext token oid fid) b')))
                 | (Inr r, d') \<Rightarrow> (Inr (g r), (d', b')))))"
    if "storage = S3" "wrt_key w0 = new_object_key ext token oid fid" "wrt_parts w0 = []" "wrt_written w0 = 0" for declared limit w0 u oid fid g
  proof (cases "stream_upload faults declared limit body w0")
    case (Pair r w)
    show ?thesis
    proof (cases r)
      case (Inl e)
      then show ?thesis by (simp add: Pair writer_abort_def)
    next
      case (Inr n)
      have "stream_inv declared w0 [] False" using that(3,4) by (simp add: stream_inv_def)
      with stream_loop_Inr Pair Inr have "wrt_key w = wrt_key w0" unfolding stream_upload_def by (metis old.unit.exhaust)
      then show ?thesis
        using stored [OF that(1), of "wrt_key w" oid fid] that(2)
        by (cases "finish_fault faults") (simp_all add: Pair Inr writer_finish_def fault_of_def)
    qed
  qed
  show ?thesis
  proof (cases "is_enabled storage")
    case False
    then show ?thesis by (simp add: upload_def)
  next
    case True
    then have S3: "storage = S3" by (simp add: is_enabled_def)
    show ?thesis
      unfolding upload_def prod.case Let_def
      by (rule if_all [where P = "left_nothing ext token d b"], rule refused,
          rule guard_st_all [where P = "left_nothing ext token d b"], rule refused,
          rule if_all [where P = "left_nothing ext token d b"], rule refused,
          rule guard_st_all [where P = "left_nothing ext token d b"], rule refused,
          rule guard_st_all [where P = "left_nothing ext token d b"], rule refused,
          rule guard_st_all [where P = "left_nothing ext token d b"], rule refused,
          rule written [OF S3]) (auto simp: begin_upload_def S3)
  qed
qed

lemma reap_step:
  assumes "reap_abandoned_uploads storage ttl faults now (d, b) = (n, d', b')"
  obtains gs where "set gs \<subseteq> set (file_uploads d)" and "length gs \<le> 200" and "n = length gs"
    and "\<forall>u \<in> set gs. upl_submission u = None \<and> upl_created_at u < now - reap_age ttl"
    and "d' = d\<lparr>file_uploads := filter (\<lambda>u. upl_id u \<notin> upl_id ` set gs) (file_uploads d)\<rparr>"
    and "b' = (\<lambda>k. if k \<in> upl_object_key ` set gs then None else b k)"
proof (cases storage)
  case Disabled
  with assms have "n = 0" "d' = d" "b' = b" by (simp_all add: reap_abandoned_uploads_def is_enabled_def)
  then show ?thesis by (intro that [of "[]"]) simp_all
next
  case S3
  define us where "us = abandoned d (now - reap_age ttl) REAP_BATCH"
  define gs where "gs = filter (\<lambda>u. delete_fault faults (upl_object_key u) = None) us"
  have us: "set us \<subseteq> set (file_uploads d)" "length us \<le> 200"
    "\<forall>u \<in> set us. upl_submission u = None \<and> upl_created_at u < now - reap_age ttl"
    by (auto simp: us_def abandoned_def limit_offset_def REAP_BATCH_def dest: in_set_takeD)
  have "length gs \<le> length us" by (simp add: gs_def)
  moreover have "set gs \<subseteq> set us" by (auto simp: gs_def)
  moreover have "(n, d', b') = (0 + length gs, d\<lparr>file_uploads := filter (\<lambda>u. upl_id u \<notin> upl_id ` set gs) (file_uploads d)\<rparr>,
      \<lambda>k. if k \<in> upl_object_key ` set gs then None else b k)"
    using assms reap_all [of faults us 0 d b, unfolded Let_def gs_def [symmetric]]
    by (simp add: reap_abandoned_uploads_def S3 is_enabled_def us_def)
  ultimately show ?thesis using us by (intro that [of gs]) auto
qed

lemma reap_keeps:
  assumes "reap_abandoned_uploads storage ttl faults now (d, b) = (n, d', b')" and "accounted (d, b, left)"
  shows "accounted (d', b', left)"
  using assms(1)
proof (rule reap_step)
  fix gs assume gs: "set gs \<subseteq> set (file_uploads d)"
    and d': "d' = d\<lparr>file_uploads := filter (\<lambda>u. upl_id u \<notin> upl_id ` set gs) (file_uploads d)\<rparr>"
    and b': "b' = (\<lambda>k. if k \<in> upl_object_key ` set gs then None else b k)"
  have keys: "upload_keys d" and cover: "dom b \<subseteq> upl_object_key ` set (file_uploads d) \<union> left"
    using assms(2) by (simp_all add: accounted_def)
  have "upload_keys d'" using keys by (simp add: upload_keys_def d' distinct_map_filter)
  moreover have "k \<in> upl_object_key ` set (file_uploads d') \<union> left" if "b' k \<noteq> None" for k
  proof (cases "k \<in> left")
    case False
    from that have k: "k \<notin> upl_object_key ` set gs" "b k \<noteq> None" by (auto simp: b' split: if_splits)
    with cover False obtain u where u: "u \<in> set (file_uploads d)" "upl_object_key u = k" by (auto simp: dom_def)
    have "upl_id u \<notin> upl_id ` set gs"
    proof
      assume "upl_id u \<in> upl_id ` set gs"
      then obtain v where "v \<in> set gs" "upl_id u = upl_id v" by auto
      with gs u(1) keys have "u = v" by (auto simp: upload_keys_def intro: unique_key_eq)
      with \<open>v \<in> set gs\<close> k(1) u(2) show False by blast
    qed
    with u show ?thesis by (auto simp: d')
  qed simp
  ultimately show ?thesis by (auto simp: accounted_def)
qed

lemma upload_keeps:
  assumes "upload ext storage max_upload faults ok public field_key filename declared_type body token uid now (d, b) = (r, d', b')"
    and "delete_fault faults = (\<lambda>_. None)" and "accounted (d, b, left)"
  shows "accounted (d', b', left)"
proof (cases r)
  case (Inl e)
  with upload_left_nothing [OF assms(2), of ext token d b storage max_upload ok public field_key filename declared_type body uid now]
  have "d' = d" "b' = b \<or> (\<exists>oid fid. b' = b(new_object_key ext token oid fid := None))"
    unfolding assms(1) by (simp_all add: left_nothing_def)
  then have "dom b' \<subseteq> dom b" by (auto simp: dom_def split: if_splits)
  with \<open>d' = d\<close> assms(3) show ?thesis by (auto simp: accounted_def)
next
  case (Inr f)
  from assms(1) [unfolded Inr] show ?thesis
  proof (rule upload_Inr, goal_cases)
    case (1 form field ct w)
    have "stream_inv (Some ct) \<lparr>wrt_key = new_object_key ext token (frm_organization form) (frm_id form), wrt_parts = [],
        wrt_written = 0, wrt_limit = upload_limit field max_upload\<rparr> [] False" by (simp add: stream_inv_def)
    from stream_loop_Inr [OF 1(8) [unfolded stream_upload_def] this]
    have key: "wrt_key w = new_object_key ext token (frm_organization form) (frm_id form)" by simp
    show ?case
      using 1(9,10) assms(3)
      by (auto simp: insert_upload_Inr accounted_def upload_keys_def exists_row_iff key dom_def)
  qed
qed

lemma file_step_keeps:
  assumes "file_step ext storage w w'" and "accounted w"
  shows "accounted w'"
  using assms
proof (cases rule: file_step.cases)
  case (submitted ok public payload client referer sid eid now d res d' b left)
  with submit_keys [OF submitted(3)] assms(2) show ?thesis by (auto intro: kept_all)
next
  case (discarded oid sid actor client now d del d' b left)
  with delete_submission_keys [OF discarded(3)] assms(2) show ?thesis by (auto intro: kept_all)
next
  case (elsewhere d' d b left)
  with assms(2) show ?thesis by (simp add: accounted_def upload_keys_def)
qed (use assms(2) upload_keeps reap_keeps delete_form_keeps delete_organization_keeps in simp_all)

section \<open>The header of a download\<close>

fun percent_decode :: "string \<Rightarrow> string" where
  "percent_decode [] = []"
| "percent_decode (c # s) =
     (if c = CHR ''%''
      then (case s of
              h # l # t \<Rightarrow> char_of (16 * (byte h - (if byte h < 58 then 48 else 55)) + (byte l - (if byte l < 58 then 48 else 55)))
                # percent_decode t
            | _ \<Rightarrow> [])
      else c # percent_decode s)"

lemma byte_hex_digit: "n < 16 \<Longrightarrow> byte (hex_digit n) = (if n < 10 then 48 + n else 55 + n)"
  by (simp add: hex_digit_def)

lemma percent_decode_encoded: "percent_decode (encoded_byte c @ s) = c # percent_decode s"
proof (cases "is_ascii_alphanumeric c \<or> c = CHR ''-'' \<or> c = CHR ''.'' \<or> c = CHR ''_'' \<or> c = CHR ''~''")
  case True
  then have "c \<noteq> CHR ''%''" by (auto simp: is_ascii_alphanumeric_def is_ascii_lowercase_def is_ascii_uppercase_def is_ascii_digit_def byte_def)
  with True show ?thesis by (simp add: encoded_byte_def)
next
  case False
  have "byte c div 16 < 16" "byte c mod 16 < 16" using byte_less [of c] by linarith+
  moreover have "char_of (16 * (byte c div 16) + byte c mod 16) = c" by (simp add: byte_def)
  ultimately show ?thesis using False by (simp add: encoded_byte_def byte_hex_digit)
qed

lemma percent_decode_all: "percent_decode (concat (map encoded_byte s)) = s"
  by (induction s) (simp_all add: percent_decode_encoded)

lemma quoted_char_safe:
  "(is_ascii_graphic (quoted_char g) \<or> quoted_char g = CHR '' '') \<and> quoted_char g \<noteq> CHR 0x22 \<and> quoted_char g \<noteq> CHR 0x5C"
proof -
  have "is_ascii_graphic (CHR ''_'')" by (simp add: is_ascii_graphic_def byte_def)
  then show ?thesis by (auto simp: quoted_char_def split: list.splits)
qed


section \<open>Properties\<close>

text \<open>C16: What is stored is what was checked: an accepted upload went to a file field of a published form, its declared
  type is one the field accepts and not one its first bytes contradict, it arrived whole, is not empty and
  within both the field's and the instance's limit; the bucket holds exactly those bytes under the key handed
  out, and the ledger one new unclaimed row with their size.\<close>

theorem upload_is_checked:
  assumes "upload ext storage max_upload faults ok public field_key filename declared_type body token uid now (d, b) =
      (Inr r, (d', b'))"
    and "max_upload < 2 ^ 64"
  shows "\<exists>f field. f \<in> set (forms d) \<and> frm_public_id f = public \<and> frm_status f = Published \<and>
    schema_field (frm_schema f) field_key = Some field \<and> field_type field = File \<and> accepts field (upf_content_type r) \<and>
    (\<forall>x \<in> set body. \<not> isl x) \<and>
    (let bytes = concat (map projr body) in
       0 < length bytes \<and> length bytes \<le> max_upload \<and> (case max_bytes field of Some m \<Rightarrow> length bytes \<le> m | None \<Rightarrow> True) \<and>
       is_consistent_with (sniff (take SUGGESTED_HEAD_BYTES bytes)) (upf_content_type r) \<and>
       b' = b(upf_key r \<mapsto> bytes) \<and> upf_size r = int (length bytes) \<and>
       (\<exists>u. file_uploads d' = file_uploads d @ [u] \<and> upl_object_key u = upf_key r \<and> upl_form u = frm_id f \<and>
          upl_field_key u = field_key \<and> upl_submission u = None \<and> upl_size_bytes u = int (length bytes)))"
  using assms(1)
proof (rule upload_Inr, goal_cases)
  case (1 f field ct w)
  have "stream_inv (Some ct) \<lparr>wrt_key = new_object_key ext token (frm_organization f) (frm_id f), wrt_parts = [],
      wrt_written = 0, wrt_limit = upload_limit field max_upload\<rparr> [] False" by (simp add: stream_inv_def)
  from stream_loop_Inr [OF 1(8) [unfolded stream_upload_def] this]
  have w: "wrt_parts w = concat (map projr body)" "wrt_written w = length (wrt_parts w)"
    "wrt_key w = new_object_key ext token (frm_organization f) (frm_id f)" "wrt_written w \<le> upload_limit field max_upload"
    "check_bytes (take SUGGESTED_HEAD_BYTES (wrt_parts w)) (Some ct) = Inr ()" "\<forall>x \<in> set body. \<not> isl x"
    unfolding stream_inv_def by (auto simp only: upload_writer.simps)
  have consistent: "is_consistent_with (sniff (take SUGGESTED_HEAD_BYTES (wrt_parts w))) ct"
    using w(5) by (simp add: check_bytes_def split: if_splits)
  have small: "wrt_written w \<le> max_upload" "case max_bytes field of Some m \<Rightarrow> wrt_written w \<le> m | None \<Rightarrow> True"
    using w(4) by (auto simp: upload_limit_def split: option.splits)
  have ins: "0 < as_i64 (wrt_written w)" using 1(10) by (simp add: insert_upload_Inr)
  from as_i64_pos [OF le_less_trans [OF small(1) assms(2)] ins]
  have sz: "as_i64 (wrt_written w) = int (length (concat (map projr body)))" "0 < length (concat (map projr body))"
    using w(1,2) by simp_all
  show ?case
    using load_published_Inr [OF 1(2)] 1(4,5,7,9,10,11) w(1,3,6) consistent small sz
    unfolding w(2) w(1) Let_def
    by (intro exI [of _ f] exI [of _ field]) (auto simp: insert_upload_Inr)
qed

lemma hiring_uploads:
  "fst (upload sample_externals S3 10000 no_faults True contact_token ''cv'' (Some ''a/cv.pdf'') (Some ''application/pdf'')
     [Inr ''%PDF-1.7'', Inr ''...''] ''t'' 22 100 (hiring, Map.empty)) =
   Inr \<lparr>upf_key = ''7/9/t'', upf_filename = ''cv.pdf'', upf_content_type = ''application/pdf'', upf_size = 11\<rparr>"
  by code_simp

theorem upload_is_checked_witness:
  "\<exists>d' b'. upload sample_externals S3 10000 no_faults True contact_token ''cv'' (Some ''a/cv.pdf'') (Some ''application/pdf'')
      [Inr ''%PDF-1.7'', Inr ''...''] ''t'' 22 100 (hiring, Map.empty) =
      (Inr \<lparr>upf_key = ''7/9/t'', upf_filename = ''cv.pdf'', upf_content_type = ''application/pdf'', upf_size = 11\<rparr>, (d', b')) \<and>
    b' = [''7/9/t'' \<mapsto> ''%PDF-1.7...'']"
proof -
  obtain d' b' where up: "upload sample_externals S3 10000 no_faults True contact_token ''cv'' (Some ''a/cv.pdf'') (Some ''application/pdf'')
      [Inr ''%PDF-1.7'', Inr ''...''] ''t'' 22 100 (hiring, Map.empty) =
      (Inr \<lparr>upf_key = ''7/9/t'', upf_filename = ''cv.pdf'', upf_content_type = ''application/pdf'', upf_size = 11\<rparr>, (d', b'))"
    using hiring_uploads by (metis prod.collapse)
  from upload_is_checked [OF this] have "b' = [''7/9/t'' \<mapsto> ''%PDF-1.7...'']" by (auto simp: Let_def)
  with up show ?thesis by blast
qed

text \<open>C25: No file is lost track of but those of deleted forms and organizations: as long as the bucket
  acknowledges the deletion of a refused upload, every object in it has its row in the ledger, or its row
  went with the form or the organization it belonged to - through uploads, submissions, deletions and
  reaping, whatever the bucket refuses the reaper and wherever a request breaks off.\<close>

theorem every_object_has_a_row:
  assumes "(file_step ext storage)\<^sup>*\<^sup>* (d, b, left) (d', b', left')"
    and "upload_keys d" and "dom b \<subseteq> upl_object_key ` set (file_uploads d) \<union> left"
  shows "upload_keys d' \<and> dom b' \<subseteq> upl_object_key ` set (file_uploads d') \<union> left'"
proof -
  have "accounted w'" if "(file_step ext storage)\<^sup>*\<^sup>* w w'" "accounted w" for w w'
    using that by (induction rule: rtranclp_induct) (auto dest: file_step_keeps)
  from this [OF assms(1)] assms(2,3) show ?thesis by (simp add: accounted_def)
qed

theorem every_object_has_a_row_witness:
  "\<exists>d' b'. b' = [''7/9/t'' \<mapsto> ''%PDF-1.7...''] \<and>
     (file_step sample_externals S3)\<^sup>*\<^sup>* (hiring, Map.empty, {}) (d', b', {}) \<and>
     ''7/9/t'' \<in> upl_object_key ` set (file_uploads d')"
proof -
  obtain d' b' where up: "upload sample_externals S3 10000 no_faults True contact_token ''cv'' (Some ''a/cv.pdf'') (Some ''application/pdf'')
      [Inr ''%PDF-1.7'', Inr ''...''] ''t'' 22 100 (hiring, Map.empty) =
      (Inr \<lparr>upf_key = ''7/9/t'', upf_filename = ''cv.pdf'', upf_content_type = ''application/pdf'', upf_size = 11\<rparr>, (d', b'))"
    using hiring_uploads by (metis prod.collapse)
  then have "file_step sample_externals S3 (hiring, Map.empty, {}) (d', b', {})"
    by (rule file_step.uploaded) (simp add: no_faults_def)
  then have steps: "(file_step sample_externals S3)\<^sup>*\<^sup>* (hiring, Map.empty, {}) (d', b', {})" ..
  from up have b': "b' = [''7/9/t'' \<mapsto> ''%PDF-1.7...'']"
  proof (rule upload_Inr, goal_cases)
    case (1 f field ct w)
    have "stream_inv (Some ct) \<lparr>wrt_key = new_object_key sample_externals ''t'' (frm_organization f) (frm_id f), wrt_parts = [],
        wrt_written = 0, wrt_limit = upload_limit field 10000\<rparr> [] False" by (simp add: stream_inv_def)
    from stream_loop_Inr [OF 1(8) [unfolded stream_upload_def] this] 1(9,11) show ?case by simp
  qed
  have "dom b' \<subseteq> upl_object_key ` set (file_uploads d')"
    using every_object_has_a_row [OF steps] by (simp add: upload_keys_def hiring_def)
  with b' steps show ?thesis by auto
qed

text \<open>The reaper takes nothing that is in use: what a pass collects, at most 200 files, no submission had claimed
  and was older than the time to live; its objects and its rows are gone and nothing else is.\<close>

theorem reaper_takes_only_abandoned:
  assumes "reap_abandoned_uploads storage ttl faults now (d, b) = (n, d', b')" and "int ttl \<le> I64_MAX div 1000"
    and "upload_keys d"
  shows "n \<le> 200 \<and> (\<exists>gone \<subseteq> set (file_uploads d). card (upl_id ` gone) \<le> n \<and>
    (\<forall>u \<in> gone. upl_submission u = None \<and> upl_created_at u < now - int ttl \<and> b' (upl_object_key u) = None) \<and>
    (\<forall>k. k \<notin> upl_object_key ` gone \<longrightarrow> b' k = b k) \<and>
    d' = d\<lparr>file_uploads := filter (\<lambda>u. u \<notin> gone) (file_uploads d)\<rparr>)"
  using assms(1)
proof (rule reap_step)
  fix gs assume gs: "set gs \<subseteq> set (file_uploads d)" "length gs \<le> 200" "n = length gs"
    "\<forall>u \<in> set gs. upl_submission u = None \<and> upl_created_at u < now - reap_age ttl"
    "d' = d\<lparr>file_uploads := filter (\<lambda>u. upl_id u \<notin> upl_id ` set gs) (file_uploads d)\<rparr>"
    "b' = (\<lambda>k. if k \<in> upl_object_key ` set gs then None else b k)"
  have "u \<in> set gs \<longleftrightarrow> upl_id u \<in> upl_id ` set gs" if "u \<in> set (file_uploads d)" for u
    using that gs(1) assms(3) unique_key_eq [of upl_id "file_uploads d"] by (auto simp: upload_keys_def)
  then have "filter (\<lambda>u. upl_id u \<notin> upl_id ` set gs) (file_uploads d) = filter (\<lambda>u. u \<notin> set gs) (file_uploads d)"
    by (auto intro: filter_cong)
  moreover have "card (upl_id ` set gs) \<le> n"
    using card_image_le [of "set gs" upl_id] card_length [of gs] gs(3) by simp
  moreover have "reap_age ttl = int ttl" using assms(2) by (simp add: reap_age_def)
  ultimately show ?thesis using gs by (intro conjI exI [of _ "set gs"]) auto
qed

text \<open>A filename cannot break out of the download's header: the quoted form holds only printable ASCII without
  quotes and backslashes, and the extended form decodes to the filename.\<close>

theorem disposition_is_safe:
  "\<exists>q e. content_disposition filename =
      ''attachment; filename=\"'' @ q @ ''\"; filename*=UTF-8'' @ [CHR 0x27, CHR 0x27] @ e \<and>
    length q = char_count filename \<and>
    list_all (\<lambda>c. (is_ascii_graphic c \<or> c = CHR '' '') \<and> c \<noteq> CHR 0x22 \<and> c \<noteq> CHR 0x5C) q \<and>
    percent_decode e = filename"
proof -
  let ?q = "map quoted_char (chars filename)"
  have "list_all (\<lambda>c. (is_ascii_graphic c \<or> c = CHR '' '') \<and> c \<noteq> CHR 0x22 \<and> c \<noteq> CHR 0x5C) ?q"
    unfolding list_all_iff set_map ball_simps by (intro ballI quoted_char_safe)
  then show ?thesis
    by (intro exI [of _ ?q] exI [of _ "concat (map encoded_byte filename)"])
      (simp add: content_disposition_def char_count_def percent_decode_all)
qed

section \<open>Where a file is left behind, and where one is lost\<close>

definition one_object :: bucket where "one_object = [''k21'' \<mapsto> ''%PDF-1.7'']"

definition cv_event :: outbox_row where
  "cv_event = \<lparr>obx_id = 3, obx_organization = 7, obx_kind = SubmissionReceivedKind,
     obx_payload = submission_event sample_externals 77 9, obx_attempts = 0, obx_available_at = 60,
     obx_dispatched_at = None, obx_last_error = None, obx_created_at = 60\<rparr>"

lemma hiring_submitted:
  "submit sample_externals True contact_token cv_payload no_client None 77 3 60 hiring =
     (Inr \<lparr>acd_id = 77, acd_success_message = None, acd_redirect_url = None\<rparr>, received\<lparr>outbox_events := [cv_event]\<rparr>)"
proof -
  have sel: "frm_schema hiring_form = cv_schema" "frm_success_message hiring_form = None"
    "frm_redirect_url hiring_form = None" "frm_organization hiring_form = 7" "frm_id hiring_form = 9"
    "frm_notify_emails hiring_form = [''ann'']" "frm_schema_version hiring_form = 1"
    by (simp_all add: contact_form_def hiring_form_def)
  have rows: "submissions hiring = []" "file_uploads hiring = [cv_upload]" "organization_exists hiring 7"
    "form_exists hiring 9" "outbox_events hiring = []"
    by (simp_all add: hiring_def two_owners_def empty_db_def organization_exists_def form_exists_def exists_row_def
      hiring_form_def contact_form_def)
  have check: "check_file_references [(''cv'', ''k21'')] [cv_upload] [] =
      Inr [(''cv'', upload_metadata cv_upload)]"
    by (simp add: cv_upload_def)
  have json: "jsonb_ok (upload_metadata cv_upload)" "jsonb_ok (JObject cv_payload)"
    by (simp_all add: upload_metadata_def cv_upload_def cv_payload_def)
  have honey: "\<not> honeypot_was_filled cv_payload"
    by (simp add: honeypot_was_filled_def cv_payload_def HONEYPOT_FIELD_def)
  have "upl_object_key cv_upload = ''k21''" "upl_submission cv_upload = None" "upl_field_key cv_upload = ''cv''" by (simp_all add: cv_upload_def)
  with sel rows check json honey show ?thesis
    by (simp add: submit_steps hiring_published cv_accepted store_answers_def cv_answers insert_claiming_files_def
        hiring_lock insert_submission_def submission_to_store_def Let_def is_object_def
        exists_row_def claim_uploads_def rows_affected_def claimable_def received_def cv_submission_def cv_event_def no_client_def)
qed

text \<open>Deleting a form leaves its files in the bucket for good: the rows of the ledger go with the form, so the
  object of an attachment is neither reachable nor collectable afterwards.\<close>

theorem form_deletion_leaks_files:
  "ledger_covers (received, one_object) \<and>
   (\<exists>d'. delete_form 7 9 11 no_client 90 received = (Inr (), d') \<and> file_uploads d' = [] \<and>
      \<not> ledger_covers (d', one_object) \<and>
      (\<forall>ttl faults now. reap_abandoned_uploads S3 ttl faults now (d', one_object) = (0, d', one_object)))"
proof -
  obtain r d' where del: "delete_form 7 9 11 no_client 90 received = (r, d')" by fastforce
  have rows: "forms received = [hiring_form]" "file_uploads received = [cv_upload\<lparr>upl_submission := Some 77\<rparr>]"
    "submissions received = [cv_submission]" by (simp_all add: received_def hiring_def)
  have form: "frm_id hiring_form = 9" "frm_organization hiring_form = 7" "upl_form cv_upload = 9" "upl_object_key cv_upload = ''k21''"
    by (simp_all add: hiring_form_def contact_form_def cv_upload_def)
  have audit: "file_uploads (form_audit k oid actor target l client t x) = file_uploads x" for k oid actor target l client t x
    by (simp add: form_audit_def record_event_def Let_def)
  have dropped: "file_uploads (drop_forms (\<lambda>f. frm_organization f = 7 \<and> frm_id f = 9) received) = []"
    by (simp add: drop_forms_def Let_def rows form drop_submissions_def drop_endpoints_def exists_row_def)
  have "load_form received 7 9 = Inr hiring_form"
    by (simp add: load_form_def find_form_def scoped_find_def rows form)
  then have "r = Inr () \<and> file_uploads d' = []"
    using del audit dropped
    by (auto simp: delete_form_def with_manager_def with_member_def received_access require_manager_def is_manager_def
        delete_form_row_def find_form_def scoped_find_def rows form)
  moreover have "reap_abandoned_uploads S3 ttl faults now (d', one_object) = (0, d', one_object)" if "file_uploads d' = []" for ttl faults now
    using that by (simp add: reap_abandoned_uploads_def is_enabled_def abandoned_def limit_offset_def)
  ultimately show ?thesis
    using del by (auto simp: ledger_covers_def one_object_def rows form)
qed

text \<open>The reaper can take a file that has just been submitted: it lists the abandoned uploads first and deletes
  them one by one later, without looking again, so a submission that claims one in between is accepted and its
  attachment is gone.\<close>

theorem reaper_takes_claimed_file:
  "\<exists>d1 d2 b2. abandoned hiring 60 REAP_BATCH = [cv_upload] \<and>
     submit sample_externals True contact_token cv_payload no_client None 77 3 60 hiring =
       (Inr \<lparr>acd_id = 77, acd_success_message = None, acd_redirect_url = None\<rparr>, d1) \<and>
     reap_one S3 no_faults cv_upload (0, d1, one_object) = (1, d2, b2) \<and>
     fst (submission_file S3 no_faults 7 77 ''cv'' 11 one_object d1) =
       Inr \<lparr>dld_object = ''%PDF-1.7'', dld_filename = ''cv.pdf'', dld_content_type = ''application/pdf''\<rparr> \<and>
     fst (submission_file S3 no_faults 7 77 ''cv'' 11 b2 d2) = Inl form_error.FileMissing"
proof -
  let ?d1 = "received\<lparr>outbox_events := [cv_event]\<rparr>"
  have list: "abandoned hiring 60 REAP_BATCH = [cv_upload]"
    by (simp add: abandoned_def limit_offset_def hiring_def cv_upload_def REAP_BATCH_def)
  have access: "resolve_access (x\<lparr>outbox_events := [cv_event]\<rparr>) 7 11 = resolve_access x 7 11"
    "resolve_access (x\<lparr>file_uploads := t\<rparr>) 7 11 = resolve_access x 7 11" for x t
    by (simp_all add: resolve_access_def find_access_def member_count_def role_of_def)
  have found: "load_submission ?d1 7 77 = Inr cv_submission" "load_submission (?d1\<lparr>file_uploads := t\<rparr>) 7 77 = Inr cv_submission" for t
    by (simp_all add: load_submission_def find_submission_def scoped_find_def received_def cv_submission_def)
  have files: "sub_files cv_submission = JObject [(''cv'', upload_metadata cv_upload)]" by (simp add: cv_submission_def)
  have reap: "reap_one S3 no_faults cv_upload (0, ?d1, one_object) = (1, forget 21 ?d1, one_object(''k21'' := None))"
    by (simp add: reap_one_S3 no_faults_def cv_upload_def)
  have "fst (submission_file S3 no_faults 7 77 ''cv'' 11 one_object ?d1) =
       Inr \<lparr>dld_object = ''%PDF-1.7'', dld_filename = ''cv.pdf'', dld_content_type = ''application/pdf''\<rparr>"
    by (simp add: submission_file_def is_enabled_def with_member_def access received_access found files json_get_def
        upload_metadata_def cv_upload_def storage_open_def one_object_def no_faults_def fault_of_def Let_def)
  moreover have "fst (submission_file S3 no_faults 7 77 ''cv'' 11 (one_object(''k21'' := None)) (forget 21 ?d1)) = Inl form_error.FileMissing"
    unfolding forget_def
    by (simp add: submission_file_def is_enabled_def with_member_def access received_access found files json_get_def
        upload_metadata_def cv_upload_def storage_open_def one_object_def no_faults_def fault_of_def Let_def)
  ultimately show ?thesis using list hiring_submitted reap by blast
qed

theorem reaper_takes_only_abandoned_witness:
  "\<exists>n d' b'. reap_abandoned_uploads S3 3600 no_faults 4000 (hiring, one_object) = (n, d', b') \<and> n \<le> 200 \<and> n = 1"
proof -
  obtain n d' b' where r: "reap_abandoned_uploads S3 3600 no_faults 4000 (hiring, one_object) = (n, d', b')"
    by (metis prod.exhaust)
  have "abandoned hiring (4000 - reap_age 3600) REAP_BATCH = [cv_upload]"
    by (simp add: abandoned_def limit_offset_def hiring_def cv_upload_def REAP_BATCH_def reap_age_def I64_MAX_def)
  with r have "n = 1" by (simp add: reap_abandoned_uploads_def is_enabled_def reap_one_S3 no_faults_def)
  with reaper_takes_only_abandoned [OF r] r show ?thesis by (simp add: I64_MAX_def upload_keys_def hiring_def)
qed

end
