(* ===== verification/Sessions.thy ===== *)
theory Sessions
  imports Users
begin

text \<open>
  Sessions and their refresh tokens: \<open>src/src/modules/session/model.rs\<close> and \<open>repository.rs\<close>, on the
  tables of \<open>0003_create_sessions.sql\<close>. Only the hash of a refresh token is stored; a token that has
  been exchanged stays in its table as used, so that presenting it again is noticed. One definition
  per operation of \<open>SessionRepository\<close>; \<open>create\<close> and \<open>refresh\<close> are transactions, so an error
  returns the database as it was. \<open>TIMESTAMPTZ\<close> values compare as instants.
\<close>

datatype refresh_outcome =
    Rotated (ro_user: uuid) (ro_session: uuid)
  | Reused (ro_user: uuid) (ro_session: uuid)
  | Invalid

text \<open>
  \<open>create\<close>: the two inserts under the checks (\<open>expires_at > created_at\<close>), the primary keys, the unique
  hash and the reference to the account. PostgreSQL tests the checks of a row before its keys and
  the references at the end of the statement.
\<close>

definition session_row_new ::
  "uuid \<Rightarrow> uuid \<Rightarrow> string option \<Rightarrow> string option \<Rightarrow> instant \<Rightarrow> instant \<Rightarrow> session_row" where
  "session_row_new sid uid agent ip expires now =
     \<lparr>ses_id = sid, ses_user = uid, ses_user_agent = agent, ses_ip_address = ip,
      ses_created_at = now, ses_last_used_at = now, ses_expires_at = expires, ses_revoked_at = None\<rparr>"

definition token_row_new ::
  "uuid \<Rightarrow> uuid \<Rightarrow> string \<Rightarrow> instant \<Rightarrow> instant \<Rightarrow> session_token_row" where
  "token_row_new tid sid hash expires now =
     \<lparr>stk_id = tid, stk_session = sid, stk_hash = hash, stk_created_at = now,
      stk_expires_at = expires, stk_used_at = None, stk_replaced_by = None\<rparr>"

definition create_session ::
  "uuid \<Rightarrow> uuid \<Rightarrow> uuid \<Rightarrow> string \<Rightarrow> string option \<Rightarrow> string option \<Rightarrow> instant \<Rightarrow> instant \<Rightarrow> instant \<Rightarrow>
   db \<Rightarrow> (cause + uuid) \<times> db" where
  "create_session sid tid uid hash agent ip session_expires token_expires now d =
     (if session_expires \<le> now then (Inl CheckViolation, d)
      else if exists_row (\<lambda>s. ses_id s = sid) (sessions d) then (Inl UniqueViolation, d)
      else if \<not> user_exists d uid then (Inl ForeignKeyViolation, d)
      else if token_expires \<le> now then (Inl CheckViolation, d)
      else if exists_row (\<lambda>r. stk_id r = tid \<or> stk_hash r = hash) (session_tokens d)
      then (Inl UniqueViolation, d)
      else (Inr sid,
            d\<lparr>sessions := sessions d @ [session_row_new sid uid agent ip session_expires now],
              session_tokens := session_tokens d @ [token_row_new tid sid hash token_expires now]\<rparr>))"

text \<open>The row \<open>refresh\<close> reads and locks: the token under that hash, with its session.\<close>

definition token_lookup :: "db \<Rightarrow> string \<Rightarrow> (session_token_row \<times> session_row) option" where
  "token_lookup d hash =
     (case find (\<lambda>t. stk_hash t = hash) (session_tokens d) of
        None \<Rightarrow> None
      | Some t \<Rightarrow> map_option (Pair t) (find (\<lambda>s. ses_id s = stk_session t) (sessions d)))"

definition mark_used :: "uuid \<Rightarrow> uuid \<Rightarrow> instant \<Rightarrow> session_token_row list \<Rightarrow> session_token_row list" where
  "mark_used tid replacement now =
     update_where (\<lambda>t. stk_id t = tid)
       (\<lambda>t. t\<lparr>stk_used_at := Some now, stk_replaced_by := Some replacement\<rparr>)"

definition refresh_session ::
  "string \<Rightarrow> string \<Rightarrow> instant \<Rightarrow> uuid \<Rightarrow> instant \<Rightarrow> db \<Rightarrow> (cause + refresh_outcome) \<times> db" where
  "refresh_session presented new_hash new_expires replacement now d =
     (case token_lookup d presented of
        None \<Rightarrow> (Inr Invalid, d)
      | Some (t, s) \<Rightarrow>
          if stk_used_at t \<noteq> None then (Inr (Reused (ses_user s) (ses_id s)), d)
          else if ses_revoked_at s \<noteq> None \<or> stk_expires_at t \<le> now \<or> ses_expires_at s \<le> now
          then (Inr Invalid, d)
          else
            let expires = min new_expires (ses_expires_at s)
            in if expires \<le> now then (Inl CheckViolation, d)
               else if exists_row (\<lambda>q. stk_id q = replacement \<or> stk_hash q = new_hash) (session_tokens d)
               then (Inl UniqueViolation, d)
               else (Inr (Rotated (ses_user s) (ses_id s)),
                     d\<lparr>session_tokens := mark_used (stk_id t) replacement now 
                         (session_tokens d @ [token_row_new replacement (ses_id s) new_hash expires now]),
                       sessions := update_where (\<lambda>q. ses_id q = ses_id s)
                                     (\<lambda>q. q\<lparr>ses_last_used_at := now\<rparr>) (sessions d)\<rparr>))"

definition session_is_active :: "db \<Rightarrow> uuid \<Rightarrow> uuid \<Rightarrow> instant \<Rightarrow> bool" where
  "session_is_active d sid uid now =
     exists_row (\<lambda>s. ses_id s = sid \<and> ses_user s = uid \<and> ses_revoked_at s = None \<and>
                    ses_expires_at s > now) (sessions d)"

definition revoke_where :: "(session_row \<Rightarrow> bool) \<Rightarrow> instant \<Rightarrow> db \<Rightarrow> db" where
  "revoke_where p now d =
     d\<lparr>sessions := update_where (\<lambda>s. p s \<and> ses_revoked_at s = None)
                     (\<lambda>s. s\<lparr>ses_revoked_at := Some now\<rparr>) (sessions d)\<rparr>"

definition revoke_session :: "uuid \<Rightarrow> instant \<Rightarrow> db \<Rightarrow> db" where
  "revoke_session sid = revoke_where (\<lambda>s. ses_id s = sid)"

definition revoke_all_for_user :: "uuid \<Rightarrow> instant \<Rightarrow> db \<Rightarrow> nat \<times> db" where
  "revoke_all_for_user uid now d =
     (rows_affected (\<lambda>s. ses_user s = uid \<and> ses_revoked_at s = None) (sessions d),
      revoke_where (\<lambda>s. ses_user s = uid) now d)"

definition revoke_others :: "uuid \<Rightarrow> uuid \<Rightarrow> instant \<Rightarrow> db \<Rightarrow> nat \<times> db" where
  "revoke_others uid keep now d =
     (rows_affected (\<lambda>s. ses_user s = uid \<and> ses_id s \<noteq> keep \<and> ses_revoked_at s = None) (sessions d),
      revoke_where (\<lambda>s. ses_user s = uid \<and> ses_id s \<noteq> keep) now d)"


section \<open>What the operations leave alone\<close>

lemma revoke_where_frame [simp]:
  "users (revoke_where p now d) = users d"
  "roles (revoke_where p now d) = roles d"
  "user_roles (revoke_where p now d) = user_roles d"
  "session_tokens (revoke_where p now d) = session_tokens d"
  "one_time_tokens (revoke_where p now d) = one_time_tokens d"
  "auth_events (revoke_where p now d) = auth_events d"
  "organizations (revoke_where p now d) = organizations d"
  "organization_members (revoke_where p now d) = organization_members d"
  "length (sessions (revoke_where p now d)) = length (sessions d)"
  "map ses_id (sessions (revoke_where p now d)) = map ses_id (sessions d)"
  by (simp_all add: revoke_where_def update_where_def)

lemma revoke_where_sessions:
  "sessions (revoke_where p now d) =
     map (\<lambda>s. if p s \<and> ses_revoked_at s = None then s\<lparr>ses_revoked_at := Some now\<rparr> else s) (sessions d)"
  by (simp add: revoke_where_def update_where_def)

text \<open>Every session of the set is revoked afterwards, and no other is touched.\<close>

lemma revoke_where_revokes:
  assumes "\<And>s t. p (s\<lparr>ses_revoked_at := t\<rparr>) = p s"
    and "s \<in> set (sessions (revoke_where p now d))" "p s"
  shows "ses_revoked_at s \<noteq> None"
  using assms by (auto simp: revoke_where_sessions split: if_splits)

lemma revoke_where_others:
  assumes "\<And>s t. p (s\<lparr>ses_revoked_at := t\<rparr>) = p s"
  shows "filter (\<lambda>s. \<not> p s) (sessions (revoke_where p now d)) = filter (\<lambda>s. \<not> p s) (sessions d)"
  unfolding revoke_where_def by (auto intro!: filter_update_where_disjoint simp: assms)

lemma user_exists_revoke_where [simp]: "user_exists (revoke_where p now d) u = user_exists d u"
  by (simp add: user_exists_def)

lemma revoke_session_users [simp]: "users (revoke_session sid now d) = users d"
  by (simp add: revoke_session_def)

text \<open>The two transactions branch by branch.\<close>

lemma create_session_Inr:
  "create_session sid tid uid hash agent ip se te now d = (Inr v, d') \<longleftrightarrow>
     v = sid \<and> now < se \<and> now < te \<and> user_exists d uid \<and> sid \<notin> ses_id ` set (sessions d) \<and>
     tid \<notin> stk_id ` set (session_tokens d) \<and> hash \<notin> stk_hash ` set (session_tokens d) \<and>
     d' = d\<lparr>sessions := sessions d @ [session_row_new sid uid agent ip se now],
            session_tokens := session_tokens d @ [token_row_new tid sid hash te now]\<rparr>"
  by (auto simp: create_session_def table_simps not_le)

lemma create_session_Inl:
  "create_session sid tid uid hash agent ip se te now d = (Inl c, d') \<Longrightarrow> d' = d"
  by (auto simp: create_session_def split: if_splits)

lemma refresh_session_Rotated:
  assumes "refresh_session presented new_hash ne rid now d = (Inr (Rotated u i), d')"
  obtains t s where "token_lookup d presented = Some (t, s)" "stk_used_at t = None"
      "ses_revoked_at s = None" "now < stk_expires_at t" "now < ses_expires_at s"
      "rid \<notin> stk_id ` set (session_tokens d)" "new_hash \<notin> stk_hash ` set (session_tokens d)"
      "u = ses_user s" "i = ses_id s"
      "d' = d\<lparr>session_tokens := mark_used (stk_id t) rid now (session_tokens d @
               [token_row_new rid (ses_id s) new_hash (min ne (ses_expires_at s)) now]),
             sessions := update_where (\<lambda>q. ses_id q = ses_id s)
                           (\<lambda>q. q\<lparr>ses_last_used_at := now\<rparr>) (sessions d)\<rparr>"
proof -
  obtain t s where l: "token_lookup d presented = Some (t, s)"
    using assms by (auto simp: refresh_session_def split: option.splits)
  show thesis
    by (rule that [OF l]) (use assms l in
      \<open>auto simp: refresh_session_def Let_def table_simps not_le split: if_splits\<close>)
qed

lemma refresh_session_unchanged:
  assumes "refresh_session presented new_hash ne rid now d = (r, d')"
    and "\<And>u i. r \<noteq> Inr (Rotated u i)"
  shows "d' = d"
  using assms(1) assms(2)
  by (auto simp: refresh_session_def Let_def split: if_splits option.splits prod.splits)

lemma refresh_session_Reused:
  "refresh_session presented new_hash ne rid now d = (Inr (Reused u i), d') \<longleftrightarrow>
   (\<exists>t s. token_lookup d presented = Some (t, s) \<and> stk_used_at t \<noteq> None \<and> u = ses_user s \<and>
      i = ses_id s \<and> d' = d)"
  by (auto simp: refresh_session_def Let_def split: if_splits option.splits prod.splits)

lemma token_lookup_Some:
  "token_lookup d hash = Some (t, s) \<Longrightarrow>
   t \<in> set (session_tokens d) \<and> stk_hash t = hash \<and> s \<in> set (sessions d) \<and> ses_id s = stk_session t"
  by (auto simp: token_lookup_def split: option.splits dest!: find_in_set)

end
