(* ===== verification/Roles.thy ===== *)
theory Roles
  imports Sessions
begin

text \<open>
  Roles: \<open>src/src/modules/rbac/model.rs\<close> and \<open>repository.rs\<close>, on the tables of
  \<open>0005_create_roles.sql\<close>. A role name is unique, so the name stands for the row and its identifier.
\<close>

definition USER_ROLE :: string where "USER_ROLE = ''user''"
definition ADMIN_ROLE :: string where "ADMIN_ROLE = ''admin''"

definition role_id :: "db \<Rightarrow> string \<Rightarrow> cause + string" where
  "role_id d role = (if role \<in> set (roles d) then Inr role
                     else Inl (OtherCause (''role '' @ role @ '' is not configured; run migrations'')))"

text \<open>\<open>INSERT INTO user_roles ... ON CONFLICT DO NOTHING\<close>.\<close>

definition add_role_row :: "uuid \<times> string \<Rightarrow> (uuid \<times> string) list \<Rightarrow> (uuid \<times> string) list" where
  "add_role_row r t = (if r \<in> set t then t else t @ [r])"

definition assign_role :: "uuid \<Rightarrow> string \<Rightarrow> db \<Rightarrow> (cause + unit) \<times> db" where
  "assign_role uid role d =
     (case role_id d role of
        Inl c \<Rightarrow> (Inl c, d)
      | Inr r \<Rightarrow>
          if \<not> user_exists d uid then (Inl ForeignKeyViolation, d)
          else (Inr (), d\<lparr>user_roles := add_role_row (uid, r) (user_roles d)\<rparr>))"

definition role_names :: "db \<Rightarrow> string list" where
  "role_names d = sort (roles d)"

text \<open>
  \<open>replace_for_user\<close>, one statement: the roles that are not asked for go, the ones that are and exist
  are there afterwards. A name that is no role is left out.
\<close>

definition desired_roles :: "db \<Rightarrow> string list \<Rightarrow> string list" where
  "desired_roles d names = filter (\<lambda>r. r \<in> set names) (roles d)"

definition replace_roles :: "uuid \<Rightarrow> string list \<Rightarrow> db \<Rightarrow> (cause + unit) \<times> db" where
  "replace_roles uid names d =
     (let desired = desired_roles d names
      in if desired \<noteq> [] \<and> \<not> user_exists d uid then (Inl ForeignKeyViolation, d)
         else (Inr (),
               d\<lparr>user_roles :=
                   fold (\<lambda>r. add_role_row (uid, r)) desired
                     (delete_where (\<lambda>(u, r). u = uid \<and> r \<notin> set desired) (user_roles d))\<rparr>))"

definition active_admin_ids :: "db \<Rightarrow> uuid list" where
  "active_admin_ids d =
     sort (concat (map (\<lambda>u.
       concat (map (\<lambda>(v, r).
         if v = usr_id u \<and> r = ADMIN_ROLE \<and> r \<in> set (roles d) \<and> usr_status u = ActiveUser
         then [usr_id u] else []) (user_roles d))) (users d)))"

definition roles_for_user :: "db \<Rightarrow> uuid \<Rightarrow> string list" where
  "roles_for_user d uid =
     sort (map snd (filter (\<lambda>(u, r). u = uid \<and> r \<in> set (roles d)) (user_roles d)))"

text \<open>The map of \<open>roles_for_users\<close>: an account without roles is absent.\<close>

definition roles_for_users :: "db \<Rightarrow> uuid list \<Rightarrow> uuid \<Rightarrow> string list option" where
  "roles_for_users d ids uid =
     (if uid \<in> set ids \<and> roles_for_user d uid \<noteq> [] then Some (roles_for_user d uid) else None)"


section \<open>Facts\<close>

lemma set_add_role_row [simp]: "set (add_role_row r t) = insert r (set t)"
  by (auto simp: add_role_row_def)

lemma set_fold_add_role_row [simp]:
  "set (fold (\<lambda>r. add_role_row (uid, r)) rs t) = Pair uid ` set rs \<union> set t"
  by (induction rs arbitrary: t) auto

lemma set_desired_roles [simp]: "set (desired_roles d names) = set names \<inter> set (roles d)"
  by (auto simp: desired_roles_def)

lemma set_roles_for_user:
  "set (roles_for_user d uid) = {r. (uid, r) \<in> set (user_roles d) \<and> r \<in> set (roles d)}"
  by (force simp: roles_for_user_def)

lemma set_active_admin_ids:
  "set (active_admin_ids d) =
     {usr_id u |u. u \<in> set (users d) \<and> usr_status u = ActiveUser \<and>
        (usr_id u, ADMIN_ROLE) \<in> set (user_roles d) \<and> ADMIN_ROLE \<in> set (roles d)}"
  by (force simp: active_admin_ids_def split: if_splits)

lemma assign_role_Inr:
  "assign_role uid role d = (Inr (), d') \<longleftrightarrow>
     role \<in> set (roles d) \<and> user_exists d uid \<and>
     d' = d\<lparr>user_roles := add_role_row (uid, role) (user_roles d)\<rparr>"
  by (auto simp: assign_role_def role_id_def)

lemma assign_role_Inl: "assign_role uid role d = (Inl c, d') \<Longrightarrow> d' = d"
  by (auto simp: assign_role_def role_id_def split: if_splits)

text \<open>After a replacement the account holds exactly the roles asked for, and the others theirs.\<close>

lemma replace_roles_Inr:
  assumes "replace_roles uid names d = (Inr (), d')"
  shows "set (user_roles d') =
      {(u, r) \<in> set (user_roles d). u \<noteq> uid} \<union> Pair uid ` (set names \<inter> set (roles d))"
    and "users d' = users d" and "roles d' = roles d" and "sessions d' = sessions d"
proof -
  have "d' = d\<lparr>user_roles :=
                   fold (\<lambda>r. add_role_row (uid, r)) (desired_roles d names)
                     (delete_where (\<lambda>(u, r). u = uid \<and> r \<notin> set (desired_roles d names)) (user_roles d))\<rparr>"
    using assms by (auto simp: replace_roles_def Let_def split: if_splits)
  then show "set (user_roles d') =
      {(u, r) \<in> set (user_roles d). u \<noteq> uid} \<union> Pair uid ` (set names \<inter> set (roles d))"
    and "users d' = users d" and "roles d' = roles d" and "sessions d' = sessions d"
    by (auto simp: table_simps)
qed

lemma replace_roles_Inl: "replace_roles uid names d = (Inl c, d') \<Longrightarrow> d' = d"
  by (auto simp: replace_roles_def Let_def split: if_splits)

lemma roles_for_user_replaced:
  assumes "replace_roles uid names d = (Inr (), d')"
  shows "set (roles_for_user d' v) =
     (if v = uid then set names \<inter> set (roles d) else set (roles_for_user d v))"
  using replace_roles_Inr [OF assms] by (auto simp: set_roles_for_user)

end
