(* ===== verification/Identity.thy ===== *)
theory Identity
  imports Roles
begin

text \<open>
  The account lifecycle: \<open>src/src/modules/identity/tokens.rs\<close> (single-use tokens),
  \<open>password.rs\<close>, \<open>dto.rs\<close> and \<open>service.rs\<close>. An operation that sends mail takes and returns the mail
  queue beside the database. Secrets the code draws (identifiers, salts, tokens) are arguments.

  A deadline that \<open>expires_in\<close> cannot compute is a panic, which ends the request where it is; it is
  the error \<open>Internal panic\<close> here, with the state reached so far.
\<close>

definition panic :: cause where "panic = OtherCause ''panic''"

record auth_config =
  jwt_secret :: string
  jwt_issuer :: string
  jwt_audience :: string
  access_token_ttl_seconds :: "64 word"
  refresh_token_ttl_seconds :: "64 word"
  email_verification_ttl_seconds :: "64 word"
  password_reset_ttl_seconds :: "64 word"
  require_email_verification :: bool
  max_failed_login_attempts :: "32 word"
  account_lock_duration_seconds :: "64 word"
  password_pepper :: "string option"
  app_base_url :: string

definition deadline :: "instant \<Rightarrow> 64 word \<Rightarrow> identity_error + instant" where
  "deadline now seconds = ok_or (Internal panic) (expires_in now seconds)"


section \<open>Passwords\<close>

text \<open>\<open>material\<close>: the password with the pepper appended.\<close>

definition password_material :: "auth_config \<Rightarrow> string \<Rightarrow> string" where
  "password_material cfg password =
     password @ (case password_pepper cfg of None \<Rightarrow> '''' | Some p \<Rightarrow> p)"

definition hash_with :: "externals \<Rightarrow> auth_config \<Rightarrow> string \<Rightarrow> string \<Rightarrow> identity_error + string" where
  "hash_with ext cfg salt password =
     ok_or (Internal (OtherCause ''failed to hash password''))
       (hash_password ext salt (password_material cfg password))"

definition verify_password :: "externals \<Rightarrow> auth_config \<Rightarrow> string \<Rightarrow> string \<Rightarrow> bool" where
  "verify_password ext cfg password hash = password_matches ext (password_material cfg password) hash"


section \<open>Single-use tokens\<close>

definition invalidate_outstanding :: "uuid \<Rightarrow> one_time_token_purpose \<Rightarrow> instant \<Rightarrow> db \<Rightarrow> db" where
  "invalidate_outstanding uid purpose now d =
     d\<lparr>one_time_tokens :=
         update_where (\<lambda>t. ott_user t = uid \<and> ott_purpose t = purpose \<and> ott_consumed_at t = None)
           (\<lambda>t. t\<lparr>ott_consumed_at := Some now\<rparr>) (one_time_tokens d)\<rparr>"

definition one_time_token_new ::
  "uuid \<Rightarrow> uuid \<Rightarrow> one_time_token_purpose \<Rightarrow> string \<Rightarrow> instant \<Rightarrow> instant \<Rightarrow> one_time_token_row" where
  "one_time_token_new tid uid purpose hash expires now =
     \<lparr>ott_id = tid, ott_user = uid, ott_purpose = purpose, ott_hash = hash, ott_created_at = now,
      ott_expires_at = expires, ott_consumed_at = None\<rparr>"

definition insert_one_time_token ::
  "uuid \<Rightarrow> uuid \<Rightarrow> one_time_token_purpose \<Rightarrow> string \<Rightarrow> instant \<Rightarrow> instant \<Rightarrow> db \<Rightarrow> (cause + unit) \<times> db" where
  "insert_one_time_token tid uid purpose hash expires now d =
     (if expires \<le> now then (Inl CheckViolation, d)
      else if exists_row (\<lambda>t. ott_id t = tid \<or> ott_hash t = hash) (one_time_tokens d)
      then (Inl UniqueViolation, d)
      else if \<not> user_exists d uid then (Inl ForeignKeyViolation, d)
      else (Inr (), d\<lparr>one_time_tokens :=
              one_time_tokens d @ [one_time_token_new tid uid purpose hash expires now]\<rparr>))"

definition claimable :: "string \<Rightarrow> one_time_token_purpose \<Rightarrow> instant \<Rightarrow> one_time_token_row \<Rightarrow> bool" where
  "claimable hash purpose now t \<longleftrightarrow>
     ott_hash t = hash \<and> ott_purpose t = purpose \<and> ott_consumed_at t = None \<and> ott_expires_at t > now"

definition consume_token :: "string \<Rightarrow> one_time_token_purpose \<Rightarrow> instant \<Rightarrow> db \<Rightarrow> uuid option \<times> db" where
  "consume_token hash purpose now d =
     (map_option ott_user (find (claimable hash purpose now) (one_time_tokens d)),
      d\<lparr>one_time_tokens := update_where (claimable hash purpose now)
          (\<lambda>t. t\<lparr>ott_consumed_at := Some now\<rparr>) (one_time_tokens d)\<rparr>)"


section \<open>The audit trail\<close>

definition audit_self ::
  "auth_event_type \<Rightarrow> uuid option \<Rightarrow> string option \<Rightarrow> client_info \<Rightarrow> instant \<Rightarrow> db \<Rightarrow> db" where
  "audit_self kind uid email client =
     record_event
       \<lparr>ev_user_id = uid, ev_actor_user_id = uid, ev_organization_id = None, ev_target_id = None,
        ev_email = email, ev_event_type = kind, ev_ip_address = ip_address client,
        ev_user_agent = user_agent client\<rparr>"

definition audit_action ::
  "auth_event_type \<Rightarrow> uuid \<Rightarrow> uuid option \<Rightarrow> string option \<Rightarrow> client_info \<Rightarrow> instant \<Rightarrow> db \<Rightarrow> db" where
  "audit_action kind actor subject email client =
     record_event
       \<lparr>ev_user_id = subject, ev_actor_user_id = Some actor, ev_organization_id = None,
        ev_target_id = None, ev_email = email, ev_event_type = kind,
        ev_ip_address = ip_address client, ev_user_agent = user_agent client\<rparr>"


section \<open>Mail\<close>

definition EMAIL_ENQUEUE_ATTEMPTS :: nat where "EMAIL_ENQUEUE_ATTEMPTS = 3"

text \<open>\<open>enqueue_email\<close>: \<open>up n\<close> tells whether the queue takes the job at the n-th attempt.\<close>

fun enqueue_attempts :: "(nat \<Rightarrow> bool) \<Rightarrow> email_job \<Rightarrow> nat \<Rightarrow> nat \<Rightarrow> email_queue \<Rightarrow> email_queue" where
  "enqueue_attempts up job attempt 0 q = q"
| "enqueue_attempts up job attempt (Suc left) q =
     (if up attempt then queue_enqueue job q else enqueue_attempts up job (Suc attempt) left q)"

definition enqueue_email ::
  "(nat \<Rightarrow> bool) \<Rightarrow> string \<Rightarrow> string \<Rightarrow> string \<Rightarrow> email_queue \<Rightarrow> email_queue" where
  "enqueue_email up to subject body =
     enqueue_attempts up \<lparr>job_to = to, job_subject = subject, job_text_body = body\<rparr>
       1 EMAIL_ENQUEUE_ATTEMPTS"

definition link_to :: "auth_config \<Rightarrow> string \<Rightarrow> string \<Rightarrow> string" where
  "link_to cfg page token = trim_end_char CHR ''/'' (app_base_url cfg) @ ''/'' @ page @ ''?token='' @ token"

definition reset_mail :: "auth_config \<Rightarrow> string \<Rightarrow> string" where
  "reset_mail cfg token =
     ''Use this link to choose a new password:'' @ newline @ link_to cfg ''reset-password'' token @
     newline @ newline @ ''If you did not request this, you can ignore this message.''"

definition verification_mail :: "auth_config \<Rightarrow> string \<Rightarrow> string" where
  "verification_mail cfg token =
     ''Confirm your email address by visiting:'' @ newline @ link_to cfg ''verify-email'' token @ newline"

section \<open>The service\<close>

record public_user =
  pub_id :: uuid
  pub_email :: string
  pub_status :: user_status
  pub_email_verified :: bool
  pub_roles :: "string list"
  pub_created_at :: instant

definition public_user_new :: "user_record \<Rightarrow> string list \<Rightarrow> public_user" where
  "public_user_new u rs =
     \<lparr>pub_id = usr_id u, pub_email = usr_email u, pub_status = usr_status u,
      pub_email_verified = is_email_verified u, pub_roles = rs, pub_created_at = usr_created_at u\<rparr>"

definition public_user_of :: "db \<Rightarrow> user_record \<Rightarrow> public_user" where
  "public_user_of d u = public_user_new u (roles_for_user d (usr_id u))"

text \<open>\<open>issue_one_time_token\<close>: one transaction, so a refused insert also undoes the invalidation.\<close>

definition issue_one_time_token ::
  "externals \<Rightarrow> string \<Rightarrow> uuid \<Rightarrow> uuid \<Rightarrow> one_time_token_purpose \<Rightarrow> 64 word \<Rightarrow> instant \<Rightarrow> db \<Rightarrow>
   (identity_error + string) \<times> db" where
  "issue_one_time_token ext token tid uid purpose ttl now d =
     guard_st (deadline now ttl) d (\<lambda>expires.
       (case insert_one_time_token tid uid purpose (sha256 ext token) expires now
               (invalidate_outstanding uid purpose now d) of
          (Inl c, _) \<Rightarrow> (Inl (Internal c), d)
        | (Inr _, d') \<Rightarrow> (Inr token, d')))"

definition issue_email_verification ::
  "externals \<Rightarrow> auth_config \<Rightarrow> (nat \<Rightarrow> bool) \<Rightarrow> string \<Rightarrow> uuid \<Rightarrow> user_record \<Rightarrow> client_info \<Rightarrow> instant \<Rightarrow>
   db \<times> email_queue \<Rightarrow> (identity_error + string) \<times> db \<times> email_queue" where
  "issue_email_verification ext cfg up token tid u client now = (\<lambda>(d, q).
     (case issue_one_time_token ext token tid (usr_id u) EmailVerification
             (email_verification_ttl_seconds cfg) now d of
        (Inl e, d') \<Rightarrow> (Inl e, d', q)
      | (Inr token, d') \<Rightarrow>
          (Inr token,
           audit_self EmailVerificationSent (Some (usr_id u)) (Some (usr_email u)) client now d',
           enqueue_email up (usr_email u) ''Confirm your SubmitSnap email address''
             (verification_mail cfg token) q)))"

text \<open>The transaction of \<open>register\<close>: the account with its default role, or neither.\<close>

definition create_account ::
  "externals \<Rightarrow> uuid \<Rightarrow> string \<Rightarrow> string \<Rightarrow> user_status \<Rightarrow> instant \<Rightarrow> db \<Rightarrow>
   (identity_error + user_record) \<times> db" where
  "create_account ext uid email hash status now d =
     (case insert_user ext uid email hash status now d of
        (Inl e, _) \<Rightarrow> (Inl e, d)
      | (Inr u, d1) \<Rightarrow>
          (case assign_role (usr_id u) USER_ROLE d1 of
             (Inl c, _) \<Rightarrow> (Inl (Internal c), d)
           | (Inr _, d2) \<Rightarrow> (Inr u, d2)))"

definition register_account ::
  "externals \<Rightarrow> auth_config \<Rightarrow> (nat \<Rightarrow> bool) \<Rightarrow> uuid \<Rightarrow> string \<Rightarrow> string \<Rightarrow> uuid \<Rightarrow> string \<Rightarrow> string \<Rightarrow>
   client_info \<Rightarrow> instant \<Rightarrow> db \<times> email_queue \<Rightarrow> (identity_error + public_user \<times> string) \<times> db \<times> email_queue"
where
  "register_account ext cfg up uid salt token tid email password client now = (\<lambda>(d, q).
     (let email = normalize_email ext email;
          status = (if require_email_verification cfg then PendingUser else ActiveUser)
      in guard_st (hash_with ext cfg salt password) (d, q) (\<lambda>hash.
           (case create_account ext uid email hash status now d of
              (Inl e, d') \<Rightarrow> (Inl e, d', q)
            | (Inr u, d1) \<Rightarrow>
                let d2 = audit_self AccountCreated (Some (usr_id u)) (Some (usr_email u)) client now d1
                in (case issue_email_verification ext cfg up token tid u client now (d2, q) of
                      (Inl e, s) \<Rightarrow> (Inl e, s)
                    | (Inr token, d3, q') \<Rightarrow> (Inr (public_user_of d3 u, token), d3, q'))))))"

definition upgrade_password_hash ::
  "externals \<Rightarrow> auth_config \<Rightarrow> string \<Rightarrow> uuid \<Rightarrow> string \<Rightarrow> instant \<Rightarrow> db \<Rightarrow> db" where
  "upgrade_password_hash ext cfg salt uid password now d =
     (case hash_with ext cfg salt password of
        Inl _ \<Rightarrow> d
      | Inr hash \<Rightarrow> replace_password_hash uid hash now d)"

text \<open>
  The branch of \<open>verify_credentials\<close> for a wrong password: a lock that is over is cleared first, then
  the attempt is counted.
\<close>

definition count_wrong_password ::
  "auth_config \<Rightarrow> user_record \<Rightarrow> client_info \<Rightarrow> instant \<Rightarrow> db \<Rightarrow> (identity_error + user_record) \<times> db" where
  "count_wrong_password cfg u client now d =
     (let d1 = (if usr_locked_until u \<noteq> None then reset_login_failures (usr_id u) now d else d)
      in guard_st (deadline now (account_lock_duration_seconds cfg)) d1 (\<lambda>locked_until.
           (case record_login_failure (usr_id u) (max_failed_login_attempts cfg) locked_until now d1 of
              (Inl e, d2) \<Rightarrow> (Inl e, d2)
            | (Inr locked, d2) \<Rightarrow>
                let d3 = audit_self LoginFailed (Some (usr_id u)) (Some (usr_email u)) client now d2
                in if (case locked of None \<Rightarrow> False | Some t \<Rightarrow> t > now)
                   then (Inl AccountLocked,
                         audit_self AccountWasLocked (Some (usr_id u)) (Some (usr_email u)) client now d3)
                   else (Inl InvalidCredentials, d3))))"

definition verify_credentials ::
  "externals \<Rightarrow> auth_config \<Rightarrow> string \<Rightarrow> string \<Rightarrow> string \<Rightarrow> client_info \<Rightarrow> instant \<Rightarrow> db \<Rightarrow>
   (identity_error + user_record) \<times> db" where
  "verify_credentials ext cfg salt email password client now d =
     (let email = normalize_email ext email in
      case find_user_by_email ext d email of
        None \<Rightarrow> (Inl InvalidCredentials, audit_self LoginFailed None (Some email) client now d)
      | Some u \<Rightarrow>
          let failed = audit_self LoginFailed (Some (usr_id u)) (Some (usr_email u)) client now d in
          if is_locked u now then (Inl AccountLocked, failed)
          else if usr_status u = DisabledUser then (Inl AccountDisabled, failed)
          else if \<not> verify_password ext cfg password (usr_password_hash u)
          then count_wrong_password cfg u client now d
          else if require_email_verification cfg \<and> \<not> is_email_verified u
          then (Inl EmailNotVerified, d)
          else
            let d1 = (if password_needs_rehash ext (usr_password_hash u)
                      then upgrade_password_hash ext cfg salt (usr_id u) password now d else d);
                d2 = record_login_success (usr_id u) now d1
            in (Inr u, audit_self LoginSucceeded (Some (usr_id u)) (Some (usr_email u)) client now d2))"

definition change_password ::
  "externals \<Rightarrow> auth_config \<Rightarrow> string \<Rightarrow> user_record \<Rightarrow> string \<Rightarrow> string \<Rightarrow> uuid \<Rightarrow> client_info \<Rightarrow> instant \<Rightarrow>
   db \<Rightarrow> (identity_error + unit) \<times> db" where
  "change_password ext cfg salt u current new current_session client now d =
     (if \<not> verify_password ext cfg current (usr_password_hash u) then (Inl InvalidCredentials, d)
      else guard_st (hash_with ext cfg salt new) d (\<lambda>hash.
        (case update_password (usr_id u) hash now d of
           (Inl e, d') \<Rightarrow> (Inl e, d')
         | (Inr _, d1) \<Rightarrow>
             let d2 = snd (revoke_others (usr_id u) current_session now d1)
             in (Inr (), audit_self PasswordChanged (Some (usr_id u)) (Some (usr_email u)) client now d2))))"

definition request_password_reset ::
  "externals \<Rightarrow> auth_config \<Rightarrow> (nat \<Rightarrow> bool) \<Rightarrow> string \<Rightarrow> uuid \<Rightarrow> string \<Rightarrow> client_info \<Rightarrow> instant \<Rightarrow>
   db \<times> email_queue \<Rightarrow> (identity_error + string option) \<times> db \<times> email_queue" where
  "request_password_reset ext cfg up token tid email client now = (\<lambda>(d, q).
     (case find_user_by_email ext d (normalize_email ext email) of
        None \<Rightarrow> (Inr None, d, q)
      | Some u \<Rightarrow>
          if usr_status u = DisabledUser then (Inr None, d, q)
          else
            (case issue_one_time_token ext token tid (usr_id u) PasswordReset
                    (password_reset_ttl_seconds cfg) now d of
               (Inl e, d') \<Rightarrow> (Inl e, d', q)
             | (Inr token, d') \<Rightarrow>
                 (Inr (Some token),
                  audit_self PasswordResetRequested (Some (usr_id u)) (Some (usr_email u)) client now d',
                  enqueue_email up (usr_email u) ''Reset your SubmitSnap password''
                    (reset_mail cfg token) q))))"

text \<open>The token is consumed on its own, before anything that can fail.\<close>

definition reset_password ::
  "externals \<Rightarrow> auth_config \<Rightarrow> string \<Rightarrow> string \<Rightarrow> string \<Rightarrow> client_info \<Rightarrow> instant \<Rightarrow> db \<Rightarrow>
   (identity_error + unit) \<times> db" where
  "reset_password ext cfg salt token new client now d =
     (case consume_token (sha256 ext token) PasswordReset now d of
        (None, d1) \<Rightarrow> (Inl InvalidToken, d1)
      | (Some uid, d1) \<Rightarrow>
          guard_st (hash_with ext cfg salt new) d1 (\<lambda>hash.
            (case update_password uid hash now d1 of
               (Inl e, d2) \<Rightarrow> (Inl e, d2)
             | (Inr _, d2) \<Rightarrow>
                 let d3 = snd (revoke_all_for_user uid now d2)
                 in (Inr (), audit_self PasswordResetCompleted (Some uid)
                               (map_option usr_email (find_user d3 uid)) client now d3))))"

definition verify_email ::
  "externals \<Rightarrow> string \<Rightarrow> client_info \<Rightarrow> instant \<Rightarrow> db \<Rightarrow> (identity_error + unit) \<times> db" where
  "verify_email ext token client now d =
     (case consume_token (sha256 ext token) EmailVerification now d of
        (None, d1) \<Rightarrow> (Inl InvalidToken, d1)
      | (Some uid, d1) \<Rightarrow>
          let d2 = mark_email_verified uid now d1
          in (Inr (), audit_self EmailVerified (Some uid) (map_option usr_email (find_user d2 uid))
                        client now d2))"

definition resend_verification ::
  "externals \<Rightarrow> auth_config \<Rightarrow> (nat \<Rightarrow> bool) \<Rightarrow> string \<Rightarrow> uuid \<Rightarrow> string \<Rightarrow> client_info \<Rightarrow> instant \<Rightarrow>
   db \<times> email_queue \<Rightarrow> (identity_error + unit) \<times> db \<times> email_queue" where
  "resend_verification ext cfg up token tid email client now = (\<lambda>(d, q).
     (case find_user_by_email ext d (normalize_email ext email) of
        None \<Rightarrow> (Inr (), d, q)
      | Some u \<Rightarrow>
          if is_email_verified u \<or> usr_status u = DisabledUser then (Inr (), d, q)
          else (case issue_email_verification ext cfg up token tid u client now (d, q) of
                  (Inl e, s) \<Rightarrow> (Inl e, s)
                | (Inr _, s) \<Rightarrow> (Inr (), s))))"

definition user_id_by_email :: "externals \<Rightarrow> db \<Rightarrow> string \<Rightarrow> uuid option" where
  "user_id_by_email ext d email = map_option usr_id (find_user_by_email ext d (normalize_email ext email))"

end
