(* ===== verification/Administration.thy ===== *)
theory Administration
  imports Identity
begin

text \<open>
  The administrator's side of the accounts: \<open>src/src/modules/identity/administration.rs\<close>, with the
  filtered listings of \<open>identity/repository.rs\<close> and \<open>identity/events.rs\<close> it reads. A set of roles is
  a list without duplicates; the events a change of roles records differ in nothing, so only their
  number matters, not the order a \<open>HashSet\<close> is walked in.
\<close>

section \<open>Searching\<close>

text \<open>PostgreSQL's \<open>LIKE\<close>: \<open>%\<close> is any text, \<open>_\<close> any character, a backslash takes the next one as it is.\<close>

function sql_like :: "string \<Rightarrow> string \<Rightarrow> bool" where
  "sql_like [] s = (s = [])"
| "sql_like (c # p) s =
     (if c = CHR ''%'' then
        sql_like p s \<or> (case s of [] \<Rightarrow> False | _ # s' \<Rightarrow> sql_like (c # p) s')
      else if c = CHR ''_'' then (case chars s of [] \<Rightarrow> False | _ # rest \<Rightarrow> sql_like p (concat rest))
      else if c = CHR 0x5C then
        (case p of [] \<Rightarrow> False
         | e # p' \<Rightarrow> (case s of [] \<Rightarrow> False | x # s' \<Rightarrow> x = e \<and> sql_like p' s'))
      else (case s of [] \<Rightarrow> False | x # s' \<Rightarrow> x = c \<and> sql_like p s'))"
  by pat_completeness auto
termination
  by (relation "measures [\<lambda>(p, _). length p, \<lambda>(_, s). length s]") auto

text \<open>\<open>s.replace(c, "\<close>backslash\<open>c")\<close> for one character.\<close>

definition escape_char :: "char \<Rightarrow> string \<Rightarrow> string" where
  "escape_char c s = concat (map (\<lambda>d. if d = c then [CHR 0x5C, d] else [d]) s)"

definition like_contains :: "string \<Rightarrow> string" where
  "like_contains term =
     ''%'' @ escape_char CHR ''_'' (escape_char CHR ''%'' (escape_char CHR 0x5C term)) @ ''%''"

record user_filters =
  uf_search :: "string option"
  uf_status :: "user_status option"
  uf_role :: "string option"

definition user_filters_from_query ::
  "string option \<Rightarrow> user_status option \<Rightarrow> string option \<Rightarrow> user_filters" where
  "user_filters_from_query search status role =
     \<lparr>uf_search = (case search of None \<Rightarrow> None
                   | Some s \<Rightarrow> if trim s = [] then None else Some (like_contains (trim s))),
      uf_status = status, uf_role = role\<rparr>"

definition user_matches :: "externals \<Rightarrow> db \<Rightarrow> user_filters \<Rightarrow> user_record \<Rightarrow> bool" where
  "user_matches ext d f u \<longleftrightarrow>
     optional (\<lambda>p. sql_like p (sql_lower ext (usr_email u))) (uf_search f) \<and>
     optional (\<lambda>s. usr_status u = s) (uf_status f) \<and>
     optional (\<lambda>r. (usr_id u, r) \<in> set (user_roles d) \<and> r \<in> set (roles d)) (uf_role f)"

definition list_users :: "externals \<Rightarrow> db \<Rightarrow> user_filters \<Rightarrow> int \<Rightarrow> int \<Rightarrow> user_record list" where
  "list_users ext d f l i =
     limit_offset l i
       (sort_key (\<lambda>u. (- usr_created_at u, usr_id u)) (filter (user_matches ext d f) (users d)))"

definition count_users :: "externals \<Rightarrow> db \<Rightarrow> user_filters \<Rightarrow> int" where
  "count_users ext d f = int (rows_affected (user_matches ext d f) (users d))"

record audit_filters =
  af_user_id :: "uuid option"
  af_organization_id :: "uuid option"
  af_email :: "string option"
  af_event_type :: "auth_event_type option"
  af_since :: "instant option"
  af_until :: "instant option"

definition audit_filters_from_query ::
  "externals \<Rightarrow> uuid option \<Rightarrow> uuid option \<Rightarrow> string option \<Rightarrow> auth_event_type option \<Rightarrow>
   instant option \<Rightarrow> instant option \<Rightarrow> audit_filters" where
  "audit_filters_from_query ext uid oid email kind since until =
     \<lparr>af_user_id = uid, af_organization_id = oid,
      af_email = (case email of None \<Rightarrow> None
                  | Some e \<Rightarrow> if trim e = [] then None else Some (normalize_email ext (trim e))),
      af_event_type = kind, af_since = since, af_until = until\<rparr>"

definition audit_matches :: "externals \<Rightarrow> audit_filters \<Rightarrow> auth_event \<times> instant \<Rightarrow> bool" where
  "audit_matches ext f = (\<lambda>(e, t).
     optional (\<lambda>u. ev_user_id e = Some u) (af_user_id f) \<and>
     optional (\<lambda>i. ev_organization_id e = Some i) (af_organization_id f) \<and>
     optional (\<lambda>a. map_option (sql_lower ext) (ev_email e) = Some a) (af_email f) \<and>
     optional (\<lambda>k. ev_event_type e = k) (af_event_type f) \<and>
     optional (\<lambda>s. t \<ge> s) (af_since f) \<and> optional (\<lambda>s. t < s) (af_until f))"

text \<open>Newest first, and of the same instant the one inserted last.\<close>

definition audit_events ::
  "externals \<Rightarrow> db \<Rightarrow> audit_filters \<Rightarrow> int \<Rightarrow> int \<Rightarrow> (auth_event \<times> instant) list \<times> int" where
  "audit_events ext d f l i =
     (limit_offset l i (rev (sort_key snd (filter (audit_matches ext f) (auth_events d)))),
      int (rows_affected (audit_matches ext f) (auth_events d)))"


section \<open>The operations\<close>

record admin_user =
  adm_id :: uuid
  adm_email :: string
  adm_status :: user_status
  adm_email_verified :: bool
  adm_roles :: "string list"
  adm_failed_login_attempts :: int
  adm_locked_until :: "instant option"
  adm_last_login_at :: "instant option"
  adm_created_at :: instant

definition admin_user_new :: "user_record \<Rightarrow> string list \<Rightarrow> admin_user" where
  "admin_user_new u rs =
     \<lparr>adm_id = usr_id u, adm_email = usr_email u, adm_status = usr_status u,
      adm_email_verified = is_email_verified u, adm_roles = rs,
      adm_failed_login_attempts = usr_failed_login_attempts u,
      adm_locked_until = usr_locked_until u, adm_last_login_at = usr_last_login_at u,
      adm_created_at = usr_created_at u\<rparr>"

definition load_account :: "db \<Rightarrow> uuid \<Rightarrow> identity_error + user_record" where
  "load_account d uid = ok_or NotFound (find_user d uid)"

definition account :: "db \<Rightarrow> uuid \<Rightarrow> identity_error + admin_user" where
  "account d uid =
     and_then (load_account d uid) (\<lambda>u. Inr (admin_user_new u (roles_for_user d uid)))"

definition list_accounts ::
  "externals \<Rightarrow> db \<Rightarrow> user_filters \<Rightarrow> int \<Rightarrow> int \<Rightarrow> admin_user list \<times> int" where
  "list_accounts ext d f l i =
     (let us = list_users ext d f l i;
          rs = roles_for_users d (map usr_id us)
      in (map (\<lambda>u. admin_user_new u (case rs (usr_id u) of None \<Rightarrow> [] | Some r \<Rightarrow> r)) us,
          count_users ext d f))"

definition reject_unknown_roles :: "db \<Rightarrow> string list \<Rightarrow> identity_error + unit" where
  "reject_unknown_roles d rs =
     (case find (\<lambda>r. r \<notin> set (role_names d)) rs of
        None \<Rightarrow> Inr ()
      | Some r \<Rightarrow> Inl (UnknownRole r))"

definition ensure_an_admin_remains :: "db \<Rightarrow> uuid \<Rightarrow> identity_error + unit" where
  "ensure_an_admin_remains d target =
     (if active_admin_ids d = [target] then Inl LastAdministrator else Inr ())"

definition set_account_status ::
  "uuid \<Rightarrow> user_status \<Rightarrow> uuid \<Rightarrow> client_info \<Rightarrow> instant \<Rightarrow> db \<Rightarrow> (identity_error + admin_user) \<times> db" where
  "set_account_status target status actor client now d =
     (if target = actor then (Inl SelfTargeted, d)
      else case set_user_status target status now d of
        (False, d1) \<Rightarrow> (Inl NotFound, d1)
      | (True, d1) \<Rightarrow>
          let d2 = (if status = DisabledUser then snd (revoke_all_for_user target now d1) else d1)
          in guard_st (load_account d2 target) d2 (\<lambda>u.
               let d3 = audit_action AccountStatusChanged actor (Some target) (Some (usr_email u))
                          client now d2
               in (account d3 target, d3)))"

definition set_account_roles ::
  "uuid \<Rightarrow> string list \<Rightarrow> uuid \<Rightarrow> client_info \<Rightarrow> instant \<Rightarrow> db \<Rightarrow> (identity_error + admin_user) \<times> db" where
  "set_account_roles target names actor client now d =
     guard_st (reject_unknown_roles d names) d (\<lambda>_.
       let before = remdups (roles_for_user d target);
           after = remdups names
       in guard_st (if ADMIN_ROLE \<in> set before \<and> ADMIN_ROLE \<notin> set after
                    then ensure_an_admin_remains d target else Inr ()) d (\<lambda>_.
          guard_st (load_account d target) d (\<lambda>u.
            (case replace_roles target after d of
               (Inl c, d1) \<Rightarrow> (Inl (Internal c), d1)
             | (Inr _, d1) \<Rightarrow>
                 let log = (\<lambda>kind. audit_action kind actor (Some target) (Some (usr_email u)) client now);
                     granted = filter (\<lambda>r. r \<notin> set before) after;
                     revoked = filter (\<lambda>r. r \<notin> set after) before;
                     d2 = (log RoleGranted ^^ length granted) d1;
                     d3 = (log RoleRevoked ^^ length revoked) d2
                 in (account d3 target, d3)))))"

definition unlock_account ::
  "uuid \<Rightarrow> uuid \<Rightarrow> client_info \<Rightarrow> instant \<Rightarrow> db \<Rightarrow> (identity_error + admin_user) \<times> db" where
  "unlock_account target actor client now d =
     guard_st (load_account d target) d (\<lambda>u.
       let d1 = reset_login_failures target now d;
           d2 = audit_action AccountUnlocked actor (Some target) (Some (usr_email u)) client now d1
       in (account d2 target, d2))"

definition revoke_account_sessions ::
  "uuid \<Rightarrow> uuid \<Rightarrow> client_info \<Rightarrow> instant \<Rightarrow> db \<Rightarrow> (identity_error + nat) \<times> db" where
  "revoke_account_sessions target actor client now d =
     guard_st (load_account d target) d (\<lambda>u.
       (case revoke_all_for_user target now d of
          (n, d1) \<Rightarrow>
            (Inr n, audit_action SessionsRevoked actor (Some target) (Some (usr_email u)) client now d1)))"

definition delete_account ::
  "externals \<Rightarrow> uuid \<Rightarrow> string \<Rightarrow> uuid \<Rightarrow> client_info \<Rightarrow> instant \<Rightarrow> db \<Rightarrow> (identity_error + unit) \<times> db" where
  "delete_account ext target confirm_email actor client now d =
     (if target = actor then (Inl SelfTargeted, d)
      else guard_st (load_account d target) d (\<lambda>u.
        if normalize_email ext confirm_email \<noteq> usr_email u then (Inl ConfirmationMismatch, d)
        else case delete_user target d of
          (Inl e, d1) \<Rightarrow> (Inl e, d1)
        | (Inr False, d1) \<Rightarrow> (Inl NotFound, d1)
        | (Inr True, d1) \<Rightarrow>
            (Inr (), audit_action AccountDeleted actor None (Some (usr_email u)) client now d1)))"

text \<open>The bootstrap command, which acts for nobody.\<close>

definition grant_role_by_email ::
  "externals \<Rightarrow> string \<Rightarrow> string \<Rightarrow> instant \<Rightarrow> db \<Rightarrow> (identity_error + uuid) \<times> db" where
  "grant_role_by_email ext email role now d =
     guard_st (reject_unknown_roles d [role]) d (\<lambda>_.
       guard_st (ok_or NotFound (find_user_by_email ext d (normalize_email ext email))) d (\<lambda>u.
         let held = roles_for_user d (usr_id u);
             names = (if role \<in> set held then held else held @ [role])
         in (case replace_roles (usr_id u) names d of
               (Inl c, d1) \<Rightarrow> (Inl (Internal c), d1)
             | (Inr _, d1) \<Rightarrow>
                 (Inr (usr_id u),
                  record_event
                    \<lparr>ev_user_id = Some (usr_id u), ev_actor_user_id = None, ev_organization_id = None,
                     ev_target_id = None, ev_email = Some (usr_email u),
                     ev_event_type = RoleGranted, ev_ip_address = None, ev_user_agent = None\<rparr> now d1))))"

end
