(* ===== verification/Auth.thy ===== *)
theory Auth
  imports Administration
begin

text \<open>
  Signing in: \<open>src/src/modules/auth/\<close>, with \<open>token.rs\<close> (access tokens), \<open>service.rs\<close>, \<open>extractor.rs\<close>,
  \<open>cookies.rs\<close>, \<open>error.rs\<close>, \<open>handler.rs\<close> and the guard of \<open>admin.rs\<close>. The crate \<open>jsonwebtoken\<close> is the
  record \<open>jwt_lib\<close>: its \<open>encode\<close> under a secret and the default header (HS256), and its \<open>decode\<close>
  under a \<open>Validation\<close>, which reads the clock.
\<close>

datatype auth_error = Identity identity_error | InvalidToken | Internal cause

fun auth_app_error :: "auth_error \<Rightarrow> identity_error app_error" where
  "auth_app_error (Identity e) = identity_app_error e"
| "auth_app_error InvalidToken = app_error.Unauthorized"
| "auth_app_error (Internal c) = app_error.Internal c"


section \<open>Access tokens\<close>

definition TOKEN_TYPE :: string where "TOKEN_TYPE = ''access''"
definition LEEWAY_SECONDS :: int where "LEEWAY_SECONDS = 5"

record access_claims =
  clm_sub :: string
  clm_sid :: string
  clm_jti :: string
  clm_iss :: string
  clm_aud :: string
  clm_typ :: string
  clm_iat :: int
  clm_nbf :: int
  clm_exp :: int

record jwt_validation =
  jv_issuer :: "string list"
  jv_audience :: "string list"
  jv_leeway :: int
  jv_validate_exp :: bool
  jv_validate_nbf :: bool
  jv_required_claims :: "string list"

record jwt_lib =
  jwt_encode :: "string \<Rightarrow> access_claims \<Rightarrow> string option"
  jwt_decode :: "jwt_validation \<Rightarrow> string \<Rightarrow> instant \<Rightarrow> string \<Rightarrow> access_claims option"

definition access_validation :: "auth_config \<Rightarrow> jwt_validation" where
  "access_validation cfg =
     \<lparr>jv_issuer = [jwt_issuer cfg], jv_audience = [jwt_audience cfg], jv_leeway = LEEWAY_SECONDS,
      jv_validate_exp = True, jv_validate_nbf = True,
      jv_required_claims = [''exp'', ''nbf'', ''iss'', ''aud'', ''sub'']\<rparr>"

definition access_ttl :: "auth_config \<Rightarrow> int" where
  "access_ttl cfg = min (uint (access_token_ttl_seconds cfg)) I64_MAX"

definition issue_access_token ::
  "externals \<Rightarrow> jwt_lib \<Rightarrow> auth_config \<Rightarrow> uuid \<Rightarrow> uuid \<Rightarrow> uuid \<Rightarrow> instant \<Rightarrow> auth_error + string \<times> int" where
  "issue_access_token ext jwt cfg jti uid sid now =
     (let claims = \<lparr>clm_sub = uuid_text ext uid, clm_sid = uuid_text ext sid,
                    clm_jti = uuid_text ext jti, clm_iss = jwt_issuer cfg, clm_aud = jwt_audience cfg,
                    clm_typ = TOKEN_TYPE, clm_iat = now, clm_nbf = now,
                    clm_exp = min (now + access_ttl cfg) I64_MAX\<rparr>
      in and_then (ok_or (Internal (OtherCause ''jwt'')) (jwt_encode jwt (jwt_secret cfg) claims))
           (\<lambda>token. Inr (token, access_ttl cfg)))"

definition verify_access_token ::
  "jwt_lib \<Rightarrow> auth_config \<Rightarrow> instant \<Rightarrow> string \<Rightarrow> auth_error + access_claims" where
  "verify_access_token jwt cfg now token =
     and_then (ok_or InvalidToken (jwt_decode jwt (access_validation cfg) (jwt_secret cfg) now token))
       (\<lambda>claims. if clm_typ claims \<noteq> TOKEN_TYPE then Inl InvalidToken else Inr claims)"


section \<open>The service\<close>

record issued_session =
  iss_user :: public_user
  iss_access_token :: string
  iss_refresh_token :: string
  iss_expires_in :: int

record authenticated_user =
  au_user :: public_user
  au_session :: uuid

definition session_user :: "db \<Rightarrow> uuid \<Rightarrow> auth_error + public_user" where
  "session_user d uid =
     and_then (ok_or InvalidToken (find_user d uid)) (\<lambda>u.
       if usr_status u = DisabledUser then Inl InvalidToken else Inr (public_user_of d u))"

text \<open>What one request draws: identifiers and the refresh token it may hand out.\<close>

record draws =
  dr_session :: uuid
  dr_token :: uuid
  dr_jti :: uuid
  dr_secret :: string
  dr_salt :: string

definition start_session ::
  "externals \<Rightarrow> jwt_lib \<Rightarrow> auth_config \<Rightarrow> draws \<Rightarrow> uuid \<Rightarrow> client_info \<Rightarrow> instant \<Rightarrow> db \<Rightarrow>
   (auth_error + string \<times> int) \<times> db" where
  "start_session ext jwt cfg x uid client now d =
     guard_st (map_err Identity (deadline now (refresh_token_ttl_seconds cfg))) d (\<lambda>expires.
       (case create_session (dr_session x) (dr_token x) uid (sha256 ext (dr_secret x))
               (user_agent client) (ip_address client) expires expires now d of
          (Inl c, d1) \<Rightarrow> (Inl (Internal c), d1)
        | (Inr sid, d1) \<Rightarrow> (issue_access_token ext jwt cfg (dr_jti x) uid sid now, d1)))"

definition login ::
  "externals \<Rightarrow> jwt_lib \<Rightarrow> auth_config \<Rightarrow> draws \<Rightarrow> string \<Rightarrow> string \<Rightarrow> client_info \<Rightarrow> instant \<Rightarrow> db \<Rightarrow>
   (auth_error + issued_session) \<times> db" where
  "login ext jwt cfg x email password client now d =
     (case verify_credentials ext cfg (dr_salt x) email password client now d of
        (Inl e, d1) \<Rightarrow> (Inl (Identity e), d1)
      | (Inr u, d1) \<Rightarrow>
          (case start_session ext jwt cfg x (usr_id u) client now d1 of
             (Inl e, d2) \<Rightarrow> (Inl e, d2)
           | (Inr (access, seconds), d2) \<Rightarrow>
               (Inr \<lparr>iss_user = public_user_of d2 u, iss_access_token = access,
                     iss_refresh_token = dr_secret x, iss_expires_in = seconds\<rparr>, d2)))"

definition refresh ::
  "externals \<Rightarrow> jwt_lib \<Rightarrow> auth_config \<Rightarrow> draws \<Rightarrow> string \<Rightarrow> client_info \<Rightarrow> instant \<Rightarrow> db \<Rightarrow>
   (auth_error + issued_session) \<times> db" where
  "refresh ext jwt cfg x token client now d =
     guard_st (map_err Identity (deadline now (refresh_token_ttl_seconds cfg))) d (\<lambda>expires.
       (case refresh_session (sha256 ext token) (sha256 ext (dr_secret x)) expires (dr_token x) now d of
          (Inl c, d1) \<Rightarrow> (Inl (Internal c), d1)
        | (Inr (Rotated uid sid), d1) \<Rightarrow>
            guard_st (session_user d1 uid) d1 (\<lambda>u.
              guard_st (issue_access_token ext jwt cfg (dr_jti x) uid sid now) d1 (\<lambda>(access, seconds).
                (Inr \<lparr>iss_user = u, iss_access_token = access, iss_refresh_token = dr_secret x,
                      iss_expires_in = seconds\<rparr>,
                 audit_self TokenRefreshed (Some uid) None client now d1)))
        | (Inr (Reused uid sid), d1) \<Rightarrow>
            (Inl InvalidToken,
             audit_self TokenReuseDetected (Some uid) None client now (revoke_session sid now d1))
        | (Inr Invalid, d1) \<Rightarrow> (Inl InvalidToken, d1)))"

definition logout :: "uuid \<Rightarrow> uuid \<Rightarrow> client_info \<Rightarrow> instant \<Rightarrow> db \<Rightarrow> db" where
  "logout sid uid client now d =
     audit_self Logout (Some uid) None client now (revoke_session sid now d)"

definition logout_all :: "uuid \<Rightarrow> client_info \<Rightarrow> instant \<Rightarrow> db \<Rightarrow> db" where
  "logout_all uid client now d =
     audit_self Logout (Some uid) None client now (snd (revoke_all_for_user uid now d))"

definition authenticate ::
  "externals \<Rightarrow> jwt_lib \<Rightarrow> auth_config \<Rightarrow> instant \<Rightarrow> string \<Rightarrow> db \<Rightarrow> auth_error + authenticated_user" where
  "authenticate ext jwt cfg now token d =
     and_then (verify_access_token jwt cfg now token) (\<lambda>claims.
     and_then (ok_or InvalidToken (uuid_parse ext (clm_sub claims))) (\<lambda>uid.
     and_then (ok_or InvalidToken (uuid_parse ext (clm_sid claims))) (\<lambda>sid.
       if \<not> session_is_active d sid uid now then Inl InvalidToken
       else and_then (session_user d uid) (\<lambda>u. Inr \<lparr>au_user = u, au_session = sid\<rparr>))))"


section \<open>Who is asking\<close>

definition has_role :: "authenticated_user \<Rightarrow> string \<Rightarrow> bool" where
  "has_role a role \<longleftrightarrow> role \<in> set (pub_roles (au_user a))"

definition require_role :: "authenticated_user \<Rightarrow> string \<Rightarrow> identity_error app_error + unit" where
  "require_role a role = (if has_role a role then Inr () else Inl app_error.Forbidden)"

definition bearer_token :: "string option \<Rightarrow> string option" where
  "bearer_token header =
     Option.bind (Option.bind header header_to_str) (\<lambda>value.
     Option.bind (split_once '' '' value) (\<lambda>(scheme, token).
       if eq_ignore_ascii_case scheme ''bearer'' \<and> trim token \<noteq> [] then Some (trim token) else None))"

text \<open>The extractor: the header first, then the dashboard's cookie.\<close>

definition authenticated_request ::
  "externals \<Rightarrow> jwt_lib \<Rightarrow> auth_config \<Rightarrow> instant \<Rightarrow> string option \<Rightarrow> string option \<Rightarrow> db \<Rightarrow>
   identity_error app_error + authenticated_user" where
  "authenticated_request ext jwt cfg now header cookie d =
     and_then (case bearer_token header of
                 Some token \<Rightarrow> Inr token
               | None \<Rightarrow> ok_or app_error.Unauthorized cookie) (\<lambda>token.
       map_err auth_app_error (authenticate ext jwt cfg now token d))"


section \<open>Cookies\<close>

definition ACCESS_TOKEN_COOKIE :: string where "ACCESS_TOKEN_COOKIE = ''access_token''"
definition REFRESH_TOKEN_COOKIE :: string where "REFRESH_TOKEN_COOKIE = ''refresh_token''"
definition COOKIE_PATH :: string where "COOKIE_PATH = ''/api/v1''"

datatype same_site = Strict | Lax | NoRestriction

record cookie =
  ck_name :: string
  ck_value :: string
  ck_http_only :: bool
  ck_secure :: bool
  ck_same_site :: same_site
  ck_path :: string
  ck_max_age :: int

definition credential_cookie :: "string \<Rightarrow> string \<Rightarrow> 64 word \<Rightarrow> bool \<Rightarrow> cookie" where
  "credential_cookie name value ttl secure =
     \<lparr>ck_name = name, ck_value = value, ck_http_only = True, ck_secure = secure, ck_same_site = Lax,
      ck_path = COOKIE_PATH, ck_max_age = min (uint ttl) I64_MAX\<rparr>"

definition access_cookie :: "string \<Rightarrow> 64 word \<Rightarrow> bool \<Rightarrow> cookie" where
  "access_cookie = credential_cookie ACCESS_TOKEN_COOKIE"

definition refresh_cookie :: "string \<Rightarrow> 64 word \<Rightarrow> bool \<Rightarrow> cookie" where
  "refresh_cookie = credential_cookie REFRESH_TOKEN_COOKIE"

definition removal_cookies :: "bool \<Rightarrow> cookie list" where
  "removal_cookies secure =
     [credential_cookie ACCESS_TOKEN_COOKIE '''' 0 secure,
      credential_cookie REFRESH_TOKEN_COOKIE '''' 0 secure]"

end
