(* ===== verification/AuthHandlers.thy ===== *)
theory AuthHandlers
  imports Auth
begin

text \<open>
  The endpoints of accounts and sessions: \<open>src/src/modules/auth/handler.rs\<close>, \<open>auth/admin.rs\<close> and
  \<open>identity/handler.rs\<close>, with the checks their request types derive (\<open>identity/dto.rs\<close>,
  \<open>auth/dto.rs\<close>). An error is the \<open>AppError\<close> the endpoint answers with; \<open>Inl ()\<close> is the message the
  crate \<open>validator\<close> composes; an answer that is only a fixed sentence is \<open>()\<close>. The caller of an authenticated endpoint is the argument \<open>a\<close>, which the
  extractor \<open>authenticated_request\<close> produced before the handler runs.
\<close>

type_synonym 'r reply = "(unit + identity_error) app_error + 'r"

definition invalid_request :: "'r reply" where
  "invalid_request = Inl (app_error.Validation (Inl ()))"

definition auth_reply :: "auth_error + 'r \<Rightarrow> 'r reply" where
  "auth_reply = map_err (\<lambda>e. map_app_error Inr (auth_app_error e))"

definition identity_reply :: "identity_error + 'r \<Rightarrow> 'r reply" where
  "identity_reply = map_err (\<lambda>e. map_app_error Inr (identity_app_error e))"

definition chars_between :: "nat \<Rightarrow> nat \<Rightarrow> string \<Rightarrow> bool" where
  "chars_between lo hi s \<longleftrightarrow> lo \<le> char_count s \<and> char_count s \<le> hi"

definition email_field_valid :: "externals \<Rightarrow> string \<Rightarrow> bool" where
  "email_field_valid ext email \<longleftrightarrow> validate_email ext email \<and> char_count email \<le> 320"

definition register_request_valid :: "externals \<Rightarrow> string \<Rightarrow> string \<Rightarrow> bool" where
  "register_request_valid ext email password \<longleftrightarrow>
     email_field_valid ext email \<and> chars_between 12 128 password"

definition login_request_valid :: "externals \<Rightarrow> string \<Rightarrow> string \<Rightarrow> bool" where
  "login_request_valid ext email password \<longleftrightarrow>
     email_field_valid ext email \<and> chars_between 1 128 password"

definition reset_request_valid :: "string \<Rightarrow> string \<Rightarrow> bool" where
  "reset_request_valid token password \<longleftrightarrow> chars_between 1 512 token \<and> chars_between 12 128 password"

definition change_request_valid :: "string \<Rightarrow> string \<Rightarrow> bool" where
  "change_request_valid current new \<longleftrightarrow> chars_between 1 128 current \<and> chars_between 12 128 new"


section \<open>Accounts\<close>

text \<open>The address is normalized while the request is deserialized, before it is checked.\<close>

definition register_handler ::
  "externals \<Rightarrow> auth_config \<Rightarrow> (nat \<Rightarrow> bool) \<Rightarrow> uuid \<Rightarrow> string \<Rightarrow> string \<Rightarrow> uuid \<Rightarrow> string \<Rightarrow> string \<Rightarrow>
   client_info \<Rightarrow> instant \<Rightarrow> db \<times> email_queue \<Rightarrow> public_user reply \<times> db \<times> email_queue" where
  "register_handler ext cfg up uid salt token tid email password client now s =
     (let email = normalize_email ext email
      in if \<not> register_request_valid ext email password then (invalid_request, s)
         else case register_account ext cfg up uid salt token tid email password client now s of
           (r, s') \<Rightarrow> (identity_reply (and_then r (\<lambda>(u, _). Inr u)), s'))"

definition verify_email_handler ::
  "externals \<Rightarrow> string \<Rightarrow> client_info \<Rightarrow> instant \<Rightarrow> db \<Rightarrow> unit reply \<times> db" where
  "verify_email_handler ext token client now d =
     (if \<not> chars_between 1 512 token then (invalid_request, d)
      else case verify_email ext token client now d of (r, d') \<Rightarrow> (identity_reply r, d'))"

definition resend_verification_handler ::
  "externals \<Rightarrow> auth_config \<Rightarrow> (nat \<Rightarrow> bool) \<Rightarrow> string \<Rightarrow> uuid \<Rightarrow> string \<Rightarrow> client_info \<Rightarrow> instant \<Rightarrow>
   db \<times> email_queue \<Rightarrow> unit reply \<times> db \<times> email_queue" where
  "resend_verification_handler ext cfg up token tid email client now s =
     (let email = normalize_email ext email
      in if \<not> email_field_valid ext email then (invalid_request, s)
         else case resend_verification ext cfg up token tid email client now s of
           (r, s') \<Rightarrow> (identity_reply r, s'))"

text \<open>The answer does not tell whether a link was sent.\<close>

definition forgot_password_handler ::
  "externals \<Rightarrow> auth_config \<Rightarrow> (nat \<Rightarrow> bool) \<Rightarrow> string \<Rightarrow> uuid \<Rightarrow> string \<Rightarrow> client_info \<Rightarrow> instant \<Rightarrow>
   db \<times> email_queue \<Rightarrow> unit reply \<times> db \<times> email_queue" where
  "forgot_password_handler ext cfg up token tid email client now s =
     (let email = normalize_email ext email
      in if \<not> email_field_valid ext email then (invalid_request, s)
         else case request_password_reset ext cfg up token tid email client now s of
           (r, s') \<Rightarrow> (identity_reply (and_then r (\<lambda>_. Inr ())), s'))"

definition reset_password_handler ::
  "externals \<Rightarrow> auth_config \<Rightarrow> string \<Rightarrow> string \<Rightarrow> string \<Rightarrow> client_info \<Rightarrow> instant \<Rightarrow> db \<Rightarrow> unit reply \<times> db"
where
  "reset_password_handler ext cfg salt token password client now d =
     (if \<not> reset_request_valid token password then (invalid_request, d)
      else case reset_password ext cfg salt token password client now d of
        (r, d') \<Rightarrow> (identity_reply r, d'))"


section \<open>Sessions\<close>

text \<open>Tokens in the body for programs, in cookies for browsers.\<close>

definition BEARER :: string where "BEARER = ''Bearer''"

datatype session_reply =
    AuthResponse issued_session string
  | DashboardAuthResponse public_user int "cookie list"

definition session_cookies :: "auth_config \<Rightarrow> bool \<Rightarrow> issued_session \<Rightarrow> session_reply" where
  "session_cookies cfg secure s =
     DashboardAuthResponse (iss_user s) (iss_expires_in s)
       [access_cookie (iss_access_token s) (access_token_ttl_seconds cfg) secure,
        refresh_cookie (iss_refresh_token s) (refresh_token_ttl_seconds cfg) secure]"

definition login_handler ::
  "externals \<Rightarrow> jwt_lib \<Rightarrow> auth_config \<Rightarrow> draws \<Rightarrow> string \<Rightarrow> string \<Rightarrow> client_info \<Rightarrow> instant \<Rightarrow> db \<Rightarrow>
   session_reply reply \<times> db" where
  "login_handler ext jwt cfg x email password client now d =
     (let email = normalize_email ext email
      in if \<not> login_request_valid ext email password then (invalid_request, d)
         else case login ext jwt cfg x email password client now d of
           (r, d') \<Rightarrow> (auth_reply (and_then r (\<lambda>s. Inr (AuthResponse s BEARER))), d'))"

definition dashboard_login_handler ::
  "externals \<Rightarrow> jwt_lib \<Rightarrow> auth_config \<Rightarrow> bool \<Rightarrow> draws \<Rightarrow> string \<Rightarrow> string \<Rightarrow> client_info \<Rightarrow> instant \<Rightarrow>
   db \<Rightarrow> session_reply reply \<times> db" where
  "dashboard_login_handler ext jwt cfg secure x email password client now d =
     (let email = normalize_email ext email
      in if \<not> login_request_valid ext email password then (invalid_request, d)
         else case login ext jwt cfg x email password client now d of
           (r, d') \<Rightarrow> (auth_reply (and_then r (\<lambda>s. Inr (session_cookies cfg secure s))), d'))"

definition refresh_handler ::
  "externals \<Rightarrow> jwt_lib \<Rightarrow> auth_config \<Rightarrow> bool \<Rightarrow> draws \<Rightarrow> string option \<Rightarrow> string option \<Rightarrow>
   client_info \<Rightarrow> instant \<Rightarrow> db \<Rightarrow> session_reply reply \<times> db" where
  "refresh_handler ext jwt cfg secure x body cookie client now d =
     (if \<not> optional (chars_between 1 512) body then (invalid_request, d)
      else guard_st (case body of
                       Some token \<Rightarrow> Inr (token, False)
                     | None \<Rightarrow> and_then (ok_or app_error.Unauthorized cookie) (\<lambda>t. Inr (t, True))) d
        (\<lambda>(token, from_cookie).
          (case refresh ext jwt cfg x token client now d of
             (r, d') \<Rightarrow>
               (auth_reply (and_then r (\<lambda>s.
                  Inr (if from_cookie then session_cookies cfg secure s else AuthResponse s BEARER))), d'))))"

definition logout_handler ::
  "authenticated_user \<Rightarrow> bool \<Rightarrow> client_info \<Rightarrow> instant \<Rightarrow> db \<Rightarrow> cookie list \<times> db" where
  "logout_handler a secure client now d =
     (removal_cookies secure, logout (au_session a) (pub_id (au_user a)) client now d)"

definition logout_all_handler ::
  "authenticated_user \<Rightarrow> bool \<Rightarrow> client_info \<Rightarrow> instant \<Rightarrow> db \<Rightarrow> cookie list \<times> db" where
  "logout_all_handler a secure client now d =
     (removal_cookies secure, logout_all (pub_id (au_user a)) client now d)"

definition change_password_handler ::
  "externals \<Rightarrow> auth_config \<Rightarrow> string \<Rightarrow> authenticated_user \<Rightarrow> string \<Rightarrow> string \<Rightarrow> client_info \<Rightarrow>
   instant \<Rightarrow> db \<Rightarrow> unit reply \<times> db" where
  "change_password_handler ext cfg salt a current new client now d =
     (if \<not> change_request_valid current new then (invalid_request, d)
      else guard_st (ok_or app_error.Unauthorized (find_user d (pub_id (au_user a)))) d (\<lambda>u.
        (case change_password ext cfg salt u current new (au_session a) client now d of
           (r, d') \<Rightarrow> (identity_reply r, d'))))"


section \<open>Administration\<close>

text \<open>
  \<open>AccountStatusUpdate\<close> has no \<open>pending\<close>: an administrator enables or disables. Every endpoint starts
  with \<open>require_role\<close>.
\<close>

datatype account_status_update = MakeActive | MakeDisabled

fun user_status_of :: "account_status_update \<Rightarrow> user_status" where
  "user_status_of MakeActive = ActiveUser"
| "user_status_of MakeDisabled = DisabledUser"

definition admin_only ::
  "authenticated_user \<Rightarrow> db \<Rightarrow> (db \<Rightarrow> (identity_error + 'r) \<times> db) \<Rightarrow> 'r reply \<times> db" where
  "admin_only a d f =
     guard_st (map_err (map_app_error Inr) (require_role a ADMIN_ROLE)) d (\<lambda>_.
       (case f d of (r, d') \<Rightarrow> (identity_reply r, d')))"

definition list_users_handler ::
  "externals \<Rightarrow> authenticated_user \<Rightarrow> string option \<Rightarrow> user_status option \<Rightarrow> string option \<Rightarrow>
   32 word option \<Rightarrow> 32 word option \<Rightarrow> db \<Rightarrow> (admin_user list \<times> int) reply \<times> db" where
  "list_users_handler ext a search status role limit offset d =
     admin_only a d (\<lambda>d.
       (case page_bounds limit offset of
          (l, i) \<Rightarrow> (Inr (list_accounts ext d (user_filters_from_query search status role) l i), d)))"

definition get_user_handler :: "authenticated_user \<Rightarrow> uuid \<Rightarrow> db \<Rightarrow> admin_user reply \<times> db" where
  "get_user_handler a target d = admin_only a d (\<lambda>d. (account d target, d))"

definition set_user_status_handler ::
  "authenticated_user \<Rightarrow> uuid \<Rightarrow> account_status_update \<Rightarrow> client_info \<Rightarrow> instant \<Rightarrow> db \<Rightarrow>
   admin_user reply \<times> db" where
  "set_user_status_handler a target update client now d =
     admin_only a d (set_account_status target (user_status_of update) (pub_id (au_user a)) client now)"

definition set_user_roles_handler ::
  "authenticated_user \<Rightarrow> uuid \<Rightarrow> string list \<Rightarrow> client_info \<Rightarrow> instant \<Rightarrow> db \<Rightarrow> admin_user reply \<times> db" where
  "set_user_roles_handler a target names client now d =
     admin_only a d (set_account_roles target names (pub_id (au_user a)) client now)"

definition unlock_user_handler ::
  "authenticated_user \<Rightarrow> uuid \<Rightarrow> client_info \<Rightarrow> instant \<Rightarrow> db \<Rightarrow> admin_user reply \<times> db" where
  "unlock_user_handler a target client now d =
     admin_only a d (unlock_account target (pub_id (au_user a)) client now)"

definition revoke_user_sessions_handler ::
  "authenticated_user \<Rightarrow> uuid \<Rightarrow> client_info \<Rightarrow> instant \<Rightarrow> db \<Rightarrow> nat reply \<times> db" where
  "revoke_user_sessions_handler a target client now d =
     admin_only a d (revoke_account_sessions target (pub_id (au_user a)) client now)"

definition delete_user_handler ::
  "externals \<Rightarrow> authenticated_user \<Rightarrow> uuid \<Rightarrow> string \<Rightarrow> client_info \<Rightarrow> instant \<Rightarrow> db \<Rightarrow> unit reply \<times> db" where
  "delete_user_handler ext a target confirm client now d =
     admin_only a d (delete_account ext target confirm (pub_id (au_user a)) client now)"

definition list_audit_events_handler ::
  "externals \<Rightarrow> authenticated_user \<Rightarrow> uuid option \<Rightarrow> uuid option \<Rightarrow> string option \<Rightarrow>
   auth_event_type option \<Rightarrow> instant option \<Rightarrow> instant option \<Rightarrow> 32 word option \<Rightarrow> 32 word option \<Rightarrow>
   db \<Rightarrow> ((auth_event \<times> instant) list \<times> int) reply \<times> db" where
  "list_audit_events_handler ext a uid oid email kind since until limit offset d =
     admin_only a d (\<lambda>d.
       (case page_bounds limit offset of
          (l, i) \<Rightarrow>
            (Inr (audit_events ext d (audit_filters_from_query ext uid oid email kind since until) l i), d)))"

end
