(* ===== verification/Samples.thy ===== *)
theory Samples
  imports AuthHandlers
begin

text \<open>
  A small database, configuration and JWT library to evaluate the definitions of accounts and
  sessions on. None of them stands for a real deployment; they show that the hypotheses of the
  theorems can hold together.
\<close>

definition sample_user :: "uuid \<Rightarrow> string \<Rightarrow> instant option \<Rightarrow> user_record" where
  "sample_user uid email verified =
     \<lparr>usr_id = uid, usr_email = email, usr_password_hash = ''correct horse'', usr_status = ActiveUser,
      usr_email_verified_at = verified, usr_last_login_at = None, usr_failed_login_attempts = 0,
      usr_locked_until = None, usr_password_changed_at = 0, usr_created_at = 0, usr_updated_at = 0\<rparr>"

definition sample_client :: client_info where
  "sample_client = \<lparr>ip_address = None, user_agent = None\<rparr>"

definition sample_config :: auth_config where
  "sample_config =
     \<lparr>jwt_secret = ''secret'', jwt_issuer = ''iss'', jwt_audience = ''aud'',
      access_token_ttl_seconds = 900, refresh_token_ttl_seconds = 3600,
      email_verification_ttl_seconds = 600, password_reset_ttl_seconds = 600,
      require_email_verification = True, max_failed_login_attempts = 3,
      account_lock_duration_seconds = 60, password_pepper = None, app_base_url = ''https://x/''\<rparr>"

text \<open>One account with one session and one refresh token, under the hash of \<open>a\<close>.\<close>

definition sample_token :: session_token_row where
  "sample_token = token_row_new 20 10 ''h:a'' 1000 0"

definition sample_session :: session_row where
  "sample_session = session_row_new 10 1 None None 1000 0"

definition session_db :: db where
  "session_db = empty_db\<lparr>users := [sample_user 1 ''a@example.com'' (Some 0)],
     user_roles := [(1, ''user'')], sessions := [sample_session], session_tokens := [sample_token]\<rparr>"

text \<open>The token has been exchanged.\<close>

definition replay_db :: db where
  "replay_db = session_db\<lparr>session_tokens :=
     [sample_token\<lparr>stk_used_at := Some 3, stk_replaced_by := Some 21\<rparr>,
      token_row_new 21 10 ''h:b'' 900 3]\<rparr>"

text \<open>There is a second session, which the token of \<open>sample_jwt\<close> names.\<close>

definition signed_in_db :: db where
  "signed_in_db = session_db\<lparr>sessions := [sample_session, session_row_new 11 1 None None 1000 0]\<rparr>"

text \<open>The account with a link to reset its password, under the hash of \<open>r\<close>.\<close>

definition link_db :: db where
  "link_db = session_db\<lparr>one_time_tokens := [one_time_token_new 40 1 PasswordReset ''h:r'' 500 0]\<rparr>"

definition sample_draws :: draws where
  "sample_draws = \<lparr>dr_session = 11, dr_token = 22, dr_jti = 33, dr_secret = ''s'', dr_salt = []\<rparr>"

text \<open>A library that knows a single token.\<close>

definition sample_claims :: access_claims where
  "sample_claims =
     \<lparr>clm_sub = ''1'', clm_sid = ''11'', clm_jti = ''33'', clm_iss = ''iss'', clm_aud = ''aud'',
      clm_typ = ''access'', clm_iat = 5, clm_nbf = 5, clm_exp = 905\<rparr>"

definition claims_in_force :: "jwt_validation \<Rightarrow> access_claims \<Rightarrow> instant \<Rightarrow> bool" where
  "claims_in_force v c now \<longleftrightarrow>
     List.member (jv_issuer v) (clm_iss c) \<and> List.member (jv_audience v) (clm_aud c) \<and>
     clm_nbf c \<le> now + jv_leeway v \<and> now - jv_leeway v \<le> clm_exp c"

definition sample_jwt :: jwt_lib where
  "sample_jwt =
     \<lparr>jwt_encode = (\<lambda>k c. if c = sample_claims then Some ''jwt'' else None),
      jwt_decode = (\<lambda>v k now token. if token = ''jwt'' \<and> claims_in_force v sample_claims now
                                    then Some sample_claims else None)\<rparr>"

end
