(* ===== verification/SingleUse.thy ===== *)
theory SingleUse
  imports Main
begin

text \<open>
  A secret that works once: what the rotation of refresh tokens and the links sent by mail have in
  common, as the locale \<open>single_use\<close>. An operation either wins (it is the use of the secret) or does
  not; once the secret is spent it stays spent, and a spent secret wins nothing. It is interpreted on
  both tables of secrets.
\<close>

primrec run_ops :: "('op \<Rightarrow> 's \<Rightarrow> 's) \<Rightarrow> 'op list \<Rightarrow> 's \<Rightarrow> 's" where
  "run_ops step [] s = s"
| "run_ops step (op # ops) s = run_ops step ops (step op s)"

primrec count_wins :: "('op \<Rightarrow> 's \<Rightarrow> 's) \<Rightarrow> ('op \<Rightarrow> 's \<Rightarrow> bool) \<Rightarrow> 'op list \<Rightarrow> 's \<Rightarrow> nat" where
  "count_wins step wins [] s = 0"
| "count_wins step wins (op # ops) s =
     (if wins op s then 1 else 0) + count_wins step wins ops (step op s)"

lemma run_ops_append [simp]: "run_ops step (xs @ ys) s = run_ops step ys (run_ops step xs s)"
  by (induction xs arbitrary: s) simp_all

lemma run_ops_invariant:
  assumes "P s" and "\<And>op s. op \<in> set ops \<Longrightarrow> P s \<Longrightarrow> P (step op s)"
  shows "P (run_ops step ops s)"
  using assms by (induction ops arbitrary: s) auto

locale single_use =
  fixes step :: "'op \<Rightarrow> 's \<Rightarrow> 's"
    and wins :: "'op \<Rightarrow> 's \<Rightarrow> bool"
    and allowed :: "'op \<Rightarrow> bool"
    and sound :: "'s \<Rightarrow> bool"
    and spent :: "'s \<Rightarrow> bool"
  assumes step_sound: "sound s \<Longrightarrow> sound (step op s)"
    and win_spends: "sound s \<Longrightarrow> allowed op \<Longrightarrow> wins op s \<Longrightarrow> spent (step op s)"
    and stays_spent: "sound s \<Longrightarrow> allowed op \<Longrightarrow> spent s \<Longrightarrow> spent (step op s)"
    and spent_wins_nothing: "sound s \<Longrightarrow> spent s \<Longrightarrow> \<not> wins op s"
begin

lemma no_win_after_spent:
  "sound s \<Longrightarrow> spent s \<Longrightarrow> \<forall>op \<in> set ops. allowed op \<Longrightarrow> count_wins step wins ops s = 0"
  by (induction ops arbitrary: s) (auto simp: step_sound stays_spent dest: spent_wins_nothing)

lemma at_most_one_win:
  assumes "sound s" and "\<forall>op \<in> set ops. allowed op"
  shows "count_wins step wins ops s \<le> 1"
  using assms
proof (induction ops arbitrary: s)
  case Nil
  then show ?case by simp
next
  case (Cons op ops)
  show ?case
  proof (cases "wins op s")
    case True
    with Cons.prems have "count_wins step wins ops (step op s) = 0"
      by (intro no_win_after_spent) (auto simp: step_sound win_spends)
    with True show ?thesis by simp
  next
    case False
    with Cons show ?thesis by (auto simp: step_sound)
  qed
qed

end

end
