(* ===== verification/SessionGuarantees.thy ===== *)
theory SessionGuarantees
  imports Samples SingleUse
begin

text \<open>
  What the session tables promise. Every write on them, from whatever service, is one of the
  operations of \<open>session_op\<close>: those of \<open>SessionRepository\<close> and the deletion of an account, whose
  cascade takes its sessions along. A run is any sequence of them, each with its own clock.
\<close>

datatype session_op =
    OpenSession uuid uuid uuid string "string option" "string option" instant instant instant
  | RefreshWith string string instant uuid instant
  | RevokeOne uuid instant
  | RevokeAllOf uuid instant
  | RevokeOthersOf uuid uuid instant
  | DropAccount uuid

fun session_step :: "session_op \<Rightarrow> db \<Rightarrow> db" where
  "session_step (OpenSession sid tid uid hash agent ip se te now) d =
     snd (create_session sid tid uid hash agent ip se te now d)"
| "session_step (RefreshWith presented new_hash ne rid now) d =
     snd (refresh_session presented new_hash ne rid now d)"
| "session_step (RevokeOne sid now) d = revoke_session sid now d"
| "session_step (RevokeAllOf uid now) d = snd (revoke_all_for_user uid now d)"
| "session_step (RevokeOthersOf uid keep now) d = snd (revoke_others uid keep now d)"
| "session_step (DropAccount uid) d = snd (delete_user uid d)"

text \<open>The operation exchanges the token with this hash for a new one.\<close>

fun rotates :: "string \<Rightarrow> session_op \<Rightarrow> db \<Rightarrow> bool" where
  "rotates h (RefreshWith presented new_hash ne rid now) d =
     (presented = h \<and> (case refresh_session presented new_hash ne rid now d of
        (Inr (Rotated _ _), _) \<Rightarrow> True | _ \<Rightarrow> False))"
| "rotates h op d = False"

fun issues_hash :: "string \<Rightarrow> session_op \<Rightarrow> bool" where
  "issues_hash h (OpenSession sid tid uid hash agent ip se te now) = (hash = h)"
| "issues_hash h (RefreshWith presented new_hash ne rid now) = (new_hash = h)"
| "issues_hash h op = False"

fun opens_session :: "uuid \<Rightarrow> session_op \<Rightarrow> bool" where
  "opens_session i (OpenSession sid tid uid hash agent ip se te now) = (sid = i)"
| "opens_session i op = False"

definition session_keys :: "db \<Rightarrow> bool" where
  "session_keys d \<longleftrightarrow>
     distinct (map ses_id (sessions d)) \<and> distinct (map stk_id (session_tokens d)) \<and>
     distinct (map stk_hash (session_tokens d))"

definition token_spent :: "string \<Rightarrow> db \<Rightarrow> bool" where
  "token_spent h d \<longleftrightarrow> (\<forall>t \<in> set (session_tokens d). stk_hash t = h \<longrightarrow> stk_used_at t \<noteq> None)"

lemma delete_user_sessions:
  "\<exists>p. sessions (snd (delete_user uid d)) = filter p (sessions d)"
  "\<exists>p. session_tokens (snd (delete_user uid d)) = filter p (session_tokens d)"
  by (auto simp: delete_user_def drop_users_def Let_def delete_where_def intro: exI [of _ "\<lambda>_. True"])

lemma row_new_sel [simp]:
  "ses_id (session_row_new sid uid agent ip e now) = sid"
  "ses_user (session_row_new sid uid agent ip e now) = uid"
  "ses_revoked_at (session_row_new sid uid agent ip e now) = None"
  "ses_expires_at (session_row_new sid uid agent ip e now) = e"
  "stk_id (token_row_new tid sid hash e now) = tid"
  "stk_session (token_row_new tid sid hash e now) = sid"
  "stk_hash (token_row_new tid sid hash e now) = hash"
  "stk_used_at (token_row_new tid sid hash e now) = None"
  "stk_expires_at (token_row_new tid sid hash e now) = e"
  by (simp_all add: session_row_new_def token_row_new_def)

lemma mark_used_keys [simp]:
  "map stk_id (mark_used tid rid now ts) = map stk_id ts"
  "map stk_hash (mark_used tid rid now ts) = map stk_hash ts"
  by (simp_all add: mark_used_def update_where_def)

lemma mark_used_member:
  "t' \<in> set (mark_used tid rid now ts) \<longleftrightarrow>
   (\<exists>q \<in> set ts. t' = (if stk_id q = tid
      then q\<lparr>stk_used_at := Some now, stk_replaced_by := Some rid\<rparr> else q))"
  unfolding mark_used_def by (rule update_where_member)

text \<open>What a step can do to the two tables.\<close>

lemma session_step_tokens:
  assumes "t' \<in> set (session_tokens (session_step op d))"
  obtains (kept) t where "t \<in> set (session_tokens d)" "stk_id t' = stk_id t" "stk_hash t' = stk_hash t"
      "stk_session t' = stk_session t" "stk_expires_at t' = stk_expires_at t"
      "stk_used_at t \<noteq> None \<longrightarrow> stk_used_at t' \<noteq> None"
    | (fresh) "issues_hash (stk_hash t') op"
proof (cases op)
  case (OpenSession sid tid uid hash agent ip se te now)
  obtain r d' where r: "create_session sid tid uid hash agent ip se te now d = (r, d')" by fastforce
  show ?thesis
  proof (cases r)
    case (Inl c)
    then have "d' = d" using r by (auto dest: create_session_Inl)
    with assms OpenSession r show ?thesis by (intro kept [of t']) auto
  next
    case (Inr v)
    with assms OpenSession r show ?thesis
      by (auto simp: create_session_Inr intro: kept [of t'] fresh)
  qed
next
  case (RefreshWith presented nh ne rid now)
  obtain r d' where r: "refresh_session presented nh ne rid now d = (r, d')" by fastforce
  show ?thesis
  proof (cases "\<exists>u i. r = Inr (Rotated u i)")
    case True
    then obtain u i where "refresh_session presented nh ne rid now d = (Inr (Rotated u i), d')"
      using r by auto
    then show ?thesis
    proof (cases rule: refresh_session_Rotated)
      case (1 t s)
      with assms RefreshWith r have "t' \<in> set (mark_used (stk_id t) rid now (session_tokens d @
             [token_row_new rid (ses_id s) nh (min ne (ses_expires_at s)) now]))" by simp
      then obtain q where "q \<in> set (session_tokens d @
             [token_row_new rid (ses_id s) nh (min ne (ses_expires_at s)) now])"
          and t': "t' = (if stk_id q = stk_id t
                         then q\<lparr>stk_used_at := Some now, stk_replaced_by := Some rid\<rparr> else q)"
        unfolding mark_used_member by blast
      then have q: "q \<in> set (session_tokens d) \<or>
            q = token_row_new rid (ses_id s) nh (min ne (ses_expires_at s)) now" by auto
      from q show ?thesis
      proof
        assume "q \<in> set (session_tokens d)"
        with t' show ?thesis by (intro kept [of q]) auto
      next
        assume "q = token_row_new rid (ses_id s) nh (min ne (ses_expires_at s)) now"
        with t' RefreshWith show ?thesis by (intro fresh) auto
      qed
    qed
  next
    case False
    then have "d' = d" using r refresh_session_unchanged by blast
    with assms RefreshWith r show ?thesis by (intro kept [of t']) auto
  qed
next
  case (DropAccount uid)
  with assms delete_user_sessions(2) [of uid d] show ?thesis by (auto intro: kept [of t'])
qed (use assms in \<open>auto simp: revoke_session_def revoke_all_for_user_def revoke_others_def intro: kept [of t']\<close>)

lemma session_step_sessions:
  assumes "s' \<in> set (sessions (session_step op d))"
  obtains (kept) s where "s \<in> set (sessions d)" "ses_id s' = ses_id s" "ses_user s' = ses_user s"
      "ses_expires_at s' = ses_expires_at s" "ses_revoked_at s \<noteq> None \<longrightarrow> ses_revoked_at s' \<noteq> None"
    | (opened) "opens_session (ses_id s') op"
proof (cases op)
  case (OpenSession sid tid uid hash agent ip se te now)
  obtain r d' where r: "create_session sid tid uid hash agent ip se te now d = (r, d')" by fastforce
  show ?thesis
  proof (cases r)
    case (Inl c)
    then have "d' = d" using r by (auto dest: create_session_Inl)
    with assms OpenSession r show ?thesis by (intro kept [of s']) auto
  next
    case (Inr v)
    with assms OpenSession r show ?thesis
      by (auto simp: create_session_Inr intro: kept [of s'] opened)
  qed
next
  case (RefreshWith presented nh ne rid now)
  obtain r d' where r: "refresh_session presented nh ne rid now d = (r, d')" by fastforce
  show ?thesis
  proof (cases "\<exists>u i. r = Inr (Rotated u i)")
    case True
    then obtain u i where "refresh_session presented nh ne rid now d = (Inr (Rotated u i), d')"
      using r by auto
    then show ?thesis
    proof (cases rule: refresh_session_Rotated)
      case (1 t s)
      with assms RefreshWith r show ?thesis
        by (auto simp: set_update_where split: if_splits intro: kept)
    qed
  next
    case False
    then have "d' = d" using r refresh_session_unchanged by blast
    with assms RefreshWith r show ?thesis by (intro kept [of s']) auto
  qed
next
  case (DropAccount uid)
  with assms delete_user_sessions(1) [of uid d] show ?thesis by (auto intro: kept [of s'])
qed (use assms in \<open>auto simp: revoke_session_def revoke_all_for_user_def revoke_others_def
       revoke_where_sessions split: if_splits intro: kept\<close>)

lemma session_keys_step:
  assumes "session_keys d"
  shows "session_keys (session_step op d)"
proof (cases op)
  case (OpenSession sid tid uid hash agent ip se te now)
  obtain r d' where r: "create_session sid tid uid hash agent ip se te now d = (r, d')" by fastforce
  then have "session_step op d = d'" using OpenSession by simp
  with r assms show ?thesis
    by (cases r) (auto simp: session_keys_def create_session_Inr dest: create_session_Inl)
next
  case (RefreshWith presented nh ne rid now)
  obtain r d' where r: "refresh_session presented nh ne rid now d = (r, d')" by fastforce
  show ?thesis
  proof (cases "\<exists>u i. r = Inr (Rotated u i)")
    case True
    then obtain u i where "refresh_session presented nh ne rid now d = (Inr (Rotated u i), d')"
      using r by auto
    then show ?thesis
    proof (cases rule: refresh_session_Rotated)
      case (1 t s)
      have "map ses_id (update_where (\<lambda>q. ses_id q = ses_id s) (\<lambda>q. q\<lparr>ses_last_used_at := now\<rparr>) (sessions d))
            = map ses_id (sessions d)" by (simp add: update_where_def)
      with 1 RefreshWith r assms show ?thesis by (simp add: session_keys_def del: map_map)
    qed
  next
    case False
    then have "d' = d" using r refresh_session_unchanged by blast
    with assms RefreshWith r show ?thesis by simp
  qed
next
  case (DropAccount uid)
  with assms delete_user_sessions [of uid d] show ?thesis
    by (auto simp: session_keys_def distinct_map_filter)
qed (use assms in \<open>simp_all add: session_keys_def revoke_session_def revoke_all_for_user_def
       revoke_others_def\<close>)

lemma rotates_iff:
  "rotates h op d \<longleftrightarrow> (\<exists>nh ne rid now u i d'. op = RefreshWith h nh ne rid now \<and>
     refresh_session h nh ne rid now d = (Inr (Rotated u i), d'))"
  by (cases op) (auto split: prod.splits sum.splits refresh_outcome.splits)

text \<open>A refresh token is a single-use secret.\<close>

interpretation refresh_tokens: single_use session_step "rotates h" "\<lambda>op. \<not> issues_hash h op"
  session_keys "token_spent h"
proof (unfold_locales, goal_cases)
  case (1 s op)
  then show ?case by (rule session_keys_step)
next
  case (2 s op)
  then obtain nh ne rid now u i d' where op: "op = RefreshWith h nh ne rid now"
      and r: "refresh_session h nh ne rid now s = (Inr (Rotated u i), d')"
    by (auto simp: rotates_iff)
  from r show ?case
  proof (cases rule: refresh_session_Rotated)
    case (1 t ss)
    have t: "t \<in> set (session_tokens s)" "stk_hash t = h" using 1(1) by (auto dest: token_lookup_Some)
    have "nh \<noteq> h" using 2(2) op by simp
    have "q = t" if "q \<in> set (session_tokens s)" "stk_hash q = h" for q
      using that t 2(1) unique_key_eq [of stk_hash] by (metis session_keys_def)
    then have only: "\<And>q. q \<in> set (session_tokens s) \<Longrightarrow> stk_hash q = h \<Longrightarrow> q = t" .
    have "session_tokens (session_step op s) = mark_used (stk_id t) rid now (session_tokens s @
        [token_row_new rid (ses_id ss) nh (min ne (ses_expires_at ss)) now])"
      using op r 1(10) by simp
    moreover have "stk_used_at q' \<noteq> None"
      if q': "q' \<in> set (mark_used (stk_id t) rid now (session_tokens s @
        [token_row_new rid (ses_id ss) nh (min ne (ses_expires_at ss)) now]))" "stk_hash q' = h" for q'
    proof -
      from q'(1) obtain q where q: "q \<in> set (session_tokens s @
            [token_row_new rid (ses_id ss) nh (min ne (ses_expires_at ss)) now])"
          "q' = (if stk_id q = stk_id t
             then q\<lparr>stk_used_at := Some now, stk_replaced_by := Some rid\<rparr> else q)"
        unfolding mark_used_member by blast
      then have "stk_hash q = h" using q'(2) by (auto split: if_splits)
      with q(1) only \<open>nh \<noteq> h\<close> have "q = t" by auto
      with q(2) show ?thesis by simp
    qed
    ultimately show ?thesis by (simp add: token_spent_def)
  qed
next
  case (3 s op)
  show ?case unfolding token_spent_def
  proof (intro ballI impI)
    fix t' assume "t' \<in> set (session_tokens (session_step op s))" "stk_hash t' = h"
    then show "stk_used_at t' \<noteq> None"
      using 3(2,3) by (cases rule: session_step_tokens) (auto simp: token_spent_def)
  qed
next
  case (4 s op)
  show ?case
  proof
    assume "rotates h op s"
    then obtain nh ne rid now u i d' where
      "refresh_session h nh ne rid now s = (Inr (Rotated u i), d')"
      unfolding rotates_iff by blast
    then show False
    proof (cases rule: refresh_session_Rotated)
      case (1 t ss)
      then show ?thesis using 4(2) token_lookup_Some [of s h t ss] by (auto simp: token_spent_def)
    qed
  qed
qed

section \<open>A dead session\<close>

definition session_dead :: "uuid \<Rightarrow> instant \<Rightarrow> db \<Rightarrow> bool" where
  "session_dead i t d \<longleftrightarrow>
     (\<forall>s \<in> set (sessions d). ses_id s = i \<longrightarrow> ses_revoked_at s \<noteq> None \<or> ses_expires_at s \<le> t)"

lemma session_dead_step:
  assumes "session_dead i t d" and "\<not> opens_session i op"
  shows "session_dead i t (session_step op d)"
  unfolding session_dead_def
proof (intro ballI impI)
  fix s' assume "s' \<in> set (sessions (session_step op d))" "ses_id s' = i"
  then show "ses_revoked_at s' \<noteq> None \<or> ses_expires_at s' \<le> t"
    using assms by (cases rule: session_step_sessions) (auto simp: session_dead_def)
qed

lemma session_dead_run:
  assumes "session_dead i t d" and "\<forall>op \<in> set ops. \<not> opens_session i op"
  shows "session_dead i t (run_ops session_step ops d)"
  using assms(1) by (rule run_ops_invariant) (use assms(2) session_dead_step in blast)

lemma session_dead_inactive:
  "session_dead i t d \<Longrightarrow> t \<le> now \<Longrightarrow> \<not> session_is_active d i uid now"
  by (fastforce simp: session_dead_def session_is_active_def table_simps)

lemma session_dead_no_rotation:
  assumes "session_dead i t d" and "t \<le> now"
  shows "fst (refresh_session presented nh ne rid now d) \<noteq> Inr (Rotated u i)"
proof
  assume "fst (refresh_session presented nh ne rid now d) = Inr (Rotated u i)"
  then obtain d' where "refresh_session presented nh ne rid now d = (Inr (Rotated u i), d')"
    by (cases "refresh_session presented nh ne rid now d") simp
  then show False
  proof (cases rule: refresh_session_Rotated)
    case (1 tk s)
    with token_lookup_Some [of d presented tk s] assms show ?thesis by (auto simp: session_dead_def)
  qed
qed

lemma revoked_session_dead: "session_dead i t (revoke_session i now d)"
  unfolding session_dead_def revoke_session_def
  by (intro ballI impI disjI1) (rule revoke_where_revokes [where p = "\<lambda>s. ses_id s = i"], simp_all)

lemma session_dead_record [simp]: "session_dead i t (audit_self kind uid email client now d) = session_dead i t d"
  by (simp add: session_dead_def audit_self_def)

text \<open>C11: A refresh token works once: in any run of operations on sessions, of all the times a token is
  presented at most one exchanges it (as long as nobody draws the same secret again).\<close>

theorem refresh_token_works_once:
  assumes "session_keys d" and "\<forall>op \<in> set ops. \<not> issues_hash h op"
  shows "count_wins session_step (rotates h) ops d \<le> 1"
  using assms by (rule refresh_tokens.at_most_one_win)

lemma refresh_token_works_once_witness:
  "count_wins session_step (rotates ''h:a'')
     [RefreshWith ''h:a'' ''h:b'' 500 21 5, RefreshWith ''h:a'' ''h:c'' 500 22 6] session_db \<le> 1"
  by (rule refresh_token_works_once) (code_simp, code_simp)

text \<open>C26: Presenting a refresh token that was already exchanged is refused and ends its session for good:
  the session is revoked and no other is, and whatever happens afterwards (short of a new session
  drawing the same identifier) no token of it is exchanged and no request is authenticated by it.\<close>

theorem replay_ends_session:
  assumes "token_lookup d (sha256 ext token) = Some (t, s)" and "stk_used_at t \<noteq> None"
    and "expires_in now (refresh_token_ttl_seconds cfg) \<noteq> None"
    and "refresh ext jwt cfg x token client now d = (r, d')"
    and "\<forall>op \<in> set ops. \<not> opens_session (ses_id s) op"
  shows "r = Inl InvalidToken \<and> users d' = users d \<and> session_tokens d' = session_tokens d \<and>
    filter (\<lambda>q. ses_id q \<noteq> ses_id s) (sessions d') = filter (\<lambda>q. ses_id q \<noteq> ses_id s) (sessions d) \<and>
    \<not> session_is_active (run_ops session_step ops d') (ses_id s) uid time \<and>
    fst (refresh_session presented nh ne rid time (run_ops session_step ops d')) \<noteq>
      Inr (Rotated u (ses_id s))"
proof -
  obtain e where e: "expires_in now (refresh_token_ttl_seconds cfg) = Some e" using assms(3) by auto
  have "refresh_session (sha256 ext token) (sha256 ext (dr_secret x)) e (dr_token x) now d =
      (Inr (Reused (ses_user s) (ses_id s)), d)"
    using assms(1,2) by (simp add: refresh_session_Reused)
  with assms(4) e have r: "r = Inl InvalidToken"
    and d': "d' = audit_self TokenReuseDetected (Some (ses_user s)) None client now
                    (revoke_session (ses_id s) now d)"
    by (simp_all add: refresh_def deadline_def)
  have "session_dead (ses_id s) time d'"
    unfolding d' by (simp add: revoked_session_dead)
  then have dead: "session_dead (ses_id s) time (run_ops session_step ops d')"
    using assms(5) by (rule session_dead_run)
  show ?thesis
    using r session_dead_inactive [OF dead order_refl] session_dead_no_rotation [OF dead order_refl]
      revoke_where_others [of "\<lambda>q. ses_id q = ses_id s" now d]
    by (simp add: d' audit_self_def revoke_session_def)
qed

lemma replay_ends_session_witness:
  "fst (refresh sample_externals sample_jwt sample_config sample_draws ''a'' sample_client 5 replay_db) =
     Inl InvalidToken \<and>
   \<not> session_is_active (run_ops session_step [RevokeAllOf 1 7] (snd (refresh sample_externals sample_jwt
       sample_config sample_draws ''a'' sample_client 5 replay_db))) 10 1 8"
proof -
  have "token_lookup replay_db (sha256 sample_externals ''a'') =
      Some (sample_token\<lparr>stk_used_at := Some 3, stk_replaced_by := Some 21\<rparr>, sample_session)" by code_simp
  moreover have "expires_in 5 (refresh_token_ttl_seconds sample_config) \<noteq> None" by code_simp
  moreover have "\<forall>op \<in> set [RevokeAllOf 1 7]. \<not> opens_session (ses_id sample_session) op" by code_simp
  moreover have "ses_id sample_session = 10" by code_simp
  moreover obtain r d' where
    "refresh sample_externals sample_jwt sample_config sample_draws ''a'' sample_client 5 replay_db = (r, d')"
    by fastforce
  ultimately show ?thesis
    using replay_ends_session [of replay_db sample_externals "''a''"
        "sample_token\<lparr>stk_used_at := Some 3, stk_replaced_by := Some 21\<rparr>" sample_session 5 sample_config
        sample_jwt sample_draws sample_client r d' "[RevokeAllOf 1 7]" 1 8]
    by simp
qed

text \<open>Rotation cannot keep a session alive: the deadline a session was opened with holds through any
  run of operations, and from it on no token of the session is exchanged and no request is
  authenticated by it.\<close>

theorem rotation_cannot_extend_session:
  assumes "session_keys d" and "s \<in> set (sessions d)" and "ses_expires_at s \<le> now"
    and "\<forall>op \<in> set ops. \<not> opens_session (ses_id s) op"
  shows "\<not> session_is_active (run_ops session_step ops d) (ses_id s) uid now \<and>
    fst (refresh_session presented nh ne rid now (run_ops session_step ops d)) \<noteq>
      Inr (Rotated u (ses_id s))"
proof -
  have "q = s" if "q \<in> set (sessions d)" "ses_id q = ses_id s" for q
    using that assms(1,2) unique_key_eq [of ses_id] by (metis session_keys_def)
  then have "session_dead (ses_id s) now d"
    using assms(3) by (auto simp: session_dead_def)
  then have dead: "session_dead (ses_id s) now (run_ops session_step ops d)"
    using assms(4) by (rule session_dead_run)
  from session_dead_inactive [OF this order_refl] session_dead_no_rotation [OF this order_refl]
  show ?thesis by simp
qed

lemma rotation_cannot_extend_session_witness:
  "\<not> session_is_active (run_ops session_step [RefreshWith ''h:a'' ''h:b'' 5000 21 5] session_db) 10 1 1000"
proof -
  have "session_keys session_db" "sample_session \<in> set (sessions session_db)"
    "ses_expires_at sample_session \<le> 1000" "ses_id sample_session = 10"
    "\<forall>op \<in> set [RefreshWith ''h:a'' ''h:b'' 5000 21 5]. \<not> opens_session (ses_id sample_session) op"
    by code_simp+
  with rotation_cannot_extend_session [of session_db sample_session 1000
      "[RefreshWith ''h:a'' ''h:b'' 5000 21 5]" 1] show ?thesis by simp
qed


section \<open>Signing in and out\<close>

lemma session_user_Inr:
  "session_user d uid = Inr v \<longleftrightarrow>
   (\<exists>u. find_user d uid = Some u \<and> usr_status u \<noteq> DisabledUser \<and> v = public_user_of d u)"
  by (auto simp: session_user_def)

lemma authenticate_Inr:
  assumes "authenticate ext jwt cfg t token d = Inr a"
  shows "session_is_active d (au_session a) (pub_id (au_user a)) t"
    and "\<exists>u. find_user d (pub_id (au_user a)) = Some u \<and> usr_status u \<noteq> DisabledUser \<and>
             au_user a = public_user_of d u"
proof -
  from assms obtain uid sid v where *: "session_is_active d sid uid t" "session_user d uid = Inr v"
      "a = \<lparr>au_user = v, au_session = sid\<rparr>"
    by (auto simp: authenticate_def split: if_splits)
  then obtain u where u: "find_user d uid = Some u" "usr_status u \<noteq> DisabledUser" "v = public_user_of d u"
    by (auto simp: session_user_Inr)
  then have "pub_id v = uid" by (auto simp: public_user_of_def public_user_new_def dest: find_user_Some)
  with * u show "session_is_active d (au_session a) (pub_id (au_user a)) t"
    and "\<exists>u. find_user d (pub_id (au_user a)) = Some u \<and> usr_status u \<noteq> DisabledUser \<and>
             au_user a = public_user_of d u" by auto
qed

lemma active_frame [simp]:
  "session_is_active (audit_self kind v email client n d) sid uid t = session_is_active d sid uid t"
  "session_is_active (audit_action kind actor subject email client n d) sid uid t = session_is_active d sid uid t"
  "session_is_active (update_user w n f d) sid uid t = session_is_active d sid uid t"
  by (simp_all add: session_is_active_def audit_self_def audit_action_def)

lemma active_revoked:
  assumes "\<And>s t. p (s\<lparr>ses_revoked_at := t\<rparr>) = p s"
  shows "session_is_active (revoke_where p now d) sid uid t \<longleftrightarrow>
    (\<exists>s \<in> set (sessions d). ses_id s = sid \<and> ses_user s = uid \<and> ses_revoked_at s = None \<and>
       ses_expires_at s > t \<and> \<not> p s)"
  unfolding session_is_active_def exists_row_iff revoke_where_sessions
  by (auto simp: assms split: if_splits)

lemma active_logout: "\<not> session_is_active (logout sid uid client now d) sid v t"
  by (auto simp: logout_def revoke_session_def active_revoked)

lemma active_logout_all: "\<not> session_is_active (logout_all uid client now d) sid uid t"
  by (auto simp: logout_all_def revoke_all_for_user_def active_revoked)

lemma reset_password_Inr:
  assumes "reset_password ext cfg salt token new client now d = (Inr (), d')"
  obtains uid d1 hash d2 where "consume_token (sha256 ext token) PasswordReset now d = (Some uid, d1)"
    "hash_with ext cfg salt new = Inr hash" "update_password uid hash now d1 = (Inr (), d2)"
    "d' = audit_self PasswordResetCompleted (Some uid)
            (map_option usr_email (find_user (snd (revoke_all_for_user uid now d2)) uid)) client now
            (snd (revoke_all_for_user uid now d2))"
proof -
  obtain x d1 where c: "consume_token (sha256 ext token) PasswordReset now d = (x, d1)" by fastforce
  then obtain uid where x: "x = Some uid" using assms by (cases x) (auto simp: reset_password_def)
  from assms c x show thesis
    by (auto simp: reset_password_def case_result_Inr Let_def intro: that)
qed

lemma change_password_Inr:
  assumes "change_password ext cfg salt u current new keep client now d = (Inr (), d')"
  obtains hash d1 where "verify_password ext cfg current (usr_password_hash u)"
    "hash_with ext cfg salt new = Inr hash" "update_password (usr_id u) hash now d = (Inr (), d1)"
    "d' = audit_self PasswordChanged (Some (usr_id u)) (Some (usr_email u)) client now
            (snd (revoke_others (usr_id u) keep now d1))"
  using assms by (auto simp: change_password_def case_result_Inr Let_def split: if_splits intro: that)

lemma active_reset:
  assumes "reset_password ext cfg salt token new client now d = (Inr (), d')"
    and "fst (consume_token (sha256 ext token) PasswordReset now d) = Some uid"
  shows "\<not> session_is_active d' sid uid t"
  using assms(1)
proof (cases rule: reset_password_Inr)
  case (1 v d1 hash d2)
  with assms(2) show ?thesis by (simp add: revoke_all_for_user_def active_revoked)
qed

lemma active_change:
  assumes "change_password ext cfg salt u current new keep client now d = (Inr (), d')"
    and "sid \<noteq> keep"
  shows "\<not> session_is_active d' sid (usr_id u) t"
  using assms(1)
proof (cases rule: change_password_Inr)
  case (1 hash d1)
  with assms(2) show ?thesis by (auto simp: revoke_others_def active_revoked)
qed

lemma active_disabled:
  assumes "set_account_status target DisabledUser actor client now d = (Inr v, d')"
  shows "\<not> session_is_active d' sid target t"
  using assms
  by (auto simp: set_account_status_def revoke_all_for_user_def active_revoked Let_def
      split: if_splits prod.splits bool.splits)

lemma active_swept:
  assumes "revoke_account_sessions target actor client now d = (Inr n, d')"
  shows "\<not> session_is_active d' sid target t"
  using assms
  by (auto simp: revoke_account_sessions_def revoke_all_for_user_def active_revoked guard_st_Inr
      split: prod.splits)

lemma deleted_account_gone:
  assumes "delete_account ext target confirm actor client now d = (Inr (), d')"
  shows "find_user d' target = None"
proof -
  from assms obtain d1 email where "delete_user target d = (Inr True, d1)"
    and "d' = audit_action AccountDeleted actor None email client now d1"
    by (auto simp: delete_account_def guard_st_Inr split: if_splits prod.splits sum.splits bool.splits)
  then show ?thesis
    by (auto simp: delete_user_def drop_users_def Let_def find_user_None user_exists_def table_simps
        audit_action_def split: if_splits)
qed

lemma active_replayed:
  assumes "token_lookup d (sha256 ext token) = Some (t, s)" and "stk_used_at t \<noteq> None"
    and "expires_in now (refresh_token_ttl_seconds cfg) \<noteq> None"
    and "refresh ext jwt cfg x token client now d = (r, d')"
  shows "\<not> session_is_active d' (ses_id s) uid time"
proof -
  obtain e where e: "expires_in now (refresh_token_ttl_seconds cfg) = Some e" using assms(3) by auto
  have "refresh_session (sha256 ext token) (sha256 ext (dr_secret x)) e (dr_token x) now d =
      (Inr (Reused (ses_user s) (ses_id s)), d)"
    using assms(1,2) by (simp add: refresh_session_Reused)
  with assms(4) e have "d' = audit_self TokenReuseDetected (Some (ses_user s)) None client now
                    (revoke_session (ses_id s) now d)"
    by (simp add: refresh_def deadline_def)
  then show ?thesis by (simp add: revoke_session_def active_revoked)
qed

text \<open>C17: Signing out takes effect at the next request, however long the access token still runs, by every
  operation that revokes: no token authenticates a session that was logged out or whose exchanged refresh
  token was presented again; an account that was logged out everywhere, whose password was reset, which was
  disabled or deleted, or whose sessions an administrator revoked; or, after a change of password, any
  session of the account but the one that made it.\<close>

theorem sign_out_is_immediate:
  assumes "authenticate ext jwt cfg t token d' = Inr a"
  shows "(d' = logout sid uid client now d \<longrightarrow> au_session a \<noteq> sid) \<and>
    (d' = logout_all uid client now d \<longrightarrow> pub_id (au_user a) \<noteq> uid) \<and>
    (reset_password ext cfg salt link new client now d = (Inr (), d') \<longrightarrow>
       fst (consume_token (sha256 ext link) PasswordReset now d) = Some uid \<longrightarrow>
       pub_id (au_user a) \<noteq> uid) \<and>
    (change_password ext cfg salt u current new sid client now d = (Inr (), d') \<longrightarrow>
       pub_id (au_user a) = usr_id u \<longrightarrow> au_session a = sid) \<and>
    (set_account_status uid DisabledUser actor client now d = (Inr v, d') \<longrightarrow>
       pub_id (au_user a) \<noteq> uid) \<and>
    (revoke_account_sessions uid actor client now d = (Inr n, d') \<longrightarrow> pub_id (au_user a) \<noteq> uid) \<and>
    (delete_account ext uid confirm actor client now d = (Inr (), d') \<longrightarrow> pub_id (au_user a) \<noteq> uid) \<and>
    (refresh ext jwt cfg x presented client now d = (r, d') \<longrightarrow>
       expires_in now (refresh_token_ttl_seconds cfg) \<noteq> None \<longrightarrow>
       (\<forall>tk s. token_lookup d (sha256 ext presented) = Some (tk, s) \<and> stk_used_at tk \<noteq> None \<longrightarrow>
          au_session a \<noteq> ses_id s))"
proof -
  note live = authenticate_Inr(1) [OF assms]
  have account: "find_user d' (pub_id (au_user a)) \<noteq> None"
    using authenticate_Inr(2) [OF assms] by auto
  show ?thesis
    using live active_logout active_logout_all active_reset active_change active_disabled active_swept
      active_replayed deleted_account_gone account
    by (intro conjI impI allI) metis+
qed

text \<open>A token of the session 11 is still good after the session 10 was logged out.\<close>

lemma sign_out_is_immediate_witness:
  "authenticate sample_externals sample_jwt sample_config 6 ''jwt''
     (logout 10 1 sample_client 5 signed_in_db) =
     Inr \<lparr>au_user = public_user_of signed_in_db (sample_user 1 ''a@example.com'' (Some 0)), au_session = 11\<rparr> \<and>
   (11::uuid) \<noteq> 10"
proof -
  have a: "authenticate sample_externals sample_jwt sample_config 6 ''jwt''
      (logout 10 1 sample_client 5 signed_in_db) =
      Inr \<lparr>au_user = public_user_of signed_in_db (sample_user 1 ''a@example.com'' (Some 0)), au_session = 11\<rparr>"
    by code_simp
  from a sign_out_is_immediate [OF a, of 10 1 sample_client 5 signed_in_db] show ?thesis by simp
qed

section \<open>Opening a session\<close>

lemma count_wrong_password_Inr: "count_wrong_password cfg u client now d \<noteq> (Inr v, d')"
  by (auto simp: count_wrong_password_def case_result_Inr Let_def)

lemma verify_credentials_Inr:
  assumes "verify_credentials ext cfg salt email password client now d = (Inr u, d')"
  shows "find_user_by_email ext d (normalize_email ext email) = Some u"
    and "usr_status u \<noteq> DisabledUser" and "\<not> is_locked u now"
    and "verify_password ext cfg password (usr_password_hash u)"
    and "require_email_verification cfg \<longrightarrow> is_email_verified u"
    and "d' = audit_self LoginSucceeded (Some (usr_id u)) (Some (usr_email u)) client now
           (record_login_success (usr_id u) now
              (if password_needs_rehash ext (usr_password_hash u)
               then upgrade_password_hash ext cfg salt (usr_id u) password now d else d))"
  using assms
  by (auto simp: verify_credentials_def count_wrong_password_Inr Let_def
      split: option.splits if_splits)

end
