(* ===== verification/AccountGuarantees.thy ===== *)
theory AccountGuarantees
  imports SessionGuarantees
begin

text \<open>
  What signing in, the lock and the single-use links promise. The crate \<open>jsonwebtoken\<close> is used with
  one documented property, \<open>jwt_correct\<close>: a token it encoded decodes, under the same secret, to the
  claims it was made from, while the issuer and audience are expected ones and the clock is within
  the claims' bounds.
\<close>

definition jwt_correct :: "jwt_lib \<Rightarrow> bool" where
  "jwt_correct jwt \<longleftrightarrow>
     (\<forall>v k c token now. jwt_encode jwt k c = Some token \<and> clm_iss c \<in> set (jv_issuer v) \<and>
        clm_aud c \<in> set (jv_audience v) \<and> 0 \<le> jv_leeway v \<and> clm_nbf c \<le> now \<and> now \<le> clm_exp c \<longrightarrow>
        jwt_decode jwt v k now token = Some c)"

section \<open>Signing in\<close>

lemma update_user_users:
  "users (update_user uid now f d) =
     update_where (\<lambda>u. usr_id u = uid) (\<lambda>u. (f u)\<lparr>usr_updated_at := now\<rparr>) (users d)"
  by (simp add: update_user_def)

lemma audit_frame [simp]:
  "users (audit_self kind v email client n d) = users d"
  "roles (audit_self kind v email client n d) = roles d"
  "user_roles (audit_self kind v email client n d) = user_roles d"
  "sessions (audit_self kind v email client n d) = sessions d"
  "session_tokens (audit_self kind v email client n d) = session_tokens d"
  "one_time_tokens (audit_self kind v email client n d) = one_time_tokens d"
  "users (audit_action kind actor s email client n d) = users d"
  "roles (audit_action kind actor s email client n d) = roles d"
  "user_roles (audit_action kind actor s email client n d) = user_roles d"
  "sessions (audit_action kind actor s email client n d) = sessions d"
  "session_tokens (audit_action kind actor s email client n d) = session_tokens d"
  "one_time_tokens (audit_action kind actor s email client n d) = one_time_tokens d"
  by (simp_all add: audit_self_def audit_action_def)

lemma find_user_audit [simp]:
  "find_user (audit_self kind v email client n d) u = find_user d u"
  "find_user (audit_action kind actor s email client n d) u = find_user d u"
  by (simp_all add: find_user_def)

text \<open>A successful sign-in changes no field of the account that the program shows.\<close>

definition same_public :: "user_record \<Rightarrow> user_record \<Rightarrow> bool" where
  "same_public u v \<longleftrightarrow> usr_id v = usr_id u \<and> usr_email v = usr_email u \<and> usr_status v = usr_status u \<and>
     usr_email_verified_at v = usr_email_verified_at u \<and> usr_created_at v = usr_created_at u"

lemma same_public_public: "same_public u v \<Longrightarrow> public_user_new v rs = public_user_new u rs"
  by (simp add: same_public_def public_user_new_def is_email_verified_def)

lemma login_user_after:
  assumes "distinct (map usr_id (users d))"
    and "verify_credentials ext cfg salt email password client now d = (Inr u, d')"
  obtains v where "find_user d' (usr_id u) = Some v" "same_public u v"
    "sessions d' = sessions d" "session_tokens d' = session_tokens d" "user_roles d' = user_roles d"
    "roles d' = roles d"
proof -
  note v = verify_credentials_Inr [OF assms(2)]
  have "u \<in> set (users d)" using v(1) by (auto simp: find_user_by_email_def dest: find_in_set)
  then have f: "find_user d (usr_id u) = Some u"
    unfolding find_user_def by (intro find_unique [OF assms(1)]) auto
  have up: "\<exists>w. find_user (update_user (usr_id u) now g e) (usr_id u) = Some w \<and> same_public u w"
    if "find_user e (usr_id u) = Some w0" "same_public u w0"
      "\<And>q. same_public q (g q)" for g e w0
  proof -
    have g: "usr_id (g q) = usr_id q" for q using that(3) [of q] by (simp add: same_public_def)
    show ?thesis using that by (simp add: find_user_update [OF g] same_public_def)
  qed
  define d1 where "d1 = (if password_needs_rehash ext (usr_password_hash u)
      then upgrade_password_hash ext cfg salt (usr_id u) password now d else d)"
  have "\<exists>w. find_user d1 (usr_id u) = Some w \<and> same_public u w"
  proof -
    have base: "\<exists>w. find_user d (usr_id u) = Some w \<and> same_public u w"
      using f by (simp add: same_public_def)
    have "\<exists>w. find_user (replace_password_hash (usr_id u) hash now d) (usr_id u) = Some w \<and>
        same_public u w" for hash
      using base up unfolding replace_password_hash_def by (auto simp: same_public_def)
    then show ?thesis
      using base by (auto simp: d1_def upgrade_password_hash_def split: sum.splits)
  qed
  then obtain w where w: "find_user d1 (usr_id u) = Some w" "same_public u w" by blast
  have "\<exists>w. find_user (record_login_success (usr_id u) now d1) (usr_id u) = Some w \<and> same_public u w"
    unfolding record_login_success_def by (rule up [OF w]) (simp add: same_public_def)
  then obtain v where "find_user d' (usr_id u) = Some v" "same_public u v"
    using v(6) by (auto simp: d1_def)
  then show thesis
    by (rule that) (use v(6) in
      \<open>simp_all add: record_login_success_def upgrade_password_hash_def replace_password_hash_def
         split: sum.splits\<close>)
qed

lemma start_session_Inr:
  assumes "start_session ext jwt cfg x uid client now d = (Inr (access, seconds), d')"
  obtains e where "expires_in now (refresh_token_ttl_seconds cfg) = Some e"
    "create_session (dr_session x) (dr_token x) uid (sha256 ext (dr_secret x)) (user_agent client)
       (ip_address client) e e now d = (Inr (dr_session x), d')"
    "issue_access_token ext jwt cfg (dr_jti x) uid (dr_session x) now = Inr (access, seconds)"
proof -
  obtain e where e: "expires_in now (refresh_token_ttl_seconds cfg) = Some e"
    using assms by (auto simp: start_session_def deadline_def)
  obtain r d1 where c: "create_session (dr_session x) (dr_token x) uid (sha256 ext (dr_secret x))
      (user_agent client) (ip_address client) e e now d = (r, d1)" by fastforce
  show thesis
    using assms e c
    by (cases r) (auto simp: start_session_def deadline_def create_session_Inr intro!: that)
qed

lemma login_works:
  assumes "jwt_correct jwt" and "\<forall>i. uuid_parse ext (uuid_text ext i) = Some i"
    and "distinct (map usr_id (users d))"
    and "login ext jwt cfg x email password client now d = (Inr s, d')"
    and "now \<le> t" and "t \<le> now + iss_expires_in s" and "t \<le> I64_MAX"
    and "t < now + uint (refresh_token_ttl_seconds cfg)"
    and "t < ne" and "rid \<notin> stk_id ` set (session_tokens d')"
    and "nh \<notin> stk_hash ` set (session_tokens d')"
  shows "authenticate ext jwt cfg t (iss_access_token s) d' =
      Inr \<lparr>au_user = iss_user s, au_session = dr_session x\<rparr> \<and>
    fst (refresh_session (sha256 ext (iss_refresh_token s)) nh ne rid t d') =
      Inr (Rotated (pub_id (iss_user s)) (dr_session x))"
proof -
  obtain u d1 access seconds where
    v: "verify_credentials ext cfg (dr_salt x) email password client now d = (Inr u, d1)"
    and st: "start_session ext jwt cfg x (usr_id u) client now d1 = (Inr (access, seconds), d')"
    and s: "s = \<lparr>iss_user = public_user_of d' u, iss_access_token = access,
                 iss_refresh_token = dr_secret x, iss_expires_in = seconds\<rparr>"
    using assms(4) by (auto simp: login_def case_result_Inr)
  obtain w where w: "find_user d1 (usr_id u) = Some w" "same_public u w"
    by (rule login_user_after [OF assms(3) v])
  from st obtain e where e: "expires_in now (refresh_token_ttl_seconds cfg) = Some e"
    and c: "create_session (dr_session x) (dr_token x) (usr_id u) (sha256 ext (dr_secret x))
      (user_agent client) (ip_address client) e e now d1 = (Inr (dr_session x), d')"
    and a: "issue_access_token ext jwt cfg (dr_jti x) (usr_id u) (dr_session x) now = Inr (access, seconds)"
    by (rule start_session_Inr)
  have e': "e = now + uint (refresh_token_ttl_seconds cfg)" using e by (rule expires_in_Some)
  note cs = c [unfolded create_session_Inr]
  define claims where "claims = \<lparr>clm_sub = uuid_text ext (usr_id u), clm_sid = uuid_text ext (dr_session x),
      clm_jti = uuid_text ext (dr_jti x), clm_iss = jwt_issuer cfg, clm_aud = jwt_audience cfg,
      clm_typ = TOKEN_TYPE, clm_iat = now, clm_nbf = now,
      clm_exp = min (now + access_ttl cfg) I64_MAX\<rparr>"
  have enc: "jwt_encode jwt (jwt_secret cfg) claims = Some access" and sec: "seconds = access_ttl cfg"
    using a by (auto simp: issue_access_token_def claims_def)
  have dec: "jwt_decode jwt (access_validation cfg) (jwt_secret cfg) t access = Some claims"
    using assms(1) [unfolded jwt_correct_def, rule_format, of "jwt_secret cfg" claims access "access_validation cfg" t]
      enc assms(5-7) sec s
    by (simp add: claims_def access_validation_def LEEWAY_SECONDS_def)
  have users: "users d' = users d1" using cs by simp
  have f: "find_user d' (usr_id u) = Some w" using w(1) users by (simp add: find_user_def)
  have live: "session_is_active d' (dr_session x) (usr_id u) t"
    using cs e' assms(8) by (simp add: session_is_active_def table_simps)
  have dis: "usr_status w \<noteq> DisabledUser"
    using w(2) verify_credentials_Inr(2) [OF v] by (simp add: same_public_def)
  have pub: "public_user_of d' w = public_user_of d' u"
    using same_public_public [OF w(2)] w(2) by (simp add: public_user_of_def same_public_def)
  have "authenticate ext jwt cfg t access d' = Inr \<lparr>au_user = public_user_of d' u, au_session = dr_session x\<rparr>"
    using dec live f dis pub assms(2)
    by (simp add: authenticate_def verify_access_token_def session_user_def claims_def)
  moreover have look: "token_lookup d' (sha256 ext (dr_secret x)) =
      Some (token_row_new (dr_token x) (dr_session x) (sha256 ext (dr_secret x)) e now,
            session_row_new (dr_session x) (usr_id u) (user_agent client) (ip_address client) e now)"
  proof -
    have "find (\<lambda>q. stk_hash q = sha256 ext (dr_secret x)) (session_tokens d1) = None"
      using cs unfolding find_None by (metis image_eqI)
    moreover have "find (\<lambda>q. ses_id q = dr_session x) (sessions d1) = None"
      using cs unfolding find_None by (metis image_eqI)
    ultimately show ?thesis using cs by (simp add: token_lookup_def)
  qed
  have "fst (refresh_session (sha256 ext (dr_secret x)) nh ne rid t d') =
      Inr (Rotated (usr_id u) (dr_session x))"
    using look e' assms(8-11) by (simp add: refresh_session_def Let_def table_simps image_iff) auto
  ultimately show ?thesis using s by (simp add: public_user_of_def public_user_new_def)
qed

text \<open>C15: A successful sign-in works: until the access token or the session ends, the access token it
  handed out authenticates the account it shows, in the session it opened, and the refresh token it
  handed out is exchanged for a new one.\<close>

theorem login_opens_a_session:
  assumes "jwt_correct jwt" and "\<forall>i. uuid_parse ext (uuid_text ext i) = Some i"
    and "distinct (map usr_id (users d))"
    and "login ext jwt cfg x email password client now d = (Inr s, d')"
    and "now \<le> t" and "t \<le> now + iss_expires_in s" and "t \<le> I64_MAX"
    and "t < now + uint (refresh_token_ttl_seconds cfg)"
    and "t < ne" and "rid \<notin> stk_id ` set (session_tokens d')"
    and "nh \<notin> stk_hash ` set (session_tokens d')"
  shows "authenticate ext jwt cfg t (iss_access_token s) d' =
      Inr \<lparr>au_user = iss_user s, au_session = dr_session x\<rparr> \<and>
    fst (refresh_session (sha256 ext (iss_refresh_token s)) nh ne rid t d') =
      Inr (Rotated (pub_id (iss_user s)) (dr_session x))"
  using assms by (rule login_works)

lemma sample_jwt_correct: "jwt_correct sample_jwt"
  by (auto simp: jwt_correct_def sample_jwt_def claims_in_force_def split: if_splits)

lemma login_opens_a_session_witness:
  "\<exists>s d'. login sample_externals sample_jwt sample_config sample_draws ''A@example.com'' ''correct horse''
       sample_client 5 session_db = (Inr s, d') \<and>
     authenticate sample_externals sample_jwt sample_config 6 (iss_access_token s) d' =
       Inr \<lparr>au_user = iss_user s, au_session = 11\<rparr> \<and>
     fst (refresh_session (sha256 sample_externals (iss_refresh_token s)) ''h:z'' 100 50 6 d') =
       Inr (Rotated (pub_id (iss_user s)) 11)"
proof -
  let ?l = "login sample_externals sample_jwt sample_config sample_draws ''A@example.com'' ''correct horse''
       sample_client 5 session_db"
  have ok: "\<not> isl (fst ?l) \<and> iss_expires_in (projr (fst ?l)) = 900 \<and>
      stk_id ` set (session_tokens (snd ?l)) = {20, 22} \<and>
      stk_hash ` set (session_tokens (snd ?l)) = {''h:a'', ''h:s''}"
    by code_simp
  obtain s d' where l: "?l = (Inr s, d')"
    using ok by (cases "fst ?l") (auto simp: prod_eq_iff)
  have "distinct (map usr_id (users session_db))" "6 \<le> I64_MAX"
    "(6::instant) < 5 + uint (refresh_token_ttl_seconds sample_config)" "dr_session sample_draws = 11"
    by code_simp+
  moreover have "\<forall>i. uuid_parse sample_externals (uuid_text sample_externals i) = Some i"
    by (simp add: sample_uuid_roundtrip)
  ultimately show ?thesis
    using login_opens_a_session [OF sample_jwt_correct _ _ l, of 6 100 50 "''h:z''"] ok l by auto
qed

section \<open>The lock\<close>

record sign_in_attempt =
  sia_salt :: string
  sia_password :: string
  sia_client :: client_info
  sia_time :: instant

primrec sign_in_run ::
  "externals \<Rightarrow> auth_config \<Rightarrow> string \<Rightarrow> sign_in_attempt list \<Rightarrow> db \<Rightarrow>
   (identity_error + user_record) list \<times> db" where
  "sign_in_run ext cfg email [] d = ([], d)"
| "sign_in_run ext cfg email (a # as) d =
     (case verify_credentials ext cfg (sia_salt a) email (sia_password a) (sia_client a) (sia_time a) d of
        (r, d') \<Rightarrow> (case sign_in_run ext cfg email as d' of (rs, d'') \<Rightarrow> (r # rs, d'')))"

definition failures_allowed :: "auth_config \<Rightarrow> int" where
  "failures_allowed cfg = min (uint (max_failed_login_attempts cfg)) I32_MAX"

lemma find_by_email_update:
  assumes "\<And>u. usr_email (f u) = usr_email u"
  shows "find_user_by_email ext (update_user uid now f d) email =
    map_option (\<lambda>u. if usr_id u = uid then (f u)\<lparr>usr_updated_at := now\<rparr> else u)
      (find_user_by_email ext d email)"
  unfolding find_user_by_email_def update_user_users
  by (rule find_update_where) (simp add: assms)

lemma find_by_email_audit [simp]:
  "find_user_by_email ext (audit_self kind v m client n d) email = find_user_by_email ext d email"
  by (simp add: find_user_by_email_def)

lemma find_by_email_by_id:
  assumes "distinct (map usr_id (users d))" and "find_user_by_email ext d email = Some u"
  shows "find_user d (usr_id u) = Some u"
  unfolding find_user_def
  by (rule find_unique [OF assms(1)]) (use assms(2) in \<open>auto simp: find_user_by_email_def dest: find_in_set\<close>)

lemma update_user_ids:
  assumes "\<And>u. usr_id (f u) = usr_id u"
  shows "map usr_id (users (update_user uid now f d)) = map usr_id (users d)"
  by (simp add: update_user_users update_where_def assms)

text \<open>One wrong password on an account that is not locked.\<close>

lemma wrong_password_counts:
  assumes "distinct (map usr_id (users d))"
    and "find_user_by_email ext d (normalize_email ext email) = Some u"
    and "usr_locked_until u = None" and "usr_status u \<noteq> DisabledUser"
    and "\<not> verify_password ext cfg password (usr_password_hash u)"
    and "expires_in now (account_lock_duration_seconds cfg) = Some until" and "now < until"
    and "0 \<le> usr_failed_login_attempts u" and "usr_failed_login_attempts u + 1 < 2 ^ 31"
  obtains v d' where
    "verify_credentials ext cfg salt email password client now d =
       (Inl (if usr_failed_login_attempts u + 1 \<ge> failures_allowed cfg then AccountLocked
             else InvalidCredentials), d')"
    "find_user_by_email ext d' (normalize_email ext email) = Some v"
    "usr_id v = usr_id u" "usr_password_hash v = usr_password_hash u" "usr_status v = usr_status u"
    "usr_failed_login_attempts v = usr_failed_login_attempts u + 1"
    "usr_locked_until v = (if usr_failed_login_attempts u + 1 \<ge> failures_allowed cfg then Some until else None)"
    "map usr_id (users d') = map usr_id (users d)"
proof -
  let ?f = "count_failure (failures_allowed cfg) until"
  let ?d = "update_user (usr_id u) now ?f d"
  let ?l = "audit_self LoginFailed (Some (usr_id u)) (Some (usr_email u)) client now ?d"
  have f: "find_user d (usr_id u) = Some u" using assms(1,2) by (rule find_by_email_by_id)
  have rec: "record_login_failure (usr_id u) (max_failed_login_attempts cfg) until now d =
      (Inr (usr_locked_until (?f u)), ?d)"
    using f assms(8,9) by (simp add: record_login_failure_def failures_allowed_def int4_ok_def Let_def)
  have c: "count_wrong_password cfg u client now d =
      (if usr_failed_login_attempts u + 1 \<ge> failures_allowed cfg
       then (Inl AccountLocked, audit_self AccountWasLocked (Some (usr_id u)) (Some (usr_email u)) client now ?l)
       else (Inl InvalidCredentials, ?l))"
    using rec assms(3,6,7) by (simp add: count_wrong_password_def deadline_def count_failure_def Let_def)
  have v: "verify_credentials ext cfg salt email password client now d =
      count_wrong_password cfg u client now d"
    using assms(2-5) by (simp add: verify_credentials_def is_locked_def Let_def)
  have e: "find_user_by_email ext ?d (normalize_email ext email) = Some ((?f u)\<lparr>usr_updated_at := now\<rparr>)"
    using assms(2) by (simp add: find_by_email_update count_failure_def)
  have ids: "map usr_id (users ?d) = map usr_id (users d)"
    by (rule update_user_ids) (simp add: count_failure_def)
  show thesis
    by (rule that [where v = "(?f u)\<lparr>usr_updated_at := now\<rparr>" and
        d' = "if usr_failed_login_attempts u + 1 \<ge> failures_allowed cfg
              then audit_self AccountWasLocked (Some (usr_id u)) (Some (usr_email u)) client now ?l else ?l"])
      (use v c e ids assms(3) in \<open>simp_all add: count_failure_def\<close>)
qed

lemma locked_refuses:
  assumes "find_user_by_email ext d (normalize_email ext email) = Some u" and "is_locked u now"
  shows "fst (verify_credentials ext cfg salt email password client now d) = Inl AccountLocked"
    and "users (snd (verify_credentials ext cfg salt email password client now d)) = users d"
  using assms by (simp_all add: verify_credentials_def Let_def)

lemma lockout_run:
  assumes "distinct (map usr_id (users d))"
    and "find_user_by_email ext d (normalize_email ext email) = Some u"
    and "usr_locked_until u = None" and "usr_status u \<noteq> DisabledUser"
    and "\<forall>a \<in> set as. \<not> verify_password ext cfg (sia_password a) (usr_password_hash u) \<and>
           (\<exists>e. expires_in (sia_time a) (account_lock_duration_seconds cfg) = Some e \<and> sia_time a < e)"
    and "0 \<le> usr_failed_login_attempts u"
    and "as \<noteq> []" and "failures_allowed cfg = usr_failed_login_attempts u + int (length as)"
  shows "fst (sign_in_run ext cfg email as d) =
      replicate (length as - 1) (Inl InvalidCredentials) @ [Inl AccountLocked]
    \<and> (\<exists>v. find_user_by_email ext (snd (sign_in_run ext cfg email as d)) (normalize_email ext email) = Some v \<and>
           usr_locked_until v = expires_in (sia_time (last as)) (account_lock_duration_seconds cfg))"
  using assms
proof (induction "as" arbitrary: d u)
  case Nil
  then show ?case by simp
next
  case (Cons a "as")
  have lt: "usr_failed_login_attempts u + 1 < 2 ^ 31"
    using Cons.prems(8) by (simp add: failures_allowed_def I32_MAX_def)
  from Cons.prems(5) obtain until where
    w: "\<not> verify_password ext cfg (sia_password a) (usr_password_hash u)"
    and t: "expires_in (sia_time a) (account_lock_duration_seconds cfg) = Some until" "sia_time a < until"
    by auto
  obtain v d' where
    r: "verify_credentials ext cfg (sia_salt a) email (sia_password a) (sia_client a) (sia_time a) d =
       (Inl (if usr_failed_login_attempts u + 1 \<ge> failures_allowed cfg then AccountLocked
             else InvalidCredentials), d')"
    and v: "find_user_by_email ext d' (normalize_email ext email) = Some v"
      "usr_password_hash v = usr_password_hash u" "usr_status v = usr_status u"
      "usr_failed_login_attempts v = usr_failed_login_attempts u + 1"
      "usr_locked_until v = (if usr_failed_login_attempts u + 1 \<ge> failures_allowed cfg then Some until else None)"
      "map usr_id (users d') = map usr_id (users d)"
    by (rule wrong_password_counts [OF Cons.prems(1-4) w t Cons.prems(6) lt]) blast
  show ?case
  proof (cases "as = []")
    case True
    with Cons.prems(8) r v t show ?thesis by simp
  next
    case False
    have next_count: "failures_allowed cfg = usr_failed_login_attempts v + int (length as)"
      using Cons.prems(8) v(4) by simp
    have more: "\<not> usr_failed_login_attempts u + 1 \<ge> failures_allowed cfg"
      using next_count v(4) False by (cases "as") auto
    have d': "distinct (map usr_id (users d'))" using v(6) Cons.prems(1) by simp
    have "fst (sign_in_run ext cfg email as d') =
        replicate (length as - 1) (Inl InvalidCredentials) @ [Inl AccountLocked]
      \<and> (\<exists>w. find_user_by_email ext (snd (sign_in_run ext cfg email as d')) (normalize_email ext email) = Some w \<and>
           usr_locked_until w = expires_in (sia_time (last as)) (account_lock_duration_seconds cfg))"
      using Cons.prems v more False next_count d' by (intro Cons.IH [where u = v]) auto
    with r more False show ?thesis
      by (cases "as") (auto simp: prod.case_eq_if)
  qed
qed

text \<open>C12: Guessing stops: on an account with a clean record, as many wrong passwords in a row as the
  deployment allows are answered by refusals and the last of them by the lock; from then until the
  lock runs out every sign-in is refused, the right password included, and counts for nothing.\<close>

theorem lockout_after_max_failures:
  assumes "distinct (map usr_id (users d))"
    and "find_user_by_email ext d (normalize_email ext email) = Some u"
    and "usr_locked_until u = None" and "usr_failed_login_attempts u = 0"
    and "usr_status u \<noteq> DisabledUser"
    and "as \<noteq> []" and "int (length as) = failures_allowed cfg"
    and "\<forall>a \<in> set as. \<not> verify_password ext cfg (sia_password a) (usr_password_hash u) \<and>
           (\<exists>e. expires_in (sia_time a) (account_lock_duration_seconds cfg) = Some e \<and> sia_time a < e)"
    and "t < sia_time (last as) + uint (account_lock_duration_seconds cfg)"
    and "sign_in_run ext cfg email as d = (rs, d')"
  shows "rs = replicate (length as - 1) (Inl InvalidCredentials) @ [Inl AccountLocked] \<and>
    fst (verify_credentials ext cfg salt email password client t d') = Inl AccountLocked \<and>
    users (snd (verify_credentials ext cfg salt email password client t d')) = users d'"
proof -
  have run: "rs = replicate (length as - 1) (Inl InvalidCredentials) @ [Inl AccountLocked]"
    "\<exists>v. find_user_by_email ext d' (normalize_email ext email) = Some v \<and>
       usr_locked_until v = expires_in (sia_time (last as)) (account_lock_duration_seconds cfg)"
    using lockout_run [OF assms(1-3,5,8) _ assms(6)] assms(4,7,10) by auto
  then obtain v where v: "find_user_by_email ext d' (normalize_email ext email) = Some v"
    "usr_locked_until v = expires_in (sia_time (last as)) (account_lock_duration_seconds cfg)" by blast
  obtain e where e: "expires_in (sia_time (last as)) (account_lock_duration_seconds cfg) = Some e"
    using assms(6,8) last_in_set by blast
  then have "is_locked v t" using v(2) assms(9) expires_in_Some [OF e] by (simp add: is_locked_def)
  with run(1) locked_refuses [OF v(1)] show ?thesis by simp
qed

lemma lockout_after_max_failures_witness:
  "let attempt = (\<lambda>t. \<lparr>sia_salt = [], sia_password = ''guess'', sia_client = sample_client, sia_time = t\<rparr>);
       (rs, d') = sign_in_run sample_externals sample_config ''a@example.com'' (map attempt [5, 6, 7]) session_db
   in rs = [Inl InvalidCredentials, Inl InvalidCredentials, Inl AccountLocked] \<and>
      fst (verify_credentials sample_externals sample_config [] ''a@example.com'' ''correct horse''
             sample_client 8 d') = Inl AccountLocked"
proof -
  let ?attempt = "\<lambda>t. \<lparr>sia_salt = [], sia_password = ''guess'', sia_client = sample_client, sia_time = t\<rparr>"
  let ?u = "sample_user 1 ''a@example.com'' (Some 0)"
  obtain rs d' where r: "sign_in_run sample_externals sample_config ''a@example.com''
      (map ?attempt [5, 6, 7]) session_db = (rs, d')" by fastforce
  have "distinct (map usr_id (users session_db))"
    "find_user_by_email sample_externals session_db (normalize_email sample_externals ''a@example.com'') = Some ?u"
    "usr_locked_until ?u = None" "usr_failed_login_attempts ?u = 0" "usr_status ?u \<noteq> DisabledUser"
    "int (length (map ?attempt [5, 6, 7])) = failures_allowed sample_config"
    "(8::instant) < sia_time (last (map ?attempt [5, 6, 7])) + uint (account_lock_duration_seconds sample_config)"
    by code_simp+
  moreover have "\<not> verify_password sample_externals sample_config ''guess'' (usr_password_hash ?u)"
    "expires_in 5 (account_lock_duration_seconds sample_config) = Some 65"
    "expires_in 6 (account_lock_duration_seconds sample_config) = Some 66"
    "expires_in 7 (account_lock_duration_seconds sample_config) = Some 67"
    by code_simp+
  ultimately show ?thesis
    using lockout_after_max_failures [OF _ _ _ _ _ _ _ _ _ r, of ?u 8 "[]" "''correct horse''" sample_client] r
    by simp
qed

section \<open>What a sign-in decides\<close>

lemma upgrade_frame [simp]:
  "sessions (upgrade_password_hash ext cfg salt uid password now d) = sessions d"
  by (simp add: upgrade_password_hash_def replace_password_hash_def split: sum.splits)

text \<open>A lock that is over takes the failures it was set for with it.\<close>

definition counted_failures :: "user_record \<Rightarrow> int" where
  "counted_failures u = (if usr_locked_until u = None then usr_failed_login_attempts u else 0)"

definition open_account :: "user_record \<Rightarrow> instant \<Rightarrow> bool" where
  "open_account u now \<longleftrightarrow> \<not> is_locked u now \<and> usr_status u \<noteq> DisabledUser"

definition opens_with :: "externals \<Rightarrow> auth_config \<Rightarrow> string \<Rightarrow> string \<Rightarrow> instant \<Rightarrow> db \<Rightarrow> user_record \<Rightarrow> bool" where
  "opens_with ext cfg email password now d u \<longleftrightarrow>
     find_user_by_email ext d (normalize_email ext email) = Some u \<and> open_account u now \<and>
     verify_password ext cfg password (usr_password_hash u)"

text \<open>The account's row after a failure that counts, and after a success.\<close>

definition failed_account :: "auth_config \<Rightarrow> instant \<Rightarrow> user_record \<Rightarrow> user_record" where
  "failed_account cfg now u =
     u\<lparr>usr_failed_login_attempts := counted_failures u + 1,
       usr_locked_until := if counted_failures u + 1 \<ge> failures_allowed cfg
         then expires_in now (account_lock_duration_seconds cfg) else None,
       usr_updated_at := now\<rparr>"

definition signed_in_account :: "string \<Rightarrow> instant \<Rightarrow> user_record \<Rightarrow> user_record" where
  "signed_in_account hash now u =
     u\<lparr>usr_password_hash := hash, usr_failed_login_attempts := 0, usr_locked_until := None,
       usr_last_login_at := Some now, usr_updated_at := now\<rparr>"

definition put_account :: "user_record \<Rightarrow> user_record list \<Rightarrow> user_record list" where
  "put_account u t = map (\<lambda>v. if usr_id v = usr_id u then u else v) t"

lemma put_update:
  assumes "distinct (map usr_id t)" and "u \<in> set t" and "\<And>v. usr_id (f v) = usr_id v" and "f u = w"
  shows "update_where (\<lambda>v. usr_id v = usr_id u) f t = put_account w t"
proof -
  have "v = u" if "v \<in> set t" "usr_id v = usr_id u" for v
    using that assms(1,2) by (auto intro: unique_key_eq)
  with assms(3) [of u] assms(4) show ?thesis by (auto simp: put_account_def update_where_def)
qed

lemma update_where_twice:
  assumes "\<And>v. usr_id (f v) = usr_id v"
  shows "update_where (\<lambda>v. usr_id v = i) g (update_where (\<lambda>v. usr_id v = i) f t) =
    update_where (\<lambda>v. usr_id v = i) (g \<circ> f) t"
  by (induction t) (simp_all add: update_where_def assms)

lemma count_wrong_password_exact:
  assumes "distinct (map usr_id (users d))" and "u \<in> set (users d)"
    and "expires_in now (account_lock_duration_seconds cfg) = Some until" and "now < until"
    and "0 \<le> usr_failed_login_attempts u" and "usr_failed_login_attempts u + 1 < 2 ^ 31"
    and "count_wrong_password cfg u client now d = (r, d')"
  shows "r = Inl (if counted_failures u + 1 \<ge> failures_allowed cfg then AccountLocked else InvalidCredentials)"
    and "users d' = put_account (failed_account cfg now u) (users d)"
    and "sessions d' = sessions d" and "session_tokens d' = session_tokens d"
proof -
  let ?reset = "\<lambda>u. u\<lparr>usr_failed_login_attempts := 0, usr_locked_until := None\<rparr>"
  let ?f = "count_failure (failures_allowed cfg) until"
  define d1 where "d1 = (if usr_locked_until u \<noteq> None then reset_login_failures (usr_id u) now d else d)"
  have f: "find_user d (usr_id u) = Some u"
    unfolding find_user_def by (intro find_unique [OF assms(1,2)]) simp
  obtain u1 where u1: "find_user d1 (usr_id u) = Some u1" "usr_failed_login_attempts u1 = counted_failures u"
      "usr_locked_until u1 = None"
    by (cases "usr_locked_until u") (auto simp: d1_def reset_login_failures_def find_user_update
        counted_failures_def f)
  let ?d = "update_user (usr_id u) now ?f d1"
  have rec: "record_login_failure (usr_id u) (max_failed_login_attempts cfg) until now d1 =
      (Inr (usr_locked_until (?f u1)), ?d)"
    using u1 assms(5,6)
    by (simp add: record_login_failure_def failures_allowed_def int4_ok_def Let_def counted_failures_def)
  have run: "count_wrong_password cfg u client now d =
      (let d3 = audit_self LoginFailed (Some (usr_id u)) (Some (usr_email u)) client now ?d
       in if counted_failures u + 1 \<ge> failures_allowed cfg
          then (Inl AccountLocked, audit_self AccountWasLocked (Some (usr_id u)) (Some (usr_email u)) client now d3)
          else (Inl InvalidCredentials, d3))"
    using u1 assms(3,4)
    unfolding count_wrong_password_def d1_def [symmetric]
    by (simp add: deadline_def rec count_failure_def)
  then show "r = Inl (if counted_failures u + 1 \<ge> failures_allowed cfg then AccountLocked else InvalidCredentials)"
    using assms(7) by (auto simp: Let_def split: if_splits)
  have d': "users d' = users ?d" "sessions d' = sessions d" "session_tokens d' = session_tokens d"
    using assms(7) run by (auto simp: Let_def d1_def reset_login_failures_def split: if_splits)
  show "users d' = put_account (failed_account cfg now u) (users d)"
  proof (cases "usr_locked_until u")
    case None
    then show ?thesis
      unfolding d'(1) update_user_users d1_def
      by (simp, intro put_update [OF assms(1,2)])
        (simp_all add: failed_account_def count_failure_def counted_failures_def assms(3))
  next
    case (Some t)
    then show ?thesis
      unfolding d'(1) d1_def
      by (simp add: update_user_users reset_login_failures_def update_where_twice, intro put_update [OF assms(1,2)])
        (simp_all add: failed_account_def count_failure_def counted_failures_def assms(3))
  qed
  show "sessions d' = sessions d" "session_tokens d' = session_tokens d" by (fact d')+
qed

lemma signed_in_exact:
  assumes "distinct (map usr_id (users d))" and "u \<in> set (users d)"
    and "verify_credentials ext cfg salt email password client now d = (Inr u, d')"
  obtains hash where "users d' = put_account (signed_in_account hash now u) (users d)"
    "hash = usr_password_hash u \<or> hash_with ext cfg salt password = Inr hash"
    "sessions d' = sessions d" "session_tokens d' = session_tokens d"
proof -
  let ?s = "\<lambda>u. u\<lparr>usr_failed_login_attempts := 0, usr_locked_until := None, usr_last_login_at := Some now\<rparr>"
  define d1 where "d1 = (if password_needs_rehash ext (usr_password_hash u)
      then upgrade_password_hash ext cfg salt (usr_id u) password now d else d)"
  have d': "d' = audit_self LoginSucceeded (Some (usr_id u)) (Some (usr_email u)) client now
      (record_login_success (usr_id u) now d1)"
    using verify_credentials_Inr(6) [OF assms(3)] by (simp add: d1_def)
  have one: "users (record_login_success (usr_id u) now d) = put_account (signed_in_account (usr_password_hash u) now u) (users d)"
    unfolding record_login_success_def update_user_users
    by (intro put_update [OF assms(1,2)]) (simp_all add: signed_in_account_def)
  have two: "users (record_login_success (usr_id u) now (replace_password_hash (usr_id u) hash now d)) =
      put_account (signed_in_account hash now u) (users d)" if "hash \<noteq> []" for hash
    using that unfolding record_login_success_def replace_password_hash_def
    by (simp add: update_user_users update_where_twice, intro put_update [OF assms(1,2)])
      (simp_all add: signed_in_account_def)
  have frame: "sessions d' = sessions d" "session_tokens d' = session_tokens d"
    by (simp_all add: d' d1_def record_login_success_def upgrade_password_hash_def replace_password_hash_def
        split: sum.splits)
  show thesis
  proof (cases "d1 = d")
    case True
    with that [of "usr_password_hash u"] one frame show thesis by (simp add: d')
  next
    case False
    then obtain hash where h: "hash_with ext cfg salt password = Inr hash" "hash \<noteq> []"
        "d1 = replace_password_hash (usr_id u) hash now d"
      by (auto simp: d1_def upgrade_password_hash_def replace_password_hash_def split: sum.splits if_splits)
    with that [of hash] two frame show thesis by (simp add: d')
  qed
qed

text \<open>Without the password of an open account.\<close>

lemma verify_shut:
  assumes "find_user_by_email ext d (normalize_email ext email) = Some u"
    and "\<not> opens_with ext cfg email password now d u"
  shows "verify_credentials ext cfg salt email password client now d =
    (if is_locked u now then (Inl AccountLocked, audit_self LoginFailed (Some (usr_id u)) (Some (usr_email u)) client now d)
     else if usr_status u = DisabledUser
     then (Inl AccountDisabled, audit_self LoginFailed (Some (usr_id u)) (Some (usr_email u)) client now d)
     else count_wrong_password cfg u client now d)"
  using assms
  by (cases "is_locked u now"; cases "usr_status u = DisabledUser")
    (simp_all add: verify_credentials_def opens_with_def open_account_def Let_def)

lemma verify_shut_Inl:
  assumes "find_user_by_email ext d (normalize_email ext email) = Some u"
    and "\<not> opens_with ext cfg email password now d u"
    and "verify_credentials ext cfg salt email password client now d = (r, d')"
  shows "r \<noteq> Inr v"
  using verify_shut [OF assms(1,2), of salt client] assms(3) count_wrong_password_Inr [of cfg u client now d v d']
  by (auto split: if_splits)

text \<open>C32: What a sign-in decides. It succeeds exactly for the account under the normalized address, when that is
  neither locked nor disabled, the password is the account's and, where the deployment asks for it, the
  address is confirmed; the account's failures and lock are then cleared. Without the password of an open
  account all passwords are alike, in the answer and in what is written: a locked or disabled account and an
  unknown address are left alone, and a wrong password counts as one more failure, a lock that is over having
  taken the earlier ones with it, and is answered by the lock once the failures allowed are reached. No other
  account and no session is touched.\<close>

theorem sign_in_decides:
  assumes "distinct (map usr_id (users d))"
    and "\<forall>u \<in> set (users d). 0 \<le> usr_failed_login_attempts u \<and> usr_failed_login_attempts u + 1 < 2 ^ 31"
    and "expires_in now (account_lock_duration_seconds cfg) = Some until" and "now < until"
    and "verify_credentials ext cfg salt email password client now d = (r, d')"
  shows "(\<forall>u. r = Inr u \<longleftrightarrow> opens_with ext cfg email password now d u \<and>
            (require_email_verification cfg \<longrightarrow> is_email_verified u)) \<and>
    (\<forall>salt' password'. (\<forall>u. \<not> opens_with ext cfg email password now d u) \<and>
        (\<forall>u. \<not> opens_with ext cfg email password' now d u) \<longrightarrow>
        verify_credentials ext cfg salt' email password' client now d = (r, d')) \<and>
    (case find_user_by_email ext d (normalize_email ext email) of
       None \<Rightarrow> r = Inl InvalidCredentials \<and> users d' = users d
     | Some u \<Rightarrow>
         if is_locked u now then r = Inl AccountLocked \<and> users d' = users d
         else if usr_status u = DisabledUser then r = Inl AccountDisabled \<and> users d' = users d
         else if \<not> opens_with ext cfg email password now d u
         then r = Inl (if counted_failures u + 1 \<ge> failures_allowed cfg then AccountLocked else InvalidCredentials) \<and>
              users d' = put_account (failed_account cfg now u) (users d)
         else if isl r then r = Inl EmailNotVerified \<and> d' = d
         else \<exists>hash. users d' = put_account (signed_in_account hash now u) (users d) \<and>
                (hash = usr_password_hash u \<or> hash_with ext cfg salt password = Inr hash)) \<and>
    sessions d' = sessions d \<and> session_tokens d' = session_tokens d"
proof (cases "find_user_by_email ext d (normalize_email ext email)")
  case None
  then show ?thesis using assms(5) by (auto simp: verify_credentials_def opens_with_def Let_def)
next
  case (Some u)
  then have u: "u \<in> set (users d)" by (auto simp: find_user_by_email_def dest: find_in_set)
  have opens: "opens_with ext cfg email p now d v \<longleftrightarrow>
      v = u \<and> open_account u now \<and> verify_password ext cfg p (usr_password_hash u)" for p v
    using Some by (auto simp: opens_with_def)
  note shut = verify_shut [OF Some]
  show ?thesis
  proof (cases "opens_with ext cfg email password now d u")
    case False
    have "r \<noteq> Inr v" for v by (rule verify_shut_Inl [OF Some False assms(5)])
    moreover have "verify_credentials ext cfg s email p client now d = (r, d')"
        if "\<not> opens_with ext cfg email p now d u" for s p
      using shut [OF False, of salt client] shut [OF that, of s client] assms(5) by simp
    moreover have "r = Inl (if counted_failures u + 1 \<ge> failures_allowed cfg then AccountLocked else InvalidCredentials) \<and>
        users d' = put_account (failed_account cfg now u) (users d) \<and>
        sessions d' = sessions d \<and> session_tokens d' = session_tokens d" if "open_account u now"
    proof -
      have "count_wrong_password cfg u client now d = (r, d')"
        using shut [OF False, of salt client] assms(5) that by (simp add: open_account_def)
      from count_wrong_password_exact [OF assms(1) u assms(3,4) _ _ this] assms(2) u show ?thesis by simp
    qed
    ultimately show ?thesis
      using Some False shut [OF False, of salt client] assms(5)
      by (auto simp: opens open_account_def split: if_splits)
  next
    case True
    then have o: "\<not> is_locked u now" "usr_status u \<noteq> DisabledUser" by (simp_all add: opens open_account_def)
    show ?thesis
    proof (cases "require_email_verification cfg \<and> \<not> is_email_verified u")
      case unverified: True
      with Some o True assms(5) have "r = Inl EmailNotVerified" "d' = d"
        by (auto simp: verify_credentials_def opens Let_def)
      with Some o True unverified show ?thesis by (auto simp: opens)
    next
      case False
      with Some o True assms(5) have r: "r = Inr u" by (auto simp: verify_credentials_def opens Let_def)
      from signed_in_exact [OF assms(1) u assms(5) [unfolded r]] obtain hash where
        "users d' = put_account (signed_in_account hash now u) (users d)"
        "hash = usr_password_hash u \<or> hash_with ext cfg salt password = Inr hash"
        "sessions d' = sessions d" "session_tokens d' = session_tokens d" .
      with Some o True False r show ?thesis by (auto simp: opens)
    qed
  qed
qed

lemma sign_in_decides_witness:
  "\<exists>d'. verify_credentials sample_externals sample_config [] ''a@example.com'' ''guess'' sample_client 5 session_db =
        (Inl InvalidCredentials, d') \<and>
      users d' = [(sample_user 1 ''a@example.com'' (Some 0))\<lparr>usr_failed_login_attempts := 1, usr_updated_at := 5\<rparr>]"
proof -
  let ?u = "sample_user 1 ''a@example.com'' (Some 0)"
  obtain r d' where l: "verify_credentials sample_externals sample_config [] ''a@example.com'' ''guess'' sample_client 5
      session_db = (r, d')" by fastforce
  have users: "users session_db = [?u]" by (simp add: session_db_def empty_db_def)
  have "distinct (map usr_id (users session_db))" "expires_in 5 (account_lock_duration_seconds sample_config) = Some 65"
    "find_user_by_email sample_externals session_db (normalize_email sample_externals ''a@example.com'') = Some ?u"
    "\<not> is_locked ?u 5" "usr_status ?u \<noteq> DisabledUser"
    "\<not> verify_password sample_externals sample_config ''guess'' (usr_password_hash ?u)"
    "\<not> counted_failures ?u + 1 \<ge> failures_allowed sample_config"
    "put_account (failed_account sample_config 5 ?u) (users session_db) =
       [?u\<lparr>usr_failed_login_attempts := 1, usr_updated_at := 5\<rparr>]"
    by code_simp+
  moreover have "\<forall>u \<in> set (users session_db). 0 \<le> usr_failed_login_attempts u \<and> usr_failed_login_attempts u + 1 < 2 ^ 31"
    by (simp add: users sample_user_def)
  ultimately show ?thesis
    using sign_in_decides [of session_db 5 sample_config 65, OF _ _ _ _ l] l by (simp add: opens_with_def)
qed

section \<open>Links sent by mail\<close>

text \<open>Every write on the table of single-use tokens, from whatever service.\<close>

datatype link_op =
    IssueLink string uuid uuid one_time_token_purpose "64 word" instant
  | RedeemLink string one_time_token_purpose instant
  | DropOwner uuid

fun link_step :: "externals \<Rightarrow> link_op \<Rightarrow> db \<Rightarrow> db" where
  "link_step ext (IssueLink token tid uid purpose ttl now) d =
     snd (issue_one_time_token ext token tid uid purpose ttl now d)"
| "link_step ext (RedeemLink token purpose now) d = snd (consume_token (sha256 ext token) purpose now d)"
| "link_step ext (DropOwner uid) d = snd (delete_user uid d)"

fun redeems :: "externals \<Rightarrow> string \<Rightarrow> link_op \<Rightarrow> db \<Rightarrow> bool" where
  "redeems ext h (RedeemLink token purpose now) d =
     (sha256 ext token = h \<and> fst (consume_token (sha256 ext token) purpose now d) \<noteq> None)"
| "redeems ext h op d = False"

fun issues_link :: "externals \<Rightarrow> string \<Rightarrow> link_op \<Rightarrow> bool" where
  "issues_link ext h (IssueLink token tid uid purpose ttl now) = (sha256 ext token = h)"
| "issues_link ext h op = False"

definition link_keys :: "db \<Rightarrow> bool" where
  "link_keys d \<longleftrightarrow> distinct (map ott_hash (one_time_tokens d))"

definition link_spent :: "string \<Rightarrow> db \<Rightarrow> bool" where
  "link_spent h d \<longleftrightarrow> (\<forall>t \<in> set (one_time_tokens d). ott_hash t = h \<longrightarrow> ott_consumed_at t \<noteq> None)"

definition live_links :: "db \<Rightarrow> uuid \<Rightarrow> one_time_token_purpose \<Rightarrow> one_time_token_row list" where
  "live_links d uid purpose =
     filter (\<lambda>t. ott_user t = uid \<and> ott_purpose t = purpose \<and> ott_consumed_at t = None)
       (one_time_tokens d)"

lemma link_new_sel [simp]:
  "ott_user (one_time_token_new tid uid purpose hash e now) = uid"
  "ott_purpose (one_time_token_new tid uid purpose hash e now) = purpose"
  "ott_hash (one_time_token_new tid uid purpose hash e now) = hash"
  "ott_consumed_at (one_time_token_new tid uid purpose hash e now) = None"
  "ott_expires_at (one_time_token_new tid uid purpose hash e now) = e"
  by (simp_all add: one_time_token_new_def)

lemma issue_link_cases:
  obtains (issued) e where "link_step ext (IssueLink token tid uid purpose ttl now) d =
      d\<lparr>one_time_tokens := one_time_tokens (invalidate_outstanding uid purpose now d) @
          [one_time_token_new tid uid purpose (sha256 ext token) e now]\<rparr>"
      "sha256 ext token \<notin> ott_hash ` set (one_time_tokens d)"
      "issue_one_time_token ext token tid uid purpose ttl now d = (Inr token,
         link_step ext (IssueLink token tid uid purpose ttl now) d)"
    | (refused) "link_step ext (IssueLink token tid uid purpose ttl now) d = d"
      "\<And>v d'. issue_one_time_token ext token tid uid purpose ttl now d \<noteq> (Inr v, d')"
proof (cases "expires_in now ttl")
  case None
  then show ?thesis by (intro refused) (auto simp: issue_one_time_token_def deadline_def)
next
  case (Some e)
  let ?d = "invalidate_outstanding uid purpose now d"
  have hashes: "ott_hash ` set (one_time_tokens ?d) = ott_hash ` set (one_time_tokens d)"
  proof -
    have "map ott_hash (one_time_tokens ?d) = map ott_hash (one_time_tokens d)"
      by (simp add: invalidate_outstanding_def update_where_def)
    then show ?thesis by (metis list.set_map)
  qed
  show ?thesis
  proof (cases "e \<le> now \<or> exists_row (\<lambda>t. ott_id t = tid \<or> ott_hash t = sha256 ext token) (one_time_tokens ?d)
        \<or> \<not> user_exists ?d uid")
    case True
    with Some show ?thesis
      by (intro refused) (auto simp: issue_one_time_token_def deadline_def insert_one_time_token_def)
  next
    case False
    then have "sha256 ext token \<notin> ott_hash ` set (one_time_tokens ?d)"
      by (auto simp: table_simps)
    with False Some hashes show ?thesis
      by (intro issued [of e])
        (auto simp: issue_one_time_token_def deadline_def insert_one_time_token_def invalidate_outstanding_def)
  qed
qed

lemma delete_user_links:
  "\<exists>p. one_time_tokens (snd (delete_user uid d)) = filter p (one_time_tokens d)"
  by (auto simp: delete_user_def drop_users_def Let_def delete_where_def intro: exI [of _ "\<lambda>_. True"])

lemma invalidate_hashes [simp]:
  "map ott_hash (one_time_tokens (invalidate_outstanding uid purpose now d)) = map ott_hash (one_time_tokens d)"
  by (simp add: invalidate_outstanding_def update_where_def)

lemma consume_hashes [simp]:
  "map ott_hash (one_time_tokens (snd (consume_token h purpose now d))) = map ott_hash (one_time_tokens d)"
  by (simp add: consume_token_def update_where_def)

lemma link_keys_step:
  assumes "link_keys d"
  shows "link_keys (link_step ext op d)"
proof (cases op)
  case (IssueLink token tid uid purpose ttl now)
  show ?thesis
  proof (cases rule: issue_link_cases [of ext token tid uid purpose ttl now d])
    case (issued e)
    show ?thesis
      unfolding IssueLink issued(1) using assms issued(2) by (simp add: link_keys_def)
  next
    case refused
    show ?thesis unfolding IssueLink refused(1) by (rule assms)
  qed
next
  case (DropOwner uid)
  with assms delete_user_links [of uid d] show ?thesis
    by (auto simp: link_keys_def distinct_map_filter)
qed (use assms in \<open>simp add: link_keys_def\<close>)

text \<open>A row is either as it was, consumed since, or the one just issued.\<close>

lemma link_step_rows:
  assumes "t' \<in> set (one_time_tokens (link_step ext op d))" and "\<not> issues_link ext (ott_hash t') op"
  obtains t where "t \<in> set (one_time_tokens d)" "ott_hash t' = ott_hash t"
    "ott_consumed_at t \<noteq> None \<longrightarrow> ott_consumed_at t' \<noteq> None"
proof (cases op)
  case (IssueLink token tid uid purpose ttl now)
  show thesis
  proof (cases rule: issue_link_cases [of ext token tid uid purpose ttl now d])
    case (issued e)
    have "ott_hash t' \<noteq> sha256 ext token" using assms(2) IssueLink by auto
    with assms(1) [unfolded IssueLink issued(1)] have
      "t' \<in> set (one_time_tokens (invalidate_outstanding uid purpose now d))" by auto
    then obtain t where "t \<in> set (one_time_tokens d)"
      "t' = (if ott_user t = uid \<and> ott_purpose t = purpose \<and> ott_consumed_at t = None
             then t\<lparr>ott_consumed_at := Some now\<rparr> else t)"
      unfolding invalidate_outstanding_def by (simp add: update_where_member) blast
    then show thesis by (intro that [of t]) (auto split: if_splits)
  next
    case refused
    show thesis using assms(1) [unfolded IssueLink refused(1)] by (rule that) auto
  qed
next
  case (RedeemLink token purpose now)
  with assms(1) obtain t where "t \<in> set (one_time_tokens d)"
    "t' = (if claimable (sha256 ext token) purpose now t then t\<lparr>ott_consumed_at := Some now\<rparr> else t)"
    unfolding RedeemLink link_step.simps consume_token_def by (simp add: update_where_member) blast
  then show thesis by (intro that [of t]) (auto split: if_splits)
next
  case (DropOwner uid)
  with assms delete_user_links [of uid d] show thesis by (auto intro: that [of t'])
qed

interpretation links: single_use "link_step ext" "redeems ext h" "\<lambda>op. \<not> issues_link ext h op"
  link_keys "link_spent h"
proof (unfold_locales, goal_cases)
  case (1 s op)
  then show ?case by (rule link_keys_step)
next
  case (2 s op)
  then obtain token purpose now where op: "op = RedeemLink token purpose now" "sha256 ext token = h"
    "fst (consume_token h purpose now s) \<noteq> None"
    by (cases op) auto
  then obtain t where t: "t \<in> set (one_time_tokens s)" "claimable h purpose now t"
    by (auto simp: consume_token_def dest: find_in_set)
  have only: "q = t" if "q \<in> set (one_time_tokens s)" "ott_hash q = h" for q
    using that t 2(1) unique_key_eq [of ott_hash] by (metis link_keys_def claimable_def)
  have "ott_consumed_at q' \<noteq> None"
    if "q' \<in> set (one_time_tokens (link_step ext op s))" "ott_hash q' = h" for q'
  proof -
    from that(1) op obtain q where q: "q \<in> set (one_time_tokens s)"
      "q' = (if claimable h purpose now q then q\<lparr>ott_consumed_at := Some now\<rparr> else q)"
      unfolding op(1) link_step.simps op(2) consume_token_def by (simp add: update_where_member) blast
    then have "ott_hash q = h" using that(2) by (auto split: if_splits)
    with only q t show ?thesis by auto
  qed
  then show ?case by (auto simp: link_spent_def)
next
  case (3 s op)
  show ?case unfolding link_spent_def
  proof (intro ballI impI)
    fix t' assume "t' \<in> set (one_time_tokens (link_step ext op s))" "ott_hash t' = h"
    with 3 show "ott_consumed_at t' \<noteq> None"
      by (metis link_step_rows link_spent_def)
  qed
next
  case (4 s op)
  show ?case
  proof
    assume "redeems ext h op s"
    then obtain purpose now where "fst (consume_token h purpose now s) \<noteq> None" by (cases op) auto
    with 4(2) show False
      by (auto simp: consume_token_def link_spent_def claimable_def dest!: find_in_set)
  qed
qed

definition one_link_each :: "db \<Rightarrow> bool" where
  "one_link_each d \<longleftrightarrow> (\<forall>uid purpose. length (live_links d uid purpose) \<le> 1)"

lemma length_filter_le_of_sub:
  assumes "\<And>x. P (f x) \<Longrightarrow> P x"
  shows "length (filter P (map f xs)) \<le> length (filter P xs)"
  using assms by (induction xs) auto

lemma length_filter_filter: "length (filter P (filter Q xs)) \<le> length (filter P xs)"
  by (induction xs) auto

lemma live_links_map:
  assumes "\<And>t. ott_user (f t) = ott_user t" "\<And>t. ott_purpose (f t) = ott_purpose t"
    "\<And>t. ott_consumed_at (f t) = None \<Longrightarrow> ott_consumed_at t = None"
  shows "length (live_links (d\<lparr>one_time_tokens := map f (one_time_tokens d)\<rparr>) uid purpose) \<le>
    length (live_links d uid purpose)"
proof -
  have *: "one_time_tokens (d\<lparr>one_time_tokens := map f (one_time_tokens d)\<rparr>) = map f (one_time_tokens d)"
    by simp
  show ?thesis
    unfolding live_links_def *
    by (rule length_filter_le_of_sub) (auto simp: assms(1,2) dest: assms(3))
qed

lemma filter_update_where_none:
  "(\<And>r. P r \<Longrightarrow> \<not> P (f r)) \<Longrightarrow> filter P (update_where P f t) = []"
  by (induction t) auto

lemma live_links_invalidated: "live_links (invalidate_outstanding uid purpose now d) uid purpose = []"
  unfolding live_links_def invalidate_outstanding_def
  by (simp, rule filter_update_where_none) simp

lemma one_link_each_step:
  assumes "one_link_each d"
  shows "one_link_each (link_step ext op d)"
proof (cases op)
  case (IssueLink token tid uid purpose ttl now)
  show ?thesis
  proof (cases rule: issue_link_cases [of ext token tid uid purpose ttl now d])
    case (issued e)
    let ?inv = "invalidate_outstanding uid purpose now d"
    note none = live_links_invalidated [of uid purpose now d]
    have others: "length (live_links ?inv v p) \<le> 1" for v p
    proof -
      have "length (live_links ?inv v p) \<le> length (live_links d v p)"
        unfolding invalidate_outstanding_def update_where_def by (rule live_links_map) (auto split: if_splits)
      with assms show ?thesis by (auto simp: one_link_each_def intro: order_trans)
    qed
    have "length (live_links (link_step ext op d) v p) \<le> 1" for v p
    proof -
      have "live_links (link_step ext op d) v p =
          live_links ?inv v p @ (if v = uid \<and> p = purpose
            then [one_time_token_new tid uid purpose (sha256 ext token) e now] else [])"
        unfolding IssueLink issued(1) by (simp add: live_links_def)
      then show ?thesis using none others by auto
    qed
    then show ?thesis by (simp add: one_link_each_def)
  next
    case refused
    show ?thesis unfolding IssueLink refused(1) by (rule assms)
  qed
next
  case (RedeemLink token purpose now)
  have "length (live_links (link_step ext op d) v p) \<le> length (live_links d v p)" for v p
    unfolding RedeemLink link_step.simps consume_token_def update_where_def snd_conv
    by (rule live_links_map) (auto split: if_splits)
  with assms show ?thesis by (meson one_link_each_def order_trans)
next
  case (DropOwner uid)
  from delete_user_links [of uid d] obtain P where
    "one_time_tokens (snd (delete_user uid d)) = filter P (one_time_tokens d)" by blast
  then have "length (live_links (link_step ext op d) v p) \<le> length (live_links d v p)" for v p
    using DropOwner length_filter_filter by (simp add: live_links_def)
  with assms show ?thesis by (meson one_link_each_def order_trans)
qed

text \<open>C24: A link sent by mail works once, and only the last one sent works: in any run of issuing and
  redeeming, one link is redeemed at most once, an account keeps at most one live link per purpose,
  and right after a new one was issued that is the only one.\<close>

theorem links_work_once:
  assumes "link_keys d" and "one_link_each d" and "\<forall>op \<in> set ops. \<not> issues_link ext h op"
  shows "count_wins (link_step ext) (redeems ext h) ops d \<le> 1 \<and>
    one_link_each (run_ops (link_step ext) ops d) \<and>
    (issue_one_time_token ext token tid uid purpose ttl now d = (Inr secret, d') \<longrightarrow>
       secret = token \<and> map ott_hash (live_links d' uid purpose) = [sha256 ext token])"
proof (intro conjI impI)
  show "count_wins (link_step ext) (redeems ext h) ops d \<le> 1"
    using assms(1,3) by (rule links.at_most_one_win)
  show "one_link_each (run_ops (link_step ext) ops d)"
    using assms(2) by (rule run_ops_invariant) (rule one_link_each_step)
next
  assume i: "issue_one_time_token ext token tid uid purpose ttl now d = (Inr secret, d')"
  have "secret = token \<and> map ott_hash (live_links d' uid purpose) = [sha256 ext token]"
  proof (cases rule: issue_link_cases [of ext token tid uid purpose ttl now d])
    case (issued e)
    from i [unfolded issued(3)]
    have s: "secret = token" and d': "d' = link_step ext (IssueLink token tid uid purpose ttl now) d"
      by auto
    have "map ott_hash (live_links d' uid purpose) = [sha256 ext token]"
      unfolding d' issued(1) using live_links_invalidated [of uid purpose now d]
      by (simp add: live_links_def)
    with s show ?thesis by blast
  qed (use i in blast)
  then show "secret = token" "map ott_hash (live_links d' uid purpose) = [sha256 ext token]"
    by blast+
qed

lemma links_work_once_witness:
  "count_wins (link_step sample_externals) (redeems sample_externals ''h:r'')
     [RedeemLink ''r'' PasswordReset 5, RedeemLink ''r'' PasswordReset 6] link_db \<le> 1 \<and>
   map ott_hash (live_links (snd (issue_one_time_token sample_externals ''n'' 41 1 PasswordReset 600 7 link_db))
     1 PasswordReset) = [''h:n'']"
proof -
  have "length (live_links link_db uid purpose) \<le> 1" for uid purpose
    by (simp add: live_links_def link_db_def)
  then have "one_link_each link_db" by (simp add: one_link_each_def)
  moreover have "link_keys link_db"
    "\<forall>op \<in> set [RedeemLink ''r'' PasswordReset 5, RedeemLink ''r'' PasswordReset 6].
       \<not> issues_link sample_externals ''h:r'' op"
    "sha256 sample_externals ''n'' = ''h:n''"
    "fst (issue_one_time_token sample_externals ''n'' 41 1 PasswordReset 600 7 link_db) = Inr ''n''"
    by code_simp+
  moreover obtain d' where "issue_one_time_token sample_externals ''n'' 41 1 PasswordReset 600 7 link_db =
      (fst (issue_one_time_token sample_externals ''n'' 41 1 PasswordReset 600 7 link_db), d')"
    by (metis prod.collapse)
  ultimately show ?thesis
    using links_work_once [of link_db "[RedeemLink ''r'' PasswordReset 5, RedeemLink ''r'' PasswordReset 6]"
        sample_externals "''h:r''" "''n''" 41 1 PasswordReset 600 7 "''n''" d'] by simp
qed


section \<open>Recovering an account\<close>

lemma update_password_Inr:
  assumes "update_password uid hash now d = (Inr (), d')"
  shows "d' = update_user uid now (\<lambda>u. u\<lparr>usr_password_hash := hash, usr_password_changed_at := now,
           usr_failed_login_attempts := 0, usr_locked_until := None\<rparr>) d"
  using assms by (auto simp: update_password_def split: if_splits)

text \<open>C23: A password reset takes the account back: the link named the account and is used up, the new
  password is the account's, its lock is lifted, every session of it is revoked, and no other account
  and no session of another account is touched.\<close>

theorem reset_recovers_account:
  assumes "\<forall>salt m h. hash_password ext salt m = Some h \<longrightarrow> password_matches ext m h"
    and "\<forall>t \<in> set (one_time_tokens d). user_exists d (ott_user t)"
    and "link_keys d"
    and "reset_password ext cfg salt token new client now d = (Inr (), d')"
  shows "\<exists>uid u. fst (consume_token (sha256 ext token) PasswordReset now d) = Some uid \<and>
    find_user d' uid = Some u \<and> verify_password ext cfg new (usr_password_hash u) \<and>
    usr_locked_until u = None \<and> usr_failed_login_attempts u = 0 \<and>
    (\<forall>v. v \<noteq> uid \<longrightarrow> find_user d' v = find_user d v) \<and>
    (\<forall>s \<in> set (sessions d'). ses_user s = uid \<longrightarrow> ses_revoked_at s \<noteq> None) \<and>
    filter (\<lambda>s. ses_user s \<noteq> uid) (sessions d') = filter (\<lambda>s. ses_user s \<noteq> uid) (sessions d) \<and>
    fst (reset_password ext cfg salt' token new' client' later d') = Inl identity_error.InvalidToken"
  using assms(4)
proof (cases rule: reset_password_Inr)
  case (1 uid d1 hash d2)
  from 1(1) have d1: "users d1 = users d" "sessions d1 = sessions d"
    by (auto simp: consume_token_def)
  from 1(1) obtain t where t: "t \<in> set (one_time_tokens d)" "claimable (sha256 ext token) PasswordReset now t"
      "ott_user t = uid"
    by (auto simp: consume_token_def dest: find_in_set)
  note d2 = update_password_Inr [OF 1(3)]
  from assms(2) t d1 obtain w where w: "find_user d1 uid = Some w"
    by (metis find_user_None not_None_eq user_exists_def)
  let ?f = "\<lambda>u. u\<lparr>usr_password_hash := hash, usr_password_changed_at := now,
           usr_failed_login_attempts := 0, usr_locked_until := None\<rparr>"
  have users: "find_user d' v = find_user d2 v" for v
    using 1(4) by (simp add: find_user_def revoke_all_for_user_def)
  have f: "find_user d2 v = map_option (\<lambda>u. if v = uid then (?f u)\<lparr>usr_updated_at := now\<rparr> else u) (find_user d v)" for v
    unfolding d2 using d1 by (subst find_user_update) (simp_all add: find_user_def)
  have ses: "sessions d' = sessions (revoke_where (\<lambda>s. ses_user s = uid) now d)"
    using 1(4) d1 by (simp add: revoke_all_for_user_def d2 revoke_where_def)
  have match: "verify_password ext cfg new hash"
    using 1(2) assms(1) by (simp add: hash_with_def verify_password_def)
  have links: "one_time_tokens d' = one_time_tokens d1"
    using 1(4) by (simp add: revoke_all_for_user_def d2)
  have used: "fst (consume_token (sha256 ext token) PasswordReset later d') = None"
  proof -
    have "link_spent (sha256 ext token) d1"
      using links.win_spends [of d ext "sha256 ext token" "RedeemLink token PasswordReset now"] 1(1) assms(3)
      by simp
    then show ?thesis
      by (auto simp: consume_token_def find_None link_spent_def claimable_def links)
  qed
  have again: "fst (reset_password ext cfg salt' token new' client' later d') = Inl identity_error.InvalidToken"
    using used by (cases "consume_token (sha256 ext token) PasswordReset later d'")
      (simp add: reset_password_def)
  have w': "find_user d uid = Some w" using w d1 by (simp add: find_user_def)
  have revoked: "\<forall>s \<in> set (sessions d'). ses_user s = uid \<longrightarrow> ses_revoked_at s \<noteq> None"
    unfolding ses by (intro ballI impI) (rule revoke_where_revokes [where p = "\<lambda>s. ses_user s = uid"], simp_all)
  have kept: "filter (\<lambda>s. ses_user s \<noteq> uid) (sessions d') = filter (\<lambda>s. ses_user s \<noteq> uid) (sessions d)"
    unfolding ses using revoke_where_others [of "\<lambda>s. ses_user s = uid" now d] by simp
  have found: "find_user d' uid = Some ((?f w)\<lparr>usr_updated_at := now\<rparr>)"
    using users f w' by simp
  have same: "\<forall>v. v \<noteq> uid \<longrightarrow> find_user d' v = find_user d v"
    using users f by (auto simp: option.map_ident)
  show ?thesis
    by (rule exI [of _ uid], rule exI [of _ "(?f w)\<lparr>usr_updated_at := now\<rparr>"])
      (use 1(1) found same revoked kept again match in simp)
qed

lemma reset_recovers_account_witness:
  "\<exists>u. find_user (snd (reset_password sample_externals sample_config [] ''r'' ''new password!'' sample_client 5
           link_db)) 1 = Some u \<and> verify_password sample_externals sample_config ''new password!'' (usr_password_hash u)"
proof -
  let ?r = "reset_password sample_externals sample_config [] ''r'' ''new password!'' sample_client 5 link_db"
  have "\<forall>salt m h. hash_password sample_externals salt m = Some h \<longrightarrow> password_matches sample_externals m h"
    by (simp add: sample_externals_def)
  moreover have "\<forall>t \<in> set (one_time_tokens link_db). user_exists link_db (ott_user t)" "link_keys link_db"
    "fst (consume_token (sha256 sample_externals ''r'') PasswordReset 5 link_db) = Some 1"
    by code_simp+
  moreover have "fst ?r = Inr ()" by code_simp
  then have "?r = (Inr (), snd ?r)" by (metis prod.collapse)
  ultimately show ?thesis
    using reset_recovers_account [of sample_externals link_db sample_config "[]" "''r''" "''new password!''" sample_client
        5 "snd ?r" "[]" "[]" sample_client 6] by auto
qed

end
