(* ===== verification/Api.thy ===== *)
theory Api
  imports AuthHandlers Deliveries Export Uploads
begin

text \<open>
  The management surface and the public surface over HTTP: the handlers of
  \<open>src/src/modules/organization/handler.rs\<close>, \<open>form/handler.rs\<close>, \<open>webhook/handler.rs\<close> and
  \<open>form/public.rs\<close>, and the routers that put every tenant's resources under
  \<open>/organizations/{organization_id}\<close> (\<open>mod.rs\<close> of the three modules, \<open>lib.rs\<close>).

  A handler gets the caller \<open>a\<close> the extractor has authenticated, the parts of the path, the decoded body
  or query, and answers with an \<open>AppError\<close> or a status and a body. What the process holds besides the
  database, and what it draws (time, identifiers, random tokens), is in the record \<open>env\<close>.
\<close>

section \<open>Answers\<close>

datatype api_message =
    Malformed
  | OfIdentity identity_error
  | OfOrganization organization_error
  | OfForm form_error
  | OfWebhook webhook_message

record secret_response =
  srs_id :: uuid
  srs_url :: string
  srs_secret :: string

datatype reply_body =
    NoContent
  | OrganizationBody organization_response
  | OrganizationList "organization_response list" int
  | AdminOrganizationBody admin_organization_response
  | AdminOrganizationList "admin_organization_response list" int
  | MemberBody member_response
  | MemberList "member_response list" int
  | FormBody form_response
  | FormList "form_response list" int
  | PublicFormBody public_form_response
  | AcceptedBody submission_accepted
  | UploadedBody uploaded_file
  | SubmissionBody submission_response
  | SubmissionList "submission_response list" int
  | ExportBody "(string \<times> string) list" "string list" "form_error option"
  | ExportCut
  | FileBody "(string \<times> string) list" string
  | SecretBody secret_response
  | EndpointBody endpoint_response
  | EndpointList "endpoint_response list" int
  | DeliveryBody delivery_response
  | DeliveryList "delivery_response list" int

type_synonym answer = "api_message app_error + nat \<times> reply_body"

definition malformed :: answer where
  "malformed = Inl (app_error.Validation Malformed)"

text \<open>The \<open>?\<close> of a handler, with the module's conversion into \<open>AppError\<close>.\<close>

definition answer_with ::
  "('e \<Rightarrow> 'm app_error) \<Rightarrow> ('m \<Rightarrow> api_message) \<Rightarrow> ('b \<Rightarrow> nat \<times> reply_body) \<Rightarrow> ('e + 'b) \<times> 's \<Rightarrow> answer \<times> 's"
where
  "answer_with conv message ok p =
     (case p of (r, s) \<Rightarrow>
        (map_err (\<lambda>e. map_app_error message (conv e)) (and_then r (\<lambda>b. Inr (ok b))), s))"

definition organization_answer ::
  "('b \<Rightarrow> nat \<times> reply_body) \<Rightarrow> (organization_error + 'b) \<times> 's \<Rightarrow> answer \<times> 's" where
  "organization_answer = answer_with organization_app_error OfOrganization"

definition form_answer :: "('b \<Rightarrow> nat \<times> reply_body) \<Rightarrow> (form_error + 'b) \<times> 's \<Rightarrow> answer \<times> 's" where
  "form_answer = answer_with form_app_error OfForm"

definition webhook_answer :: "('b \<Rightarrow> nat \<times> reply_body) \<Rightarrow> (webhook_error + 'b) \<times> 's \<Rightarrow> answer \<times> 's" where
  "webhook_answer = answer_with webhook_app_error OfWebhook"

record env =
  e_ext :: externals
  e_storage :: file_storage
  e_faults :: bucket_faults
  e_bucket :: bucket
  e_allow_private :: bool
  e_client :: client_info
  e_now :: instant
  e_id :: uuid
  e_token :: string
  e_reads :: "(form_error + db) list"
  e_header_ok :: "string \<Rightarrow> bool"
  e_parse_json :: "string \<Rightarrow> json option"

type_synonym page = "32 word option \<times> 32 word option"

definition caller :: "authenticated_user \<Rightarrow> uuid" where
  "caller a = pub_id (au_user a)"


section \<open>Organizations\<close>

definition create_organization_handler :: "env \<Rightarrow> authenticated_user \<Rightarrow> string \<Rightarrow> db \<Rightarrow> answer \<times> db" where
  "create_organization_handler e a name d =
     (if \<not> chars_between 1 120 name then (malformed, d)
      else organization_answer (\<lambda>r. (201, OrganizationBody r))
             (create_organization name (caller a) (e_client e) (e_id e) (e_now e) d))"

definition list_organizations_handler :: "authenticated_user \<Rightarrow> page \<Rightarrow> db \<Rightarrow> answer \<times> db" where
  "list_organizations_handler a q d =
     (case page_bounds (fst q) (snd q) of (l, i) \<Rightarrow>
        case list_my_organizations d (caller a) l i of (rs, n) \<Rightarrow>
          (Inr (200, OrganizationList rs n), d))"

definition get_organization_handler :: "authenticated_user \<Rightarrow> uuid \<Rightarrow> db \<Rightarrow> answer \<times> db" where
  "get_organization_handler a oid d =
     organization_answer (\<lambda>r. (200, OrganizationBody r)) (get_organization d oid (caller a), d)"

definition rename_organization_handler ::
  "env \<Rightarrow> authenticated_user \<Rightarrow> uuid \<Rightarrow> string \<Rightarrow> db \<Rightarrow> answer \<times> db" where
  "rename_organization_handler e a oid name d =
     (if \<not> chars_between 1 120 name then (malformed, d)
      else organization_answer (\<lambda>r. (200, OrganizationBody r))
             (rename_organization oid name (caller a) (e_client e) (e_now e) d))"

definition delete_organization_handler :: "env \<Rightarrow> authenticated_user \<Rightarrow> uuid \<Rightarrow> db \<Rightarrow> answer \<times> db" where
  "delete_organization_handler e a oid d =
     organization_answer (\<lambda>_. (204, NoContent))
       (delete_organization oid (caller a) (e_client e) (e_now e) d)"

definition list_members_handler :: "authenticated_user \<Rightarrow> uuid \<Rightarrow> page \<Rightarrow> db \<Rightarrow> answer \<times> db" where
  "list_members_handler a oid q d =
     (case page_bounds (fst q) (snd q) of (l, i) \<Rightarrow>
        organization_answer (\<lambda>(ms, n). (200, MemberList ms n))
          (list_members d oid (caller a) l i, d))"

text \<open>The address is normalized while the body is decoded.\<close>

definition add_member_handler ::
  "env \<Rightarrow> authenticated_user \<Rightarrow> uuid \<Rightarrow> string \<Rightarrow> organization_role \<Rightarrow> db \<Rightarrow> answer \<times> db" where
  "add_member_handler e a oid email role d =
     (let email = normalize_email (e_ext e) email
      in if \<not> email_field_valid (e_ext e) email then (malformed, d)
         else organization_answer (\<lambda>(m, created). (if created then 201 else 200, MemberBody m))
                (add_member (e_ext e) oid email role (caller a) (e_client e) (e_now e) d))"

definition set_member_role_handler ::
  "env \<Rightarrow> authenticated_user \<Rightarrow> uuid \<Rightarrow> uuid \<Rightarrow> organization_role \<Rightarrow> db \<Rightarrow> answer \<times> db" where
  "set_member_role_handler e a oid target role d =
     organization_answer (\<lambda>m. (200, MemberBody m))
       (set_member_role oid target role (caller a) (e_client e) (e_now e) d)"

definition remove_member_handler :: "env \<Rightarrow> authenticated_user \<Rightarrow> uuid \<Rightarrow> uuid \<Rightarrow> db \<Rightarrow> answer \<times> db" where
  "remove_member_handler e a oid target d =
     organization_answer (\<lambda>_. (204, NoContent))
       (remove_member oid target (caller a) (e_client e) (e_now e) d)"

definition as_administrator :: "authenticated_user \<Rightarrow> answer \<times> 's \<Rightarrow> 's \<Rightarrow> answer \<times> 's" where
  "as_administrator a k s =
     (case require_role a ADMIN_ROLE of
        Inl err \<Rightarrow> (Inl (map_app_error OfIdentity err), s) | Inr _ \<Rightarrow> k)"

definition admin_list_organizations_handler :: "authenticated_user \<Rightarrow> page \<Rightarrow> db \<Rightarrow> answer \<times> db" where
  "admin_list_organizations_handler a q d =
     as_administrator a
       (case page_bounds (fst q) (snd q) of (l, i) \<Rightarrow>
          case list_all_organizations d l i of (rs, n) \<Rightarrow>
            (Inr (200, AdminOrganizationList rs n), d)) d"

definition admin_get_organization_handler :: "authenticated_user \<Rightarrow> uuid \<Rightarrow> db \<Rightarrow> answer \<times> db" where
  "admin_get_organization_handler a oid d =
     as_administrator a
       (organization_answer (\<lambda>r. (200, AdminOrganizationBody r)) (get_as_administrator d oid, d)) d"

section \<open>Webhook endpoints and deliveries\<close>

definition create_endpoint_handler ::
  "env \<Rightarrow> authenticated_user \<Rightarrow> uuid \<Rightarrow> create_endpoint_request \<Rightarrow> db \<Rightarrow> answer \<times> db" where
  "create_endpoint_handler e a oid r d =
     webhook_answer
       (\<lambda>(p, secret). (201, SecretBody \<lparr>srs_id = eps_id p, srs_url = eps_url p, srs_secret = secret\<rparr>))
       (create_endpoint (e_allow_private e) oid r (caller a) (e_client e) (e_id e) (e_token e) (e_now e) d)"

definition list_endpoints_handler :: "authenticated_user \<Rightarrow> uuid \<Rightarrow> page \<Rightarrow> db \<Rightarrow> answer \<times> db" where
  "list_endpoints_handler a oid q d =
     (case page_bounds (fst q) (snd q) of (l, i) \<Rightarrow>
        webhook_answer (\<lambda>(ps, n). (200, EndpointList ps n)) (list_endpoints oid (caller a) l i d))"

definition get_endpoint_handler :: "authenticated_user \<Rightarrow> uuid \<Rightarrow> uuid \<Rightarrow> db \<Rightarrow> answer \<times> db" where
  "get_endpoint_handler a oid eid d =
     webhook_answer (\<lambda>p. (200, EndpointBody p)) (get_endpoint oid eid (caller a) d)"

definition update_endpoint_handler ::
  "env \<Rightarrow> authenticated_user \<Rightarrow> uuid \<Rightarrow> uuid \<Rightarrow> update_endpoint_request \<Rightarrow> db \<Rightarrow> answer \<times> db" where
  "update_endpoint_handler e a oid eid r d =
     webhook_answer (\<lambda>p. (200, EndpointBody p))
       (update_endpoint (e_allow_private e) oid eid r (caller a) (e_client e) (e_now e) d)"

definition delete_endpoint_handler :: "env \<Rightarrow> authenticated_user \<Rightarrow> uuid \<Rightarrow> uuid \<Rightarrow> db \<Rightarrow> answer \<times> db" where
  "delete_endpoint_handler e a oid eid d =
     webhook_answer (\<lambda>_. (204, NoContent))
       (delete_endpoint oid eid (caller a) (e_client e) (e_now e) d)"

text \<open>The endpoint is read first, for the answer, then the secret is exchanged.\<close>

definition rotate_secret_handler :: "env \<Rightarrow> authenticated_user \<Rightarrow> uuid \<Rightarrow> uuid \<Rightarrow> db \<Rightarrow> answer \<times> db" where
  "rotate_secret_handler e a oid eid d =
     webhook_answer
       (\<lambda>(p, secret). (200, SecretBody \<lparr>srs_id = eps_id p, srs_url = eps_url p, srs_secret = secret\<rparr>))
       (case get_endpoint oid eid (caller a) d of
          (Inl err, d1) \<Rightarrow> (Inl err, d1)
        | (Inr p, d1) \<Rightarrow>
            (case rotate_endpoint_secret oid eid (caller a) (e_client e) (e_token e) (e_now e) d1 of
               (r, d2) \<Rightarrow> (and_then r (\<lambda>secret. Inr (p, secret)), d2)))"

definition list_deliveries_handler ::
  "authenticated_user \<Rightarrow> uuid \<Rightarrow> delivery_filters \<Rightarrow> page \<Rightarrow> db \<Rightarrow> answer \<times> db" where
  "list_deliveries_handler a oid flt q d =
     (case page_bounds (fst q) (snd q) of (l, i) \<Rightarrow>
        webhook_answer (\<lambda>(ws, n). (200, DeliveryList ws n)) (list_deliveries oid (caller a) flt l i d))"

definition redeliver_handler :: "env \<Rightarrow> authenticated_user \<Rightarrow> uuid \<Rightarrow> uuid \<Rightarrow> db \<Rightarrow> answer \<times> db" where
  "redeliver_handler e a oid did d =
     webhook_answer (\<lambda>w. (200, DeliveryBody w)) (redeliver oid did (caller a) (e_now e) d)"


section \<open>Forms\<close>

text \<open>\<open>create_form_handler\<close> (theory \<open>Forms\<close>) checks the request and calls the service.\<close>

definition post_form_handler ::
  "env \<Rightarrow> authenticated_user \<Rightarrow> uuid \<Rightarrow> create_form_request \<Rightarrow> db \<Rightarrow> answer \<times> db" where
  "post_form_handler e a oid r d =
     (case create_form_handler (is_enabled (e_storage e)) oid r (caller a) (e_client e) (e_id e)
             (e_token e) (e_now e) d of
        (res, d') \<Rightarrow>
          (map_err (map_app_error (case_sum (\<lambda>_. Malformed) OfForm))
             (and_then res (\<lambda>f. Inr (201, FormBody f))), d'))"

definition list_forms_handler :: "authenticated_user \<Rightarrow> uuid \<Rightarrow> page \<Rightarrow> db \<Rightarrow> answer \<times> db" where
  "list_forms_handler a oid q d =
     (case page_bounds (fst q) (snd q) of (l, i) \<Rightarrow>
        form_answer (\<lambda>(fs, n). (200, FormList fs n)) (list_forms oid (caller a) l i d))"

definition get_form_handler :: "authenticated_user \<Rightarrow> uuid \<Rightarrow> uuid \<Rightarrow> db \<Rightarrow> answer \<times> db" where
  "get_form_handler a oid fid d = form_answer (\<lambda>f. (200, FormBody f)) (get_form oid fid (caller a) d)"

definition update_form_handler ::
  "env \<Rightarrow> authenticated_user \<Rightarrow> uuid \<Rightarrow> uuid \<Rightarrow> update_form_request \<Rightarrow> db \<Rightarrow> answer \<times> db" where
  "update_form_handler e a oid fid r d =
     (if \<not> update_request_valid r then (malformed, d)
      else form_answer (\<lambda>f. (200, FormBody f))
             (update_form (e_ext e) (is_enabled (e_storage e)) oid fid r (caller a) (e_client e) (e_now e) d))"

definition delete_form_handler :: "env \<Rightarrow> authenticated_user \<Rightarrow> uuid \<Rightarrow> uuid \<Rightarrow> db \<Rightarrow> answer \<times> db" where
  "delete_form_handler e a oid fid d =
     form_answer (\<lambda>_. (204, NoContent)) (delete_form oid fid (caller a) (e_client e) (e_now e) d)"

definition publish_form_handler :: "env \<Rightarrow> authenticated_user \<Rightarrow> uuid \<Rightarrow> uuid \<Rightarrow> db \<Rightarrow> answer \<times> db" where
  "publish_form_handler e a oid fid d =
     form_answer (\<lambda>f. (200, FormBody f))
       (publish_form (is_enabled (e_storage e)) oid fid (caller a) (e_client e) (e_now e) d)"

definition close_form_handler :: "env \<Rightarrow> authenticated_user \<Rightarrow> uuid \<Rightarrow> uuid \<Rightarrow> db \<Rightarrow> answer \<times> db" where
  "close_form_handler e a oid fid d =
     form_answer (\<lambda>f. (200, FormBody f)) (close_form oid fid (caller a) (e_client e) (e_now e) d)"

definition rotate_public_id_handler :: "env \<Rightarrow> authenticated_user \<Rightarrow> uuid \<Rightarrow> uuid \<Rightarrow> db \<Rightarrow> answer \<times> db" where
  "rotate_public_id_handler e a oid fid d =
     form_answer (\<lambda>f. (200, FormBody f))
       (rotate_public_id oid fid (caller a) (e_client e) (e_token e) (e_now e) d)"


section \<open>Submissions\<close>

record submission_query =
  sqy_form :: "uuid option"
  sqy_status :: "submission_status option"
  sqy_since :: "instant option"
  sqy_until :: "instant option"
  sqy_field :: "string option"
  sqy_value :: "string option"

definition query_filters :: "(string \<Rightarrow> json option) \<Rightarrow> submission_query \<Rightarrow> uuid option \<Rightarrow> submission_filters" where
  "query_filters parse q form =
     \<lparr>flt_form = (case form of Some f \<Rightarrow> Some f | None \<Rightarrow> sqy_form q),
      flt_status = sqy_status q, flt_since = sqy_since q, flt_until = sqy_until q,
      flt_contains =
        (case (sqy_field q, sqy_value q) of
           (Some field, Some v) \<Rightarrow>
             Some (field, case parse v of Some j \<Rightarrow> j | None \<Rightarrow> JString v)
         | _ \<Rightarrow> None)\<rparr>"

definition list_submissions_handler ::
  "env \<Rightarrow> authenticated_user \<Rightarrow> uuid \<Rightarrow> submission_query \<Rightarrow> page \<Rightarrow> db \<Rightarrow> answer \<times> db" where
  "list_submissions_handler e a oid flt q d =
     (case page_bounds (fst q) (snd q) of (l, i) \<Rightarrow>
        form_answer (\<lambda>(ss, n). (200, SubmissionList ss n))
          (list_submissions oid (caller a) (query_filters (e_parse_json e) flt None) l i d))"

definition list_form_submissions_handler ::
  "env \<Rightarrow> authenticated_user \<Rightarrow> uuid \<Rightarrow> uuid \<Rightarrow> submission_query \<Rightarrow> page \<Rightarrow> db \<Rightarrow> answer \<times> db" where
  "list_form_submissions_handler e a oid fid flt q d =
     (case page_bounds (fst q) (snd q) of (l, i) \<Rightarrow>
        form_answer (\<lambda>(ss, n). (200, SubmissionList ss n))
          (list_submissions oid (caller a) (query_filters (e_parse_json e) flt (Some fid)) l i d))"

definition get_submission_handler :: "authenticated_user \<Rightarrow> uuid \<Rightarrow> uuid \<Rightarrow> db \<Rightarrow> answer \<times> db" where
  "get_submission_handler a oid sid d =
     form_answer (\<lambda>s. (200, SubmissionBody s)) (get_submission oid sid (caller a) d)"

definition update_submission_handler ::
  "env \<Rightarrow> authenticated_user \<Rightarrow> uuid \<Rightarrow> uuid \<Rightarrow> submission_status \<Rightarrow> db \<Rightarrow> answer \<times> db" where
  "update_submission_handler e a oid sid status d =
     form_answer (\<lambda>s. (200, SubmissionBody s))
       (set_submission_status (e_ext e) oid sid status (caller a) (e_client e) (e_now e) d)"

definition delete_submission_handler :: "env \<Rightarrow> authenticated_user \<Rightarrow> uuid \<Rightarrow> uuid \<Rightarrow> db \<Rightarrow> answer \<times> db" where
  "delete_submission_handler e a oid sid d =
     form_answer (\<lambda>_. (204, NoContent)) (delete_submission oid sid (caller a) (e_client e) (e_now e) d)"

text \<open>
  The body of an export is streamed after the status has gone out; \<open>ExportCut\<close> stands for a stream that
  has not ended within the reads in \<open>e_reads\<close>. A header the crate \<open>http\<close> does not accept (\<open>e_header_ok\<close>)
  turns the whole answer into a plain 500.
\<close>

definition export_response :: "env \<Rightarrow> export_stream option \<Rightarrow> nat \<times> reply_body" where
  "export_response e x =
     (case x of
        None \<Rightarrow> (200, ExportCut)
      | Some x \<Rightarrow>
          if e_header_ok e (exp_content_type x) \<and> e_header_ok e (export_disposition x)
          then (200, ExportBody [(''content-type'', exp_content_type x),
                                 (''content-disposition'', export_disposition x)]
                       (exp_chunks x) (exp_broken x))
          else (500, NoContent))"

definition export_handler ::
  "env \<Rightarrow> authenticated_user \<Rightarrow> uuid \<Rightarrow> uuid \<Rightarrow> export_format option \<Rightarrow> db \<Rightarrow> answer \<times> db" where
  "export_handler e a oid fid fmt d =
     form_answer (export_response e)
       (export_submissions (e_ext e) oid fid (caller a) (case fmt of None \<Rightarrow> Csv | Some f \<Rightarrow> f) (e_reads e) d)"

definition download_handler :: "env \<Rightarrow> authenticated_user \<Rightarrow> uuid \<Rightarrow> uuid \<Rightarrow> string \<Rightarrow> db \<Rightarrow> answer \<times> db" where
  "download_handler e a oid sid field_key d =
     (case submission_file (e_storage e) (e_faults e) oid sid field_key (caller a) (e_bucket e) d of
        (Inl err, d') \<Rightarrow> (Inl (map_app_error OfForm (form_app_error err)), d')
      | (Inr x, d') \<Rightarrow>
          (let disposition = content_disposition (dld_filename x)
           in if e_header_ok e (dld_content_type x) \<and> e_header_ok e disposition
              then (Inr (200, FileBody
                      [(''content-type'', dld_content_type x),
                       (''content-length'', show_nat (length (dld_object x))),
                       (''content-disposition'', disposition),
                       (''x-content-type-options'', ''nosniff'')] (dld_object x)), d')
              else (Inl (app_error.Internal (OtherCause ''header'')), d')))"


section \<open>The public surface\<close>

definition definition_handler :: "string \<Rightarrow> db \<Rightarrow> answer \<times> db" where
  "definition_handler public d =
     form_answer (\<lambda>f. (200, PublicFormBody f)) (public_definition d public, d)"

definition submit_handler ::
  "env \<Rightarrow> bool \<Rightarrow> string \<Rightarrow> string option \<Rightarrow> json_map \<Rightarrow> int \<Rightarrow> db \<Rightarrow> answer \<times> db" where
  "submit_handler e within_budget public referer payload eid d =
     form_answer (\<lambda>r. (201, AcceptedBody r))
       (submit (e_ext e) within_budget public payload (e_client e) (Option.bind referer header_to_str)
          (e_id e) eid (e_now e) d)"

definition upload_handler ::
  "env \<Rightarrow> nat \<Rightarrow> bool \<Rightarrow> string \<Rightarrow> string \<Rightarrow> string option \<Rightarrow> string option \<Rightarrow> (cause + string) list \<Rightarrow>
   db \<times> bucket \<Rightarrow> answer \<times> (db \<times> bucket)" where
  "upload_handler e max_upload within_budget public field_key filename content_type body s =
     form_answer (\<lambda>u. (201, UploadedBody u))
       (upload (e_ext e) (e_storage e) max_upload (e_faults e) within_budget public field_key filename
          (Option.bind content_type header_to_str) body (e_token e) (e_id e) (e_now e) s)"


section \<open>Routes\<close>

text \<open>What is under \<open>/organizations/{organization_id}\<close>, by module.\<close>

datatype organization_request =
    GetOrganization
  | RenameOrganization string
  | DeleteOrganization
  | ListMembers page
  | AddMember string organization_role
  | SetMemberRole uuid organization_role
  | RemoveMember uuid

fun organization_router :: "env \<Rightarrow> authenticated_user \<Rightarrow> uuid \<Rightarrow> organization_request \<Rightarrow> db \<Rightarrow> answer \<times> db" where
  "organization_router e a oid GetOrganization = get_organization_handler a oid"
| "organization_router e a oid (RenameOrganization name) = rename_organization_handler e a oid name"
| "organization_router e a oid DeleteOrganization = delete_organization_handler e a oid"
| "organization_router e a oid (ListMembers q) = list_members_handler a oid q"
| "organization_router e a oid (AddMember email role) = add_member_handler e a oid email role"
| "organization_router e a oid (SetMemberRole target role) = set_member_role_handler e a oid target role"
| "organization_router e a oid (RemoveMember target) = remove_member_handler e a oid target"

datatype form_request =
    ListForms page
  | CreateForm create_form_request
  | GetForm uuid
  | UpdateForm uuid update_form_request
  | DeleteForm uuid
  | PublishForm uuid
  | CloseForm uuid
  | RotatePublicId uuid
  | ListSubmissions submission_query page
  | ListFormSubmissions uuid submission_query page
  | ExportSubmissions uuid "export_format option"
  | GetSubmission uuid
  | UpdateSubmission uuid submission_status
  | DeleteSubmission uuid
  | DownloadFile uuid string

fun form_router :: "env \<Rightarrow> authenticated_user \<Rightarrow> uuid \<Rightarrow> form_request \<Rightarrow> db \<Rightarrow> answer \<times> db" where
  "form_router e a oid (ListForms q) = list_forms_handler a oid q"
| "form_router e a oid (CreateForm r) = post_form_handler e a oid r"
| "form_router e a oid (GetForm fid) = get_form_handler a oid fid"
| "form_router e a oid (UpdateForm fid r) = update_form_handler e a oid fid r"
| "form_router e a oid (DeleteForm fid) = delete_form_handler e a oid fid"
| "form_router e a oid (PublishForm fid) = publish_form_handler e a oid fid"
| "form_router e a oid (CloseForm fid) = close_form_handler e a oid fid"
| "form_router e a oid (RotatePublicId fid) = rotate_public_id_handler e a oid fid"
| "form_router e a oid (ListSubmissions flt q) = list_submissions_handler e a oid flt q"
| "form_router e a oid (ListFormSubmissions fid flt q) = list_form_submissions_handler e a oid fid flt q"
| "form_router e a oid (ExportSubmissions fid fmt) = export_handler e a oid fid fmt"
| "form_router e a oid (GetSubmission sid) = get_submission_handler a oid sid"
| "form_router e a oid (UpdateSubmission sid status) = update_submission_handler e a oid sid status"
| "form_router e a oid (DeleteSubmission sid) = delete_submission_handler e a oid sid"
| "form_router e a oid (DownloadFile sid field_key) = download_handler e a oid sid field_key"

datatype webhook_request =
    ListEndpoints page
  | CreateEndpoint create_endpoint_request
  | GetEndpoint uuid
  | UpdateEndpoint uuid update_endpoint_request
  | DeleteEndpoint uuid
  | RotateSecret uuid
  | ListDeliveries delivery_filters page
  | Redeliver uuid

fun webhook_router :: "env \<Rightarrow> authenticated_user \<Rightarrow> uuid \<Rightarrow> webhook_request \<Rightarrow> db \<Rightarrow> answer \<times> db" where
  "webhook_router e a oid (ListEndpoints q) = list_endpoints_handler a oid q"
| "webhook_router e a oid (CreateEndpoint r) = create_endpoint_handler e a oid r"
| "webhook_router e a oid (GetEndpoint eid) = get_endpoint_handler a oid eid"
| "webhook_router e a oid (UpdateEndpoint eid r) = update_endpoint_handler e a oid eid r"
| "webhook_router e a oid (DeleteEndpoint eid) = delete_endpoint_handler e a oid eid"
| "webhook_router e a oid (RotateSecret eid) = rotate_secret_handler e a oid eid"
| "webhook_router e a oid (ListDeliveries flt q) = list_deliveries_handler a oid flt q"
| "webhook_router e a oid (Redeliver did) = redeliver_handler e a oid did"

datatype tenant_request =
    ToOrganization organization_request
  | ToForms form_request
  | ToWebhooks webhook_request

fun serve :: "env \<Rightarrow> authenticated_user \<Rightarrow> uuid \<Rightarrow> tenant_request \<Rightarrow> db \<Rightarrow> answer \<times> db" where
  "serve e a oid (ToOrganization r) = organization_router e a oid r"
| "serve e a oid (ToForms r) = form_router e a oid r"
| "serve e a oid (ToWebhooks r) = webhook_router e a oid r"

end
