(* ===== verification/Config.thy ===== *)
theory Config
  imports Identity Uploads "HOL-Library.Sublist"
begin

text \<open>
  The settings of a deployment: \<open>src/src/shared/config.rs\<close>, and what the mail client
  (\<open>src/src/shared/email/mod.rs\<close>), the bucket client (\<open>FileStorage::from_config\<close> of
  \<open>src/src/shared/storage.rs\<close>) and the rate limiters (\<open>src/src/shared/ratelimit.rs\<close>) take from them.

  \<open>app_config\<close> extends the settings the account services read (\<open>auth_config\<close>) by the others; a service
  is run with \<open>auth_config.truncate c\<close>. A secret is its text. The crates are arguments: \<open>envy\<close>, which
  fills the record from the environment, and, in the record \<open>lettre\<close>, the mail library.
\<close>

record app_config = auth_config +
  database_url :: string
  redis_url :: string
  server_host :: string
  server_port :: "16 word"
  database_max_connections :: "32 word"
  rate_limit_per_minute :: "32 word"
  login_rate_limit_per_minute :: "32 word"
  register_rate_limit_per_hour :: "32 word"
  sensitive_rate_limit_per_hour :: "32 word"
  submission_rate_limit_per_minute :: "32 word"
  submission_per_form_rate_limit_per_minute :: "32 word"
  cookie_secure :: bool
  cors_allowed_origins :: "string option"
  request_body_limit_bytes :: "64 word"
  request_timeout_seconds :: "64 word"
  api_docs_enabled :: bool
  email_provider :: string
  smtp_host :: "string option"
  smtp_port :: "16 word"
  smtp_username :: "string option"
  smtp_password :: "string option"
  email_from :: "string option"
  smtp_tls_mode :: string
  s3_bucket :: "string option"
  s3_region :: string
  s3_endpoint :: "string option"
  s3_access_key_id :: "string option"
  s3_secret_access_key :: "string option"
  s3_force_path_style :: bool
  upload_max_bytes :: "64 word"
  upload_ttl_hours :: "64 word"
  webhook_timeout_seconds :: "64 word"
  webhook_allow_private_targets :: bool
  redis_key_prefix :: string


section \<open>Checks at startup\<close>

definition PLACEHOLDER_SECRET_MARKERS :: "string list" where
  "PLACEHOLDER_SECRET_MARKERS =
     [''replace-with'', ''changeme'', ''change-me'', ''placeholder'', ''your-secret'', ''insecure'']"

definition is_placeholder_secret :: "string \<Rightarrow> bool" where
  "is_placeholder_secret secret \<longleftrightarrow>
     (let secret = to_ascii_lowercase secret
      in list_ex (\<lambda>marker. sublist marker secret) PLACEHOLDER_SECRET_MARKERS)"

definition uses_smtp :: "'x app_config_scheme \<Rightarrow> bool" where
  "uses_smtp c \<longleftrightarrow> eq_ignore_ascii_case (trim (email_provider c)) ''smtp''"

definition complaint :: "bool \<Rightarrow> string \<Rightarrow> string list" where
  "complaint b message = (if b then [message] else [])"

definition missing :: "string option \<Rightarrow> bool" where
  "missing v \<longleftrightarrow> (case v of None \<Rightarrow> True | Some s \<Rightarrow> s = [])"

text \<open>\<open>str::len\<close> counts bytes, so that the check on \<open>JWT_SECRET\<close> is in bytes.\<close>

definition number_complaints :: "'x app_config_scheme \<Rightarrow> string list" where
  "number_complaints c =
     complaint (rate_limit_per_minute c = 0) ''RATE_LIMIT_PER_MINUTE must be greater than zero'' @
     complaint (login_rate_limit_per_minute c = 0)
       ''LOGIN_RATE_LIMIT_PER_MINUTE must be greater than zero'' @
     complaint (register_rate_limit_per_hour c = 0)
       ''REGISTER_RATE_LIMIT_PER_HOUR must be greater than zero'' @
     complaint (sensitive_rate_limit_per_hour c = 0)
       ''SENSITIVE_RATE_LIMIT_PER_HOUR must be greater than zero'' @
     complaint (submission_rate_limit_per_minute c = 0)
       ''SUBMISSION_RATE_LIMIT_PER_MINUTE must be greater than zero'' @
     complaint (submission_per_form_rate_limit_per_minute c = 0)
       ''SUBMISSION_PER_FORM_RATE_LIMIT_PER_MINUTE must be greater than zero'' @
     complaint (webhook_timeout_seconds c = 0) ''WEBHOOK_TIMEOUT_SECONDS must be greater than zero'' @
     complaint (access_token_ttl_seconds c = 0) ''ACCESS_TOKEN_TTL_SECONDS must be greater than zero'' @
     complaint (refresh_token_ttl_seconds c = 0)
       ''REFRESH_TOKEN_TTL_SECONDS must be greater than zero'' @
     complaint (email_verification_ttl_seconds c = 0)
       ''EMAIL_VERIFICATION_TTL_SECONDS must be greater than zero'' @
     complaint (password_reset_ttl_seconds c = 0)
       ''PASSWORD_RESET_TTL_SECONDS must be greater than zero'' @
     complaint (max_failed_login_attempts c = 0)
       ''MAX_FAILED_LOGIN_ATTEMPTS must be greater than zero'' @
     complaint (account_lock_duration_seconds c = 0)
       ''ACCOUNT_LOCK_DURATION_SECONDS must be greater than zero'' @
     complaint (request_body_limit_bytes c = 0) ''REQUEST_BODY_LIMIT_BYTES must be greater than zero'' @
     complaint (request_timeout_seconds c = 0) ''REQUEST_TIMEOUT_SECONDS must be greater than zero'' @
     complaint (refresh_token_ttl_seconds c \<le> access_token_ttl_seconds c)
       ''ACCESS_TOKEN_TTL_SECONDS must be shorter than REFRESH_TOKEN_TTL_SECONDS''"

definition smtp_complaints :: "'x app_config_scheme \<Rightarrow> string list" where
  "smtp_complaints c =
     (if uses_smtp c then
        complaint (missing (smtp_host c)) ''SMTP_HOST is required when EMAIL_PROVIDER=smtp'' @
        complaint (missing (email_from c)) ''EMAIL_FROM is required when EMAIL_PROVIDER=smtp'' @
        complaint ((smtp_username c \<noteq> None) \<noteq> (smtp_password c \<noteq> None))
          ''SMTP_USERNAME and SMTP_PASSWORD must be set together''
      else []) @
     complaint (to_ascii_lowercase (trim (smtp_tls_mode c)) \<notin> {''starttls'', ''implicit'', ''tls'', ''none''})
       ''SMTP_TLS_MODE must be starttls, implicit, or none''"

definition storage_complaints :: "'x app_config_scheme \<Rightarrow> string list" where
  "storage_complaints c =
     complaint ((s3_access_key_id c \<noteq> None) \<noteq> (s3_secret_access_key c \<noteq> None))
       ''S3_ACCESS_KEY_ID and S3_SECRET_ACCESS_KEY must be set together'' @
     complaint (upload_max_bytes c = 0) ''UPLOAD_MAX_BYTES must be greater than zero'' @
     complaint (upload_ttl_hours c = 0) ''UPLOAD_TTL_HOURS must be greater than zero''"

definition complaints :: "'x app_config_scheme \<Rightarrow> string list" where
  "complaints c =
     complaint (length (jwt_secret c) < 32) ''JWT_SECRET must be at least 32 characters long'' @
     complaint (is_placeholder_secret (jwt_secret c))
       (''JWT_SECRET is still a placeholder value; generate one with '' @
        ''`openssl rand -base64 48` and keep it secret'') @
     number_complaints c @ smtp_complaints c @ storage_complaints c"

definition validate_config :: "'x app_config_scheme \<Rightarrow> string + unit" where
  "validate_config c =
     (let invalid = complaints c
      in if invalid = [] then Inr ()
         else Inl (''invalid configuration: '' @ join ''; '' invalid))"

definition from_settings ::
  "((string \<times> string) list \<Rightarrow> string + app_config) \<Rightarrow> (string \<times> string) list \<Rightarrow> string + app_config" where
  "from_settings envy settings =
     and_then (envy settings) (\<lambda>config. and_then (validate_config config) (\<lambda>_. Inr config))"

section \<open>Derived settings\<close>

text \<open>The defaults that stand in for the settings an environment leaves out; three settings have none.\<close>

definition default_config :: "string \<Rightarrow> string \<Rightarrow> string \<Rightarrow> app_config" where
  "default_config db_url queue_url secret =
     \<lparr>jwt_secret = secret, jwt_issuer = ''submitsnap'', jwt_audience = ''submitsnap-api'',
      access_token_ttl_seconds = 900, refresh_token_ttl_seconds = 60 * 60 * 24 * 30,
      email_verification_ttl_seconds = 60 * 60 * 24, password_reset_ttl_seconds = 60 * 60,
      require_email_verification = False, max_failed_login_attempts = 5,
      account_lock_duration_seconds = 900, password_pepper = None,
      app_base_url = ''http://localhost:3000'',
      database_url = db_url, redis_url = queue_url, server_host = ''127.0.0.1'', server_port = 8080,
      database_max_connections = 10, rate_limit_per_minute = 120, login_rate_limit_per_minute = 10,
      register_rate_limit_per_hour = 5, sensitive_rate_limit_per_hour = 5,
      submission_rate_limit_per_minute = 30, submission_per_form_rate_limit_per_minute = 120,
      cookie_secure = False, cors_allowed_origins = None, request_body_limit_bytes = 64 * 1024,
      request_timeout_seconds = 15, api_docs_enabled = True, email_provider = ''disabled'',
      smtp_host = None, smtp_port = 587, smtp_username = None, smtp_password = None,
      email_from = None, smtp_tls_mode = ''starttls'', s3_bucket = None, s3_region = ''auto'',
      s3_endpoint = None, s3_access_key_id = None, s3_secret_access_key = None,
      s3_force_path_style = False, upload_max_bytes = 25 * 1024 * 1024, upload_ttl_hours = 24,
      webhook_timeout_seconds = 10, webhook_allow_private_targets = False,
      redis_key_prefix = ''submitsnap''\<rparr>"

text \<open>\<open>s.split(c)\<close>.\<close>

fun split_char :: "char \<Rightarrow> string \<Rightarrow> string list" where
  "split_char c [] = [[]]"
| "split_char c (x # xs) =
     (if x = c then [] # split_char c xs
      else case split_char c xs of [] \<Rightarrow> [[x]] | p # ps \<Rightarrow> (x # p) # ps)"

definition cors_origins :: "'x app_config_scheme \<Rightarrow> string list option" where
  "cors_origins c =
     (case cors_allowed_origins c of
        None \<Rightarrow> None
      | Some s \<Rightarrow>
          (let origins = filter (\<lambda>origin. origin \<noteq> []) (map trim (split_char CHR '','' s))
           in if origins \<noteq> [] then Some origins else None))"

definition file_uploads_enabled :: "'x app_config_scheme \<Rightarrow> bool" where
  "file_uploads_enabled c \<longleftrightarrow> (case s3_bucket c of None \<Rightarrow> False | Some b \<Rightarrow> trim b \<noteq> [])"

definition is_loopback_only :: "'x app_config_scheme \<Rightarrow> bool" where
  "is_loopback_only c \<longleftrightarrow> trim (server_host c) \<in> {''127.0.0.1'', ''localhost'', ''::1'', ''[::1]''}"

definition deployment_warnings :: "'x app_config_scheme \<Rightarrow> string list" where
  "deployment_warnings c =
     (if is_loopback_only c then []
      else
        complaint (\<not> cookie_secure c)
          (''COOKIE_SECURE=false while serving a non-loopback address: session cookies '' @
           ''will travel over plain HTTP'') @
        complaint (api_docs_enabled c)
          (''API_DOCS_ENABLED=true while serving a non-loopback address: the endpoint '' @
           ''list is publicly readable'') @
        complaint (\<not> require_email_verification c)
          ''REQUIRE_EMAIL_VERIFICATION=false: unverified email addresses can sign in'' @
        complaint (eq_ignore_ascii_case (trim (email_provider c)) ''disabled'')
          (''EMAIL_PROVIDER=disabled: verification and password reset messages are '' @
           ''discarded, so nobody can recover an account'') @
        complaint (password_pepper c = None)
          (''PASSWORD_PEPPER is unset: a database disclosure alone would be enough to '' @
           ''attack password hashes offline'') @
        complaint (case s3_endpoint c of None \<Rightarrow> False | Some e \<Rightarrow> starts_with (trim e) ''http://'')
          (''S3_ENDPOINT is plain http while serving a non-loopback address: storage '' @
           ''credentials and every uploaded file travel unencrypted''))"


section \<open>The mail client\<close>

record email_config =
  ec_provider :: string
  ec_host :: "string option"
  ec_port :: "16 word"
  ec_username :: "string option"
  ec_password :: "string option"
  ec_from :: "string option"
  ec_tls_mode :: string

definition email_settings :: "'x app_config_scheme \<Rightarrow> email_config" where
  "email_settings c =
     \<lparr>ec_provider = email_provider c, ec_host = smtp_host c, ec_port = smtp_port c,
      ec_username = smtp_username c, ec_password = smtp_password c, ec_from = email_from c,
      ec_tls_mode = smtp_tls_mode c\<rparr>"

datatype smtp_tls = StartTls | Implicit | Unencrypted

datatype mail_setup_error =
    UnsupportedTlsMode string
  | UnsupportedProvider string
  | RequiredSetting string
  | LettreRefuses string

definition smtp_tls_from_str :: "string \<Rightarrow> mail_setup_error + smtp_tls" where
  "smtp_tls_from_str value =
     (let mode = to_ascii_lowercase (trim value)
      in if mode = ''starttls'' then Inr StartTls
         else if mode = ''implicit'' \<or> mode = ''tls'' then Inr Implicit
         else if mode = ''none'' then Inr Unencrypted
         else Inl (UnsupportedTlsMode mode))"

text \<open>
  The library: whether it accepts a host for an encrypted connection (\<open>relay\<close>,
  \<open>starttls_relay\<close>; the unencrypted builder accepts any), an address (\<open>Mailbox::from_str\<close>), the
  message it is to build, and whether the server took the message.
\<close>

record lettre =
  accepts_host :: "smtp_tls \<Rightarrow> string \<Rightarrow> bool"
  accepts_mailbox :: "string \<Rightarrow> bool"
  builds_message :: "string \<Rightarrow> email_job \<Rightarrow> bool"

record smtp_sender =
  snd_host :: string
  snd_tls :: smtp_tls
  snd_port :: "16 word"
  snd_credentials :: "(string \<times> string) option"
  snd_from :: string

datatype email_client = Disabled | Smtp smtp_sender

definition required :: "string option \<Rightarrow> string \<Rightarrow> mail_setup_error + string" where
  "required value setting =
     (case value of
        None \<Rightarrow> Inl (RequiredSetting setting)
      | Some v \<Rightarrow> if v = [] then Inl (RequiredSetting setting) else Inr v)"

definition non_empty :: "string option \<Rightarrow> string option" where
  "non_empty value =
     (case value of None \<Rightarrow> None | Some v \<Rightarrow> if trim v = [] then None else Some (trim v))"

text \<open>The sender still lacks its address here; \<open>email_client_from_config\<close> fills it in.\<close>

definition smtp_transport :: "lettre \<Rightarrow> email_config \<Rightarrow> mail_setup_error + smtp_sender" where
  "smtp_transport lib c =
     and_then (required (ec_host c) ''SMTP_HOST'') (\<lambda>host.
     and_then (smtp_tls_from_str (ec_tls_mode c)) (\<lambda>tls.
       if tls \<noteq> Unencrypted \<and> \<not> accepts_host lib tls host then Inl (LettreRefuses host)
       else Inr \<lparr>snd_host = host, snd_tls = tls, snd_port = ec_port c,
                 snd_credentials =
                   (case (non_empty (ec_username c), non_empty (ec_password c)) of
                      (Some u, Some p) \<Rightarrow> Some (u, p)
                    | _ \<Rightarrow> None),
                 snd_from = ''''\<rparr>))"

definition email_client_from_config :: "lettre \<Rightarrow> email_config \<Rightarrow> mail_setup_error + email_client" where
  "email_client_from_config lib c =
     (let provider = to_ascii_lowercase (trim (ec_provider c))
      in if provider = ''disabled'' then Inr email_client.Disabled
         else if provider = ''smtp'' then
           and_then (smtp_transport lib c) (\<lambda>sender.
           and_then (required (ec_from c) ''EMAIL_FROM'') (\<lambda>from.
             if accepts_mailbox lib from then Inr (Smtp (sender\<lparr>snd_from := from\<rparr>))
             else Inl (LettreRefuses from)))
         else Inl (UnsupportedProvider provider))"

text \<open>\<open>send\<close>: whether the job counts as delivered, and the message handed to the server, if any;
  \<open>server\<close> tells whether the server takes it.\<close>

definition send_job ::
  "lettre \<Rightarrow> (smtp_sender \<Rightarrow> email_job \<Rightarrow> bool) \<Rightarrow> email_client \<Rightarrow> email_job \<Rightarrow> bool \<times> email_job option" where
  "send_job lib server client job =
     (case client of
        email_client.Disabled \<Rightarrow> (True, None)
      | Smtp sender \<Rightarrow>
          if accepts_mailbox lib (job_to job) \<and> builds_message lib (snd_from sender) job
          then (server sender job, Some job) else (False, None))"


section \<open>The bucket client\<close>

text \<open>What \<open>from_config\<close> passes to the library's builder.\<close>

record s3_settings =
  s3s_bucket :: string
  s3s_region :: string
  s3s_allow_http :: bool
  s3s_virtual_hosted :: bool
  s3s_endpoint :: "string option"
  s3s_key_id :: "string option"
  s3s_secret :: "string option"

definition s3_settings_of :: "'x app_config_scheme \<Rightarrow> s3_settings option" where
  "s3_settings_of c =
     (case non_empty (s3_bucket c) of
        None \<Rightarrow> None
      | Some bucket \<Rightarrow>
          (let endpoint = non_empty (s3_endpoint c)
           in Some \<lparr>s3s_bucket = bucket, s3s_region = trim (s3_region c),
                    s3s_allow_http = (case endpoint of None \<Rightarrow> False | Some e \<Rightarrow> starts_with e ''http://''),
                    s3s_virtual_hosted = (\<not> s3_force_path_style c), s3s_endpoint = endpoint,
                    s3s_key_id = non_empty (s3_access_key_id c), s3s_secret = s3_secret_access_key c\<rparr>))"

definition file_storage_from_config :: "(s3_settings \<Rightarrow> bool) \<Rightarrow> 'x app_config_scheme \<Rightarrow> string + file_storage" where
  "file_storage_from_config builds c =
     (case s3_settings_of c of
        None \<Rightarrow> Inr file_storage.Disabled
      | Some s \<Rightarrow> if builds s then Inr S3 else Inl ''the S3 settings are not usable'')"

definition uses_plaintext :: "s3_settings option \<Rightarrow> bool" where
  "uses_plaintext s =
     (case s of None \<Rightarrow> False
      | Some s \<Rightarrow> (case s3s_endpoint s of None \<Rightarrow> False | Some e \<Rightarrow> starts_with e ''http://''))"

definition describe_storage :: "s3_settings option \<Rightarrow> string" where
  "describe_storage s =
     (case s of
        None \<Rightarrow> ''disabled (file fields cannot be published)''
      | Some s \<Rightarrow>
          (case s3s_endpoint s of
             Some endpoint \<Rightarrow> ''s3://'' @ s3s_bucket s @ '' via '' @ endpoint
           | None \<Rightarrow> ''s3://'' @ s3s_bucket s))"


section \<open>Rate limiters\<close>

text \<open>
  A budget as it is asked of the crate \<open>governor\<close>: \<open>Quota::per_minute(n)\<close>, or a burst of \<open>n\<close> cells of
  which one comes back per period of seconds.
\<close>

datatype quota = Per_minute "32 word" | One_per_period nat "32 word"

definition non_zero :: "32 word \<Rightarrow> 32 word" where
  "non_zero limit = (if limit = 0 then 1 else limit)"

definition per_minute :: "32 word \<Rightarrow> quota" where
  "per_minute limit = Per_minute (non_zero limit)"

definition per_hour :: "32 word \<Rightarrow> quota" where
  "per_hour limit = One_per_period (60 * 60) (non_zero limit)"

record rate_limiters =
  global_budget :: quota
  login_budget :: quota
  register_budget :: quota
  sensitive_budget :: quota
  submissions_budget :: quota
  submissions_per_form_budget :: quota

definition rate_limiters_from_config :: "'x app_config_scheme \<Rightarrow> rate_limiters" where
  "rate_limiters_from_config c =
     \<lparr>global_budget = per_minute (rate_limit_per_minute c),
      login_budget = per_minute (login_rate_limit_per_minute c),
      register_budget = per_hour (register_rate_limit_per_hour c),
      sensitive_budget = per_hour (sensitive_rate_limit_per_hour c),
      submissions_budget = per_minute (submission_rate_limit_per_minute c),
      submissions_per_form_budget =
        Per_minute (non_zero (submission_per_form_rate_limit_per_minute c))\<rparr>"

end
