(* ===== verification/Server.thy ===== *)
theory Server
  imports Api Config
begin

text \<open>
  The application the HTTP server runs: \<open>app\<close> of \<open>src/src/lib.rs\<close> with the routers of
  \<open>modules/auth/mod.rs\<close>, \<open>modules/identity/mod.rs\<close>, \<open>modules/organization/mod.rs\<close> and
  \<open>modules/form/mod.rs\<close>, the budgets of \<open>shared/ratelimit.rs\<close>, the headers of \<open>shared/security.rs\<close> and
  \<open>shared/health.rs\<close>.

  A request is what the framework hands to a handler: the route with the decoded path, query and body.
  The record \<open>call\<close> holds the rest: what the process was started with, what the connection and the
  headers carry, what the request draws, and the answers of the crates it meets - whether each limiter
  (\<open>governor\<close>) has budget left for a key. The state is the database, the mail queue and the bucket.
\<close>

datatype budget = GlobalBudget | LoginBudget | RegisterBudget | SensitiveBudget | SubmissionBudget

record call =
  c_ext :: externals
  c_config :: app_config
  c_storage :: file_storage
  c_jwt :: jwt_lib
  c_header_ok :: "string \<Rightarrow> bool"
  c_parse_json :: "string \<Rightarrow> json option"
  c_faults :: bucket_faults
  c_within :: "budget \<Rightarrow> string \<Rightarrow> bool"
  c_form_within :: bool
  c_queue_up :: "nat \<Rightarrow> bool"
  c_alive :: "cause option"
  c_peer :: "string option"
  c_user_agent :: "string option"
  c_authorization :: "string option"
  c_access_cookie :: "string option"
  c_refresh_cookie :: "string option"
  c_now :: instant
  c_draws :: draws
  c_id :: uuid
  c_event_id :: int
  c_token :: string
  c_reads :: "(form_error + db) list"

type_synonym server_state = "db \<times> email_queue \<times> bucket"

definition c_client :: "call \<Rightarrow> client_info" where
  "c_client c = client_info_of (c_peer c) (c_user_agent c)"

definition c_auth_config :: "call \<Rightarrow> auth_config" where
  "c_auth_config c = auth_config.truncate (c_config c)"

definition env_of :: "call \<Rightarrow> bucket \<Rightarrow> env" where
  "env_of c b =
     \<lparr>e_ext = c_ext c, e_storage = c_storage c, e_faults = c_faults c, e_bucket = b,
      e_allow_private = webhook_allow_private_targets (c_config c), e_client = c_client c,
      e_now = c_now c, e_id = c_id c, e_token = c_token c, e_reads = c_reads c,
      e_header_ok = c_header_ok c, e_parse_json = c_parse_json c\<rparr>"


section \<open>Answers\<close>

datatype server_body =
    OfTenant reply_body
  | Healthy
  | Message
  | Account public_user
  | SignedIn session_reply
  | SignedOut "cookie list"
  | AdminAccount admin_user
  | AdminAccounts "admin_user list" int
  | AuditEvents "(auth_event \<times> instant) list" int
  | RevokedSessions nat

type_synonym server_answer = "api_message app_error + nat \<times> server_body"

definition tenant_answer :: "answer \<times> 's \<Rightarrow> server_answer \<times> 's" where
  "tenant_answer p = (case p of (r, s) \<Rightarrow> (and_then r (\<lambda>(n, b). Inr (n, OfTenant b)), s))"

fun account_message :: "unit + identity_error \<Rightarrow> api_message" where
  "account_message (Inl _) = Malformed"
| "account_message (Inr e) = OfIdentity e"

definition account_answer :: "nat \<Rightarrow> ('r \<Rightarrow> server_body) \<Rightarrow> 'r reply \<times> 's \<Rightarrow> server_answer \<times> 's" where
  "account_answer status body p =
     (case p of (r, s) \<Rightarrow>
        (map_err (map_app_error account_message) (and_then r (\<lambda>x. Inr (status, body x))), s))"

text \<open>An operation on a part of the state.\<close>

definition on_db :: "(db \<Rightarrow> 'r \<times> db) \<Rightarrow> server_state \<Rightarrow> 'r \<times> server_state" where
  "on_db f = (\<lambda>(d, q, b). case f d of (r, d') \<Rightarrow> (r, d', q, b))"

definition on_mail :: "(db \<times> email_queue \<Rightarrow> 'r \<times> db \<times> email_queue) \<Rightarrow> server_state \<Rightarrow> 'r \<times> server_state" where
  "on_mail f = (\<lambda>(d, q, b). case f (d, q) of (r, d', q') \<Rightarrow> (r, d', q', b))"

definition on_files :: "(db \<times> bucket \<Rightarrow> 'r \<times> db \<times> bucket) \<Rightarrow> server_state \<Rightarrow> 'r \<times> server_state" where
  "on_files f = (\<lambda>(d, q, b). case f (d, b) of (r, d', b') \<Rightarrow> (r, d', q, b'))"


section \<open>Budgets and callers\<close>

definition client_ip :: "call \<Rightarrow> string" where
  "client_ip c = (case c_peer c of None \<Rightarrow> ''0.0.0.0'' | Some ip \<Rightarrow> ip)"

text \<open>\<open>enforce\<close>, the middleware \<open>limit\<close> puts around a router.\<close>

definition enforce ::
  "call \<Rightarrow> budget \<Rightarrow> (server_state \<Rightarrow> server_answer \<times> server_state) \<Rightarrow> server_state \<Rightarrow>
   server_answer \<times> server_state" where
  "enforce c budget next s =
     (if \<not> c_within c budget (client_ip c) then (Inl app_error.TooManyRequests, s) else next s)"

definition authenticated ::
  "call \<Rightarrow> (authenticated_user \<Rightarrow> server_state \<Rightarrow> server_answer \<times> server_state) \<Rightarrow> server_state \<Rightarrow>
   server_answer \<times> server_state" where
  "authenticated c handler s =
     (case authenticated_request (c_ext c) (c_jwt c) (c_auth_config c) (c_now c) (c_authorization c)
             (c_access_cookie c) (fst s) of
        Inl e \<Rightarrow> (Inl (map_app_error OfIdentity e), s)
      | Inr a \<Rightarrow> handler a s)"

definition health_check :: "call \<Rightarrow> server_state \<Rightarrow> server_answer \<times> server_state" where
  "health_check c s =
     ((case c_alive c of None \<Rightarrow> Inr (200, Healthy) | Some cause \<Rightarrow> Inl (app_error.Internal cause)), s)"


section \<open>Accounts and sessions\<close>

datatype auth_request =
    PostRegister string string
  | PostLogin string string
  | PostDashboardLogin string string
  | PostRefresh "string option"
  | PostLogout
  | PostLogoutAll
  | GetMe
  | PostPasswordChange string string

fun auth_router :: "call \<Rightarrow> auth_request \<Rightarrow> server_state \<Rightarrow> server_answer \<times> server_state" where
  "auth_router c (PostRegister email password) s =
     enforce c RegisterBudget (\<lambda>s. account_answer 201 Account
       (on_mail (register_handler (c_ext c) (c_auth_config c) (c_queue_up c) (c_id c)
          (dr_salt (c_draws c)) (c_token c) (dr_token (c_draws c)) email password (c_client c)
          (c_now c)) s)) s"
| "auth_router c (PostLogin email password) s =
     enforce c LoginBudget (\<lambda>s. account_answer 200 SignedIn
       (on_db (login_handler (c_ext c) (c_jwt c) (c_auth_config c) (c_draws c) email password
          (c_client c) (c_now c)) s)) s"
| "auth_router c (PostDashboardLogin email password) s =
     enforce c LoginBudget (\<lambda>s. account_answer 200 SignedIn
       (on_db (dashboard_login_handler (c_ext c) (c_jwt c) (c_auth_config c)
          (cookie_secure (c_config c)) (c_draws c) email password (c_client c) (c_now c)) s)) s"
| "auth_router c (PostRefresh body) s =
     enforce c LoginBudget (\<lambda>s. account_answer 200 SignedIn
       (on_db (refresh_handler (c_ext c) (c_jwt c) (c_auth_config c) (cookie_secure (c_config c))
          (c_draws c) body (c_refresh_cookie c) (c_client c) (c_now c)) s)) s"
| "auth_router c PostLogout s =
     authenticated c (\<lambda>a s. on_db (\<lambda>d.
       (case logout_handler a (cookie_secure (c_config c)) (c_client c) (c_now c) d of
          (jar, d') \<Rightarrow> (Inr (200, SignedOut jar), d'))) s) s"
| "auth_router c PostLogoutAll s =
     authenticated c (\<lambda>a s. on_db (\<lambda>d.
       (case logout_all_handler a (cookie_secure (c_config c)) (c_client c) (c_now c) d of
          (jar, d') \<Rightarrow> (Inr (200, SignedOut jar), d'))) s) s"
| "auth_router c GetMe s = authenticated c (\<lambda>a s. (Inr (200, Account (au_user a)), s)) s"
| "auth_router c (PostPasswordChange current new) s =
     authenticated c (\<lambda>a s. account_answer 200 (\<lambda>_. Message)
       (on_db (change_password_handler (c_ext c) (c_auth_config c) (dr_salt (c_draws c)) a current new
          (c_client c) (c_now c)) s)) s"

datatype identity_request =
    PostVerifyEmail string
  | PostResendVerification string
  | PostForgotPassword string
  | PostResetPassword string string

fun identity_routes :: "call \<Rightarrow> identity_request \<Rightarrow> server_state \<Rightarrow> server_answer \<times> server_state" where
  "identity_routes c (PostVerifyEmail token) s =
     account_answer 200 (\<lambda>_. Message)
       (on_db (verify_email_handler (c_ext c) token (c_client c) (c_now c)) s)"
| "identity_routes c (PostResendVerification email) s =
     account_answer 202 (\<lambda>_. Message)
       (on_mail (resend_verification_handler (c_ext c) (c_auth_config c) (c_queue_up c) (c_token c)
          (dr_token (c_draws c)) email (c_client c) (c_now c)) s)"
| "identity_routes c (PostForgotPassword email) s =
     account_answer 202 (\<lambda>_. Message)
       (on_mail (forgot_password_handler (c_ext c) (c_auth_config c) (c_queue_up c) (c_token c)
          (dr_token (c_draws c)) email (c_client c) (c_now c)) s)"
| "identity_routes c (PostResetPassword token password) s =
     account_answer 200 (\<lambda>_. Message)
       (on_db (reset_password_handler (c_ext c) (c_auth_config c) (dr_salt (c_draws c)) token password
          (c_client c) (c_now c)) s)"

definition identity_router :: "call \<Rightarrow> identity_request \<Rightarrow> server_state \<Rightarrow> server_answer \<times> server_state" where
  "identity_router c r = enforce c SensitiveBudget (identity_routes c r)"


section \<open>Administration\<close>

datatype admin_request =
    GetUsers "string option" "user_status option" "string option" page
  | GetUser uuid
  | DeleteUser uuid string
  | PatchUserStatus uuid account_status_update
  | PutUserRoles uuid "string list"
  | PostUnlock uuid
  | DeleteUserSessions uuid
  | GetAuditEvents "uuid option" "uuid option" "string option" "auth_event_type option"
      "instant option" "instant option" page
  | GetAllOrganizations page
  | GetAnyOrganization uuid

fun admin_routes ::
  "call \<Rightarrow> authenticated_user \<Rightarrow> admin_request \<Rightarrow> db \<Rightarrow> server_answer \<times> db" where
  "admin_routes c a (GetUsers search status role q) d =
     account_answer 200 (\<lambda>(us, n). AdminAccounts us n)
       (list_users_handler (c_ext c) a search status role (fst q) (snd q) d)"
| "admin_routes c a (GetUser uid) d = account_answer 200 AdminAccount (get_user_handler a uid d)"
| "admin_routes c a (DeleteUser uid confirm) d =
     account_answer 200 (\<lambda>_. Message)
       (delete_user_handler (c_ext c) a uid confirm (c_client c) (c_now c) d)"
| "admin_routes c a (PatchUserStatus uid update) d =
     account_answer 200 AdminAccount (set_user_status_handler a uid update (c_client c) (c_now c) d)"
| "admin_routes c a (PutUserRoles uid names) d =
     account_answer 200 AdminAccount (set_user_roles_handler a uid names (c_client c) (c_now c) d)"
| "admin_routes c a (PostUnlock uid) d =
     account_answer 200 AdminAccount (unlock_user_handler a uid (c_client c) (c_now c) d)"
| "admin_routes c a (DeleteUserSessions uid) d =
     account_answer 200 RevokedSessions (revoke_user_sessions_handler a uid (c_client c) (c_now c) d)"
| "admin_routes c a (GetAuditEvents uid oid email kind since until q) d =
     account_answer 200 (\<lambda>(es, n). AuditEvents es n)
       (list_audit_events_handler (c_ext c) a uid oid email kind since until (fst q) (snd q) d)"
| "admin_routes c a (GetAllOrganizations q) d = tenant_answer (admin_list_organizations_handler a q d)"
| "admin_routes c a (GetAnyOrganization oid) d = tenant_answer (admin_get_organization_handler a oid d)"


section \<open>The public forms\<close>

datatype public_request =
    GetDefinition
  | PostSubmission "string option" json_map
  | PostFile string "string option" "string option" "(cause + string) list"

fun public_router :: "call \<Rightarrow> string \<Rightarrow> public_request \<Rightarrow> server_state \<Rightarrow> server_answer \<times> server_state" where
  "public_router c public GetDefinition s = tenant_answer (on_db (definition_handler public) s)"
| "public_router c public (PostSubmission referer payload) s =
     tenant_answer (on_db (submit_handler (env_of c (snd (snd s))) (c_form_within c) public referer payload
       (c_event_id c)) s)"
| "public_router c public (PostFile field_key filename content_type body) s =
     tenant_answer (on_files (upload_handler (env_of c (snd (snd s))) (unat (upload_max_bytes (c_config c)))
       (c_form_within c) public field_key filename content_type body) s)"


section \<open>The application\<close>

datatype route_request =
    GetHealth
  | ToAuth auth_request
  | ToIdentity identity_request
  | GetOrganizations page
  | PostOrganization string
  | ToTenant uuid tenant_request
  | ToAdmin admin_request
  | ToPublic string public_request

fun routes :: "call \<Rightarrow> route_request \<Rightarrow> server_state \<Rightarrow> server_answer \<times> server_state" where
  "routes c GetHealth s = health_check c s"
| "routes c (ToAuth r) s = auth_router c r s"
| "routes c (ToIdentity r) s = identity_router c r s"
| "routes c (GetOrganizations q) s =
     authenticated c (\<lambda>a s. tenant_answer (on_db (list_organizations_handler a q) s)) s"
| "routes c (PostOrganization name) s =
     authenticated c (\<lambda>a s.
       tenant_answer (on_db (create_organization_handler (env_of c (snd (snd s))) a name) s)) s"
| "routes c (ToTenant oid r) s =
     authenticated c (\<lambda>a s. tenant_answer (on_db (serve (env_of c (snd (snd s))) a oid r) s)) s"
| "routes c (ToAdmin r) s = authenticated c (\<lambda>a s. on_db (admin_routes c a r) s) s"
| "routes c (ToPublic public r) s = enforce c SubmissionBudget (public_router c public r) s"

definition app :: "call \<Rightarrow> route_request \<Rightarrow> server_state \<Rightarrow> server_answer \<times> server_state" where
  "app c r = enforce c GlobalBudget (routes c r)"


section \<open>Headers\<close>

text \<open>
  The headers of an answer that was ready in time, less those of the body's format and of the cross-origin
  policies: a layer replaces what is there under its name. The global budget is outside all of the layers,
  the other budgets inside; an answer of the deadline gets only the headers of the layers outside it.
\<close>

definition header_layer :: "string \<Rightarrow> string \<Rightarrow> (string \<times> string) list \<Rightarrow> (string \<times> string) list" where
  "header_layer name value hs = (name, value) # filter (\<lambda>h. fst h \<noteq> name) hs"

definition no_store :: "(string \<times> string) list \<Rightarrow> (string \<times> string) list" where
  "no_store = header_layer ''cache-control'' ''no-store''"

definition transport :: "'x app_config_scheme \<Rightarrow> (string \<times> string) list \<Rightarrow> (string \<times> string) list" where
  "transport c hs =
     (let hs = header_layer ''referrer-policy'' ''no-referrer''
                 (header_layer ''x-frame-options'' ''DENY''
                   (header_layer ''x-content-type-options'' ''nosniff'' hs))
      in if cookie_secure c
         then header_layer ''strict-transport-security'' ''max-age=31536000; includeSubDomains'' hs
         else hs)"

fun under_api :: "route_request \<Rightarrow> bool" where
  "under_api GetHealth = False"
| "under_api (ToPublic public r) = False"
| "under_api r = True"

fun own_headers :: "server_answer \<Rightarrow> (string \<times> string) list" where
  "own_headers (Inr (status, OfTenant (ExportBody hs chunks err))) = hs"
| "own_headers (Inr (status, OfTenant (FileBody hs bytes))) = hs"
| "own_headers r = []"

definition answer_headers :: "call \<Rightarrow> route_request \<Rightarrow> server_state \<Rightarrow> (string \<times> string) list" where
  "answer_headers c r s =
     (if \<not> c_within c GlobalBudget (client_ip c) then []
      else transport (c_config c)
             ((if under_api r then no_store else id) (own_headers (fst (routes c r s)))))"

end
