(* ===== verification/AdminGuarantees.thy ===== *)
theory AdminGuarantees
  imports AccountGuarantees Server
begin

text \<open>
  What administration promises: somebody who administers remains, as long as the check of the caller
  and the write it guards are not separated by another request and those who act are active, or at least
  only they give up roles of their own; how nobody remains otherwise; and the search of the account list
  takes the term literally.
\<close>

section \<open>Searching\<close>

declare sql_like.simps [simp del]

definition escape_like :: "string \<Rightarrow> string" where
  "escape_like term =
     concat (map (\<lambda>c. if c \<in> {CHR 0x5C, CHR ''%'', CHR ''_''} then [CHR 0x5C, c] else [c]) term)"

lemma like_contains_eq: "like_contains term = ''%'' @ escape_like term @ ''%''"
proof -
  have "escape_char CHR ''_'' (escape_char CHR ''%'' (escape_char CHR 0x5C term)) = escape_like term"
    by (induction "term") (auto simp: escape_char_def escape_like_def)
  then show ?thesis by (simp add: like_contains_def)
qed

lemma sql_like_percent:
  "sql_like (CHR ''%'' # p) s \<longleftrightarrow> (\<exists>a r. s = a @ r \<and> sql_like p r)"
proof (induction s)
  case Nil
  then show ?case by (simp add: sql_like.simps(2))
next
  case (Cons c s)
  have "sql_like (CHR ''%'' # p) (c # s) \<longleftrightarrow> sql_like p (c # s) \<or> sql_like (CHR ''%'' # p) s"
    by (subst sql_like.simps(2)) simp
  also have "\<dots> \<longleftrightarrow> sql_like p (c # s) \<or> (\<exists>a r. s = a @ r \<and> sql_like p r)"
    using Cons.IH by simp
  also have "\<dots> \<longleftrightarrow> (\<exists>a r. c # s = a @ r \<and> sql_like p r)"
    by (metis append_Cons append_Nil list.exhaust list.inject)
  finally show ?case .
qed

lemma sql_like_literal:
  "sql_like (escape_like term @ p) s \<longleftrightarrow> (\<exists>r. s = term @ r \<and> sql_like p r)"
proof (induction "term" arbitrary: s)
  case Nil
  then show ?case by (simp add: escape_like_def)
next
  case (Cons c cs)
  have "sql_like (escape_like (c # cs) @ p) s \<longleftrightarrow>
      (\<exists>s'. s = c # s' \<and> sql_like (escape_like cs @ p) s')"
    by (cases s) (auto simp: escape_like_def sql_like.simps(2))
  with Cons.IH show ?case by auto
qed

lemma sql_like_any: "sql_like ''%'' s"
  by (simp add: sql_like_percent) (metis append_Nil2 sql_like.simps(1))

lemma sql_like_contains: "sql_like (like_contains term) s \<longleftrightarrow> (\<exists>a b. s = a @ term @ b)"
  unfolding like_contains_eq append_Cons append_Nil
    sql_like_percent [of "escape_like term @ ''%''"] sql_like_literal
  by (auto simp: sql_like_any)

text \<open>The search of the account list is literal: whatever characters the term holds, \<open>%\<close>, \<open>_\<close> and
  the backslash included, an account is found exactly if its lower-cased address contains the
  trimmed term as it was typed; a blank term finds every account.\<close>

theorem search_is_literal:
  "user_matches ext d (user_filters_from_query (Some term) None None) u \<longleftrightarrow>
     trim term = [] \<or> (\<exists>a b. sql_lower ext (usr_email u) = a @ trim term @ b)"
  by (simp add: user_matches_def user_filters_from_query_def optional_def sql_like_contains)


section \<open>An administrator remains\<close>

definition is_active_admin :: "db \<Rightarrow> uuid \<Rightarrow> bool" where
  "is_active_admin d uid \<longleftrightarrow> uid \<in> set (active_admin_ids d)"

text \<open>The condition on the account's status apart: the count of administrators takes active accounts only,
  the check of a caller lets every account act that is not disabled.\<close>

definition holds_admin :: "user_status set \<Rightarrow> db \<Rightarrow> uuid \<Rightarrow> bool" where
  "holds_admin S d v \<longleftrightarrow>
     (\<exists>u \<in> set (users d). usr_id u = v \<and> usr_status u \<in> S) \<and>
     (v, ADMIN_ROLE) \<in> set (user_roles d) \<and> ADMIN_ROLE \<in> set (roles d)"

lemma is_active_admin_iff: "is_active_admin d v \<longleftrightarrow> holds_admin {ActiveUser} d v"
  by (auto simp: is_active_admin_def holds_admin_def set_active_admin_ids)

definition administers :: "db \<Rightarrow> uuid \<Rightarrow> bool" where
  "administers d v \<longleftrightarrow> (\<exists>p. session_user d v = Inr p \<and> ADMIN_ROLE \<in> set (pub_roles p))"

definition admin_keys :: "db \<Rightarrow> bool" where
  "admin_keys d \<longleftrightarrow> distinct (map usr_id (users d)) \<and> distinct (user_roles d)"

lemma concat_singletons:
  "concat (map (\<lambda>x. if P x then [f x] else []) xs) = map f (filter P xs)"
  by (induction xs) auto

lemma admin_row_once:
  assumes "distinct ur"
  shows "concat (map (\<lambda>(v, r). if v = i \<and> r = a \<and> Q r then [i] else []) ur) =
    (if (i, a) \<in> set ur \<and> Q a then [i] else [])"
  using assms by (induction ur) (auto split: if_splits)

text \<open>Each administrator is counted once.\<close>

lemma distinct_active_admins:
  assumes "admin_keys d"
  shows "distinct (active_admin_ids d)"
proof -
  let ?P = "\<lambda>u. (usr_id u, ADMIN_ROLE) \<in> set (user_roles d) \<and> ADMIN_ROLE \<in> set (roles d) \<and>
      usr_status u = ActiveUser"
  have inner: "concat (map (\<lambda>(v, r). if v = usr_id u \<and> r = ADMIN_ROLE \<and> r \<in> set (roles d) \<and>
         usr_status u = ActiveUser then [usr_id u] else []) (user_roles d)) =
      (if ?P u then [usr_id u] else [])" for u
    using admin_row_once [of "user_roles d" "usr_id u" ADMIN_ROLE
        "\<lambda>r. r \<in> set (roles d) \<and> usr_status u = ActiveUser"] assms
    by (simp add: admin_keys_def)
  have "active_admin_ids d = sort (map usr_id (filter ?P (users d)))"
    unfolding active_admin_ids_def inner concat_singletons ..
  with assms show ?thesis by (simp add: admin_keys_def distinct_map_filter)
qed

lemma distinct_singleton: "distinct xs \<Longrightarrow> set xs = {x} \<Longrightarrow> xs = [x]"
  by (cases xs; cases "tl xs") auto

lemma find_user_by_key:
  assumes "distinct (map usr_id (users d))" and "u \<in> set (users d)"
  shows "find_user d (usr_id u) = Some u"
proof (cases "find_user d (usr_id u)")
  case None
  with assms(2) show ?thesis by (auto simp: find_user_def find_None_iff)
next
  case (Some w)
  then have "w \<in> set (users d)" "usr_id w = usr_id u" by (auto simp: find_user_def dest: find_in_set)
  with assms Some show ?thesis by (auto simp: distinct_map inj_on_def)
qed

lemma administers_iff:
  assumes "admin_keys d"
  shows "administers d v \<longleftrightarrow> holds_admin (- {DisabledUser}) d v"
proof
  assume "administers d v"
  then obtain u where u: "find_user d v = Some u" "usr_status u \<noteq> DisabledUser"
      "ADMIN_ROLE \<in> set (roles_for_user d (usr_id u))"
    by (auto simp: administers_def session_user_def public_user_of_def public_user_new_def
        split: option.splits if_splits)
  then have "u \<in> set (users d)" "usr_id u = v" by (auto simp: find_user_def dest: find_in_set)
  with u show "holds_admin (- {DisabledUser}) d v" by (auto simp: holds_admin_def set_roles_for_user)
next
  assume h: "holds_admin (- {DisabledUser}) d v"
  then obtain u where u: "u \<in> set (users d)" "usr_id u = v" "usr_status u \<noteq> DisabledUser"
    by (auto simp: holds_admin_def)
  with find_user_by_key [of d u] assms h show "administers d v"
    by (auto simp: administers_def session_user_def public_user_of_def public_user_new_def admin_keys_def
        holds_admin_def set_roles_for_user)
qed

lemma active_administers: "admin_keys d \<Longrightarrow> is_active_admin d v \<Longrightarrow> administers d v"
  by (auto simp: administers_iff is_active_admin_iff holds_admin_def)

lemma admin_audit [simp]:
  "holds_admin S (audit_action kind actor s email client n d) v = holds_admin S d v"
  by (simp add: holds_admin_def)

lemma admin_audits [simp]:
  "holds_admin S ((audit_action kind actor s email client n ^^ k) d) v = holds_admin S d v"
  by (induction k) simp_all

lemma admin_revoke [simp]: "holds_admin S (snd (revoke_all_for_user uid now d)) v = holds_admin S d v"
  by (simp add: holds_admin_def revoke_all_for_user_def)

lemma admin_update_other:
  assumes "v \<noteq> uid" and "\<And>u. usr_id (f u) = usr_id u" and "holds_admin S d v"
  shows "holds_admin S (update_user uid now f d) v"
  using assms by (fastforce simp: holds_admin_def update_user_users set_update_where)

lemma admin_update_kept:
  assumes "\<And>u. usr_id (f u) = usr_id u" and "\<And>u. usr_status (f u) = usr_status u"
    and "holds_admin S d v"
  shows "holds_admin S (update_user uid now f d) v"
proof -
  from assms(3) obtain u where u: "u \<in> set (users d)" "usr_id u = v" "usr_status u \<in> S"
    by (auto simp: holds_admin_def)
  let ?u = "if usr_id u = uid then (f u)\<lparr>usr_updated_at := now\<rparr> else u"
  have "?u \<in> set (users (update_user uid now f d))"
    unfolding update_user_users update_where_member using u(1) by blast
  moreover have "usr_id ?u = v" "usr_status ?u \<in> S" using u assms(1,2) by auto
  ultimately show ?thesis using assms(3) unfolding holds_admin_def update_user_frame by blast
qed

lemma admin_status:
  assumes "actor \<noteq> target" and "holds_admin S d actor"
  shows "holds_admin S (snd (set_user_status target status now d)) actor"
  using assms by (simp add: set_user_status_def admin_update_other)

lemma admin_drop_users:
  assumes "v \<noteq> uid" and "holds_admin S d v"
  shows "holds_admin S (drop_users (\<lambda>u. usr_id u = uid) d) v"
  using assms by (auto simp: holds_admin_def drop_users_def Let_def set_delete_where table_simps)

text \<open>What the change of a status does to the state, step by step.\<close>

lemma set_account_status_keeps:
  assumes "P d" and "target \<noteq> actor \<Longrightarrow> P (snd (set_user_status target status now d))"
    and "\<And>e. P e \<Longrightarrow> P (snd (revoke_all_for_user target now e))"
    and "\<And>e email. P e \<Longrightarrow> P (audit_action AccountStatusChanged actor (Some target) email client now e)"
  shows "P (snd (set_account_status target status actor client now d))"
proof (cases "target = actor")
  case True
  with assms(1) show ?thesis by (simp add: set_account_status_def)
next
  case False
  obtain found d1 where s: "set_user_status target status now d = (found, d1)" by fastforce
  then have d1: "P d1" using assms(2) False by simp
  let ?d2 = "if status = DisabledUser then snd (revoke_all_for_user target now d1) else d1"
  have d2: "P ?d2" using d1 assms(3) by simp
  have "P (snd (guard_st (load_account ?d2 target) ?d2 (\<lambda>u.
             let d3 = audit_action AccountStatusChanged actor (Some target) (Some (usr_email u))
                        client now ?d2
             in (account d3 target, d3))))"
    by (rule guard_st_snd) (use d2 assms(4) in \<open>simp_all add: Let_def\<close>)
  with False s d1 show ?thesis
    by (cases found) (simp_all add: set_account_status_def Let_def)
qed

lemma set_account_status_admin:
  assumes "holds_admin S d actor"
  shows "holds_admin S (snd (set_account_status target status actor client now d)) actor"
  using set_account_status_keeps [of "\<lambda>d. holds_admin S d actor" d target actor status now client]
    admin_status [of actor target S d status now] assms by simp

lemma delete_account_keeps:
  assumes "P d" and "target \<noteq> actor \<Longrightarrow> P (snd (delete_user target d))"
    and "\<And>e email. P e \<Longrightarrow> P (audit_action AccountDeleted actor None email client now e)"
  shows "P (snd (delete_account ext target confirm actor client now d))"
proof (cases "target = actor")
  case True
  with assms(1) show ?thesis by (simp add: delete_account_def)
next
  case False
  obtain x d1 where x: "delete_user target d = (x, d1)" by fastforce
  then have d1: "P d1" using assms(2) False by simp
  show ?thesis
    unfolding delete_account_def x
    by (simp add: False, rule guard_st_snd [where P = P])
      (use assms(1,3) d1 in \<open>auto split: sum.splits bool.splits\<close>)
qed

lemma delete_account_admin:
  assumes "holds_admin S d actor"
  shows "holds_admin S (snd (delete_account ext target confirm actor client now d)) actor"
proof -
  have "holds_admin S (snd (delete_user target d)) actor" if "target \<noteq> actor"
    using that assms(1) admin_drop_users [of actor target S d] by (auto simp: delete_user_def)
  with delete_account_keeps [of "\<lambda>d. holds_admin S d actor" d target actor client now ext confirm] assms
  show ?thesis by simp
qed

lemma replaced_roles_admin:
  assumes "is_active_admin d target" and "admin_keys d"
    and rep: "replace_roles target (remdups names) d = (Inr (), d1)"
    and guard: "ADMIN_ROLE \<in> set (roles_for_user d target) \<and> ADMIN_ROLE \<notin> set names \<longrightarrow>
        ensure_an_admin_remains d target = Inr ()"
  shows "\<exists>v. is_active_admin d1 v"
proof (cases "\<exists>v. v \<noteq> target \<and> is_active_admin d v")
  case True
  then obtain v where "v \<noteq> target" "is_active_admin d v" by blast
  then have "is_active_admin d1 v" using replace_roles_Inr [OF rep] by (auto simp: is_active_admin_iff holds_admin_def)
  then show ?thesis ..
next
  case False
  then have "set (active_admin_ids d) = {target}"
    using assms(1) by (auto simp: is_active_admin_def)
  then have "active_admin_ids d = [target]"
    by (intro distinct_singleton distinct_active_admins assms(2))
  moreover have "ADMIN_ROLE \<in> set (roles_for_user d target)"
    using assms(1) by (auto simp: is_active_admin_iff holds_admin_def set_roles_for_user)
  ultimately have "ADMIN_ROLE \<in> set names"
    using guard by (auto simp: ensure_an_admin_remains_def)
  then have "is_active_admin d1 target"
    using replace_roles_Inr [OF rep] assms(1) by (auto simp: is_active_admin_iff holds_admin_def)
  then show ?thesis ..
qed

lemma set_account_roles_state:
  assumes "set_account_roles target names actor client now d = (r, d')"
  obtains (unchanged) "d' = d"
    | (changed) d1 j k email where "replace_roles target (remdups names) d = (Inr (), d1)"
        "ADMIN_ROLE \<in> set (roles_for_user d target) \<and> ADMIN_ROLE \<notin> set names \<longrightarrow>
          ensure_an_admin_remains d target = Inr ()"
        "d' = (audit_action RoleRevoked actor (Some target) email client now ^^ k)
           ((audit_action RoleGranted actor (Some target) email client now ^^ j) d1)"
proof -
  let ?g = "if ADMIN_ROLE \<in> set (remdups (roles_for_user d target)) \<and> ADMIN_ROLE \<notin> set (remdups names)
    then ensure_an_admin_remains d target else Inr ()"
  show thesis
  proof (cases "reject_unknown_roles d names = Inr () \<and> ?g = Inr ()")
    case False
    then show thesis
      using assms by (intro unchanged)
        (cases "reject_unknown_roles d names"; cases ?g; auto simp: set_account_roles_def Let_def)
  next
    case True
    show thesis
    proof (cases "load_account d target")
      case (Inl e)
      with True assms show thesis by (intro unchanged) (simp add: set_account_roles_def Let_def)
    next
      case (Inr u)
      obtain x d1 where x: "replace_roles target (remdups names) d = (x, d1)" by fastforce
      show thesis
      proof (cases x)
        case (Inl c)
        then have "d1 = d" using x by (auto dest: replace_roles_Inl)
        with True assms Inr Inl x show thesis by (intro unchanged) (simp add: set_account_roles_def Let_def)
      next
        case rep: (Inr w)
        have w: "replace_roles target (remdups names) d = (Inr (), d1)" using x rep by simp
        show thesis
          by (rule changed [OF w]) (use True assms Inr w in \<open>auto simp: set_account_roles_def Let_def\<close>)
      qed
    qed
  qed
qed

lemma set_own_roles_admin:
  assumes "is_active_admin d actor" and "admin_keys d"
  shows "\<exists>v. is_active_admin (snd (set_account_roles actor names actor client now d)) v"
proof -
  obtain r d' where r: "set_account_roles actor names actor client now d = (r, d')" by fastforce
  then show ?thesis
  proof (cases rule: set_account_roles_state)
    case unchanged
    with assms(1) r show ?thesis by auto
  next
    case (changed d1 j k email)
    with replaced_roles_admin [OF assms changed(1)] r show ?thesis by (auto simp: is_active_admin_iff)
  qed
qed

lemma set_other_roles_admin:
  assumes "holds_admin S d actor" and "target \<noteq> actor"
  shows "holds_admin S (snd (set_account_roles target names actor client now d)) actor"
proof -
  obtain r d' where r: "set_account_roles target names actor client now d = (r, d')" by fastforce
  then show ?thesis
  proof (cases rule: set_account_roles_state)
    case unchanged
    with assms(1) r show ?thesis by simp
  next
    case (changed d1 j k email)
    have "holds_admin S d1 actor"
      using replace_roles_Inr [OF changed(1)] assms by (auto simp: holds_admin_def)
    with changed(3) r show ?thesis by simp
  qed
qed

lemma admin_unlock_keeps:
  assumes "P d" and "\<And>f. usr_id \<circ> f = usr_id \<Longrightarrow> usr_status \<circ> f = usr_status \<Longrightarrow> P (update_user target now f d)"
    and "\<And>e email. P e \<Longrightarrow> P (audit_action AccountUnlocked actor (Some target) email client now e)"
  shows "P (snd (unlock_account target actor client now d))"
proof -
  have "P (reset_login_failures target now d)"
    unfolding reset_login_failures_def by (rule assms(2)) (simp_all add: fun_eq_iff)
  with assms(1,3) show ?thesis
    by (cases "load_account d target") (simp_all add: unlock_account_def Let_def)
qed

lemma admin_revoke_keeps:
  assumes "P d" and "\<And>e. P e \<Longrightarrow> P (snd (revoke_all_for_user target now e))"
    and "\<And>e email. P e \<Longrightarrow> P (audit_action SessionsRevoked actor (Some target) email client now e)"
  shows "P (snd (revoke_account_sessions target actor client now d))"
  using assms(1) assms(2) [of d] assms(3) [of "snd (revoke_all_for_user target now d)"]
  by (cases "load_account d target") (auto simp: revoke_account_sessions_def split: prod.splits)

subsection \<open>The keys are kept\<close>

lemma distinct_add_role_row: "distinct t \<Longrightarrow> distinct (add_role_row r t)"
  by (simp add: add_role_row_def)

lemma distinct_fold_add_role_row: "distinct t \<Longrightarrow> distinct (fold (\<lambda>r. add_role_row (uid, r)) rs t)"
  by (induction rs arbitrary: t) (simp_all add: distinct_add_role_row)

lemma admin_keys_audit [simp]:
  "admin_keys (audit_action kind actor s email client n d) = admin_keys d"
  "admin_keys ((audit_action kind actor s email client n ^^ k) d) = admin_keys d"
  by (simp add: admin_keys_def) (induction k; simp add: admin_keys_def)

lemma admin_keys_update:
  assumes "\<And>u. usr_id (f u) = usr_id u" and "admin_keys d"
  shows "admin_keys (update_user uid now f d)"
  using assms(2) update_user_ids [OF assms(1), of uid now d] by (simp add: admin_keys_def)

lemma admin_keys_revoke [simp]: "admin_keys (snd (revoke_all_for_user uid now d)) = admin_keys d"
  by (simp add: admin_keys_def revoke_all_for_user_def)

lemma admin_keys_replace:
  assumes "replace_roles uid names d = (Inr (), d')" and "admin_keys d"
  shows "admin_keys d'"
  using assms unfolding replace_roles_def Let_def
  by (auto simp: admin_keys_def delete_where_def split: if_splits intro!: distinct_fold_add_role_row)

lemma admin_keys_delete: "admin_keys d \<Longrightarrow> admin_keys (snd (delete_user uid d))"
  by (auto simp: delete_user_def admin_keys_def drop_users_def Let_def delete_where_def distinct_map_filter)

lemma admin_keys_status:
  assumes "admin_keys d" and "set_account_status target status actor client now d = (r, d')"
  shows "admin_keys d'"
proof -
  have "admin_keys (snd (set_user_status target status now d))"
    unfolding set_user_status_def by (simp, rule admin_keys_update) (simp_all add: assms(1))
  with set_account_status_keeps [of admin_keys d target actor status now client] assms show ?thesis
    by simp
qed

lemma admin_keys_roles:
  assumes "admin_keys d"
  shows "admin_keys (snd (set_account_roles target names actor client now d))"
proof -
  obtain r d' where r: "set_account_roles target names actor client now d = (r, d')" by fastforce
  then show ?thesis
  proof (cases rule: set_account_roles_state)
    case unchanged
    with assms r show ?thesis by simp
  next
    case (changed d1 j k email)
    with admin_keys_replace [OF changed(1) assms] r show ?thesis by simp
  qed
qed

subsection \<open>The requests\<close>

text \<open>A request to the administration as the application serves it: of a caller whom the access token and
  the database have identified, at the time the request is carried out.\<close>

definition admin_step :: "call \<Rightarrow> authenticated_user \<Rightarrow> admin_request \<Rightarrow> db \<Rightarrow> db \<Rightarrow> bool" where
  "admin_step c a r d d' \<longleftrightarrow>
     session_user d (pub_id (au_user a)) = Inr (au_user a) \<and> d' = snd (admin_routes c a r d)"

lemma authenticated_session_user:
  assumes "authenticate ext jwt cfg now token d = Inr a"
  shows "session_user d (pub_id (au_user a)) = Inr (au_user a)"
proof -
  from assms obtain uid sid p where a: "session_user d uid = Inr p" "a = \<lparr>au_user = p, au_session = sid\<rparr>"
    by (auto simp: authenticate_def and_then_def split: sum.splits if_splits)
  then obtain u where u: "find_user d uid = Some u" "p = public_user_of d u"
    by (auto simp: session_user_def split: option.splits if_splits)
  then have "usr_id u = uid" by (auto simp: find_user_def dest: find_in_set)
  with a u show ?thesis by (simp add: public_user_of_def public_user_new_def)
qed

lemma step_administers:
  "admin_step c a r d d' \<Longrightarrow> administers d (pub_id (au_user a)) \<longleftrightarrow> has_role a ADMIN_ROLE"
  by (simp add: admin_step_def administers_def has_role_def)

lemma account_reply_snd: "snd (account_answer n b p) = snd p"
  by (simp add: account_answer_def split: prod.splits)

lemma tenant_reply_snd: "snd (tenant_answer p) = snd p"
  by (simp add: tenant_answer_def split: prod.splits)

lemma admin_only_snd: "snd (admin_only a d f) = (if has_role a ADMIN_ROLE then snd (f d) else d)"
  by (simp add: admin_only_def require_role_def split: prod.splits)

lemma as_administrator_snd: "snd (as_administrator a p d) = (if has_role a ADMIN_ROLE then snd p else d)"
  by (simp add: as_administrator_def require_role_def split: sum.splits)

lemmas admin_step_simps = admin_step_def account_reply_snd tenant_reply_snd admin_only_snd as_administrator_snd
  list_users_handler_def get_user_handler_def set_user_status_handler_def set_user_roles_handler_def
  unlock_user_handler_def revoke_user_sessions_handler_def delete_user_handler_def
  list_audit_events_handler_def admin_list_organizations_handler_def admin_get_organization_handler_def
  organization_answer_def answer_with_def

lemma admin_step_refused: "admin_step c a r d d' \<Longrightarrow> \<not> has_role a ADMIN_ROLE \<Longrightarrow> d' = d"
  by (cases r) (simp_all add: admin_step_simps)

text \<open>Whoever acts still holds the role afterwards, unless he changed his own roles.\<close>

lemma admin_step_caller:
  assumes "admin_step c a r d d'" and "holds_admin S d (pub_id (au_user a))"
    and "\<And>names. r \<noteq> PutUserRoles (pub_id (au_user a)) names"
  shows "holds_admin S d' (pub_id (au_user a))"
proof (cases "has_role a ADMIN_ROLE")
  case False
  with admin_step_refused [OF assms(1)] assms(2) show ?thesis by simp
next
  case True
  let ?P = "\<lambda>d. holds_admin S d (pub_id (au_user a))"
  have "holds_admin S (snd (unlock_account t (pub_id (au_user a)) client now d)) (pub_id (au_user a))" for t client now
    by (rule admin_unlock_keeps [where P = ?P])
      (use assms(2) in \<open>auto simp: fun_eq_iff intro: admin_update_kept\<close>)
  moreover have "holds_admin S (snd (revoke_account_sessions t (pub_id (au_user a)) client now d)) (pub_id (au_user a))"
      for t client now
    by (rule admin_revoke_keeps [where P = ?P]) (use assms(2) in simp_all)
  moreover have "t \<noteq> pub_id (au_user a)" if "r = PutUserRoles t names" for t names
    using assms(3) that by blast
  ultimately show ?thesis
    using assms(1,2) True
    by (cases r) (auto simp: admin_step_simps set_account_status_admin set_other_roles_admin
        delete_account_admin split: prod.splits)
qed

lemma admin_step_keys:
  assumes "admin_step c a r d d'" and "admin_keys d"
  shows "admin_keys d'"
proof (cases "has_role a ADMIN_ROLE")
  case False
  with admin_step_refused [OF assms(1)] assms(2) show ?thesis by simp
next
  case True
  have "admin_keys (snd (unlock_account t actor client now d))" for t actor client now
    by (rule admin_unlock_keeps [where P = admin_keys])
      (use assms(2) in \<open>auto simp: fun_eq_iff intro: admin_keys_update\<close>)
  moreover have "admin_keys (snd (revoke_account_sessions t actor client now d))" for t actor client now
    by (rule admin_revoke_keeps [where P = admin_keys]) (use assms(2) in simp_all)
  moreover have "admin_keys (snd (set_account_status t status actor client now d))" for t status actor client now
    by (rule admin_keys_status [OF assms(2) prod.collapse [symmetric]])
  moreover have "admin_keys (snd (delete_account ext t confirm actor client now d))" for ext t confirm actor client now
    by (rule delete_account_keeps [where P = admin_keys]) (use assms(2) admin_keys_delete in simp_all)
  ultimately show ?thesis
    using assms True
    by (cases r) (auto simp: admin_step_simps admin_keys_roles split: prod.splits)
qed

lemma own_roles_step:
  assumes "admin_step c a (PutUserRoles (pub_id (au_user a)) names) d d'"
    and "is_active_admin d (pub_id (au_user a))" and "admin_keys d"
  shows "\<exists>v. is_active_admin d' v"
  using assms set_own_roles_admin [OF assms(2,3)] by (auto simp: admin_step_simps)

text \<open>The steps of administrators who are active; and the steps of any, of whom only active ones change
  their own roles.\<close>

definition active_step :: "db \<Rightarrow> db \<Rightarrow> bool" where
  "active_step d d' \<longleftrightarrow> (\<exists>c a r. admin_step c a r d d' \<and>
     (administers d (pub_id (au_user a)) \<longrightarrow> is_active_admin d (pub_id (au_user a))))"

definition careful_step :: "db \<Rightarrow> db \<Rightarrow> bool" where
  "careful_step d d' \<longleftrightarrow> (\<exists>c a r. admin_step c a r d d' \<and>
     (administers d (pub_id (au_user a)) \<and> (\<exists>names. r = PutUserRoles (pub_id (au_user a)) names) \<longrightarrow>
        is_active_admin d (pub_id (au_user a))))"

lemma active_step_sound:
  assumes "active_step d d'" and "admin_keys d" and "\<exists>v. is_active_admin d v"
  shows "admin_keys d' \<and> (\<exists>v. is_active_admin d' v)"
proof -
  from assms(1) obtain c a r where s: "admin_step c a r d d'"
    and who: "administers d (pub_id (au_user a)) \<longrightarrow> is_active_admin d (pub_id (au_user a))"
    unfolding active_step_def by blast
  have "\<exists>v. is_active_admin d' v"
  proof (cases "administers d (pub_id (au_user a))")
    case False
    with step_administers [OF s] admin_step_refused [OF s] assms(3) show ?thesis by simp
  next
    case True
    with who have act: "is_active_admin d (pub_id (au_user a))" by simp
    show ?thesis
      using own_roles_step [OF _ act assms(2)] s admin_step_caller [OF s, of "{ActiveUser}"] act
      by (cases "\<exists>names. r = PutUserRoles (pub_id (au_user a)) names") (auto simp: is_active_admin_iff)
  qed
  with admin_step_keys [OF s assms(2)] show ?thesis by simp
qed

lemma careful_step_sound:
  assumes "careful_step d d'" and "admin_keys d" and "\<exists>v. administers d v"
  shows "admin_keys d' \<and> (\<exists>v. administers d' v)"
proof -
  from assms(1) obtain c a r where s: "admin_step c a r d d'"
    and who: "administers d (pub_id (au_user a)) \<and> (\<exists>names. r = PutUserRoles (pub_id (au_user a)) names) \<longrightarrow>
        is_active_admin d (pub_id (au_user a))"
    unfolding careful_step_def by blast
  note keys = admin_step_keys [OF s assms(2)]
  have "\<exists>v. administers d' v"
  proof (cases "administers d (pub_id (au_user a))")
    case False
    with step_administers [OF s] admin_step_refused [OF s] assms(3) show ?thesis by simp
  next
    case adm: True
    show ?thesis
    proof (cases "\<exists>names. r = PutUserRoles (pub_id (au_user a)) names")
      case True
      with adm who own_roles_step [OF _ _ assms(2)] s active_administers [OF keys] show ?thesis by blast
    next
      case False
      with adm admin_step_caller [OF s, of "- {DisabledUser}"] keys assms(2) show ?thesis
        by (auto simp: administers_iff)
    qed
  qed
  with keys show ?thesis by simp
qed

text \<open>C14: Requests to the administration, taken one at a time, leave an administrator: as long as those who
  act are active accounts, an active account with the role remains, whatever is enabled, disabled,
  deleted or taken away (the caller's own roles as well). The check of a caller lets an account act
  whose address is not confirmed yet, too, and the count does not see it: then an account remains that
  may act, if only active accounts give up roles of their own.\<close>

theorem an_administrator_remains:
  assumes "admin_keys d"
  shows "(active_step\<^sup>*\<^sup>* d d' \<and> active_admin_ids d \<noteq> [] \<longrightarrow> active_admin_ids d' \<noteq> []) \<and>
    (careful_step\<^sup>*\<^sup>* d d' \<and> (\<exists>v. administers d v) \<longrightarrow> (\<exists>v. administers d' v))"
proof (intro conjI impI)
  assume run: "active_step\<^sup>*\<^sup>* d d' \<and> active_admin_ids d \<noteq> []"
  then have "active_step\<^sup>*\<^sup>* d d'" ..
  then have "admin_keys d' \<and> (\<exists>v. is_active_admin d' v)"
  proof (induction rule: rtranclp_induct)
    case base
    then show ?case using assms run by (cases "active_admin_ids d") (auto simp: is_active_admin_def)
  next
    case (step d1 d2)
    then show ?case using active_step_sound by blast
  qed
  then show "active_admin_ids d' \<noteq> []" by (auto simp: is_active_admin_def)
next
  assume run: "careful_step\<^sup>*\<^sup>* d d' \<and> (\<exists>v. administers d v)"
  then have "careful_step\<^sup>*\<^sup>* d d'" ..
  then have "admin_keys d' \<and> (\<exists>v. administers d' v)"
    by (induction rule: rtranclp_induct) (use assms run careful_step_sound in blast)+
  then show "\<exists>v. administers d' v" by blast
qed

section \<open>How the last administrator can be lost\<close>

definition two_admins :: "instant option \<Rightarrow> db" where
  "two_admins verified =
     empty_db\<lparr>users := [Samples.sample_user 1 ''a@example.com'' (Some 0), Samples.sample_user 2 ''b@example.com'' verified],
              user_roles := [(1, ''admin''), (2, ''admin'')]\<rparr>"

definition caller :: "uuid \<Rightarrow> string \<Rightarrow> authenticated_user" where
  "caller uid email =
     \<lparr>au_user = public_user_of (two_admins (Some 0)) (Samples.sample_user uid email (Some 0)), au_session = uid\<rparr>"

text \<open>C37: Two ways around the rule that an administrator remains. Two administrators whose requests were
  both authenticated before either was carried out disable each other, and both are told that it
  worked. And an administrator may step down in favour of an account that cannot sign in, because
  its address was never confirmed: it counts, being active.\<close>

theorem administrators_can_be_lost:
  "(let d = two_admins (Some 0);
        (r1, d1) = set_user_status_handler (caller 1 ''a@example.com'') 2 MakeDisabled sample_client 5 d;
        (r2, d2) = set_user_status_handler (caller 2 ''b@example.com'') 1 MakeDisabled sample_client 5 d1
    in session_user d 1 = Inr (au_user (caller 1 ''a@example.com'')) \<and>
       session_user d 2 = Inr (au_user (caller 2 ''b@example.com'')) \<and>
       \<not> isl r1 \<and> \<not> isl r2 \<and> active_admin_ids d = [1, 2] \<and> active_admin_ids d2 = []) \<and>
   (let (r, d') = set_user_roles_handler (caller 1 ''a@example.com'') 1 [''user''] sample_client 5
                    (two_admins None)
    in \<not> isl r \<and> active_admin_ids d' = [2] \<and>
       \<not> (\<exists>salt email password client now u e.
            verify_credentials sample_externals sample_config salt email password client now d' = (Inr u, e) \<and>
            ADMIN_ROLE \<in> set (roles_for_user d' (usr_id u))))"
proof -
  have first: "let d = two_admins (Some 0);
        (r1, d1) = set_user_status_handler (caller 1 ''a@example.com'') 2 MakeDisabled sample_client 5 d;
        (r2, d2) = set_user_status_handler (caller 2 ''b@example.com'') 1 MakeDisabled sample_client 5 d1
    in session_user d 1 = Inr (au_user (caller 1 ''a@example.com'')) \<and>
       session_user d 2 = Inr (au_user (caller 2 ''b@example.com'')) \<and>
       \<not> isl r1 \<and> \<not> isl r2 \<and> active_admin_ids d = [1, 2] \<and> active_admin_ids d2 = []"
    by code_simp
  obtain r d' where h: "set_user_roles_handler (caller 1 ''a@example.com'') 1 [''user''] sample_client 5
                    (two_admins None) = (r, d')" by fastforce
  have v: "\<not> isl (fst (set_user_roles_handler (caller 1 ''a@example.com'') 1 [''user''] sample_client 5
                    (two_admins None))) \<and>
      active_admin_ids (snd (set_user_roles_handler (caller 1 ''a@example.com'') 1 [''user''] sample_client 5
                    (two_admins None))) = [2] \<and>
      list_all (\<lambda>u. is_email_verified u \<longrightarrow>
           \<not> List.member (roles_for_user (snd (set_user_roles_handler (caller 1 ''a@example.com'') 1
               [''user''] sample_client 5 (two_admins None))) (usr_id u)) ADMIN_ROLE)
        (users (snd (set_user_roles_handler (caller 1 ''a@example.com'') 1 [''user''] sample_client 5
                    (two_admins None))))"
    by code_simp
  have "\<not> (\<exists>salt email password client now u e.
            verify_credentials sample_externals sample_config salt email password client now d' = (Inr u, e) \<and>
            ADMIN_ROLE \<in> set (roles_for_user d' (usr_id u)))"
  proof (intro notI, elim exE conjE)
    fix salt email password client now u e
    assume l: "verify_credentials sample_externals sample_config salt email password client now d' = (Inr u, e)"
      and a: "ADMIN_ROLE \<in> set (roles_for_user d' (usr_id u))"
    have "u \<in> set (users d')" "is_email_verified u"
      using verify_credentials_Inr(1,5) [OF l]
      by (auto simp: find_user_by_email_def sample_config_def dest: find_in_set)
    with v a h show False by (auto simp: list_all_iff)
  qed
  with first v h show ?thesis by simp
qed

text \<open>A confirmed and an unconfirmed administrator. Where confirming is not required the second may act: he can
  disable the first, the last active one, for a change of status counts nobody; and alone he can step down,
  for the count of active administrators, of which there is none, is not just him.\<close>

definition unconfirmed_admin :: db where
  "unconfirmed_admin =
     empty_db\<lparr>users := [Samples.sample_user 1 ''a@example.com'' (Some 0),
                        (Samples.sample_user 2 ''b@example.com'' None)\<lparr>usr_status := PendingUser\<rparr>],
              user_roles := [(1, ''admin''), (2, ''admin'')]\<rparr>"

definition second_admin :: authenticated_user where
  "second_admin = \<lparr>au_user = projr (session_user unconfirmed_admin 2), au_session = 2\<rparr>"

lemma unconfirmed_administrators:
  "(let (r1, d1) = set_user_status_handler second_admin 1 MakeDisabled sample_client 5 unconfirmed_admin;
        (r2, d2) = set_user_roles_handler second_admin 2 [''user''] sample_client 6 d1
    in \<not> isl r1 \<and> active_admin_ids d1 = [] \<and> \<not> isl (session_user d1 2) \<and>
       \<not> isl r2 \<and>
       map (\<lambda>u. map_sum id pub_roles (session_user d2 (usr_id u))) (users d2) = [Inl InvalidToken, Inr [''user'']])"
  by code_simp

lemma an_administrator_remains_witness:
  "\<forall>c. active_admin_ids (snd (admin_routes c (caller 1 ''a@example.com'') (PutUserRoles 1 [''user''])
           (two_admins (Some 0)))) \<noteq> [] \<and>
       (\<exists>v. administers (snd (admin_routes c second_admin (PatchUserStatus 1 MakeDisabled) unconfirmed_admin)) v)"
proof (intro allI conjI)
  fix c
  let ?d = "two_admins (Some 0)" and ?a = "caller 1 ''a@example.com''"
  let ?d' = "snd (admin_routes c ?a (PutUserRoles 1 [''user'']) ?d)"
  have d: "admin_keys ?d" "active_admin_ids ?d \<noteq> []" "is_active_admin ?d (pub_id (au_user ?a))"
      "session_user ?d (pub_id (au_user ?a)) = Inr (au_user ?a)"
    by code_simp+
  then have "active_step ?d ?d'" unfolding active_step_def admin_step_def by blast
  then show "active_admin_ids ?d' \<noteq> []"
    using an_administrator_remains [of ?d ?d'] d(1,2) by blast
next
  fix c
  let ?d = unconfirmed_admin and ?d' = "snd (admin_routes c second_admin (PatchUserStatus 1 MakeDisabled) unconfirmed_admin)"
  have d: "admin_keys ?d" "session_user ?d (pub_id (au_user second_admin)) = Inr (au_user second_admin)"
      "ADMIN_ROLE \<in> set (pub_roles (au_user second_admin))"
    by code_simp+
  then have "careful_step ?d ?d'" unfolding careful_step_def admin_step_def by blast
  moreover have "\<exists>v. administers ?d v" using d(2,3) unfolding administers_def by blast
  ultimately show "\<exists>v. administers ?d' v"
    using an_administrator_remains [of ?d ?d'] d(1) by blast
qed

end
