(* ===== verification/ConfigGuarantees.thy ===== *)
theory ConfigGuarantees
  imports Config AccountGuarantees
begin

text \<open>
  What a deployment that passed \<open>AppConfig::validate\<close> can rely on: its access tokens last as long as
  they say, the mail client starts, the bucket client is what the services take it for, the
  documented defaults are accepted.
\<close>

named_theorems config_defs

lemmas [config_defs] = complaint_def number_complaints_def smtp_complaints_def storage_complaints_def
  complaints_def

lemma complaint_Nil [simp]: "complaint b m = [] \<longleftrightarrow> \<not> b"
  by (simp add: complaint_def)

lemma validate_config_Inr: "validate_config c = Inr () \<longleftrightarrow> complaints c = []"
  by (simp add: validate_config_def Let_def)

lemma validated_jwt_secret:
  assumes "validate_config c = Inr ()"
  shows "32 \<le> length (jwt_secret c)" and "\<not> is_placeholder_secret (jwt_secret c)"
  using assms by (simp_all add: validate_config_Inr complaints_def)

lemma validated_numbers:
  assumes "validate_config c = Inr ()"
  shows "number_complaints c = []" and "smtp_complaints c = []" and "storage_complaints c = []"
  using assms by (simp_all add: validate_config_Inr complaints_def)

lemma validated_lifetimes:
  assumes "validate_config c = Inr ()"
  shows "0 < uint (access_token_ttl_seconds c)"
    and "uint (access_token_ttl_seconds c) < uint (refresh_token_ttl_seconds c)"
    and "max_failed_login_attempts c \<noteq> 0" and "0 < uint (account_lock_duration_seconds c)"
  using validated_numbers(1) [OF assms]
  by (auto simp: number_complaints_def word_le_def word_less_def uint_0_iff order_less_le
      intro: order.not_eq_order_implies_strict)

text \<open>C39: Under a configuration the process accepts, a sign-in hands out an access token that lasts
  a positive time and authenticates the account, in the session it opened, through all of that time:
  the session never ends before its token, because the check keeps the token's lifetime below the
  session's.\<close>

theorem accepted_config_tokens_last:
  assumes "validate_config (c :: app_config) = Inr ()"
    and "jwt_correct jwt" and "\<forall>i. uuid_parse ext (uuid_text ext i) = Some i"
    and "distinct (map usr_id (users d))"
    and "login ext jwt (auth_config.truncate c) x email password client now d = (Inr s, d')"
    and "now \<le> t" and "t \<le> now + iss_expires_in s" and "t \<le> I64_MAX"
  shows "0 < iss_expires_in s \<and>
    authenticate ext jwt (auth_config.truncate c) t (iss_access_token s) d' =
      Inr \<lparr>au_user = iss_user s, au_session = dr_session x\<rparr>"
proof -
  let ?cfg = "auth_config.truncate c"
  have ttl: "iss_expires_in s = access_ttl ?cfg"
    using assms(5) by (auto simp: login_def case_result_Inr start_session_def issue_access_token_def
        split: sum.splits)
  have pos: "0 < access_ttl ?cfg" "access_ttl ?cfg < uint (refresh_token_ttl_seconds ?cfg)"
    using validated_lifetimes(1,2) [OF assms(1)]
    by (auto simp: access_ttl_def I64_MAX_def auth_config.truncate_def)
  obtain rid nh where f: "rid \<notin> stk_id ` set (session_tokens d')" "nh \<notin> stk_hash ` set (session_tokens d')"
    using ex_new_if_finite [OF infinite_UNIV_nat] ex_new_if_finite [OF infinite_UNIV_listI]
    by (metis List.finite_set finite_imageI)
  have "t < now + uint (refresh_token_ttl_seconds ?cfg)" using assms(7) ttl pos by simp
  from login_works [OF assms(2-8) this less_add_one f] ttl pos show ?thesis by simp
qed

definition deployed_config :: app_config where
  "deployed_config = (default_config ''postgres://db'' ''redis://q'' ''a-development-secret-that-is-long-enough'')
     \<lparr>jwt_issuer := ''iss'', jwt_audience := ''aud''\<rparr>"

lemma deployed_config_accepted: "validate_config deployed_config = Inr ()"
  by code_simp

lemma accepted_config_tokens_last_witness:
  "\<exists>s d'. login sample_externals sample_jwt (auth_config.truncate deployed_config) sample_draws
       ''A@example.com'' ''correct horse'' sample_client 5 session_db = (Inr s, d') \<and>
     0 < iss_expires_in s \<and>
     authenticate sample_externals sample_jwt (auth_config.truncate deployed_config) 6 (iss_access_token s) d' =
       Inr \<lparr>au_user = iss_user s, au_session = 11\<rparr>"
proof -
  let ?l = "login sample_externals sample_jwt (auth_config.truncate deployed_config) sample_draws
       ''A@example.com'' ''correct horse'' sample_client 5 session_db"
  have ok: "\<not> isl (fst ?l) \<and> iss_expires_in (projr (fst ?l)) = 900"
    by code_simp
  obtain s d' where l: "?l = (Inr s, d')"
    using ok by (cases "fst ?l") (auto simp: prod_eq_iff)
  have "distinct (map usr_id (users session_db))" "6 \<le> I64_MAX" "dr_session sample_draws = 11"
    by code_simp+
  moreover have "\<forall>i. uuid_parse sample_externals (uuid_text sample_externals i) = Some i"
    by (simp add: sample_uuid_roundtrip)
  ultimately show ?thesis
    using accepted_config_tokens_last [OF deployed_config_accepted sample_jwt_correct _ _ l, of 6] ok l by auto
qed


section \<open>The mail client\<close>

lemma validated_tls_mode:
  assumes "validate_config c = Inr ()"
  obtains m where "smtp_tls_from_str (smtp_tls_mode c) = Inr m"
  using validated_numbers(2) [OF assms]
  by (auto simp: smtp_complaints_def smtp_tls_from_str_def Let_def split: if_splits)

lemma validated_smtp:
  assumes "validate_config c = Inr ()" and "uses_smtp c"
  obtains host sender where "smtp_host c = Some host" "host \<noteq> []" "email_from c = Some sender" "sender \<noteq> []"
    "smtp_username c = None \<longleftrightarrow> smtp_password c = None"
  using validated_numbers(2) [OF assms(1)] assms(2)
  by (auto simp: smtp_complaints_def missing_def split: option.splits)

lemma lower_smtp [simp]: "to_ascii_lowercase ''smtp'' = ''smtp''"
  by code_simp

lemma required_Some [simp]: "v \<noteq> [] \<Longrightarrow> required (Some v) n = Inr v"
  by (simp add: required_def)

text \<open>C40: Under a configuration the process accepts, with a host and a sender the mail library takes,
  the worker's mail client fails to start exactly when the provider is neither \<open>disabled\<close> nor \<open>smtp\<close>
  - the one mistake the check at startup lets through - and with \<open>smtp\<close> it talks to the configured host
  and port from the configured sender, and authenticates only with a user name and a password that are
  both set and not blank.\<close>

theorem accepted_config_starts_mail:
  assumes "validate_config c = Inr ()"
    and "\<forall>m h. smtp_host c = Some h \<longrightarrow> accepts_host lib m h"
    and "\<forall>f. email_from c = Some f \<longrightarrow> accepts_mailbox lib f"
  shows "(isl (email_client_from_config lib (email_settings c)) \<longleftrightarrow>
        to_ascii_lowercase (trim (email_provider c)) \<notin> {''disabled'', ''smtp''}) \<and>
     (uses_smtp c \<longrightarrow> (\<exists>sender. email_client_from_config lib (email_settings c) = Inr (Smtp sender) \<and>
        smtp_host c = Some (snd_host sender) \<and> snd_port sender = smtp_port c \<and>
        email_from c = Some (snd_from sender) \<and>
        smtp_tls_from_str (smtp_tls_mode c) = Inr (snd_tls sender) \<and>
        (\<forall>u p. snd_credentials sender = Some (u, p) \<longleftrightarrow>
           non_empty (smtp_username c) = Some u \<and> non_empty (smtp_password c) = Some p)))"
proof (cases "uses_smtp c")
  case True
  then have p: "to_ascii_lowercase (trim (email_provider c)) = ''smtp''"
    by (simp add: uses_smtp_def eq_ignore_ascii_case_def)
  obtain host addr where h: "smtp_host c = Some host" "host \<noteq> []" "email_from c = Some addr" "addr \<noteq> []"
    by (rule validated_smtp [OF assms(1) True])
  obtain m where m: "smtp_tls_from_str (smtp_tls_mode c) = Inr m"
    by (rule validated_tls_mode [OF assms(1)])
  have "accepts_host lib m host" "accepts_mailbox lib addr" using assms(2,3) h by auto
  with h m p show ?thesis
    by (auto simp: email_client_from_config_def email_settings_def smtp_transport_def split: option.splits)
next
  case False
  then show ?thesis
    by (auto simp: email_client_from_config_def email_settings_def uses_smtp_def eq_ignore_ascii_case_def)
qed

definition mail_config :: app_config where
  "mail_config = deployed_config\<lparr>email_provider := '' SMTP '', smtp_host := Some ''mail.example.com'',
     email_from := Some ''hello@example.com'', smtp_username := Some ''mailer'',
     smtp_password := Some ''  ''\<rparr>"

definition agreeable :: lettre where
  "agreeable = \<lparr>accepts_host = \<lambda>_ _. True, accepts_mailbox = \<lambda>_. True, builds_message = \<lambda>_ _. True\<rparr>"

lemma accepted_config_starts_mail_witness:
  "\<exists>sender. email_client_from_config agreeable (email_settings mail_config) = Inr (Smtp sender) \<and>
     snd_host sender = ''mail.example.com'' \<and> snd_credentials sender = None"
proof -
  have "validate_config mail_config = Inr ()" "uses_smtp mail_config"
    "smtp_host mail_config = Some ''mail.example.com''" "non_empty (smtp_password mail_config) = None"
    by code_simp+
  then show ?thesis
    using accepted_config_starts_mail [of mail_config agreeable] by (fastforce simp: agreeable_def)
qed


section \<open>Defaults and storage\<close>

lemma to_ascii_lowercase_split:
  "to_ascii_lowercase s = a @ b @ e \<longleftrightarrow>
     (\<exists>u v w. s = u @ v @ w \<and> to_ascii_lowercase u = a \<and> to_ascii_lowercase v = b \<and>
        to_ascii_lowercase w = e)"
  by (fastforce simp: to_ascii_lowercase_def map_eq_append_conv append_eq_map_conv)

lemma markers_lower: "m \<in> set PLACEHOLDER_SECRET_MARKERS \<Longrightarrow> to_ascii_lowercase m = m"
proof -
  have "list_all (\<lambda>m. to_ascii_lowercase m = m) PLACEHOLDER_SECRET_MARKERS" by code_simp
  then show "m \<in> set PLACEHOLDER_SECRET_MARKERS \<Longrightarrow> to_ascii_lowercase m = m"
    by (simp add: list_all_iff)
qed

lemma is_placeholder_secret_iff:
  "is_placeholder_secret s \<longleftrightarrow>
     (\<exists>m u v w. m \<in> set PLACEHOLDER_SECRET_MARKERS \<and> s = u @ v @ w \<and> eq_ignore_ascii_case v m)"
  unfolding is_placeholder_secret_def Let_def list_ex_iff sublist_def to_ascii_lowercase_split
    eq_ignore_ascii_case_def
  by (metis markers_lower)

text \<open>With every setting left to its default, the process starts exactly with a secret of at least
  32 bytes in which none of the well-known placeholder words occurs, in upper or lower case; it then
  warns of nothing, takes no uploads, and the check at startup, the storage client and the mail client
  agree that storage and mail are off.\<close>

theorem defaults_accepted_iff:
  "(validate_config (default_config db_url queue_url s) = Inr () \<longleftrightarrow>
     32 \<le> length s \<and>
     (\<nexists>m u v w. m \<in> set PLACEHOLDER_SECRET_MARKERS \<and> s = u @ v @ w \<and> eq_ignore_ascii_case v m)) \<and>
   deployment_warnings (default_config db_url queue_url s) = [] \<and>
   cors_origins (default_config db_url queue_url s) = None \<and>
   file_storage_from_config builds (default_config db_url queue_url s) = Inr file_storage.Disabled \<and>
   email_client_from_config lib (email_settings (default_config db_url queue_url s)) =
     Inr email_client.Disabled"
proof -
  let ?c = "default_config db_url queue_url s"
  have n: "number_complaints ?c = []" by (simp add: number_complaints_def default_config_def)
  have tls: "to_ascii_lowercase (trim ''starttls'') = ''starttls''"
    "to_ascii_lowercase (trim ''disabled'') = ''disabled''" "trim ''127.0.0.1'' = ''127.0.0.1''"
    by code_simp+
  have m: "smtp_complaints ?c = []"
    by (simp add: smtp_complaints_def default_config_def uses_smtp_def eq_ignore_ascii_case_def tls)
  have st: "storage_complaints ?c = []" by (simp add: storage_complaints_def default_config_def)
  have "validate_config ?c = Inr () \<longleftrightarrow> 32 \<le> length s \<and> \<not> is_placeholder_secret s"
    unfolding validate_config_Inr complaints_def n m st by (auto simp: default_config_def)
  moreover have "deployment_warnings ?c = []"
    by (simp add: deployment_warnings_def is_loopback_only_def default_config_def tls)
  moreover have "email_client_from_config lib (email_settings ?c) = Inr email_client.Disabled"
    by (simp add: email_client_from_config_def email_settings_def default_config_def tls)
  moreover have "cors_origins ?c = None" "file_storage_from_config builds ?c = Inr file_storage.Disabled"
    by (simp_all add: cors_origins_def file_storage_from_config_def s3_settings_of_def non_empty_def
        default_config_def)
  ultimately show ?thesis unfolding is_placeholder_secret_iff by blast
qed

text \<open>The two places that decide whether storage exists, the banner's and the service's, agree; plain
  http is reported to the operator exactly when the client uses it, if there is a bucket.\<close>

lemma storage_decisions_agree:
  "s3_settings_of c \<noteq> None \<longleftrightarrow> file_uploads_enabled c"
  by (auto simp: s3_settings_of_def file_uploads_enabled_def non_empty_def Let_def split: option.splits)

lemma plaintext_is_reported:
  assumes "uses_plaintext (s3_settings_of c)" and "\<not> is_loopback_only c"
  shows "\<exists>w \<in> set (deployment_warnings c). starts_with w ''S3_ENDPOINT is plain http''"
proof -
  obtain e where "s3_endpoint c = Some e" "starts_with (trim e) ''http://''"
    using assms(1) by (auto simp: uses_plaintext_def s3_settings_of_def non_empty_def Let_def
        split: option.splits if_splits)
  then show ?thesis
    using assms(2) by (simp add: deployment_warnings_def complaint_def starts_with_def)
qed

text \<open>A budget of \<open>n\<close> per hour is asked of the limiter as \<open>n\<close> at once and one more per hour.\<close>

lemma hourly_budget_refills_one_per_hour:
  assumes "validate_config c = Inr ()"
  shows "register_budget (rate_limiters_from_config c) =
    One_per_period 3600 (register_rate_limit_per_hour c)"
  using validated_numbers(1) [OF assms]
  by (simp add: number_complaints_def rate_limiters_from_config_def per_hour_def non_zero_def)

lemma cors_origins_sound:
  assumes "cors_origins c = Some os"
  shows "os \<noteq> [] \<and> [] \<notin> set os"
  using assms by (auto simp: cors_origins_def Let_def split: option.splits if_splits)

end
