(* ===== verification/AccountState.thy ===== *)
theory AccountState
  imports AccountGuarantees Server
begin

text \<open>
  What every statement on the tables of accounts keeps, every endpoint of accounts, sessions and
  administration keeps (locale \<open>account_statements\<close>); and the state these tables are in,
  \<open>accounts_inv\<close>: identifiers, addresses and hashes are unique, and every role, session, token and link
  belongs to a row that exists.
\<close>

section \<open>The state under the layers\<close>

lemma account_answer_snd [simp]: "snd (account_answer n b p) = snd p"
  by (simp add: account_answer_def split: prod.split)

lemma tenant_answer_snd [simp]: "snd (tenant_answer p) = snd p"
  by (simp add: tenant_answer_def split: prod.split)

lemma admin_reads [simp]:
  "snd (admin_list_organizations_handler a q d) = d" "snd (admin_get_organization_handler a oid d) = d"
  by (simp_all add: admin_list_organizations_handler_def admin_get_organization_handler_def
      as_administrator_def organization_answer_def answer_with_def split: sum.split prod.split)

lemma enforce_state:
  "P s \<Longrightarrow> (\<And>s. P s \<Longrightarrow> P (snd (next s))) \<Longrightarrow> P (snd (enforce c b next s))"
  by (simp add: enforce_def)

lemma authenticated_state:
  "P s \<Longrightarrow> (\<And>a s. P s \<Longrightarrow> P (snd (h a s))) \<Longrightarrow> P (snd (authenticated c h s))"
  by (simp add: authenticated_def split: sum.split)

lemma on_db_state:
  "P (fst s) \<Longrightarrow> (\<And>d. P d \<Longrightarrow> P (snd (f d))) \<Longrightarrow> P (fst (snd (on_db f s)))"
  by (cases s) (simp add: on_db_def split: prod.split, metis snd_conv)

lemma on_mail_state:
  "P (fst s) \<Longrightarrow> (\<And>t. P (fst t) \<Longrightarrow> P (fst (snd (f t)))) \<Longrightarrow> P (fst (snd (on_mail f s)))"
  by (cases s) (simp add: on_mail_def split: prod.split, metis fst_conv snd_conv)


section \<open>From the statements to the endpoints\<close>

locale account_statements =
  fixes ext :: externals and P :: "db \<Rightarrow> bool"
  assumes recorded: "P d \<Longrightarrow> P (record_event e now d)"
    and updated: "P d \<Longrightarrow> (\<And>u. usr_id (f u) = usr_id u \<and> usr_email (f u) = usr_email u) \<Longrightarrow>
      P (update_user uid now f d)"
    and inserted: "P d \<Longrightarrow> P (snd (insert_user ext uid email hash status now d))"
    and deleted: "P d \<Longrightarrow> P (snd (delete_user uid d))"
    and assigned: "P d \<Longrightarrow> P (snd (assign_role uid role d))"
    and replaced: "P d \<Longrightarrow> P (snd (replace_roles uid names d))"
    and invalidated: "P d \<Longrightarrow> P (invalidate_outstanding uid purpose now d)"
    and linked: "P d \<Longrightarrow> P (snd (insert_one_time_token tid uid purpose h expires now d))"
    and consumed: "P d \<Longrightarrow> P (snd (consume_token h purpose now d))"
    and opened: "P d \<Longrightarrow> P (snd (create_session sid tid uid h agent ip se te now d))"
    and rotated: "P d \<Longrightarrow> P (snd (refresh_session h nh ne rid now d))"
    and revoked: "P d \<Longrightarrow> P (revoke_where q now d)"
begin

lemmas flow = guard_st_snd [where P = P] prod_snd [where P = P] sum_snd [where P = P]
  option_snd [where P = P] bool_snd [where P = P] if_snd [where P = P]

abbreviation "P1 \<equiv> \<lambda>s. P (fst s)"

lemmas flow1 = guard_st_snd [where P = P1] prod_state [where Q = P and P = P1]
  sum_snd [where P = P1] option_snd [where P = P1] if_snd [where P = P1]

lemma audits: "P d \<Longrightarrow> P (audit_self k uid email client now d)"
  "P d \<Longrightarrow> P (audit_action k actor subject email client now d)"
  by (simp_all add: audit_self_def audit_action_def recorded)

lemma audits_power: "P d \<Longrightarrow> P ((audit_action k actor subject email client now ^^ n) d)"
  by (induction n) (simp_all add: audits)

lemma user_statements:
  "P d \<Longrightarrow> P (record_login_success uid now d)"
  "P d \<Longrightarrow> P (reset_login_failures uid now d)"
  "P d \<Longrightarrow> P (snd (record_login_failure uid m until now d))"
  "P d \<Longrightarrow> P (snd (update_password uid h now d))"
  "P d \<Longrightarrow> P (replace_password_hash uid h now d)"
  "P d \<Longrightarrow> P (mark_email_verified uid now d)"
  "P d \<Longrightarrow> P (snd (set_user_status uid status now d))"
  by (simp_all add: record_login_success_def reset_login_failures_def record_login_failure_def
      update_password_def replace_password_hash_def mark_email_verified_def set_user_status_def
      count_failure_def updated Let_def split: option.split)

lemma revocations:
  "P d \<Longrightarrow> P (revoke_session sid now d)"
  "P d \<Longrightarrow> P (snd (revoke_all_for_user uid now d))"
  "P d \<Longrightarrow> P (snd (revoke_others uid keep now d))"
  by (simp_all add: revoke_session_def revoke_all_for_user_def revoke_others_def revoked)

lemmas statements = recorded inserted deleted assigned replaced invalidated linked consumed opened
  rotated revoked audits audits_power user_statements revocations


subsection \<open>Accounts\<close>

lemma issue_one_time_token_keeps:
  "P d \<Longrightarrow> P (snd (issue_one_time_token ext token tid uid purpose ttl now d))"
  unfolding issue_one_time_token_def by (rule flow | (simp add: statements; fail))+

lemma create_account_keeps: "P d \<Longrightarrow> P (snd (create_account ext uid email h status now d))"
  unfolding create_account_def by (rule flow | (simp add: statements; fail))+

lemma issue_email_verification_keeps:
  "P d \<Longrightarrow> P (fst (snd (issue_email_verification ext cfg up token tid u client now (d, q))))"
  unfolding issue_email_verification_def prod.case
  by (rule flow1 | (simp add: statements issue_one_time_token_keeps; fail))+

lemma register_account_keeps:
  "P d \<Longrightarrow> P (fst (snd (register_account ext cfg up uid salt token tid email pw client now (d, q))))"
  unfolding register_account_def prod.case Let_def
  by (rule flow1 | (simp add: statements create_account_keeps; fail) |
      (rule prod_state [where Q = P1 and P = P1],
       simp add: statements issue_email_verification_keeps, auto split: sum.split prod.split; fail))+

lemma upgrade_password_hash_keeps: "P d \<Longrightarrow> P (upgrade_password_hash ext cfg salt uid pw now d)"
  by (simp add: upgrade_password_hash_def statements split: sum.split)

lemma count_wrong_password_keeps: "P d \<Longrightarrow> P (snd (count_wrong_password cfg u client now d))"
  unfolding count_wrong_password_def Let_def by (rule flow | (simp add: statements; fail))+

lemma verify_credentials_keeps:
  "P d \<Longrightarrow> P (snd (verify_credentials ext cfg salt email pw client now d))"
  unfolding verify_credentials_def Let_def
  by (rule flow | (simp add: statements count_wrong_password_keeps upgrade_password_hash_keeps; fail))+

lemma change_password_keeps:
  "P d \<Longrightarrow> P (snd (change_password ext cfg salt u current new sid client now d))"
  unfolding change_password_def Let_def by (rule flow | (simp add: statements; fail))+

lemma request_password_reset_keeps:
  "P d \<Longrightarrow> P (fst (snd (request_password_reset ext cfg up token tid email client now (d, q))))"
  unfolding request_password_reset_def prod.case
  by (rule flow1 | (simp add: statements issue_one_time_token_keeps; fail))+

lemma reset_password_keeps: "P d \<Longrightarrow> P (snd (reset_password ext cfg salt token new client now d))"
  unfolding reset_password_def Let_def by (rule flow | (simp add: statements; fail))+

lemma verify_email_keeps: "P d \<Longrightarrow> P (snd (verify_email ext token client now d))"
  unfolding verify_email_def Let_def by (rule flow | (simp add: statements; fail))+

lemma resend_verification_keeps:
  "P d \<Longrightarrow> P (fst (snd (resend_verification ext cfg up token tid email client now (d, q))))"
  unfolding resend_verification_def prod.case
  by (rule flow1 | (simp; fail) |
      (rule prod_state [where Q = P1 and P = P1], simp add: issue_email_verification_keeps,
       auto split: sum.split; fail))+


subsection \<open>Sessions and administration\<close>

lemma start_session_keeps: "P d \<Longrightarrow> P (snd (start_session ext jwt cfg x uid client now d))"
  unfolding start_session_def by (rule flow | (simp add: statements; fail))+

lemma login_keeps: "P d \<Longrightarrow> P (snd (login ext jwt cfg x email pw client now d))"
  unfolding login_def
  by (rule flow | (simp add: verify_credentials_keeps start_session_keeps split: prod.split; fail))+

lemma refresh_keeps: "P d \<Longrightarrow> P (snd (refresh ext jwt cfg x token client now d))"
  unfolding refresh_def
  by (rule flow | (simp add: statements split: refresh_outcome.split sum.split prod.split; fail) |
      (auto simp: statements guard_st_def split: refresh_outcome.split sum.split prod.split; fail))+

lemma logout_keeps: "P d \<Longrightarrow> P (logout sid uid client now d)" "P d \<Longrightarrow> P (logout_all uid client now d)"
  by (simp_all add: logout_def logout_all_def statements)

lemma set_account_status_statements:
  "P d \<Longrightarrow> P (snd (set_account_status target status actor client now d))"
  unfolding set_account_status_def Let_def by (rule flow | (simp add: statements; fail))+

lemma set_account_roles_keeps:
  "P d \<Longrightarrow> P (snd (set_account_roles target names actor client now d))"
  unfolding set_account_roles_def Let_def by (rule flow | (simp add: statements; fail))+

lemma unlock_account_keeps: "P d \<Longrightarrow> P (snd (unlock_account target actor client now d))"
  unfolding unlock_account_def Let_def by (rule flow | (simp add: statements; fail))+

lemma revoke_account_sessions_keeps:
  "P d \<Longrightarrow> P (snd (revoke_account_sessions target actor client now d))"
  unfolding revoke_account_sessions_def Let_def by (rule flow | (simp add: statements; fail))+

lemma delete_account_statements: "P d \<Longrightarrow> P (snd (delete_account ext target confirm actor client now d))"
  unfolding delete_account_def by (rule flow | (simp add: statements; fail))+

lemma grant_role_by_email_keeps: "P d \<Longrightarrow> P (snd (grant_role_by_email ext email role now d))"
  unfolding grant_role_by_email_def Let_def by (rule flow | (simp add: statements; fail))+

subsection \<open>Endpoints\<close>

lemmas flow_mail = flow1 prod_state [where Q = P1 and P = P1]

lemma mail_handlers_keep:
  "P (fst s) \<Longrightarrow> P (fst (snd (register_handler ext cfg up uid salt token tid email pw client now s)))"
  "P (fst s) \<Longrightarrow> P (fst (snd (resend_verification_handler ext cfg up token tid email client now s)))"
  "P (fst s) \<Longrightarrow> P (fst (snd (forgot_password_handler ext cfg up token tid email client now s)))"
  by (cases s; auto simp: register_handler_def resend_verification_handler_def forgot_password_handler_def
      Let_def intro!: if_snd [where P = P1] prod_state [where Q = P1 and P = P1]
        register_account_keeps resend_verification_keeps request_password_reset_keeps)+

lemma db_handlers_keep:
  "P d \<Longrightarrow> P (snd (verify_email_handler ext token client now d))"
  "P d \<Longrightarrow> P (snd (reset_password_handler ext cfg salt token pw client now d))"
  "P d \<Longrightarrow> P (snd (login_handler ext jwt cfg x email pw client now d))"
  "P d \<Longrightarrow> P (snd (dashboard_login_handler ext jwt cfg secure x email pw client now d))"
  "P d \<Longrightarrow> P (snd (refresh_handler ext jwt cfg secure x body cookie client now d))"
  "P d \<Longrightarrow> P (snd (change_password_handler ext cfg salt a current new client now d))"
  "P d \<Longrightarrow> P (snd (logout_handler a secure client now d))"
  "P d \<Longrightarrow> P (snd (logout_all_handler a secure client now d))"
  by (auto simp: verify_email_handler_def reset_password_handler_def login_handler_def
      dashboard_login_handler_def refresh_handler_def change_password_handler_def logout_handler_def
      logout_all_handler_def Let_def verify_email_keeps reset_password_keeps login_keeps refresh_keeps
      change_password_keeps logout_keeps
      intro!: if_snd [where P = P] prod_snd [where P = P] guard_st_snd [where P = P])

lemma admin_only_keeps:
  "P d \<Longrightarrow> (\<And>d. P d \<Longrightarrow> P (snd (f d))) \<Longrightarrow> P (snd (admin_only a d f))"
  unfolding admin_only_def by (rule flow | (simp; fail))+

lemma admin_handlers_keep:
  "P d \<Longrightarrow> P (snd (list_users_handler e a search status role l i d))"
  "P d \<Longrightarrow> P (snd (get_user_handler a uid d))"
  "P d \<Longrightarrow> P (snd (set_user_status_handler a uid u client now d))"
  "P d \<Longrightarrow> P (snd (set_user_roles_handler a uid names client now d))"
  "P d \<Longrightarrow> P (snd (unlock_user_handler a uid client now d))"
  "P d \<Longrightarrow> P (snd (revoke_user_sessions_handler a uid client now d))"
  "P d \<Longrightarrow> P (snd (delete_user_handler ext a uid confirm client now d))"
  "P d \<Longrightarrow> P (snd (list_audit_events_handler e a ou oo em k since til l i d))"
  by (auto simp: list_users_handler_def get_user_handler_def set_user_status_handler_def
      set_user_roles_handler_def unlock_user_handler_def revoke_user_sessions_handler_def
      delete_user_handler_def list_audit_events_handler_def
      set_account_status_statements set_account_roles_keeps unlock_account_keeps
      revoke_account_sessions_keeps delete_account_statements split: prod.split
      intro!: admin_only_keeps)

lemma admin_routes_keep:
  assumes "c_ext c = ext" and "P d"
  shows "P (snd (admin_routes c a r d))"
  using assms(2)
  by (cases r; simp only: admin_routes.simps assms(1) account_answer_snd tenant_answer_snd admin_reads)
    (rule admin_handlers_keep | assumption)+

text \<open>The parts of an endpoint, outermost first.\<close>

lemmas endpoint = enforce_state [where P = P1] authenticated_state [where P = P1]
  on_db_state [where P = P] on_mail_state [where P = P] mail_handlers_keep db_handlers_keep

lemma auth_router_keeps:
  assumes "c_ext c = ext" and "P (fst s)"
  shows "P (fst (snd (auth_router c r s)))"
  using assms(2)
  by (cases r; simp only: auth_router.simps assms(1); intro endpoint; (simp only: account_answer_snd)?;
      (intro endpoint)?; simp add: logout_handler_def logout_all_handler_def logout_keeps)

lemma identity_router_keeps:
  assumes "c_ext c = ext" and "P (fst s)"
  shows "P (fst (snd (identity_router c r s)))"
  unfolding identity_router_def
proof (rule enforce_state [where P = P1])
  show "P (fst s)" by (rule assms(2))
  fix t :: server_state
  assume "P (fst t)"
  then show "P (fst (snd (identity_routes c r t)))"
    by (cases r; simp only: identity_routes.simps assms(1) account_answer_snd; intro endpoint)
qed

end

section \<open>The tables of accounts\<close>

definition accounts_inv :: "externals \<Rightarrow> db \<Rightarrow> bool" where
  "accounts_inv ext d \<longleftrightarrow>
     distinct (map usr_id (users d)) \<and> distinct (map (\<lambda>u. sql_lower ext (usr_email u)) (users d)) \<and>
     distinct (user_roles d) \<and> session_keys d \<and> link_keys d \<and>
     (\<forall>(u, r) \<in> set (user_roles d). user_exists d u \<and> r \<in> set (roles d)) \<and>
     (\<forall>s \<in> set (sessions d). user_exists d (ses_user s)) \<and>
     (\<forall>t \<in> set (session_tokens d). stk_session t \<in> ses_id ` set (sessions d)) \<and>
     (\<forall>t \<in> set (one_time_tokens d). user_exists d (ott_user t))"

lemma accounts_inv_cong:
  assumes "users d' = users d" "roles d' = roles d" "user_roles d' = user_roles d"
    "sessions d' = sessions d" "session_tokens d' = session_tokens d"
    "one_time_tokens d' = one_time_tokens d"
  shows "accounts_inv ext d' = accounts_inv ext d"
  using assms by (simp add: accounts_inv_def session_keys_def link_keys_def user_exists_def)

lemma accounts_recorded: "accounts_inv ext d \<Longrightarrow> accounts_inv ext (record_event e now d)"
  by (subst accounts_inv_cong [of _ d]) simp_all

lemma accounts_updated:
  assumes "accounts_inv ext d" and "\<And>u. usr_id (f u) = usr_id u \<and> usr_email (f u) = usr_email u"
  shows "accounts_inv ext (update_user uid now f d)"
proof -
  have ids: "map usr_id (users (update_user uid now f d)) = map usr_id (users d)"
    and emails: "map (\<lambda>u. sql_lower ext (usr_email u)) (users (update_user uid now f d)) =
      map (\<lambda>u. sql_lower ext (usr_email u)) (users d)"
    using assms(2) by (auto simp: update_user_def update_where_def)
  have "user_exists (update_user uid now f d) v = user_exists d v" for v
    using arg_cong [OF ids, of set] by (simp add: user_exists_iff)
  then show ?thesis
    using assms(1) unfolding accounts_inv_def ids emails by (simp add: session_keys_def link_keys_def)
qed

lemma accounts_inserted:
  "accounts_inv ext d \<Longrightarrow> accounts_inv ext (snd (insert_user ext uid email h status now d))"
  by (auto simp: insert_user_def Let_def accounts_inv_def user_exists_iff table_simps session_keys_def
      link_keys_def image_iff)

lemma drop_user_tables:
  assumes "user_exists d uid"
  shows "users (drop_users (\<lambda>u. usr_id u = uid) d) = filter (\<lambda>u. usr_id u \<noteq> uid) (users d)"
    and "user_roles (drop_users (\<lambda>u. usr_id u = uid) d) = filter (\<lambda>r. fst r \<noteq> uid) (user_roles d)"
    and "sessions (drop_users (\<lambda>u. usr_id u = uid) d) = filter (\<lambda>s. ses_user s \<noteq> uid) (sessions d)"
    and "session_tokens (drop_users (\<lambda>u. usr_id u = uid) d) =
      filter (\<lambda>t. \<forall>s \<in> set (sessions d). ses_id s = stk_session t \<longrightarrow> ses_user s \<noteq> uid) (session_tokens d)"
    and "one_time_tokens (drop_users (\<lambda>u. usr_id u = uid) d) =
      filter (\<lambda>t. ott_user t \<noteq> uid) (one_time_tokens d)"
proof -
  have gone: "exists_row (\<lambda>r. usr_id r = i \<and> usr_id r = uid) (users d) \<longleftrightarrow> i = uid" for i
    using assms by (auto simp: user_exists_def table_simps)
  show "users (drop_users (\<lambda>u. usr_id u = uid) d) = filter (\<lambda>u. usr_id u \<noteq> uid) (users d)"
    "user_roles (drop_users (\<lambda>u. usr_id u = uid) d) = filter (\<lambda>r. fst r \<noteq> uid) (user_roles d)"
    "sessions (drop_users (\<lambda>u. usr_id u = uid) d) = filter (\<lambda>s. ses_user s \<noteq> uid) (sessions d)"
    "session_tokens (drop_users (\<lambda>u. usr_id u = uid) d) =
      filter (\<lambda>t. \<forall>s \<in> set (sessions d). ses_id s = stk_session t \<longrightarrow> ses_user s \<noteq> uid) (session_tokens d)"
    "one_time_tokens (drop_users (\<lambda>u. usr_id u = uid) d) =
      filter (\<lambda>t. ott_user t \<noteq> uid) (one_time_tokens d)"
    unfolding drop_users_def Let_def gone
    by (auto simp: delete_where_def table_simps intro!: filter_cong)
qed

lemma accounts_deleted:
  assumes "accounts_inv ext d"
  shows "accounts_inv ext (snd (delete_user uid d))"
proof (cases "user_exists d uid \<and> orphaned_organizations d uid = []")
  case False
  then show ?thesis using assms by (auto simp: delete_user_def)
next
  case True
  let ?d = "drop_users (\<lambda>u. usr_id u = uid) d"
  have d: "snd (delete_user uid d) = ?d" using True by (simp add: delete_user_def)
  have "session_keys ?d" "link_keys ?d"
    using session_keys_step [of d "DropAccount uid"] link_keys_step [of d ext "DropOwner uid"] assms
    by (simp_all add: d accounts_inv_def)
  moreover note tables = drop_user_tables [OF conjunct1 [OF True]]
  moreover have "user_exists ?d v \<longleftrightarrow> user_exists d v \<and> v \<noteq> uid" for v
    unfolding user_exists_def tables by (auto simp: table_simps)
  ultimately show ?thesis
    using assms unfolding d accounts_inv_def by (simp add: distinct_map_filter) fastforce
qed

lemma accounts_assigned: "accounts_inv ext d \<Longrightarrow> accounts_inv ext (snd (assign_role uid role d))"
  by (auto simp: assign_role_def role_id_def accounts_inv_def user_exists_def session_keys_def
      link_keys_def add_role_row_def)

lemma distinct_added_roles: "distinct t \<Longrightarrow> distinct (fold (\<lambda>r. add_role_row (uid, r)) rs t)"
  by (induction rs arbitrary: t) (simp_all add: add_role_row_def)

lemma accounts_replaced:
  assumes "accounts_inv ext d"
  shows "accounts_inv ext (snd (replace_roles uid names d))"
proof (cases "desired_roles d names \<noteq> [] \<and> \<not> user_exists d uid")
  case False
  then have "set names \<inter> set (roles d) = {} \<or> user_exists d uid"
    by (metis set_desired_roles set_empty)
  with False assms show ?thesis
    by (auto simp: replace_roles_def Let_def accounts_inv_def session_keys_def link_keys_def
        user_exists_def set_delete_where delete_where_def intro!: distinct_added_roles)
qed (use assms in \<open>simp add: replace_roles_def\<close>)

lemma accounts_links_changed:
  assumes "accounts_inv ext d" and "distinct (map ott_hash ts)"
    and "\<And>t. t \<in> set ts \<Longrightarrow> user_exists d (ott_user t)"
  shows "accounts_inv ext (d\<lparr>one_time_tokens := ts\<rparr>)"
  using assms by (simp add: accounts_inv_def user_exists_def session_keys_def link_keys_def)

lemma links_updated:
  assumes "accounts_inv ext d" and "\<And>t. ott_hash (f t) = ott_hash t \<and> ott_user (f t) = ott_user t"
  shows "accounts_inv ext (d\<lparr>one_time_tokens := update_where q f (one_time_tokens d)\<rparr>)"
proof (rule accounts_links_changed [OF assms(1)])
  have "map ott_hash (update_where q f (one_time_tokens d)) = map ott_hash (one_time_tokens d)"
    using assms(2) by (simp add: update_where_def)
  then show "distinct (map ott_hash (update_where q f (one_time_tokens d)))"
    using assms(1) by (simp add: accounts_inv_def link_keys_def)
  fix t assume "t \<in> set (update_where q f (one_time_tokens d))"
  then obtain r where "r \<in> set (one_time_tokens d)" "ott_user t = ott_user r"
    using assms(2) by (auto simp: update_where_member)
  then show "user_exists d (ott_user t)" using assms(1) by (simp add: accounts_inv_def)
qed

lemma accounts_links:
  assumes "accounts_inv ext d"
  shows "accounts_inv ext (invalidate_outstanding uid purpose now d)"
    and "accounts_inv ext (snd (insert_one_time_token tid uid purpose h expires now d))"
    and "accounts_inv ext (snd (consume_token h purpose now d))"
proof -
  show "accounts_inv ext (invalidate_outstanding uid purpose now d)"
    "accounts_inv ext (snd (consume_token h purpose now d))"
    using assms by (simp_all add: invalidate_outstanding_def consume_token_def links_updated)
  show "accounts_inv ext (snd (insert_one_time_token tid uid purpose h expires now d))"
    using assms accounts_inv_def [of ext d]
    by (auto simp: insert_one_time_token_def link_keys_def one_time_token_new_def table_simps
        intro!: accounts_links_changed)
qed

lemma accounts_opened:
  "accounts_inv ext d \<Longrightarrow> accounts_inv ext (snd (create_session sid tid uid h agent ip se te now d))"
  by (auto simp: create_session_def accounts_inv_def user_exists_def session_keys_def link_keys_def
      table_simps)

lemma accounts_revoked:
  assumes "accounts_inv ext d"
  shows "accounts_inv ext (revoke_where q now d)"
proof -
  have ids: "ses_id ` set (sessions (revoke_where q now d)) = ses_id ` set (sessions d)"
    by (metis list.set_map revoke_where_frame(10))
  have keys: "session_keys (revoke_where q now d) = session_keys d"
    unfolding session_keys_def revoke_where_frame ..
  show ?thesis
    using assms unfolding accounts_inv_def ids keys
    by (auto simp: user_exists_def link_keys_def revoke_where_sessions)
qed

lemma accounts_rotated:
  assumes "accounts_inv ext d"
  shows "accounts_inv ext (snd (refresh_session h nh ne rid now d))"
proof -
  have keys: "session_keys (snd (refresh_session h nh ne rid now d))"
    using session_keys_step [of d "RefreshWith h nh ne rid now"] assms by (simp add: accounts_inv_def)
  obtain r d' where r: "refresh_session h nh ne rid now d = (r, d')" by fastforce
  show ?thesis
  proof (cases "\<exists>u i. r = Inr (Rotated u i)")
    case False
    then have "d' = d" using r refresh_session_unchanged by blast
    with r assms show ?thesis by simp
  next
    case True
    then obtain u i where "refresh_session h nh ne rid now d = (Inr (Rotated u i), d')"
      using r by auto
    then show ?thesis
    proof (cases rule: refresh_session_Rotated)
      case (1 t s)
      have s: "s \<in> set (sessions d)" using token_lookup_Some [OF 1(1)] by simp
      have ids: "ses_id ` set (sessions d') = ses_id ` set (sessions d)"
        unfolding 1 by (auto simp: update_where_def image_Un image_image) (metis imageI)
      have users: "\<forall>q \<in> set (sessions d'). \<exists>p \<in> set (sessions d). ses_user q = ses_user p"
        unfolding 1 by (auto simp: update_where_def)
      have tokens: "\<forall>q \<in> set (session_tokens d').
          stk_session q = ses_id s \<or> (\<exists>p \<in> set (session_tokens d). stk_session q = stk_session p)"
        unfolding 1 by (auto simp: mark_used_def update_where_def token_row_new_def)
      have rest: "users d' = users d" "roles d' = roles d" "user_roles d' = user_roles d"
        "one_time_tokens d' = one_time_tokens d"
        unfolding 1 by simp_all
      have "session_keys d'" using keys r by simp
      moreover have "\<forall>q \<in> set (sessions d'). user_exists d' (ses_user q)"
        using users assms by (fastforce simp: accounts_inv_def user_exists_def rest)
      moreover have "\<forall>t \<in> set (session_tokens d'). stk_session t \<in> ses_id ` set (sessions d')"
        using tokens s assms unfolding ids accounts_inv_def by fastforce
      ultimately have "accounts_inv ext d'"
        using assms by (simp add: accounts_inv_def link_keys_def user_exists_def rest)
      then show ?thesis using r by simp
    qed
  qed
qed

interpretation account_tables: account_statements ext "accounts_inv ext" for ext
  by unfold_locales (simp_all add: accounts_recorded accounts_updated accounts_inserted accounts_deleted
    accounts_assigned accounts_replaced accounts_links accounts_opened accounts_rotated accounts_revoked)

end
