(* ===== verification/ApiGuarantees.thy ===== *)
theory ApiGuarantees
  imports Api Ownership
begin

text \<open>
  What holds of every route below \<open>/organizations/{organization_id}\<close> at once: a stranger changes
  nothing and learns nothing, a plain member changes nothing but his own membership, reads change
  nothing.
\<close>

section \<open>Turning a caller away\<close>

definition refusal :: "db \<Rightarrow> uuid \<Rightarrow> organization_error" where
  "refusal d oid = (if organization_exists d oid then NotAMember else organization_error.NotFound)"

lemma resolve_access_outsider:
  assumes "role_of d oid u = None"
  shows "resolve_access d oid u = Inl (refusal d oid)"
proof (cases "find (\<lambda>r. org_id r = oid) (organizations d)")
  case None
  then show ?thesis
    using find_organization_None [of oid d]
    by (simp add: resolve_access_def find_access_def refusal_def)
next
  case (Some r)
  then show ?thesis
    using assms find_organization_None [of oid d]
    by (simp add: resolve_access_def find_access_def refusal_def)
qed

lemma with_member_outsider:
  "role_of d oid u = None \<Longrightarrow> with_member conv d oid u k = (Inl (conv (refusal d oid)), d)"
  by (simp add: with_member_def resolve_access_outsider)

lemma with_manager_outsider:
  "role_of d oid u = None \<Longrightarrow> with_manager conv d oid u k = (Inl (conv (refusal d oid)), d)"
  by (simp add: with_manager_def with_member_outsider)

lemma locked_outsider:
  "role_of d oid u = None \<Longrightarrow>
   guard_st (lock_organization d oid) d (\<lambda>_. guard_st (locked_role d oid u) d k) = (Inl (refusal d oid), d)"
  using find_organization_None [of oid d]
  by (cases "find (\<lambda>r. org_id r = oid) (organizations d)")
    (simp_all add: lock_organization_def locked_role_def refusal_def)

lemmas outsider_simps = resolve_access_outsider with_member_outsider with_manager_outsider locked_outsider

lemma answer_with_Inl [simp]:
  "answer_with conv m ok (Inl err, s) = (Inl (map_app_error m (conv err)), s)"
  by (simp add: answer_with_def)

lemma answer_with_snd [simp]: "snd (answer_with conv m ok p) = snd p"
  by (simp add: answer_with_def split: prod.splits)

lemmas answer_defs = organization_answer_def form_answer_def webhook_answer_def

lemmas handler_defs =
  get_organization_handler_def rename_organization_handler_def delete_organization_handler_def
  list_members_handler_def add_member_handler_def set_member_role_handler_def remove_member_handler_def
  create_endpoint_handler_def list_endpoints_handler_def get_endpoint_handler_def
  update_endpoint_handler_def delete_endpoint_handler_def rotate_secret_handler_def
  list_deliveries_handler_def redeliver_handler_def
  post_form_handler_def list_forms_handler_def get_form_handler_def update_form_handler_def
  delete_form_handler_def publish_form_handler_def close_form_handler_def rotate_public_id_handler_def
  list_submissions_handler_def list_form_submissions_handler_def get_submission_handler_def
  update_submission_handler_def delete_submission_handler_def export_handler_def download_handler_def

lemmas read_handler_defs =
  get_organization_handler_def list_members_handler_def list_endpoints_handler_def
  get_endpoint_handler_def list_deliveries_handler_def list_forms_handler_def get_form_handler_def
  list_submissions_handler_def list_form_submissions_handler_def get_submission_handler_def
  export_handler_def

lemmas service_defs =
  get_organization_def rename_organization_def delete_organization_def list_members_def
  set_member_role_def remove_member_def
  create_endpoint_def list_endpoints_def get_endpoint_def update_endpoint_def delete_endpoint_def
  rotate_endpoint_secret_def list_deliveries_def redeliver_def
  create_form_handler_def create_form_def list_forms_def get_form_def update_form_def delete_form_def
  publish_form_def close_form_def rotate_public_id_def
  list_submissions_def get_submission_def set_submission_status_def delete_submission_def
  export_submissions_def submission_file_def

text \<open>What a stranger is answered, as a function of the request and of what the database shows of the
  organization from outside: whether it exists, and, to a request that names an address, whether the
  address has an account.\<close>

definition stranger_error :: "(organization_error \<Rightarrow> api_message app_error) \<Rightarrow> db \<Rightarrow> uuid \<Rightarrow> answer" where
  "stranger_error conv d oid = Inl (conv (refusal d oid))"

abbreviation organization_conv :: "organization_error \<Rightarrow> api_message app_error" where
  "organization_conv \<equiv> \<lambda>err. map_app_error OfOrganization (organization_app_error err)"

abbreviation form_conv :: "organization_error \<Rightarrow> api_message app_error" where
  "form_conv \<equiv> \<lambda>err. map_app_error OfForm (form_app_error (of_organization_error err))"

abbreviation webhook_conv :: "organization_error \<Rightarrow> api_message app_error" where
  "webhook_conv \<equiv> \<lambda>err. map_app_error OfWebhook (webhook_app_error (webhook_organization_error err))"

fun stranger_answer :: "env \<Rightarrow> db \<Rightarrow> uuid \<Rightarrow> tenant_request \<Rightarrow> answer" where
  "stranger_answer e d oid (ToOrganization (RenameOrganization name)) =
     (if chars_between 1 120 name then stranger_error organization_conv d oid else malformed)"
| "stranger_answer e d oid (ToOrganization (AddMember email role)) =
     (let email = normalize_email (e_ext e) email
      in if \<not> email_field_valid (e_ext e) email then malformed
         else if find_user_by_email (e_ext e) d (normalize_email (e_ext e) email) = None
         then Inl (organization_conv AccountNotFound)
         else stranger_error organization_conv d oid)"
| "stranger_answer e d oid (ToOrganization r) = stranger_error organization_conv d oid"
| "stranger_answer e d oid (ToForms (CreateForm r)) =
     (if create_request_valid r then stranger_error form_conv d oid else malformed)"
| "stranger_answer e d oid (ToForms (UpdateForm fid r)) =
     (if update_request_valid r then stranger_error form_conv d oid else malformed)"
| "stranger_answer e d oid (ToForms (DownloadFile sid k)) =
     (if is_enabled (e_storage e) then stranger_error form_conv d oid
      else Inl (map_app_error OfForm (form_app_error form_error.FileUploadsUnavailable)))"
| "stranger_answer e d oid (ToForms r) = stranger_error form_conv d oid"
| "stranger_answer e d oid (ToWebhooks r) = stranger_error webhook_conv d oid"

lemma organization_router_outsider:
  "role_of d oid (caller a) = None \<Longrightarrow>
   organization_router e a oid r d = (stranger_answer e d oid (ToOrganization r), d)"
  by (cases r)
    (simp_all add: handler_defs service_defs answer_defs outsider_simps stranger_error_def add_member_def Let_def
      split: option.split prod.split)

lemma form_router_outsider:
  "role_of d oid (caller a) = None \<Longrightarrow>
   form_router e a oid r d = (stranger_answer e d oid (ToForms r), d)"
  by (cases r)
    (simp_all add: handler_defs service_defs answer_defs outsider_simps stranger_error_def malformed_def Let_def
        app_error.map_comp o_def split: prod.split)

lemma webhook_router_outsider:
  "role_of d oid (caller a) = None \<Longrightarrow>
   webhook_router e a oid r d = (stranger_answer e d oid (ToWebhooks r), d)"
  by (cases r)
    (simp_all add: handler_defs service_defs answer_defs outsider_simps stranger_error_def
      split: prod.split)

lemma serve_outsider:
  assumes "role_of d oid (caller a) = None"
  shows "serve e a oid r d = (stranger_answer e d oid r, d)"
  by (cases r)
    (simp_all add: organization_router_outsider form_router_outsider webhook_router_outsider assms)

lemma refusal_status:
  "app_status (organization_conv (refusal d oid)) \<in> {403, 404}"
  "app_status (form_conv (refusal d oid)) \<in> {403, 404}"
  "app_status (webhook_conv (refusal d oid)) \<in> {403, 404}"
  by (simp_all add: refusal_def)

lemma stranger_answer_status:
  "\<exists>err. stranger_answer e d oid r = Inl err \<and> app_status err \<in> {400, 403, 404}"
  using refusal_status [of d oid]
  by (cases "(e, d, oid, r)" rule: stranger_answer.cases)
    (auto simp: stranger_error_def malformed_def Let_def)

lemma find_user_by_email_users: "users d = users d' \<Longrightarrow> find_user_by_email ext d x = find_user_by_email ext d' x"
  by (simp add: find_user_by_email_def)

lemma stranger_answer_cong:
  assumes "organization_exists d oid \<longleftrightarrow> organization_exists d' oid"
    and "users d = users d' \<or> (\<forall>email role. r \<noteq> ToOrganization (AddMember email role))"
  shows "stranger_answer e d oid r = stranger_answer e d' oid r"
  using assms find_user_by_email_users [of d d']
  by (cases "(e, d, oid, r)" rule: stranger_answer.cases)
    (auto simp: stranger_error_def refusal_def Let_def)

text \<open>C8: Whoever is not a member of an organization changes nothing through any of its routes, is answered
  with a client error, and learns nothing of it but whether it exists, which 403 or 404 tells him on
  purpose: in two databases that agree on that, the same request gets the same answer - except that the
  request to add a member also tells whether the address has an account.\<close>

theorem strangers_learn_nothing:
  assumes "role_of d oid (caller a) = None" and "role_of d' oid (caller a) = None"
    and "organization_exists d oid \<longleftrightarrow> organization_exists d' oid"
    and "users d = users d' \<or> (\<forall>email role. r \<noteq> ToOrganization (AddMember email role))"
  shows "snd (serve e a oid r d) = d \<and>
    (\<exists>err. fst (serve e a oid r d) = Inl err \<and> app_status err \<in> {400, 403, 404}) \<and>
    fst (serve e a oid r d) = fst (serve e a oid r d') \<and>
    fst (serve e a oid (ToOrganization GetOrganization) d) =
      Inl (if organization_exists d oid then app_error.Forbidden else app_error.NotFound)"
  using stranger_answer_status [of e d oid r] stranger_answer_cong [OF assms(3,4), of e]
    serve_outsider [OF assms(1), of e "ToOrganization GetOrganization"]
  by (simp add: serve_outsider assms(1,2) stranger_error_def refusal_def del: serve.simps)

text \<open>C38: Any signed-in account can find out whether an address has an account, without leaving a trace: it
  asks to add the address to an organization it has nothing to do with, and the answer is 403 for an
  address with an account and 404 for one without.\<close>

theorem strangers_probe_accounts:
  assumes "role_of d oid (caller a) = None" and "organization_exists d oid"
    and "email_field_valid (e_ext e) (normalize_email (e_ext e) email)"
  shows "serve e a oid (ToOrganization (AddMember email role)) d =
    (Inl (if find_user_by_email (e_ext e) d (normalize_email (e_ext e) (normalize_email (e_ext e) email)) = None
          then app_error.NotFound else app_error.Forbidden), d)"
  unfolding serve_outsider [OF assms(1)]
  using assms(2,3) by (simp add: stranger_error_def refusal_def Let_def)


section \<open>Plain members\<close>

fun changes :: "tenant_request \<Rightarrow> bool" where
  "changes (ToOrganization GetOrganization) = False"
| "changes (ToOrganization (ListMembers q)) = False"
| "changes (ToOrganization r) = True"
| "changes (ToForms (ListForms q)) = False"
| "changes (ToForms (GetForm fid)) = False"
| "changes (ToForms (ListSubmissions flt q)) = False"
| "changes (ToForms (ListFormSubmissions fid flt q)) = False"
| "changes (ToForms (ExportSubmissions fid fmt)) = False"
| "changes (ToForms (GetSubmission sid)) = False"
| "changes (ToForms (DownloadFile sid k)) = False"
| "changes (ToForms r) = True"
| "changes (ToWebhooks (ListEndpoints q)) = False"
| "changes (ToWebhooks (GetEndpoint eid)) = False"
| "changes (ToWebhooks (ListDeliveries flt q)) = False"
| "changes (ToWebhooks r) = True"

lemma with_member_reads:
  "(\<And>x. snd (k x) = d) \<Longrightarrow> snd (with_member conv d oid u k) = d"
  by (rule with_member_snd [where P = "\<lambda>x. x = d"]) auto

lemma guard_reads: "(\<And>x. snd (k x) = d) \<Longrightarrow> snd (guard_st r d k) = d"
  by (cases r) auto

lemma download_handler_snd:
  "snd (download_handler e a oid sid k d) =
   snd (submission_file (e_storage e) (e_faults e) oid sid k (caller a) (e_bucket e) d)"
  by (simp add: download_handler_def Let_def split: prod.split sum.split)

lemma reads_change_nothing:
  assumes "\<not> changes r"
  shows "snd (serve e a oid r d) = d"
  using assms
  by (cases r rule: changes.cases)
    (auto simp: download_handler_snd read_handler_defs service_defs answer_defs Let_def
      intro!: with_member_reads guard_reads split: prod.split)

definition member_refusal :: "db \<Rightarrow> uuid \<Rightarrow> organization_error" where
  "member_refusal d oid = (if organization_exists d oid then InsufficientRole else organization_error.NotFound)"

lemma resolve_access_member:
  assumes "role_of d oid u = Some Member"
  obtains x where "organization_exists d oid" "resolve_access d oid u = Inr x" "acc_role x = Member"
  | "\<not> organization_exists d oid" "resolve_access d oid u = Inl organization_error.NotFound"
proof (cases "find (\<lambda>r. org_id r = oid) (organizations d)")
  case None
  then show ?thesis
    using that(2) find_organization_None [of oid d] by (simp add: resolve_access_def find_access_def)
next
  case (Some r)
  then show ?thesis
    using assms that(1) find_organization_None [of oid d]
    by (auto simp: resolve_access_def find_access_def)
qed

lemma member_is_no_manager [simp]: "require_manager Member = Inl InsufficientRole"
    "require_owner Member = Inl InsufficientRole"
  by (simp_all add: require_manager_def require_owner_def is_manager_def is_owner_def)

lemma with_manager_member:
  assumes "role_of d oid u = Some Member"
  shows "with_manager conv d oid u k = (Inl (conv (member_refusal d oid)), d)"
  by (rule resolve_access_member [OF assms])
    (simp_all add: with_manager_def with_member_def member_refusal_def)

lemma resolve_manager_member:
  assumes "role_of d oid u = Some Member"
  shows "guard_st (resolve_access d oid u) d (\<lambda>x. guard_st (require_manager (acc_role x)) d (k x)) =
      (Inl (member_refusal d oid), d)"
    and "guard_st (resolve_access d oid u) d (\<lambda>x. guard_st (require_owner (acc_role x)) d (k x)) =
      (Inl (member_refusal d oid), d)"
  by (rule resolve_access_member [OF assms]; simp add: member_refusal_def)+

lemma locked_manager_member:
  assumes "role_of d oid u = Some Member"
  shows "guard_st (lock_organization d oid) d (\<lambda>_. guard_st (locked_role d oid u) d (\<lambda>x.
      guard_st (require_manager x) d (k x))) = (Inl (member_refusal d oid), d)"
  using find_organization_None [of oid d] assms
  by (cases "find (\<lambda>r. org_id r = oid) (organizations d)")
    (simp_all add: lock_organization_def locked_role_def member_refusal_def)

lemma remove_other_member:
  assumes "role_of d oid u = Some Member" and "target \<noteq> u"
  shows "remove_member oid target u client now d =
    (Inl (if organization_exists d oid \<and> role_of d oid target = None then MemberNotFound
          else member_refusal d oid), d)"
  using find_organization_None [of oid d] assms
  by (cases "find (\<lambda>r. org_id r = oid) (organizations d)"; cases "role_of d oid target")
    (simp_all add: remove_member_def lock_organization_def locked_role_def member_refusal_def)

lemmas member_simps = with_manager_member resolve_manager_member locked_manager_member remove_other_member

definition refused :: "answer \<times> db \<Rightarrow> db \<Rightarrow> bool" where
  "refused p d \<longleftrightarrow> snd p = d \<and> (\<exists>err. fst p = Inl err \<and> app_status err \<in> {400, 403, 404})"

lemma member_refusal_status:
  "app_status (organization_conv (member_refusal d oid)) \<in> {403, 404}"
  "app_status (form_conv (member_refusal d oid)) \<in> {403, 404}"
  "app_status (webhook_conv (member_refusal d oid)) \<in> {403, 404}"
  by (simp_all add: member_refusal_def)

lemma refused_Inl: "refused (Inl err, s) d \<longleftrightarrow> s = d \<and> app_status err \<in> {400, 403, 404}"
  by (auto simp: refused_def)

lemma refused_malformed: "refused (malformed, d) d"
  by (simp add: malformed_def refused_Inl)

lemma member_organization:
  assumes "role_of d oid (caller a) = Some Member" and "changes (ToOrganization r)"
    and "r \<noteq> RemoveMember (caller a)"
  shows "refused (organization_router e a oid r d) d"
  using assms member_refusal_status(1) [of d oid]
  by (cases r)
    (auto simp: handler_defs rename_organization_def delete_organization_def set_member_role_def
      add_member_def answer_defs member_simps refused_Inl refused_malformed Let_def split: option.split)

lemma app_status_map [simp]: "app_status (map_app_error f err) = app_status err"
  by (cases err) simp_all

lemma get_endpoint_member:
  assumes "role_of d oid u = Some Member"
  shows "(\<exists>p. get_endpoint oid eid u d = (Inr p, d)) \<or>
    (\<exists>err. get_endpoint oid eid u d = (Inl err, d) \<and> app_status (webhook_app_error err) = 404)"
  by (cases "find_endpoint d oid eid"; rule resolve_access_member [OF assms])
    (auto simp: get_endpoint_def with_member_def load_endpoint_def)

lemma member_webhooks:
  assumes "role_of d oid (caller a) = Some Member" and "changes (ToWebhooks r)"
  shows "refused (webhook_router e a oid r d) d"
proof (cases "\<exists>eid. r = RotateSecret eid")
  case True
  then obtain eid where r: "r = RotateSecret eid" ..
  show ?thesis
    using get_endpoint_member [OF assms(1), of eid] assms member_refusal_status(3) [of d oid]
    by (auto simp: r rotate_secret_handler_def rotate_endpoint_secret_def answer_defs member_simps refused_Inl)
next
  case False
  with assms member_refusal_status(3) [of d oid] show ?thesis
    by (cases r)
      (auto simp: handler_defs create_endpoint_def update_endpoint_def delete_endpoint_def redeliver_def
        answer_defs member_simps refused_Inl)
qed

lemma member_forms:
  assumes "role_of d oid (caller a) = Some Member" and "changes (ToForms r)"
  shows "refused (form_router e a oid r d) d"
  using assms member_refusal_status(2) [of d oid]
  by (cases r)
    (auto simp: handler_defs create_form_handler_def create_form_def update_form_def delete_form_def
      publish_form_def close_form_def rotate_public_id_def set_submission_status_def delete_submission_def
      answer_defs member_simps refused_Inl refused_malformed malformed_def app_error.map_comp o_def)

text \<open>C6: A read changes nothing, whoever asks; and whoever is only a member of an organization gets every
  write below it refused with a client error, nothing being written - but for leaving it.\<close>

theorem members_only_read:
  "(\<not> changes r \<longrightarrow> snd (serve e a oid r d) = d) \<and>
   (changes r \<and> role_of d oid (caller a) = Some Member \<and> r \<noteq> ToOrganization (RemoveMember (caller a)) \<longrightarrow>
     snd (serve e a oid r d) = d \<and>
     (\<exists>err. fst (serve e a oid r d) = Inl err \<and> app_status err \<in> {400, 403, 404}))"
proof (intro conjI impI)
  assume "\<not> changes r"
  then show "snd (serve e a oid r d) = d" by (rule reads_change_nothing)
next
  assume m: "changes r \<and> role_of d oid (caller a) = Some Member \<and> r \<noteq> ToOrganization (RemoveMember (caller a))"
  then have "refused (serve e a oid r d) d"
    using member_organization member_forms member_webhooks by (cases r) auto
  then show "snd (serve e a oid r d) = d"
    and "\<exists>err. fst (serve e a oid r d) = Inl err \<and> app_status err \<in> {400, 403, 404}"
    by (simp_all add: refused_def)
qed

section \<open>Sample calls\<close>

definition signed_in :: "uuid \<Rightarrow> authenticated_user" where
  "signed_in u =
     \<lparr>au_user = \<lparr>pub_id = u, pub_email = ''u@x.org'', pub_status = ActiveUser, pub_email_verified = True,
        pub_roles = [''user''], pub_created_at = 0\<rparr>, au_session = 1\<rparr>"

definition sample_env :: env where
  "sample_env =
     \<lparr>e_ext = sample_externals, e_storage = file_storage.Disabled, e_faults = no_faults, e_bucket = (\<lambda>_. None),
      e_allow_private = False, e_client = no_client, e_now = 60, e_id = 9, e_token = ''AbCdEfGhIjKlMnOp'',
      e_reads = [], e_header_ok = (\<lambda>_. True), e_parse_json = (\<lambda>_. None)\<rparr>"

lemma strangers_learn_nothing_witness:
  "fst (serve sample_env (signed_in 13) 7 (ToOrganization GetOrganization) two_owners) =
   fst (serve sample_env (signed_in 13) 7 (ToOrganization GetOrganization)
     (two_owners\<lparr>organizations := [\<lparr>org_id = 7, org_name = ''Other'', org_created_at = 5\<rparr>], users := []\<rparr>)) \<and>
   snd (serve sample_env (signed_in 13) 7 (ToOrganization GetOrganization) two_owners) = two_owners"
proof -
  let ?d = "two_owners\<lparr>organizations := [\<lparr>org_id = 7, org_name = ''Other'', org_created_at = 5\<rparr>], users := []\<rparr>"
  have "role_of two_owners 7 (caller (signed_in 13)) = None" "role_of ?d 7 (caller (signed_in 13)) = None"
    "organization_exists two_owners 7" "organization_exists ?d 7"
    by code_simp+
  then show ?thesis
    using strangers_learn_nothing [of two_owners 7 "signed_in 13" ?d "ToOrganization GetOrganization" sample_env]
    by simp
qed

lemma strangers_probe_accounts_witness:
  "fst (serve sample_env (signed_in 13) 7 (ToOrganization (AddMember ''a@x.org'' Member)) two_owners) =
     Inl app_error.Forbidden \<and>
   fst (serve sample_env (signed_in 13) 7 (ToOrganization (AddMember ''z@x.org'' Member)) two_owners) =
     Inl app_error.NotFound"
proof -
  have out: "role_of two_owners 7 (caller (signed_in 13)) = None" "organization_exists two_owners 7"
    by code_simp+
  have v: "email_field_valid (e_ext sample_env) (normalize_email (e_ext sample_env) ''a@x.org'')"
    "email_field_valid (e_ext sample_env) (normalize_email (e_ext sample_env) ''z@x.org'')"
    "find_user_by_email (e_ext sample_env) two_owners
       (normalize_email (e_ext sample_env) (normalize_email (e_ext sample_env) ''a@x.org'')) \<noteq> None"
    "find_user_by_email (e_ext sample_env) two_owners
       (normalize_email (e_ext sample_env) (normalize_email (e_ext sample_env) ''z@x.org'')) = None"
    by code_simp+
  show ?thesis
    unfolding strangers_probe_accounts [OF out v(1)] strangers_probe_accounts [OF out v(2)] using v(3,4) by simp
qed

definition owner_and_member :: db where
  "owner_and_member = two_owners\<lparr>organization_members :=
     [\<lparr>mem_organization = 7, mem_user = 11, mem_role = Owner, mem_created_at = 0\<rparr>,
      \<lparr>mem_organization = 7, mem_user = 12, mem_role = Member, mem_created_at = 1\<rparr>]\<rparr>"

lemma members_only_read_witness:
  "(\<exists>err. serve sample_env (signed_in 12) 7 (ToOrganization (RenameOrganization ''Mine'')) owner_and_member =
     (Inl err, owner_and_member) \<and> app_status err \<in> {400, 403, 404}) \<and>
   snd (serve sample_env (signed_in 13) 7 (ToForms (GetForm 3)) owner_and_member) = owner_and_member"
proof -
  have "role_of owner_and_member 7 (caller (signed_in 12)) = Some Member" by code_simp
  with members_only_read [of "ToOrganization (RenameOrganization ''Mine'')" sample_env "signed_in 12" 7 owner_and_member]
    members_only_read [of "ToForms (GetForm 3)" sample_env "signed_in 13" 7 owner_and_member]
  show ?thesis by (auto simp: prod_eq_iff)
qed

end
