(* ===== verification/Tenants.thy ===== *)
theory Tenants
  imports ApiGuarantees Ingestion DeliverySafety
begin

text \<open>
  Whatever is asked below \<open>/organizations/{organization_id}\<close>, by whoever, the rows of every other
  organization and the accounts stay as they are: \<open>foreign\<close> is the database without the rows of one
  organization and without the audit trail, and no route changes it. The deletions cascade along
  references by identifier; that they stay inside the organization rests on \<open>tenants_apart\<close>: no row
  refers to a row of another organization.
\<close>

definition foreign :: "uuid \<Rightarrow> db \<Rightarrow> db" where
  "foreign oid d = d\<lparr>
     organizations := filter (\<lambda>r. org_id r \<noteq> oid) (organizations d),
     organization_members := filter (\<lambda>m. mem_organization m \<noteq> oid) (organization_members d),
     forms := filter (\<lambda>f. frm_organization f \<noteq> oid) (forms d),
     submissions := filter (\<lambda>s. sub_organization s \<noteq> oid) (submissions d),
     file_uploads := filter (\<lambda>u. upl_organization u \<noteq> oid) (file_uploads d),
     outbox_events := filter (\<lambda>e. obx_organization e \<noteq> oid) (outbox_events d),
     webhook_endpoints := filter (\<lambda>e. whe_organization e \<noteq> oid) (webhook_endpoints d),
     webhook_deliveries := filter (\<lambda>w. whd_organization w \<noteq> oid) (webhook_deliveries d),
     auth_events := []\<rparr>"

definition tenants_apart :: "db \<Rightarrow> bool" where
  "tenants_apart d \<longleftrightarrow>
     (\<forall>f \<in> set (forms d).
        (\<forall>s \<in> set (submissions d). sub_form s = frm_id f \<longrightarrow> sub_organization s = frm_organization f) \<and>
        (\<forall>e \<in> set (webhook_endpoints d). whe_form e = Some (frm_id f) \<longrightarrow> whe_organization e = frm_organization f) \<and>
        (\<forall>u \<in> set (file_uploads d). upl_form u = frm_id f \<longrightarrow> upl_organization u = frm_organization f)) \<and>
     (\<forall>s \<in> set (submissions d).
        (\<forall>u \<in> set (file_uploads d). upl_submission u = Some (sub_id s) \<longrightarrow> upl_organization u = sub_organization s) \<and>
        (\<forall>w \<in> set (webhook_deliveries d). whd_submission w = Some (sub_id s) \<longrightarrow> whd_organization w = sub_organization s)) \<and>
     (\<forall>e \<in> set (webhook_endpoints d). \<forall>w \<in> set (webhook_deliveries d).
        whd_endpoint w = whe_id e \<longrightarrow> whd_organization w = whe_organization e)"

text \<open>Two databases with the same foreign rows.\<close>

lemma foreign_eqI:
  assumes "users d = users d'" "roles d = roles d'" "user_roles d = user_roles d'"
    "sessions d = sessions d'" "session_tokens d = session_tokens d'"
    "one_time_tokens d = one_time_tokens d'"
    "filter (\<lambda>r. org_id r \<noteq> oid) (organizations d) = filter (\<lambda>r. org_id r \<noteq> oid) (organizations d')"
    "filter (\<lambda>m. mem_organization m \<noteq> oid) (organization_members d) =
     filter (\<lambda>m. mem_organization m \<noteq> oid) (organization_members d')"
    "filter (\<lambda>f. frm_organization f \<noteq> oid) (forms d) = filter (\<lambda>f. frm_organization f \<noteq> oid) (forms d')"
    "filter (\<lambda>s. sub_organization s \<noteq> oid) (submissions d) =
     filter (\<lambda>s. sub_organization s \<noteq> oid) (submissions d')"
    "filter (\<lambda>u. upl_organization u \<noteq> oid) (file_uploads d) =
     filter (\<lambda>u. upl_organization u \<noteq> oid) (file_uploads d')"
    "filter (\<lambda>e. obx_organization e \<noteq> oid) (outbox_events d) =
     filter (\<lambda>e. obx_organization e \<noteq> oid) (outbox_events d')"
    "filter (\<lambda>e. whe_organization e \<noteq> oid) (webhook_endpoints d) =
     filter (\<lambda>e. whe_organization e \<noteq> oid) (webhook_endpoints d')"
    "filter (\<lambda>w. whd_organization w \<noteq> oid) (webhook_deliveries d) =
     filter (\<lambda>w. whd_organization w \<noteq> oid) (webhook_deliveries d')"
  shows "foreign oid d = foreign oid d'"
  using assms by (simp add: foreign_def)

lemma foreign_record_event [simp]: "foreign oid (record_event e now d) = foreign oid d"
  by (simp add: foreign_def record_event_def)

lemma foreign_audit [simp]:
  "foreign oid (organization_audit k o1 actor s m client now d) = foreign oid d"
  "foreign oid (form_audit k o1 actor t l client now d) = foreign oid d"
  "foreign oid (webhook_audit k o1 actor t client now d) = foreign oid d"
  by (simp_all add: organization_audit_def form_audit_def webhook_audit_def)


section \<open>Cascades\<close>

lemma filter_map_same:
  assumes "\<And>x. x \<in> set xs \<Longrightarrow> P (g x) = P x" and "\<And>x. x \<in> set xs \<Longrightarrow> P x \<Longrightarrow> g x = x"
  shows "filter P (map g xs) = filter P xs"
  using assms by (induction xs) auto

lemma filter_delete_disjoint:
  "(\<And>x. x \<in> set xs \<Longrightarrow> q x \<Longrightarrow> \<not> P x) \<Longrightarrow> filter P (delete_where q xs) = filter P xs"
  by (auto simp: delete_where_def intro: filter_cong)

lemma clear_ref_Some: "clear_ref p x = Some a \<longleftrightarrow> x = Some a \<and> \<not> p a"
  by (auto simp: clear_ref_def split: option.splits)

lemma clear_ref_id: "(\<And>a. x = Some a \<Longrightarrow> \<not> p a) \<Longrightarrow> clear_ref p x = x"
  by (simp add: clear_ref_def split: option.splits)

lemma drop_submissions_apart: "tenants_apart d \<Longrightarrow> tenants_apart (drop_submissions p d)"
  by (auto simp: tenants_apart_def drop_submissions_def Let_def set_delete_where clear_ref_Some)

lemma drop_submissions_foreign:
  assumes "tenants_apart d" and "\<And>s. s \<in> set (submissions d) \<Longrightarrow> p s \<Longrightarrow> sub_organization s = oid"
  shows "foreign oid (drop_submissions p d) = foreign oid d"
proof -
  let ?gone = "\<lambda>i. exists_row (\<lambda>s. sub_id s = i \<and> p s) (submissions d)"
  have u: "clear_ref ?gone (upl_submission u) = upl_submission u"
    if "u \<in> set (file_uploads d)" "upl_organization u \<noteq> oid" for u
    using assms that by (intro clear_ref_id) (fastforce simp: tenants_apart_def table_simps)
  have w: "clear_ref ?gone (whd_submission w) = whd_submission w"
    if "w \<in> set (webhook_deliveries d)" "whd_organization w \<noteq> oid" for w
    using assms that by (intro clear_ref_id) (fastforce simp: tenants_apart_def table_simps)
  show ?thesis
    unfolding drop_submissions_def Let_def using assms(2) u w
    by (intro foreign_eqI) (auto intro!: filter_delete_disjoint filter_map_same)
qed

lemma drop_endpoints_apart: "tenants_apart d \<Longrightarrow> tenants_apart (drop_endpoints p d)"
  by (auto simp: tenants_apart_def drop_endpoints_def Let_def set_delete_where)

lemma drop_endpoints_foreign:
  assumes "tenants_apart d" and "\<And>e. e \<in> set (webhook_endpoints d) \<Longrightarrow> p e \<Longrightarrow> whe_organization e = oid"
  shows "foreign oid (drop_endpoints p d) = foreign oid d"
proof -
  have w: "whd_organization w = oid"
    if "w \<in> set (webhook_deliveries d)" "exists_row (\<lambda>e. whe_id e = whd_endpoint w \<and> p e) (webhook_endpoints d)" for w
    using assms that by (fastforce simp: tenants_apart_def table_simps)
  show ?thesis
    unfolding drop_endpoints_def Let_def using assms(2) w
    by (intro foreign_eqI) (auto intro!: filter_delete_disjoint)
qed

lemma tenants_apart_forms:
  assumes "tenants_apart d" and "f \<in> set (forms d)"
  shows "s \<in> set (submissions d) \<Longrightarrow> sub_form s = frm_id f \<Longrightarrow> sub_organization s = frm_organization f"
    and "e \<in> set (webhook_endpoints d) \<Longrightarrow> whe_form e = Some (frm_id f) \<Longrightarrow> whe_organization e = frm_organization f"
    and "u \<in> set (file_uploads d) \<Longrightarrow> upl_form u = frm_id f \<Longrightarrow> upl_organization u = frm_organization f"
  using assms by (simp_all add: tenants_apart_def)

lemma drop_simps [simp]:
  "forms (drop_submissions p d) = forms d" "forms (drop_endpoints q d) = forms d"
  "webhook_endpoints (drop_submissions p d) = webhook_endpoints d"
  "submissions (drop_endpoints q d) = submissions d"
  "file_uploads (drop_endpoints q d) = file_uploads d"
  by (simp_all add: drop_submissions_def drop_endpoints_def Let_def)

lemma drop_submissions_uploads:
  "u \<in> set (file_uploads (drop_submissions p d)) \<Longrightarrow>
   \<exists>v \<in> set (file_uploads d). upl_form u = upl_form v \<and> upl_organization u = upl_organization v"
  by (auto simp: drop_submissions_def Let_def)

lemma drop_forms_eq:
  "drop_forms p d =
    (let gone = (\<lambda>i. exists_row (\<lambda>f. frm_id f = i \<and> p f) (forms d));
         d2 = drop_endpoints (\<lambda>e. case whe_form e of None \<Rightarrow> False | Some f \<Rightarrow> gone f)
                (drop_submissions (\<lambda>s. gone (sub_form s)) d)
     in d2\<lparr>forms := delete_where p (forms d2),
           file_uploads := delete_where (\<lambda>u. gone (upl_form u)) (file_uploads d2)\<rparr>)"
  by (simp add: drop_forms_def Let_def)

lemma delete_forms_apart:
  "tenants_apart d \<Longrightarrow>
   tenants_apart (d\<lparr>forms := delete_where p (forms d), file_uploads := delete_where q (file_uploads d)\<rparr>)"
  by (auto simp: tenants_apart_def set_delete_where)

lemma drop_forms_apart: "tenants_apart d \<Longrightarrow> tenants_apart (drop_forms p d)"
  unfolding drop_forms_eq Let_def
  by (intro delete_forms_apart drop_endpoints_apart drop_submissions_apart)

lemma drop_forms_foreign:
  assumes "tenants_apart d" and "\<And>f. f \<in> set (forms d) \<Longrightarrow> p f \<Longrightarrow> frm_organization f = oid"
  shows "foreign oid (drop_forms p d) = foreign oid d"
proof -
  let ?gone = "\<lambda>i. exists_row (\<lambda>f. frm_id f = i \<and> p f) (forms d)"
  let ?d1 = "drop_submissions (\<lambda>s. ?gone (sub_form s)) d"
  let ?d2 = "drop_endpoints (\<lambda>e. case whe_form e of None \<Rightarrow> False | Some f \<Rightarrow> ?gone f) ?d1"
  have gone: "\<exists>f \<in> set (forms d). frm_id f = i \<and> frm_organization f = oid" if "?gone i" for i
    using that assms(2) by (auto simp: table_simps)
  have d1: "foreign oid ?d1 = foreign oid d"
  proof (rule drop_submissions_foreign [OF assms(1)])
    fix s assume "s \<in> set (submissions d)" "?gone (sub_form s)"
    then show "sub_organization s = oid" using gone tenants_apart_forms(1) [OF assms(1)] by force
  qed
  have d2: "foreign oid ?d2 = foreign oid ?d1"
  proof (rule drop_endpoints_foreign [OF drop_submissions_apart [OF assms(1)]])
    fix e assume "e \<in> set (webhook_endpoints ?d1)" "case whe_form e of None \<Rightarrow> False | Some f \<Rightarrow> ?gone f"
    then show "whe_organization e = oid"
      using gone tenants_apart_forms(2) [OF assms(1)] by (force split: option.splits)
  qed
  have u: "upl_organization u = oid" if "u \<in> set (file_uploads ?d2)" "?gone (upl_form u)" for u
  proof -
    obtain v where "v \<in> set (file_uploads d)" "upl_form u = upl_form v" "upl_organization u = upl_organization v"
      using \<open>u \<in> set (file_uploads ?d2)\<close> by (auto dest: drop_submissions_uploads)
    then show ?thesis using gone [OF that(2)] tenants_apart_forms(3) [OF assms(1)] by force
  qed
  have "foreign oid (drop_forms p d) = foreign oid ?d2"
    unfolding drop_forms_eq Let_def using assms(2) u
    by (intro foreign_eqI) (auto intro!: filter_delete_disjoint)
  then show ?thesis using d1 d2 by simp
qed

lemma drop_organizations_foreign:
  assumes "tenants_apart d"
  shows "foreign oid (drop_organizations (\<lambda>r. org_id r = oid) d) = foreign oid d"
proof -
  let ?gone = "\<lambda>i. exists_row (\<lambda>r. org_id r = i \<and> org_id r = oid) (organizations d)"
  let ?d1 = "drop_forms (\<lambda>f. ?gone (frm_organization f)) d"
  let ?d2 = "drop_submissions (\<lambda>s. ?gone (sub_organization s)) ?d1"
  let ?d3 = "drop_endpoints (\<lambda>e. ?gone (whe_organization e)) ?d2"
  have gone: "i = oid" if "?gone i" for i using that by (auto simp: table_simps)
  have "foreign oid (drop_organizations (\<lambda>r. org_id r = oid) d) = foreign oid ?d3"
    unfolding drop_organizations_def Let_def
    by (intro foreign_eqI) (auto intro!: filter_delete_disjoint dest: gone)
  also have "\<dots> = foreign oid ?d2"
    by (rule drop_endpoints_foreign)
      (auto intro: drop_submissions_apart drop_forms_apart assms dest: gone)
  also have "\<dots> = foreign oid ?d1"
    by (rule drop_submissions_foreign) (auto intro: drop_forms_apart assms dest: gone)
  also have "\<dots> = foreign oid d"
    by (rule drop_forms_foreign [OF assms]) (auto dest: gone)
  finally show ?thesis .
qed


section \<open>Statements\<close>

lemma foreign_table:
  "filter (\<lambda>f. frm_organization f \<noteq> oid) fs = filter (\<lambda>f. frm_organization f \<noteq> oid) (forms d) \<Longrightarrow>
   foreign oid (d\<lparr>forms := fs\<rparr>) = foreign oid d"
  "filter (\<lambda>s. sub_organization s \<noteq> oid) ss = filter (\<lambda>s. sub_organization s \<noteq> oid) (submissions d) \<Longrightarrow>
   foreign oid (d\<lparr>submissions := ss\<rparr>) = foreign oid d"
  "filter (\<lambda>e. whe_organization e \<noteq> oid) es =
     filter (\<lambda>e. whe_organization e \<noteq> oid) (webhook_endpoints d) \<Longrightarrow>
   foreign oid (d\<lparr>webhook_endpoints := es\<rparr>) = foreign oid d"
  "filter (\<lambda>w. whd_organization w \<noteq> oid) ws =
     filter (\<lambda>w. whd_organization w \<noteq> oid) (webhook_deliveries d) \<Longrightarrow>
   foreign oid (d\<lparr>webhook_deliveries := ws\<rparr>) = foreign oid d"
  "filter (\<lambda>r. org_id r \<noteq> oid) rs = filter (\<lambda>r. org_id r \<noteq> oid) (organizations d) \<Longrightarrow>
   foreign oid (d\<lparr>organizations := rs\<rparr>) = foreign oid d"
  "filter (\<lambda>m. mem_organization m \<noteq> oid) ms =
     filter (\<lambda>m. mem_organization m \<noteq> oid) (organization_members d) \<Longrightarrow>
   foreign oid (d\<lparr>organization_members := ms\<rparr>) = foreign oid d"
  by (simp_all add: foreign_def)

lemma update_form_row_foreign:
  "(\<And>f. frm_organization (g f) = frm_organization f) \<Longrightarrow>
   foreign oid (update_form_row oid fid now g d) = foreign oid d"
  unfolding update_form_row_def by (intro foreign_table filter_update_where_disjoint) simp

lemma insert_form_foreign: "foreign oid (snd (insert_form oid n p sc em fid now d)) = foreign oid d"
  by (simp add: insert_form_def Let_def foreign_table)

lemma replace_definition_foreign:
  "foreign oid (snd (replace_definition oid fid def changed now d)) = foreign oid d"
  by (simp add: replace_definition_def update_form_row_foreign split: option.split)

lemma set_form_status_foreign: "foreign oid (set_form_status oid fid st now d) = foreign oid d"
  by (simp add: set_form_status_def update_form_row_foreign)

lemma set_public_id_foreign: "foreign oid (snd (set_public_id oid fid p now d)) = foreign oid d"
  by (simp add: set_public_id_def update_form_row_foreign split: option.split)

lemma set_submission_row_status_foreign:
  "foreign oid (snd (set_submission_row_status oid sid st d)) = foreign oid d"
  unfolding set_submission_row_status_def snd_conv
  by (intro foreign_table filter_update_where_disjoint) simp

lemma insert_endpoint_foreign:
  "foreign oid (snd (insert_endpoint oid f url sec ds eid now d)) = foreign oid d"
  by (simp add: insert_endpoint_def Let_def foreign_table)

lemma changed_endpoint_organization: "whe_organization (changed_endpoint c now e) = whe_organization e"
  by (simp add: changed_endpoint_def)

lemma update_endpoint_row_foreign: "foreign oid (snd (update_endpoint_row oid eid c now d)) = foreign oid d"
  by (auto simp: update_endpoint_row_def Let_def changed_endpoint_organization
      intro!: foreign_table filter_update_where_disjoint split: option.split)

lemma set_endpoint_secret_foreign: "foreign oid (snd (set_endpoint_secret oid eid sec now d)) = foreign oid d"
  by (auto simp: set_endpoint_secret_def
      intro!: foreign_table filter_update_where_disjoint)

lemma requeue_delivery_foreign: "foreign oid (snd (requeue_delivery oid did now d)) = foreign oid d"
  by (auto simp: requeue_delivery_def
      intro!: foreign_table filter_update_where_disjoint)

lemma rename_organization_row_foreign: "foreign oid (snd (rename_organization_row oid n d)) = foreign oid d"
  by (auto simp: rename_organization_row_def
      intro!: foreign_table filter_update_where_disjoint)

lemma upsert_member_foreign: "foreign oid (snd (upsert_member oid u r now d)) = foreign oid d"
  by (auto simp: upsert_member_def
      intro!: foreign_table filter_update_where_disjoint)

lemma remove_member_row_foreign: "foreign oid (remove_member_row oid u d) = foreign oid d"
  unfolding remove_member_row_def by (intro foreign_table filter_delete_disjoint) simp

lemmas statements_foreign = insert_form_foreign replace_definition_foreign set_form_status_foreign
  set_public_id_foreign set_submission_row_status_foreign insert_endpoint_foreign
  update_endpoint_row_foreign set_endpoint_secret_foreign requeue_delivery_foreign
  rename_organization_row_foreign upsert_member_foreign remove_member_row_foreign

lemma deletions_foreign:
  assumes "tenants_apart d"
  shows "foreign oid (snd (delete_form_row oid fid d)) = foreign oid d"
    and "foreign oid (snd (delete_submission_row oid sid d)) = foreign oid d"
    and "foreign oid (snd (delete_endpoint_row oid eid d)) = foreign oid d"
    and "foreign oid (snd (delete_organization_row oid d)) = foreign oid d"
  using assms
  by (auto simp: delete_form_row_def delete_submission_row_def delete_endpoint_row_def
      delete_organization_row_def drop_organizations_foreign
      intro!: drop_forms_foreign drop_submissions_foreign drop_endpoints_foreign)

section \<open>Operations and routes\<close>

lemma get_form_snd [simp]: "snd (get_form oid fid u d) = d"
  by (auto simp: get_form_def intro!: with_member_reads guard_reads)

lemma get_submission_snd [simp]: "snd (get_submission oid sid u d) = d"
  by (auto simp: get_submission_def intro!: with_member_reads guard_reads)

lemma get_endpoint_snd [simp]: "snd (get_endpoint oid eid u d) = d"
  by (auto simp: get_endpoint_def intro!: with_member_reads guard_reads)

abbreviation same_foreign :: "uuid \<Rightarrow> db \<Rightarrow> db \<Rightarrow> bool" where
  "same_foreign oid d \<equiv> \<lambda>x. foreign oid x = foreign oid d"

lemmas flow =
  with_manager_snd [where P = "same_foreign oid d" for oid d]
  guard_st_snd [where P = "same_foreign oid d" for oid d]
  prod_snd [where P = "same_foreign oid d" for oid d]
  sum_snd [where P = "same_foreign oid d" for oid d]
  option_snd [where P = "same_foreign oid d" for oid d]
  if_snd [where P = "same_foreign oid d" for oid d]

lemma create_form_foreign: "foreign oid (snd (create_form up oid cr u cl fid tok now d)) = foreign oid d"
  unfolding create_form_def by (rule flow | (simp add: statements_foreign; fail))+

lemma update_form_foreign: "foreign oid (snd (update_form ext up oid fid ur u cl now d)) = foreign oid d"
  unfolding update_form_def Let_def by (rule flow | (simp add: statements_foreign; fail))+

lemma publish_form_foreign: "foreign oid (snd (publish_form up oid fid u cl now d)) = foreign oid d"
  unfolding publish_form_def by (rule flow | (simp add: statements_foreign; fail))+

lemma close_form_foreign: "foreign oid (snd (close_form oid fid u cl now d)) = foreign oid d"
  unfolding close_form_def by (rule flow | (simp add: statements_foreign; fail))+

lemma rotate_public_id_foreign: "foreign oid (snd (rotate_public_id oid fid u cl tok now d)) = foreign oid d"
  unfolding rotate_public_id_def by (rule flow | (simp add: statements_foreign; fail))+

lemma set_submission_status_foreign:
  "foreign oid (snd (set_submission_status ext oid sid st u cl now d)) = foreign oid d"
  unfolding set_submission_status_def by (rule flow | (simp add: statements_foreign; fail))+

lemma create_endpoint_foreign:
  "foreign oid (snd (create_endpoint ap oid r u cl eid sec now d)) = foreign oid d"
  unfolding create_endpoint_def by (rule flow | (simp add: statements_foreign; fail))+

lemma update_endpoint_foreign: "foreign oid (snd (update_endpoint ap oid eid r u cl now d)) = foreign oid d"
  unfolding update_endpoint_def Let_def by (rule flow | (simp add: statements_foreign; fail))+

lemma rotate_endpoint_secret_foreign:
  "foreign oid (snd (rotate_endpoint_secret oid eid u cl sec now d)) = foreign oid d"
  unfolding rotate_endpoint_secret_def by (rule flow | (simp add: statements_foreign; fail))+

lemma redeliver_foreign: "foreign oid (snd (redeliver oid did u now d)) = foreign oid d"
  unfolding redeliver_def by (rule flow | (simp add: statements_foreign; fail))+

lemma rename_organization_foreign: "foreign oid (snd (rename_organization oid n u cl now d)) = foreign oid d"
  unfolding rename_organization_def Let_def by (rule flow | (simp add: statements_foreign; fail))+

lemma add_member_foreign: "foreign oid (snd (add_member ext oid em r u cl now d)) = foreign oid d"
  unfolding add_member_def Let_def by (rule flow | (simp add: statements_foreign; fail))+

lemma set_member_role_foreign: "foreign oid (snd (set_member_role oid target r u cl now d)) = foreign oid d"
  unfolding set_member_role_def by (rule flow | (simp add: statements_foreign; fail))+

lemma remove_member_foreign: "foreign oid (snd (remove_member oid target u cl now d)) = foreign oid d"
  unfolding remove_member_def by (rule flow | (simp add: statements_foreign; fail))+

lemma delete_form_foreign:
  "tenants_apart d \<Longrightarrow> foreign oid (snd (delete_form oid fid u cl now d)) = foreign oid d"
  unfolding delete_form_def by (rule flow | (simp add: deletions_foreign; fail))+

lemma delete_submission_foreign:
  "tenants_apart d \<Longrightarrow> foreign oid (snd (delete_submission oid sid u cl now d)) = foreign oid d"
  unfolding delete_submission_def by (rule flow | (simp add: deletions_foreign; fail))+

lemma delete_endpoint_foreign:
  "tenants_apart d \<Longrightarrow> foreign oid (snd (delete_endpoint oid eid u cl now d)) = foreign oid d"
  unfolding delete_endpoint_def by (rule flow | (simp add: deletions_foreign; fail))+

lemma organization_audit_apart:
  "tenants_apart d \<Longrightarrow> tenants_apart (organization_audit k o1 actor s m client now d)"
  by (simp add: organization_audit_def tenants_apart_def)

lemma delete_organization_foreign:
  "tenants_apart d \<Longrightarrow> foreign oid (snd (delete_organization oid u cl now d)) = foreign oid d"
  unfolding delete_organization_def Let_def
  by (rule flow | (simp add: deletions_foreign organization_audit_apart; fail))+

text \<open>What a request does to the database is what its operation does, or nothing.\<close>

lemma rotate_secret_handler_snd:
  "snd (rotate_secret_handler e a oid eid d) = d \<or>
   snd (rotate_secret_handler e a oid eid d) =
     snd (rotate_endpoint_secret oid eid (caller a) (e_client e) (e_token e) (e_now e) d)"
proof (cases "get_endpoint oid eid (caller a) d")
  case (Pair r d1)
  moreover have "d1 = d" using Pair get_endpoint_snd [of oid eid "caller a" d] by simp
  ultimately show ?thesis
    by (cases r) (simp_all add: rotate_secret_handler_def answer_defs split: prod.split)
qed

lemma post_form_handler_snd:
  "snd (post_form_handler e a oid r d) = d \<or>
   snd (post_form_handler e a oid r d) =
     snd (create_form (is_enabled (e_storage e)) oid r (caller a) (e_client e) (e_id e) (e_token e) (e_now e) d)"
  by (simp add: post_form_handler_def create_form_handler_def split: prod.split)

section \<open>A contract of the tenant's operations, and what serves them\<close>

text \<open>
  \<open>keeps oid d d'\<close> is something every write operation under organization \<open>oid\<close> promises of the state it
  leaves, from any state that is \<open>good\<close>; the routes then promise it too.
\<close>

locale tenant_operations =
  fixes good :: "db \<Rightarrow> bool" and keeps :: "uuid \<Rightarrow> db \<Rightarrow> db \<Rightarrow> bool"
  assumes unchanged: "good d \<Longrightarrow> keeps oid d d"
    and rename_organization: "good d \<Longrightarrow> keeps oid d (snd (rename_organization oid n u cl now d))"
    and delete_organization: "good d \<Longrightarrow> keeps oid d (snd (delete_organization oid u cl now d))"
    and add_member: "good d \<Longrightarrow> keeps oid d (snd (add_member ext oid em ro u cl now d))"
    and set_member_role: "good d \<Longrightarrow> keeps oid d (snd (set_member_role oid target ro u cl now d))"
    and remove_member: "good d \<Longrightarrow> keeps oid d (snd (remove_member oid target u cl now d))"
    and create_form: "good d \<Longrightarrow> keeps oid d (snd (create_form up oid cr u cl fid tok now d))"
    and update_form: "good d \<Longrightarrow> keeps oid d (snd (update_form ext up oid fid ur u cl now d))"
    and delete_form: "good d \<Longrightarrow> keeps oid d (snd (delete_form oid fid u cl now d))"
    and publish_form: "good d \<Longrightarrow> keeps oid d (snd (publish_form up oid fid u cl now d))"
    and close_form: "good d \<Longrightarrow> keeps oid d (snd (close_form oid fid u cl now d))"
    and rotate_public_id: "good d \<Longrightarrow> keeps oid d (snd (rotate_public_id oid fid u cl tok now d))"
    and set_submission_status: "good d \<Longrightarrow> keeps oid d (snd (set_submission_status ext oid sid st u cl now d))"
    and delete_submission: "good d \<Longrightarrow> keeps oid d (snd (delete_submission oid sid u cl now d))"
    and create_endpoint: "good d \<Longrightarrow> keeps oid d (snd (create_endpoint ap oid ce u cl eid sec now d))"
    and update_endpoint: "good d \<Longrightarrow> keeps oid d (snd (update_endpoint ap oid eid ue u cl now d))"
    and delete_endpoint: "good d \<Longrightarrow> keeps oid d (snd (delete_endpoint oid eid u cl now d))"
    and rotate_endpoint_secret: "good d \<Longrightarrow> keeps oid d (snd (rotate_endpoint_secret oid eid u cl sec now d))"
    and redeliver: "good d \<Longrightarrow> keeps oid d (snd (redeliver oid did u now d))"
begin

lemma rotate_handler_keeps: "good d \<Longrightarrow> keeps oid d (snd (rotate_secret_handler e a oid eid d))"
  using rotate_secret_handler_snd [of e a oid eid d] by (metis unchanged rotate_endpoint_secret)

lemma post_form_handler_keeps: "good d \<Longrightarrow> keeps oid d (snd (post_form_handler e a oid r d))"
  using post_form_handler_snd [of e a oid r d] by (metis unchanged create_form)

lemma serve_keeps:
  assumes "good d"
  shows "keeps oid d (snd (serve e a oid r d))"
proof (cases "changes r")
  case False
  then show ?thesis using unchanged [OF assms] by (simp add: reads_change_nothing)
next
  case True
  then show ?thesis
    using assms
    by (cases r rule: changes.cases)
      (auto simp: rename_organization_handler_def delete_organization_handler_def add_member_handler_def
        set_member_role_handler_def remove_member_handler_def update_form_handler_def
        delete_form_handler_def publish_form_handler_def close_form_handler_def
        rotate_public_id_handler_def update_submission_handler_def delete_submission_handler_def
        create_endpoint_handler_def update_endpoint_handler_def delete_endpoint_handler_def
        redeliver_handler_def answer_defs Let_def
        intro: unchanged rename_organization delete_organization add_member set_member_role remove_member
          update_form delete_form publish_form close_form rotate_public_id set_submission_status
          delete_submission create_endpoint update_endpoint delete_endpoint redeliver
          rotate_handler_keeps post_form_handler_keeps)
qed

end

interpretation frame: tenant_operations tenants_apart "\<lambda>oid d d'. foreign oid d' = foreign oid d"
  by unfold_locales (simp_all add: create_form_foreign update_form_foreign publish_form_foreign
    close_form_foreign rotate_public_id_foreign set_submission_status_foreign create_endpoint_foreign
    update_endpoint_foreign rotate_endpoint_secret_foreign redeliver_foreign
    rename_organization_foreign add_member_foreign set_member_role_foreign remove_member_foreign
    delete_form_foreign delete_submission_foreign delete_endpoint_foreign delete_organization_foreign)

end
