(* ===== verification/Isolation.thy ===== *)
theory Isolation
  imports Tenants Dispatching
begin

text \<open>
  The references between rows: every form, submission, endpoint, upload and delivery refers to rows of its
  own organization, in every state the service reaches - whatever the tenants ask for, strangers submit
  and upload, and the workers dispatch, deliver and collect. With \<open>tenants_apart\<close> as a consequence,
  nothing asked below one organization reaches the rows of another.
\<close>

section \<open>References that resolve\<close>

definition resolves :: "('r \<Rightarrow> uuid) \<Rightarrow> ('r \<Rightarrow> uuid) \<Rightarrow> 'r list \<Rightarrow> uuid \<Rightarrow> uuid \<Rightarrow> bool" where
  "resolves ident tenant t i oid \<longleftrightarrow> (\<exists>r \<in> set t. ident r = i \<and> tenant r = oid)"

abbreviation "form_of \<equiv> \<lambda>d. resolves frm_id frm_organization (forms d)"
abbreviation "submission_of \<equiv> \<lambda>d. resolves sub_id sub_organization (submissions d)"
abbreviation "endpoint_of \<equiv> \<lambda>d. resolves whe_id whe_organization (webhook_endpoints d)"

definition tenant_inv :: "db \<Rightarrow> bool" where
  "tenant_inv d \<longleftrightarrow>
     distinct (map frm_id (forms d)) \<and> distinct (map sub_id (submissions d)) \<and>
     distinct (map whe_id (webhook_endpoints d)) \<and> ledger_keys d \<and>
     (\<forall>s \<in> set (submissions d). form_of d (sub_form s) (sub_organization s)) \<and>
     (\<forall>e \<in> set (webhook_endpoints d). \<forall>i. whe_form e = Some i \<longrightarrow> form_of d i (whe_organization e)) \<and>
     (\<forall>u \<in> set (file_uploads d). form_of d (upl_form u) (upl_organization u)) \<and>
     (\<forall>u \<in> set (file_uploads d). \<forall>i. upl_submission u = Some i \<longrightarrow> submission_of d i (upl_organization u)) \<and>
     (\<forall>w \<in> set (webhook_deliveries d). endpoint_of d (whd_endpoint w) (whd_organization w)) \<and>
     (\<forall>w \<in> set (webhook_deliveries d). \<forall>i. whd_submission w = Some i \<longrightarrow> submission_of d i (whd_organization w))"

lemma resolves_unique:
  assumes "distinct (map ident t)" and "resolves ident tenant t (ident r) oid" and "r \<in> set t"
  shows "oid = tenant r"
  using assms unique_key_eq [OF assms(1)] by (auto simp: resolves_def)

lemma tenant_inv_apart: "tenant_inv d \<Longrightarrow> tenants_apart d"
  unfolding tenant_inv_def tenants_apart_def
  by (intro conjI ballI impI) (metis resolves_unique)+

lemma resolves_append: "resolves ident tenant t i oid \<Longrightarrow> resolves ident tenant (t @ t') i oid"
  by (auto simp: resolves_def)

lemma resolves_update:
  assumes "\<And>r. ident (f r) = ident r \<and> tenant (f r) = tenant r"
  shows "resolves ident tenant (update_where p f t) i oid \<longleftrightarrow> resolves ident tenant t i oid"
  using assms by (induction t) (auto simp: resolves_def update_where_def)

lemma resolves_delete:
  "resolves ident tenant t i oid \<Longrightarrow> \<not> exists_row (\<lambda>r. ident r = i \<and> p r) t \<Longrightarrow>
   resolves ident tenant (delete_where p t) i oid"
  by (auto simp: resolves_def set_delete_where table_simps)

lemma map_update_where:
  "(\<And>r. r \<in> set t \<Longrightarrow> p r \<Longrightarrow> g (f r) = g r) \<Longrightarrow> map g (update_where p f t) = map g t"
  by (induction t) (auto simp: update_where_def)

lemma distinct_delete: "distinct (map g t) \<Longrightarrow> distinct (map g (delete_where p t))"
  by (simp add: delete_where_def distinct_map_filter)

text \<open>Tables the references do not involve.\<close>

lemma tenant_inv_cong:
  assumes "forms d' = forms d" "submissions d' = submissions d" "webhook_endpoints d' = webhook_endpoints d"
    "file_uploads d' = file_uploads d" "webhook_deliveries d' = webhook_deliveries d"
  shows "tenant_inv d' = tenant_inv d"
  using assms by (simp add: tenant_inv_def ledger_keys_def)

lemma tenant_inv_tables [simp]:
  "tenant_inv (d\<lparr>organizations := os\<rparr>) = tenant_inv d"
  "tenant_inv (d\<lparr>organization_members := ms\<rparr>) = tenant_inv d"
  "tenant_inv (d\<lparr>outbox_events := es\<rparr>) = tenant_inv d"
  "tenant_inv (d\<lparr>organizations := os, organization_members := ms\<rparr>) = tenant_inv d"
  by (simp_all add: tenant_inv_def ledger_keys_def)


section \<open>Deletions\<close>

lemma drop_submissions_inv: "tenant_inv d \<Longrightarrow> tenant_inv (drop_submissions p d)"
  unfolding tenant_inv_def drop_submissions_def Let_def ledger_keys_def
  by (auto simp: set_delete_where clear_ref_Some comp_def intro: distinct_delete resolves_delete)

lemma drop_endpoints_inv: "tenant_inv d \<Longrightarrow> tenant_inv (drop_endpoints p d)"
  unfolding tenant_inv_def drop_endpoints_def Let_def ledger_keys_def
  by (auto simp: set_delete_where intro: distinct_delete resolves_delete)

lemma delete_forms_inv:
  assumes "tenant_inv d" and "\<And>i. gone i \<longleftrightarrow> exists_row (\<lambda>f. frm_id f = i \<and> p f) (forms d)"
    and "\<And>s. s \<in> set (submissions d) \<Longrightarrow> \<not> gone (sub_form s)"
    and "\<And>e i. e \<in> set (webhook_endpoints d) \<Longrightarrow> whe_form e = Some i \<Longrightarrow> \<not> gone i"
  shows "tenant_inv (d\<lparr>forms := delete_where p (forms d),
    file_uploads := delete_where (\<lambda>u. gone (upl_form u)) (file_uploads d)\<rparr>)"
  using assms(1,3,4) unfolding tenant_inv_def ledger_keys_def assms(2)
  by (auto simp: set_delete_where intro: distinct_delete resolves_delete)

lemma drop_forms_inv:
  assumes "tenant_inv d"
  shows "tenant_inv (drop_forms p d)"
  unfolding drop_forms_eq Let_def
proof (rule delete_forms_inv)
  show "tenant_inv (drop_endpoints (\<lambda>e. case whe_form e of None \<Rightarrow> False
      | Some i \<Rightarrow> exists_row (\<lambda>f. frm_id f = i \<and> p f) (forms d))
    (drop_submissions (\<lambda>s. exists_row (\<lambda>f. frm_id f = sub_form s \<and> p f) (forms d)) d))"
    by (intro drop_endpoints_inv drop_submissions_inv assms)
qed (auto simp: drop_endpoints_def drop_submissions_def Let_def set_delete_where)

lemma delete_rows_inv:
  "tenant_inv d \<Longrightarrow> tenant_inv (d\<lparr>organizations := os, organization_members := ms,
     file_uploads := delete_where p (file_uploads d), outbox_events := es,
     webhook_deliveries := delete_where q (webhook_deliveries d), auth_events := ev\<rparr>)"
  unfolding tenant_inv_def ledger_keys_def by (auto simp: set_delete_where intro: distinct_delete)

lemma drop_organizations_inv: "tenant_inv d \<Longrightarrow> tenant_inv (drop_organizations p d)"
  unfolding drop_organizations_def Let_def
  by (intro delete_rows_inv drop_endpoints_inv drop_submissions_inv drop_forms_inv)

section \<open>Statements\<close>

lemma forms_inv_update:
  assumes "tenant_inv d"
    and "\<And>f. frm_id (g f) = frm_id f \<and> frm_organization (g f) = frm_organization f"
  shows "tenant_inv (update_form_row oid fid now g d)"
  using assms(1) unfolding tenant_inv_def update_form_row_def ledger_keys_def
  by (simp add: resolves_update map_update_where assms(2))

lemma append_form_inv:
  assumes "tenant_inv d" and "frm_id f \<notin> frm_id ` set (forms d)"
  shows "tenant_inv (d\<lparr>forms := forms d @ [f]\<rparr>)"
  using assms unfolding tenant_inv_def ledger_keys_def by (auto intro: resolves_append)

lemma insert_form_inv: "tenant_inv d \<Longrightarrow> tenant_inv (snd (insert_form oid n p sc em fid now d))"
  by (auto simp: insert_form_def Let_def table_simps intro!: append_form_inv)

lemma replace_definition_inv: "tenant_inv d \<Longrightarrow> tenant_inv (snd (replace_definition oid fid def ch now d))"
  by (auto simp: replace_definition_def intro!: forms_inv_update split: option.split)

lemma set_form_status_inv: "tenant_inv d \<Longrightarrow> tenant_inv (set_form_status oid fid st now d)"
  by (auto simp: set_form_status_def intro!: forms_inv_update)

lemma set_public_id_inv: "tenant_inv d \<Longrightarrow> tenant_inv (snd (set_public_id oid fid p now d))"
  by (auto simp: set_public_id_def intro!: forms_inv_update split: option.split)

lemma set_submission_row_status_inv: "tenant_inv d \<Longrightarrow> tenant_inv (snd (set_submission_row_status oid sid st d))"
  unfolding tenant_inv_def set_submission_row_status_def ledger_keys_def
  by (simp add: resolves_update map_update_where table_simps) (auto simp: table_simps)

lemma endpoints_inv_update:
  assumes "tenant_inv d" and "\<And>e. whe_id (g e) = whe_id e \<and> whe_organization (g e) = whe_organization e"
    and "\<And>e i. e \<in> set (webhook_endpoints d) \<Longrightarrow> p e \<Longrightarrow> whe_form (g e) = Some i \<Longrightarrow>
      form_of d i (whe_organization e)"
  shows "tenant_inv (d\<lparr>webhook_endpoints := update_where p g (webhook_endpoints d)\<rparr>)"
proof -
  have "form_of d i (whe_organization e)"
    if "e \<in> set (update_where p g (webhook_endpoints d))" "whe_form e = Some i" for e i
  proof -
    obtain x where "x \<in> set (webhook_endpoints d)" "e = (if p x then g x else x)"
      using \<open>e \<in> _\<close> by (auto simp: update_where_def)
    with assms that(2) show ?thesis unfolding tenant_inv_def by (cases "p x") auto
  qed
  with assms(1) show ?thesis
    unfolding tenant_inv_def ledger_keys_def by (simp add: resolves_update map_update_where assms(2))
qed

lemma insert_endpoint_inv:
  assumes "tenant_inv d" and "\<And>i. f = Some i \<Longrightarrow> form_of d i oid"
  shows "tenant_inv (snd (insert_endpoint oid f url sec ds eid now d))"
  using assms unfolding tenant_inv_def ledger_keys_def insert_endpoint_def Let_def
  by (auto simp: table_simps intro: resolves_append)

lemma update_endpoint_row_inv:
  assumes "tenant_inv d" and "\<And>i. chg_form c = Some (Some i) \<Longrightarrow> form_of d i oid"
  shows "tenant_inv (snd (update_endpoint_row oid eid c now d))"
proof -
  have "tenant_inv (d\<lparr>webhook_endpoints := update_where (\<lambda>r. whe_organization r = oid \<and> whe_id r = eid)
      (changed_endpoint c now) (webhook_endpoints d)\<rparr>)"
    using assms by (intro endpoints_inv_update)
      (auto simp: changed_endpoint_def tenant_inv_def split: option.splits)
  with assms(1) show ?thesis by (simp add: update_endpoint_row_def Let_def split: option.split)
qed

lemma set_endpoint_secret_inv:
  assumes "tenant_inv d"
  shows "tenant_inv (snd (set_endpoint_secret oid eid sec now d))"
proof -
  have "tenant_inv (d\<lparr>webhook_endpoints := update_where (\<lambda>r. whe_organization r = oid \<and> whe_id r = eid)
      (\<lambda>e. e\<lparr>whe_secret := sec, whe_updated_at := now\<rparr>) (webhook_endpoints d)\<rparr>)"
    using assms by (intro endpoints_inv_update) (auto simp: tenant_inv_def)
  with assms show ?thesis by (simp add: set_endpoint_secret_def)
qed

lemma deliveries_inv_update:
  assumes "tenant_inv d" and "\<And>w. whd_organization (g w) = whd_organization w \<and>
      whd_endpoint (g w) = whd_endpoint w \<and> whd_submission (g w) = whd_submission w"
  shows "tenant_inv (d\<lparr>webhook_deliveries := update_where p g (webhook_deliveries d)\<rparr>)"
  using assms unfolding tenant_inv_def ledger_keys_def by (auto simp: update_where_def)

lemma requeue_delivery_inv: "tenant_inv d \<Longrightarrow> tenant_inv (snd (requeue_delivery oid did now d))"
  by (simp add: requeue_delivery_def deliveries_inv_update)

lemma organization_statements_inv:
  "tenant_inv d \<Longrightarrow> tenant_inv (snd (rename_organization_row oid n d))"
  "tenant_inv d \<Longrightarrow> tenant_inv (snd (upsert_member oid u r now d))"
  "tenant_inv d \<Longrightarrow> tenant_inv (remove_member_row oid u d)"
  by (simp_all add: rename_organization_row_def upsert_member_def remove_member_row_def)

lemma record_event_inv [simp]: "tenant_inv (record_event e now d) = tenant_inv d"
  by (rule tenant_inv_cong) simp_all

lemma audit_inv [simp]:
  "tenant_inv (organization_audit k o1 actor s m client now d) = tenant_inv d"
  "tenant_inv (form_audit k o1 actor t l client now d) = tenant_inv d"
  "tenant_inv (webhook_audit k o1 actor t client now d) = tenant_inv d"
  by (simp_all add: organization_audit_def form_audit_def webhook_audit_def)

lemma deletions_inv:
  assumes "tenant_inv d"
  shows "tenant_inv (snd (delete_form_row oid fid d))" and "tenant_inv (snd (delete_submission_row oid sid d))"
    and "tenant_inv (snd (delete_endpoint_row oid eid d))" and "tenant_inv (snd (delete_organization_row oid d))"
  using assms by (simp_all add: delete_form_row_def delete_submission_row_def delete_endpoint_row_def
      delete_organization_row_def drop_forms_inv drop_submissions_inv drop_endpoints_inv drop_organizations_inv)

lemmas statements_inv = insert_form_inv replace_definition_inv set_form_status_inv set_public_id_inv
  set_submission_row_status_inv set_endpoint_secret_inv requeue_delivery_inv organization_statements_inv
  deletions_inv

section \<open>Operations\<close>

lemmas inv_flow =
  with_manager_snd [where P = tenant_inv] guard_st_snd [where P = tenant_inv]
  prod_snd [where P = tenant_inv] sum_snd [where P = tenant_inv]
  option_snd [where P = tenant_inv] if_snd [where P = tenant_inv]

lemma ensure_form_belongs_to_Inr: "ensure_form_belongs_to d oid f = Inr x \<Longrightarrow> form_of d f oid"
  by (auto simp: ensure_form_belongs_to_def form_belongs_to_def resolves_def table_simps split: if_splits)

lemma create_endpoint_inv:
  assumes "tenant_inv d"
  shows "tenant_inv (snd (create_endpoint ap oid ce u cl eid sec now d))"
proof -
  have "tenant_inv (snd (insert_endpoint oid (cer_form ce) url sec ds eid now d))"
    if "(case cer_form ce of None \<Rightarrow> Inr () | Some f \<Rightarrow> ensure_form_belongs_to d oid f) = Inr x" for x url ds
    using that by (intro insert_endpoint_inv assms) (auto dest: ensure_form_belongs_to_Inr)
  then show ?thesis
    unfolding create_endpoint_def using assms by - (rule inv_flow | simp; fail)+
qed

lemma update_endpoint_inv:
  assumes "tenant_inv d"
  shows "tenant_inv (snd (update_endpoint ap oid eid ue u cl now d))"
proof -
  have "tenant_inv (snd (update_endpoint_row oid eid
      \<lparr>chg_url = cu, chg_description = cd, chg_enabled = ce, chg_form = uer_form ue\<rparr> now d))"
    if "(case uer_form ue of Some (Some f) \<Rightarrow> ensure_form_belongs_to d oid f | _ \<Rightarrow> Inr ()) = Inr x" for x cu cd ce
    using that by (intro update_endpoint_row_inv assms) (auto dest: ensure_form_belongs_to_Inr)
  then show ?thesis
    unfolding update_endpoint_def Let_def using assms by - (rule inv_flow | simp; fail)+
qed

interpretation references: tenant_operations tenant_inv "\<lambda>oid d d'. tenant_inv d'"
proof unfold_locales
  fix d :: db and oid
  assume d: "tenant_inv d"
  show "tenant_inv d" by (rule d)
  show "tenant_inv (snd (rename_organization oid n u cl now d))" for n u cl now
    unfolding rename_organization_def Let_def using d by - (rule inv_flow | (simp add: statements_inv; fail))+
  show "tenant_inv (snd (delete_organization oid u cl now d))" for u cl now
    unfolding delete_organization_def Let_def using d by - (rule inv_flow | (simp add: statements_inv; fail))+
  show "tenant_inv (snd (add_member ext oid em ro u cl now d))" for ext em ro u cl now
    unfolding add_member_def Let_def using d by - (rule inv_flow | (simp add: statements_inv; fail))+
  show "tenant_inv (snd (set_member_role oid target ro u cl now d))" for target ro u cl now
    unfolding set_member_role_def using d by - (rule inv_flow | (simp add: statements_inv; fail))+
  show "tenant_inv (snd (remove_member oid target u cl now d))" for target u cl now
    unfolding remove_member_def using d by - (rule inv_flow | (simp add: statements_inv; fail))+
  show "tenant_inv (snd (create_form up oid cr u cl fid tok now d))" for up cr u cl fid tok now
    unfolding create_form_def using d by - (rule inv_flow | (simp add: statements_inv; fail))+
  show "tenant_inv (snd (update_form ext up oid fid ur u cl now d))" for ext up fid ur u cl now
    unfolding update_form_def Let_def using d by - (rule inv_flow | (simp add: statements_inv; fail))+
  show "tenant_inv (snd (delete_form oid fid u cl now d))" for fid u cl now
    unfolding delete_form_def using d by - (rule inv_flow | (simp add: statements_inv; fail))+
  show "tenant_inv (snd (publish_form up oid fid u cl now d))" for up fid u cl now
    unfolding publish_form_def using d by - (rule inv_flow | (simp add: statements_inv; fail))+
  show "tenant_inv (snd (close_form oid fid u cl now d))" for fid u cl now
    unfolding close_form_def using d by - (rule inv_flow | (simp add: statements_inv; fail))+
  show "tenant_inv (snd (rotate_public_id oid fid u cl tok now d))" for fid u cl tok now
    unfolding rotate_public_id_def using d by - (rule inv_flow | (simp add: statements_inv; fail))+
  show "tenant_inv (snd (set_submission_status ext oid sid st u cl now d))" for ext sid st u cl now
    unfolding set_submission_status_def using d by - (rule inv_flow | (simp add: statements_inv; fail))+
  show "tenant_inv (snd (delete_submission oid sid u cl now d))" for sid u cl now
    unfolding delete_submission_def using d by - (rule inv_flow | (simp add: statements_inv; fail))+
  show "tenant_inv (snd (create_endpoint ap oid ce u cl eid sec now d))" for ap ce u cl eid sec now
    using d by (rule create_endpoint_inv)
  show "tenant_inv (snd (update_endpoint ap oid eid ue u cl now d))" for ap eid ue u cl now
    using d by (rule update_endpoint_inv)
  show "tenant_inv (snd (delete_endpoint oid eid u cl now d))" for eid u cl now
    unfolding delete_endpoint_def using d by - (rule inv_flow | (simp add: statements_inv; fail))+
  show "tenant_inv (snd (rotate_endpoint_secret oid eid u cl sec now d))" for eid u cl sec now
    unfolding rotate_endpoint_secret_def using d by - (rule inv_flow | (simp add: statements_inv; fail))+
  show "tenant_inv (snd (redeliver oid did u now d))" for did u now
    unfolding redeliver_def using d by - (rule inv_flow | (simp add: statements_inv; fail))+
qed

section \<open>The public surface\<close>

lemma append_submission_inv:
  assumes "tenant_inv d" and "sub_id s \<notin> sub_id ` set (submissions d)"
    and "form_of d (sub_form s) (sub_organization s)"
  shows "tenant_inv (d\<lparr>submissions := submissions d @ [s]\<rparr>)"
  using assms unfolding tenant_inv_def ledger_keys_def by (auto intro: resolves_append)

lemma insert_submission_keeps:
  assumes "tenant_inv d" and "form_of d (new_form n) (new_organization n)"
  shows "tenant_inv (snd (insert_submission ext n sid eid now d))"
  using assms by (auto simp: insert_submission_def Let_def table_simps intro!: append_submission_inv)

lemma claim_uploads_inv:
  assumes "tenant_inv d"
    and "\<And>u. u \<in> set (file_uploads d) \<Longrightarrow> claimable ks u \<Longrightarrow> submission_of d sid (upl_organization u)"
  shows "tenant_inv (snd (claim_uploads sid ks d))"
  using assms unfolding tenant_inv_def claim_uploads_def ledger_keys_def
  by (auto simp: update_where_def comp_def if_distrib cong: if_cong)

lemma insert_claiming_files_keeps:
  assumes "tenant_inv d" and "form_of d (new_form n) (new_organization n)"
  shows "tenant_inv (snd (insert_claiming_files ext n ans sid eid now d))"
proof (cases "insert_claiming_files ext n ans sid eid now d")
  case (Pair r d')
  show ?thesis
  proof (cases r)
    case (Inl e)
    with Pair assms(1) show ?thesis using insert_claiming_files_Inl by fastforce
  next
    case (Inr i)
    from Pair [unfolded Inr] obtain m d1 where
      m: "check_file_references ans (lock_for_claim d (new_form n) (map snd ans)) [] = Inr m"
      and i: "insert_submission ext (n\<lparr>new_files := Some (JObject m)\<rparr>) sid eid now d = (Inr i, d1)"
      and d': "d' = snd (claim_uploads i (map snd ans) d1)"
      by (rule insert_claiming_files_Inr)
    have d1: "tenant_inv d1"
      using insert_submission_keeps [OF assms(1), of "n\<lparr>new_files := Some (JObject m)\<rparr>" ext sid eid now] assms(2) i
      by simp
    have here: "submission_of d1 i (new_organization n)"
      using insert_submission_Inr(1,4) [OF i] by (auto simp: resolves_def)
    have "upl_organization u = new_organization n"
      if u: "u \<in> set (file_uploads d)" "upl_object_key u \<in> set (map snd ans)" for u
    proof -
      from u(2) obtain fk where "(fk, upl_object_key u) \<in> set ans" by auto
      from check_file_references_Inr [OF m this] obtain v where
        "find (\<lambda>w. upl_object_key w = upl_object_key u) (lock_for_claim d (new_form n) (map snd ans)) = Some v"
        by auto
      from lock_for_claim_find [OF this] u(1) assms(1) have "upl_form u = new_form n"
        unfolding tenant_inv_def ledger_keys_def by (metis unique_key_eq)
      with assms u(1) show ?thesis
        unfolding tenant_inv_def by (metis resolves_def resolves_unique)
    qed
    with d1 here insert_submission_Inr(2) [OF i] show ?thesis
      by (auto simp: Pair d' claimable_def intro!: claim_uploads_inv)
  qed
qed

lemma published_form_of: "load_published d public = Inr f \<Longrightarrow> form_of d (frm_id f) (frm_organization f)"
  using load_published_Inr by (auto simp: resolves_def)

lemma submit_inv:
  assumes "tenant_inv d"
  shows "tenant_inv (snd (submit ext ok public payload client referer sid eid now d))"
proof -
  have "tenant_inv (snd (store_answers ext f ans (submission_to_store f ans payload client referer) sid eid now d))"
    if "load_published d public = Inr f" for f ans
    using assms published_form_of [OF that]
    by (simp add: store_answers_def Let_def insert_submission_keeps insert_claiming_files_keeps submission_to_store_def)
  then show ?thesis
    unfolding submit_steps using assms by - (rule inv_flow | simp; fail)+
qed

lemma insert_upload_inv:
  assumes "tenant_inv d" and "form_of d (upl_form u) (upl_organization u)" and "upl_submission u = None"
  shows "tenant_inv (snd (insert_upload u d))"
  using assms unfolding tenant_inv_def ledger_keys_def insert_upload_def
  by (auto simp: table_simps)

lemmas upload_flow =
  guard_st_snd [where P = "\<lambda>s. tenant_inv (fst s)"] prod_snd [where P = "\<lambda>s. tenant_inv (fst s)"]
  sum_snd [where P = "\<lambda>s. tenant_inv (fst s)"] if_snd [where P = "\<lambda>s. tenant_inv (fst s)"]

lemma upload_inv:
  assumes "tenant_inv d"
  shows "tenant_inv (fst (snd (upload ext st mx fa ok public k fn ty body tok uid now (d, b))))"
proof -
  have ins: "tenant_inv d'"
    if "load_published d public = Inr f" and "insert_upload u d = (r, d')"
      and "upl_form u = frm_id f" "upl_organization u = frm_organization f" "upl_submission u = None"
    for f u r d'
    using insert_upload_inv [OF assms, of u] published_form_of [OF that(1)] that(2-) by simp
  show ?thesis
    unfolding upload_def Let_def prod.case
    apply (rule upload_flow, simp add: assms)
    apply (rule upload_flow, simp add: assms)
    apply (rule upload_flow, simp add: assms)
    apply (rule upload_flow, simp add: assms)
    apply (rule upload_flow, simp add: assms)
    apply (auto simp: assms guard_st_def intro: ins split: prod.split sum.split)
    done
qed

section \<open>The workers\<close>

lemma create_deliveries_inv_tenants:
  assumes "tenant_inv d" and "submission_of d sid oid"
  shows "tenant_inv (snd (create_deliveries oid fid sid payload draw now d))"
proof -
  have "tenant_inv (d\<lparr>webhook_deliveries := webhook_deliveries d @
      map (\<lambda>e. new_delivery oid sid payload now (draw (whe_id e)) (whe_id e)) es\<rparr>)"
    if "\<And>e. e \<in> set es \<Longrightarrow> e \<in> set (webhook_endpoints d) \<and> whe_organization e = oid" for es
    using assms that unfolding tenant_inv_def ledger_keys_def
    by (auto simp: new_delivery_def resolves_def)
  from this [of "filter (\<lambda>e. watches oid fid e \<and> \<not> already_queued d (whe_id e) sid) (webhook_endpoints d)"]
  show ?thesis using assms(1) by (auto simp: create_deliveries_def Let_def watches_def)
qed

text \<open>The organization of a notification is read from the form, which is the submission's.\<close>

lemma notification_source_of:
  assumes "tenant_inv d" and "find_notification_source d sid = Some src"
  shows "submission_of d (nsr_submission src) (nsr_organization src)"
  using assms(2) tenants_apart_forms(1) [OF tenant_inv_apart [OF assms(1)]]
  by (fastforce simp: find_notification_source_def source_of_def resolves_def dest!: find_in_set
      split: option.splits)

lemma dispatch_inv:
  assumes "tenant_inv d"
  shows "tenant_inv (fst (snd (dispatch ext redis draw now event (d, q))))"
proof -
  have "tenant_inv d'"
    if "find_notification_source d sid = Some src" and "fan_out_webhooks ext draw now src d = (r, d')" for sid src r d'
    using create_deliveries_inv_tenants [OF assms notification_source_of [OF assms that(1)], of "nsr_form src"
        "webhook_payload ext src" draw now] that(2)
    by (auto simp: fan_out_webhooks_def split: prod.splits sum.splits)
  then show ?thesis
    using assms by (cases "obx_kind event")
      (auto simp: dispatch_def dispatch_submission_def split: option.split prod.split sum.split)
qed

lemma settle_event_inv:
  assumes "tenant_inv (fst s)"
  shows "tenant_inv (fst (settle_event ext redis draw clock event s))"
proof (cases s)
  case (Pair d q)
  then show ?thesis
    using dispatch_inv [of d ext redis "draw (obx_id event)" "clock (obx_id event)" event q] assms
    by (auto simp: settle_event_def mark_dispatched_def reschedule_def split: prod.split sum.split)
qed

lemma fold_inv: "(\<And>x s. P s \<Longrightarrow> P (f x s)) \<Longrightarrow> P s \<Longrightarrow> P (fold f xs s)"
  by (induction xs arbitrary: s) auto

lemma dispatcher_run_once_inv:
  assumes "tenant_inv d"
  shows "tenant_inv (fst (snd (dispatcher_run_once ext batch redis draw clock now (d, q))))"
proof -
  have "tenant_inv (fst (fold (settle_event ext redis draw clock) es (d\<lparr>outbox_events := t\<rparr>, q)))" for es t
    by (rule fold_inv [where P = "\<lambda>s. tenant_inv (fst s)"]) (simp_all add: settle_event_inv assms)
  then show ?thesis by (simp add: dispatcher_run_once_def claim_due_def split: prod.split)
qed

lemma deliver_inv: "tenant_inv d \<Longrightarrow> tenant_inv (deliver ext ts receiver now c d)"
  by (auto simp: deliver_def mark_delivered_def record_failure_def record_attempt_failure_def Let_def
      deliveries_inv_update split: http_outcome.split)

lemma deliverer_run_once_keeps:
  assumes "tenant_inv d"
  shows "tenant_inv (snd (deliverer_run_once ext batch receiver clock now d))"
proof -
  obtain rows t where c: "claim_rows (delivery_due now) (\<lambda>w. (whd_next_attempt_at w, whd_id w)) whd_id batch
      (\<lambda>w. w\<lparr>whd_attempts := whd_attempts w + 1, whd_next_attempt_at := now + DELIVERY_LEASE_SECONDS\<rparr>)
      (webhook_deliveries d) = (rows, t)" by fastforce
  from claim_rows_update [OF c] have "tenant_inv (d\<lparr>webhook_deliveries := t\<rparr>)"
    using deliveries_inv_update [OF assms] by auto
  then show ?thesis
    by (auto simp: deliverer_run_once_def claim_due_deliveries_def claim_delivery_rows_def c
        intro!: fold_inv [where P = tenant_inv] deliver_inv split: prod.split sum.split)
qed

lemma forget_inv: "tenant_inv d \<Longrightarrow> tenant_inv (forget i d)"
  unfolding tenant_inv_def forget_def ledger_keys_def by (auto simp: set_delete_where intro: distinct_delete)

lemma reap_inv:
  assumes "tenant_inv d"
  shows "tenant_inv (fst (snd (reap_abandoned_uploads st ttl fa now (d, b))))"
proof -
  have "tenant_inv (fst (snd (fold (reap_one st fa) us (n, d, b))))" for us n
    using assms by (intro fold_inv [where P = "\<lambda>s. tenant_inv (fst (snd s))"])
      (auto simp: reap_one_def forget_inv split: prod.split sum.split)
  then show ?thesis using assms by (simp add: reap_abandoned_uploads_def)
qed


section \<open>The states of the service\<close>

text \<open>
  From a database without rows of any tenant: requests of tenants, new organizations, strangers'
  submissions and uploads, passes of the three workers, and anything that leaves the tenants' tables
  alone (accounts, sessions, members).
\<close>

inductive service_state :: "db \<Rightarrow> bool" where
  start: "forms d = [] \<Longrightarrow> submissions d = [] \<Longrightarrow> webhook_endpoints d = [] \<Longrightarrow> file_uploads d = [] \<Longrightarrow>
    webhook_deliveries d = [] \<Longrightarrow> service_state d"
| request: "service_state d \<Longrightarrow> service_state (snd (serve e a oid r d))"
| organization: "service_state d \<Longrightarrow> service_state (snd (create_organization_handler e a name d))"
| submission: "service_state d \<Longrightarrow> service_state (snd (submit_handler e ok public referer payload eid d))"
| uploaded: "service_state d \<Longrightarrow>
    service_state (fst (snd (upload_handler e mx ok public fk fname ty body (d, b))))"
| dispatched: "service_state d \<Longrightarrow>
    service_state (fst (snd (dispatcher_run_once ext batch redis draw clock now (d, q))))"
| delivered: "service_state d \<Longrightarrow> service_state (snd (deliverer_run_once ext l receiver clock now d))"
| collected: "service_state d \<Longrightarrow>
    service_state (fst (snd (reap_abandoned_uploads st ttl fa now (d, b))))"
| elsewhere: "service_state d \<Longrightarrow> forms d' = forms d \<Longrightarrow> submissions d' = submissions d \<Longrightarrow>
    webhook_endpoints d' = webhook_endpoints d \<Longrightarrow> file_uploads d' = file_uploads d \<Longrightarrow>
    webhook_deliveries d' = webhook_deliveries d \<Longrightarrow> service_state d'"

lemma found_organization_inv: "tenant_inv d \<Longrightarrow> tenant_inv (snd (create_organization name u cl oid now d))"
  unfolding create_organization_def insert_organization_def Let_def
  by (auto split: prod.split sum.split option.split)

lemma service_state_inv: "service_state d \<Longrightarrow> tenant_inv d"
proof (induction rule: service_state.induct)
  case (start d)
  then show ?case by (simp add: tenant_inv_def ledger_keys_def)
next
  case (request d e a oid r)
  then show ?case by (simp add: references.serve_keeps)
next
  case (organization d e a name)
  then show ?case by (simp add: create_organization_handler_def answer_defs found_organization_inv)
next
  case (submission d e ok public referer payload eid)
  then show ?case by (simp add: submit_handler_def answer_defs submit_inv)
next
  case (uploaded d e mx ok public fk fname ty body b)
  then show ?case by (simp add: upload_handler_def answer_defs upload_inv)
next
  case (elsewhere d d')
  then show ?case using tenant_inv_cong [of d' d] by simp
qed (simp_all add: dispatcher_run_once_inv deliverer_run_once_keeps reap_inv)

text \<open>C2: In every state the service reaches, whatever is asked below one organization, by whoever, leaves every
  row of the other organizations - their forms, submissions, uploads, webhooks, deliveries, members and
  events - and every account, session and token as it is.\<close>

theorem tenants_are_isolated:
  assumes "service_state d"
  shows "foreign oid (snd (serve e a oid r d)) = foreign oid d"
  using assms by (intro frame.serve_keeps tenant_inv_apart service_state_inv)

text \<open>C5: In every state the service reaches, no two rows of a kind share an identifier and every reference
  resolves to a row of the same organization: a submission to its form, an endpoint to the form it
  watches, an upload to its form and the submission that claimed it, a delivery to its endpoint and its
  submission.\<close>

theorem references_resolve:
  assumes "service_state d"
  shows "distinct (map frm_id (forms d)) \<and> distinct (map sub_id (submissions d)) \<and>
    distinct (map whe_id (webhook_endpoints d)) \<and> distinct (map upl_object_key (file_uploads d)) \<and>
    (\<forall>s \<in> set (submissions d). \<exists>f \<in> set (forms d). frm_id f = sub_form s \<and> frm_organization f = sub_organization s) \<and>
    (\<forall>e \<in> set (webhook_endpoints d). \<forall>i. whe_form e = Some i \<longrightarrow>
       (\<exists>f \<in> set (forms d). frm_id f = i \<and> frm_organization f = whe_organization e)) \<and>
    (\<forall>u \<in> set (file_uploads d).
       (\<exists>f \<in> set (forms d). frm_id f = upl_form u \<and> frm_organization f = upl_organization u) \<and>
       (\<forall>i. upl_submission u = Some i \<longrightarrow>
          (\<exists>s \<in> set (submissions d). sub_id s = i \<and> sub_organization s = upl_organization u))) \<and>
    (\<forall>w \<in> set (webhook_deliveries d).
       (\<exists>e \<in> set (webhook_endpoints d). whe_id e = whd_endpoint w \<and> whe_organization e = whd_organization w) \<and>
       (\<forall>i. whd_submission w = Some i \<longrightarrow>
          (\<exists>s \<in> set (submissions d). sub_id s = i \<and> sub_organization s = whd_organization w)))"
  using service_state_inv [OF assms] unfolding tenant_inv_def ledger_keys_def resolves_def by blast

section \<open>A sample history\<close>

definition first_form :: create_form_request where
  "first_form = \<lparr>cfr_name = ''Contact'',
     cfr_schema = contact_schema, cfr_notify_emails = []\<rparr>"

definition with_form :: db where
  "with_form = snd (serve sample_env (signed_in 11) 7 (ToForms (CreateForm first_form)) two_owners)"

lemma with_form_state: "service_state with_form"
  unfolding with_form_def
  by (intro service_state.request service_state.start) (simp_all add: two_owners_def empty_db_def)

lemma tenants_are_isolated_witness:
  "foreign 7 (snd (serve sample_env (signed_in 11) 7 (ToForms (DeleteForm 9)) with_form)) = foreign 7 with_form"
  by (rule tenants_are_isolated [OF with_form_state])

lemma references_resolve_witness:
  "map frm_id (forms with_form) = [9] \<and> distinct (map frm_id (forms with_form))"
proof -
  have "map frm_id (forms with_form) = [9]" by code_simp
  with references_resolve [OF with_form_state] show ?thesis by simp
qed

end
