(* ===== verification/Application.thy ===== *)
theory Application
  imports AccountState Isolation FormLifecycle
begin

text \<open>
  The service as a whole. \<open>application_inv\<close> puts together what the components keep of the database:
  the tables of accounts (\<open>accounts_inv\<close>), an owner for every organization (\<open>organization_inv\<close>), sound
  definitions (\<open>forms_inv\<close>) and references that resolve inside their organization (\<open>tenant_inv\<close>). Every
  request the application answers, every pass of the workers and the bootstrap command keep it, since each of
  them keeps the parts it touches and leaves the others alone. The second half is about what stands in front
  of the handlers: budgets, callers and headers.
\<close>

definition application_inv :: "externals \<Rightarrow> db \<Rightarrow> bool" where
  "application_inv ext d \<longleftrightarrow>
     accounts_inv ext d \<and> organization_inv d \<and> forms_inv True d \<and> tenant_inv d"


section \<open>What an operation leaves alone\<close>

text \<open>The tables of accounts.\<close>

definition account_tables ::
  "db \<Rightarrow> user_record list \<times> string list \<times> (uuid \<times> string) list \<times> session_row list \<times>
     session_token_row list \<times> one_time_token_row list" where
  "account_tables d =
     (users d, roles d, user_roles d, sessions d, session_tokens d, one_time_tokens d)"

text \<open>The accounts with the organizations and their members and forms: all but what strangers send and workers
  process.\<close>

definition base ::
  "db \<Rightarrow> (user_record list \<times> string list \<times> (uuid \<times> string) list \<times> session_row list \<times>
     session_token_row list \<times> one_time_token_row list) \<times> organization_record list \<times> member_row list \<times>
     form_record list" where
  "base d = (account_tables d, organizations d, organization_members d, forms d)"

text \<open>The tables of tenants, and which accounts there are.\<close>

definition tenancy ::
  "db \<Rightarrow> organization_record list \<times> member_row list \<times> form_record list \<times> submission_row list \<times>
     webhook_endpoint_row list \<times> file_upload_row list \<times> webhook_delivery_row list \<times> uuid set" where
  "tenancy d =
     (organizations d, organization_members d, forms d, submissions d, webhook_endpoints d,
      file_uploads d, webhook_deliveries d, usr_id ` set (users d))"

lemma accounts_inv_tables: "account_tables d' = account_tables d \<Longrightarrow> accounts_inv ext d' = accounts_inv ext d"
  by (rule accounts_inv_cong) (simp_all add: account_tables_def)

lemma accounts_inv_foreign: "foreign oid d' = foreign oid d \<Longrightarrow> accounts_inv ext d' = accounts_inv ext d"
proof -
  assume eq: "foreign oid d' = foreign oid d"
  have "account_tables x = account_tables (foreign oid x)" for x
    by (simp add: account_tables_def foreign_def)
  then show ?thesis using eq by (metis accounts_inv_tables)
qed

lemma forms_inv_cong:
  "forms d' = forms d \<Longrightarrow> organizations d' = organizations d \<Longrightarrow> forms_inv uploads d' = forms_inv uploads d"
  by (simp add: forms_inv_def organization_exists_def)

lemma tenancy_inv:
  assumes "tenancy d' = tenancy d"
  shows "organization_inv d' = organization_inv d" and "forms_inv uploads d' = forms_inv uploads d"
    and "tenant_inv d' = tenant_inv d"
proof -
  from assms have eq: "organizations d' = organizations d" "organization_members d' = organization_members d"
    "forms d' = forms d" "submissions d' = submissions d" "webhook_endpoints d' = webhook_endpoints d"
    "file_uploads d' = file_uploads d" "webhook_deliveries d' = webhook_deliveries d"
    "usr_id ` set (users d') = usr_id ` set (users d)"
    by (simp_all add: tenancy_def)
  have u: "user_exists d' v = user_exists d v" for v
    unfolding user_exists_iff eq(8) ..
  have o: "organization_exists d' v = organization_exists d v" for v
    unfolding organization_exists_def eq(1) ..
  show "organization_inv d' = organization_inv d"
    unfolding organization_inv_def membership_keys_def owned_def has_owner_def u o eq ..
  show "forms_inv uploads d' = forms_inv uploads d" by (rule forms_inv_cong) (fact eq)+
  show "tenant_inv d' = tenant_inv d" by (rule tenant_inv_cong) (fact eq)+
qed

lemma base_keeps:
  assumes "application_inv ext d" and "base d' = base d" and "tenant_inv d'"
  shows "application_inv ext d'"
proof -
  from assms(2) have t: "account_tables d' = account_tables d" and
    eq: "organizations d' = organizations d" "organization_members d' = organization_members d"
    "forms d' = forms d"
    by (simp_all add: base_def)
  from t have "users d' = users d" by (simp add: account_tables_def)
  with eq assms(1,3) accounts_inv_tables [OF t] show ?thesis
    by (simp add: application_inv_def organization_inv_cong [of d' d] forms_inv_cong [of d' d])
qed

lemma tenancy_keeps:
  assumes "application_inv ext d" and "tenancy d' = tenancy d" and "accounts_inv ext d'"
  shows "application_inv ext d'"
  using assms tenancy_inv [OF assms(2)] by (simp add: application_inv_def)


section \<open>Accounts\<close>

lemma tenancy_statements [simp]:
  "tenancy (record_event e now d) = tenancy d"
  "tenancy (snd (assign_role uid role d)) = tenancy d"
  "tenancy (snd (replace_roles uid names d)) = tenancy d"
  "tenancy (invalidate_outstanding uid purpose now d) = tenancy d"
  "tenancy (snd (insert_one_time_token tid uid purpose h expires now d)) = tenancy d"
  "tenancy (snd (consume_token h purpose now d)) = tenancy d"
  "tenancy (snd (create_session sid tid uid h agent ip se te now d)) = tenancy d"
  "tenancy (snd (refresh_session h nh ne rid now d)) = tenancy d"
  "tenancy (revoke_where q now d) = tenancy d"
  by (simp_all add: tenancy_def record_event_def assign_role_def replace_roles_def invalidate_outstanding_def
      insert_one_time_token_def consume_token_def create_session_def refresh_session_def revoke_where_def
      Let_def split: sum.split option.split prod.split)

lemma tenancy_update_user:
  "(\<And>u. usr_id (f u) = usr_id u) \<Longrightarrow> tenancy (update_user uid now f d) = tenancy d"
proof -
  assume "\<And>u. usr_id (f u) = usr_id u"
  then have "map usr_id (users (update_user uid now f d)) = map usr_id (users d)"
    by (simp add: update_user_def update_where_def)
  from arg_cong [OF this, of set] show ?thesis by (simp add: tenancy_def) (simp add: update_user_def)
qed

text \<open>An account that comes or goes takes no form, submission, endpoint, upload or delivery with it.\<close>

lemma tenant_inv_users:
  "tenant_inv (snd (insert_user ext uid email h status now d)) = tenant_inv d"
  "tenant_inv (snd (delete_user uid d)) = tenant_inv d"
  by (rule tenant_inv_cong; simp add: insert_user_def delete_user_def drop_users_def Let_def)+

lemma forms_inv_users:
  "forms_inv uploads (snd (insert_user ext uid email h status now d)) = forms_inv uploads d"
  "forms_inv uploads (snd (delete_user uid d)) = forms_inv uploads d"
  by (rule forms_inv_cong; simp add: insert_user_def delete_user_def drop_users_def Let_def)+

interpretation application_accounts: account_statements ext "application_inv ext" for ext
proof unfold_locales
  fix d :: db
  assume d: "application_inv ext d"
  then have a: "accounts_inv ext d" by (simp add: application_inv_def)
  show "application_inv ext (snd (insert_user ext uid email h status now d))" for uid email h status now
    using d accounts_inserted [OF a] insert_user_inv [of d]
    by (simp add: application_inv_def tenant_inv_users forms_inv_users)
  show "application_inv ext (snd (delete_user uid d))" for uid
    using d accounts_deleted [OF a] delete_user_inv [of d]
    by (simp add: application_inv_def tenant_inv_users forms_inv_users)
  show "application_inv ext (update_user uid now f d)"
    if "\<And>u. usr_id (f u) = usr_id u \<and> usr_email (f u) = usr_email u" for f uid now
    using that by (intro tenancy_keeps [OF d] tenancy_update_user accounts_updated [OF a]) auto
qed (rule tenancy_keeps, assumption, simp, simp add: application_inv_def account_tables.statements)+

section \<open>Organizations and forms\<close>

lemma storable_mono: "storable uploads f \<Longrightarrow> storable True f"
  by (simp add: storable_def)

lemma form_change_mono: "form_change uploads oid d d' \<Longrightarrow> form_change True oid d d'"
proof (induction rule: form_change.induct)
  case (edit fid f g now)
  then show ?case by (intro form_change.edit) (auto simp: edit_ok_def)
qed (auto intro: form_change.intros dest: storable_mono)

text \<open>What a tenant's operation leaves: the accounts, an owner of every organization, sound definitions.\<close>

definition founded_well :: "db \<Rightarrow> bool" where
  "founded_well d \<longleftrightarrow> organization_inv d \<and> forms_inv True d"

lemma form_operation_founded:
  assumes "implements_form_change uploads oid d d'" and "founded_well d"
  shows "founded_well d'"
proof -
  from assms(1) obtain m where m: "form_change True oid d m" "same_but_audit m d'"
    by (auto simp: implements_form_change_def dest: form_change_mono)
  with assms(2) show ?thesis
    using form_change_organization_inv [OF m(1)] form_change_inv [OF m(1)]
    by (simp add: founded_well_def same_but_audit_inv [OF m(2)] same_but_audit_forms_inv [OF m(2)])
qed

lemma organization_step_founded: "organization_step ext d d' \<Longrightarrow> founded_well d \<Longrightarrow> founded_well d'"
  unfolding founded_well_def using organization_step_inv organization_step_forms_inv by blast

lemma base_founded: "base d' = base d \<Longrightarrow> founded_well d \<Longrightarrow> founded_well d'"
  using organization_inv_cong [of d' d] forms_inv_cong [of d' d]
  by (simp add: founded_well_def base_def account_tables_def)

lemma base_statements [simp]:
  "base (record_event e now d) = base d"
  "base (organization_audit k oid actor s m client now d) = base d"
  "base (form_audit k oid actor t l client now d) = base d"
  "base (webhook_audit k oid actor t client now d) = base d"
  "base (snd (set_submission_row_status oid sid st d)) = base d"
  "base (snd (delete_submission_row oid sid d)) = base d"
  "base (snd (insert_endpoint oid fo url sec ds eid now d)) = base d"
  "base (snd (update_endpoint_row oid eid c now d)) = base d"
  "base (snd (delete_endpoint_row oid eid d)) = base d"
  "base (snd (set_endpoint_secret oid eid sec now d)) = base d"
  "base (snd (requeue_delivery oid did now d)) = base d"
  by (simp_all add: base_def account_tables_def record_event_def organization_audit_def form_audit_def
      webhook_audit_def set_submission_row_status_def delete_submission_row_def drop_submissions_def
      insert_endpoint_def update_endpoint_row_def delete_endpoint_row_def drop_endpoints_def
      set_endpoint_secret_def requeue_delivery_def Let_def split: option.split)

lemmas base_flow =
  with_manager_snd [where P = "\<lambda>x. base x = base d" for d]
  guard_st_snd [where P = "\<lambda>x. base x = base d" for d]
  prod_snd [where P = "\<lambda>x. base x = base d" for d]
  sum_snd [where P = "\<lambda>x. base x = base d" for d]
  option_snd [where P = "\<lambda>x. base x = base d" for d]
  if_snd [where P = "\<lambda>x. base x = base d" for d]

lemma base_operations:
  "base (snd (set_submission_status ext oid sid st u cl now d)) = base d"
  "base (snd (delete_submission oid sid u cl now d)) = base d"
  "base (snd (create_endpoint ap oid r u cl eid sec now d)) = base d"
  "base (snd (update_endpoint ap oid eid ur u cl now d)) = base d"
  "base (snd (delete_endpoint oid eid u cl now d)) = base d"
  "base (snd (rotate_endpoint_secret oid eid u cl sec now d)) = base d"
  "base (snd (redeliver oid did u now d)) = base d"
  unfolding set_submission_status_def delete_submission_def create_endpoint_def update_endpoint_def
    delete_endpoint_def rotate_endpoint_secret_def redeliver_def Let_def
  by (rule base_flow | (simp; fail))+

interpretation founded: tenant_operations founded_well "\<lambda>oid d d'. founded_well d'"
proof unfold_locales
  fix d :: db and oid
  assume d: "founded_well d"
  show "founded_well d" by (rule d)
  note by_organization = organization_step_founded [OF organization_step.intros(2) d]
    organization_step_founded [OF organization_step.intros(3) d]
    organization_step_founded [OF organization_step.intros(4) d]
    organization_step_founded [OF organization_step.intros(5) d]
    organization_step_founded [OF organization_step.intros(6) d]
  show "founded_well (snd (rename_organization oid n u cl now d))" for n u cl now
    by (rule by_organization)
  show "founded_well (snd (delete_organization oid u cl now d))" for u cl now
    by (rule by_organization)
  show "founded_well (snd (add_member ext oid em ro u cl now d))" for ext em ro u cl now
    by (rule by_organization)
  show "founded_well (snd (set_member_role oid target ro u cl now d))" for target ro u cl now
    by (rule by_organization)
  show "founded_well (snd (remove_member oid target u cl now d))" for target u cl now
    by (rule by_organization)
qed (blast intro: form_operation_founded form_operations_implement base_founded base_operations)+

lemma serve_application:
  assumes "application_inv ext d"
  shows "application_inv ext (snd (serve e a oid r d))"
proof -
  have t: "tenant_inv d" and "founded_well d" and "accounts_inv ext d"
    using assms by (simp_all add: application_inv_def founded_well_def)
  then show ?thesis
    using references.serve_keeps [OF t, of e a oid r] founded.serve_keeps [of d e a oid r]
      accounts_inv_foreign [OF frame.serve_keeps [OF tenant_inv_apart [OF t], of oid e a r]]
    by (simp add: application_inv_def founded_well_def)
qed

lemma create_organization_tables: "account_tables (snd (create_organization name u cl oid now d)) = account_tables d"
  by (auto simp: create_organization_def insert_organization_def account_tables_def organization_audit_def
      record_event_def Let_def split: prod.split sum.split option.split)

lemma create_organization_application:
  assumes "application_inv ext d"
  shows "application_inv ext (snd (create_organization_handler e a name d))"
proof -
  have "application_inv ext (snd (create_organization n u cl oid now d))" for n u cl oid now
    using assms organization_step_founded [OF organization_step.intros(1) [of ext d n u cl oid now]]
      accounts_inv_tables [OF create_organization_tables [of n u cl oid now d], of ext]
    by (simp add: application_inv_def founded_well_def found_organization_inv)
  then show ?thesis using assms by (simp add: create_organization_handler_def answer_defs)
qed


section \<open>Strangers and workers\<close>

lemma base_ingestion [simp]:
  "base (snd (insert_submission ext n sid eid now d)) = base d"
  "base (snd (claim_uploads sid ks d)) = base d"
  "base (snd (insert_upload u d)) = base d"
  "base (forget i d) = base d"
  "base (snd (create_deliveries oid fid sid payload draw now d)) = base d"
  "base (mark_dispatched event now d) = base d"
  "base (reschedule event err secs now d) = base d"
  "base (mark_delivered i code now d) = base d"
  "base (snd (record_attempt_failure i a msg delay status now d)) = base d"
  "base (d\<lparr>outbox_events := es\<rparr>) = base d"
  "base (d\<lparr>webhook_deliveries := ws\<rparr>) = base d"
  by (simp_all add: base_def account_tables_def insert_submission_def claim_uploads_def insert_upload_def
      forget_def create_deliveries_def mark_dispatched_def reschedule_def mark_delivered_def
      record_attempt_failure_def Let_def)

lemma base_claiming: "base (snd (insert_claiming_files ext n ans sid eid now d)) = base d"
proof (cases "insert_claiming_files ext n ans sid eid now d")
  case (Pair r d')
  show ?thesis
  proof (cases r)
    case (Inl e)
    with Pair show ?thesis using insert_claiming_files_Inl by fastforce
  next
    case (Inr i)
    from Pair [unfolded Inr] obtain m d1 where
      "insert_submission ext (n\<lparr>new_files := Some (JObject m)\<rparr>) sid eid now d = (Inr i, d1)"
      and "d' = snd (claim_uploads i (map snd ans) d1)"
      by (rule insert_claiming_files_Inr)
    then show ?thesis using base_ingestion(1) [of ext _ sid eid now d] Pair by (metis base_ingestion(2) snd_conv)
  qed
qed

lemma submit_base: "base (snd (submit ext ok public payload client referer sid eid now d)) = base d"
proof -
  have "base (snd (store_answers ext f ans n sid eid now d)) = base d" for f ans n
    by (simp add: store_answers_def Let_def base_claiming)
  then show ?thesis unfolding submit_steps by - (rule base_flow | simp; fail)+
qed

lemma submit_application:
  "application_inv ext d \<Longrightarrow> application_inv ext (snd (submit_handler e ok public referer payload eid d))"
  by (simp add: submit_handler_def answer_defs)
    (rule base_keeps [OF _ submit_base], simp_all add: submit_inv application_inv_def)

lemma upload_base: "base (fst (snd (upload ext st mx fa ok public k fn ty body tok uid now (d, b)))) = base d"
proof -
  have ins: "base d' = base d" if "insert_upload u d = (r, d')" for u r d'
    using base_ingestion(3) [of u d] that by simp
  show ?thesis
    unfolding upload_def Let_def prod.case
    by (auto simp: guard_st_def dest: ins split: prod.split sum.split)
qed

lemma upload_application:
  "application_inv ext d \<Longrightarrow>
   application_inv ext (fst (snd (upload_handler e mx ok public fk fname ty body (d, b))))"
  by (simp add: upload_handler_def answer_defs)
    (rule base_keeps [OF _ upload_base], simp_all add: upload_inv application_inv_def)

lemma dispatch_base: "base (fst (snd (dispatch ext redis draw now event (d, q)))) = base d"
proof -
  have queued: "base d' = base d" if "create_deliveries oid fid sid payload draw now d = (r, d')"
    for oid fid sid payload r d'
    using that by (metis base_ingestion(5) snd_conv)
  have "base d' = base d" if "fan_out_webhooks ext draw now src d = (r, d')" for src r d'
    using that by (auto simp: fan_out_webhooks_def split: prod.splits sum.splits dest: queued)
  then show ?thesis
    by (cases "obx_kind event")
      (auto simp: dispatch_def dispatch_submission_def split: option.split prod.split sum.split)
qed

lemma dispatcher_application:
  assumes "application_inv ext d"
  shows "application_inv ext (fst (snd (dispatcher_run_once e batch redis draw clock now (d, q))))"
proof -
  have "base (fst (settle_event e redis draw clock event s)) = base d" if "base (fst s) = base d" for event s
    using dispatch_base [of e redis "draw (obx_id event)" "clock (obx_id event)" event "fst s" "snd s"] that
    by (cases s) (auto simp: settle_event_def split: prod.split sum.split)
  then have "base (fst (fold (settle_event e redis draw clock) es (d\<lparr>outbox_events := t\<rparr>, q))) = base d" for es t
    by (intro fold_inv [where P = "\<lambda>s. base (fst s) = base d"]) simp_all
  then have "base (fst (snd (dispatcher_run_once e batch redis draw clock now (d, q)))) = base d"
    by (simp add: dispatcher_run_once_def claim_due_def split: prod.split)
  with assms dispatcher_run_once_inv [of d e batch redis draw clock now q] show ?thesis
    by (intro base_keeps [OF assms]) (simp_all add: application_inv_def)
qed

lemma deliverer_application:
  assumes "application_inv ext d"
  shows "application_inv ext (snd (deliverer_run_once e batch receiver clock now d))"
proof -
  have "base (deliver e ts receiver t c x) = base x" for ts t c x
    by (auto simp: deliver_def record_failure_def Let_def split: http_outcome.split)
  then have "base (snd (deliverer_run_once e batch receiver clock now d)) = base d"
    by (auto simp: deliverer_run_once_def claim_due_deliveries_def claim_delivery_rows_def
        intro!: fold_inv [where P = "\<lambda>x. base x = base d"] split: prod.split sum.split)
  with assms deliverer_run_once_keeps [of d e batch receiver clock now] show ?thesis
    by (intro base_keeps [OF assms]) (simp_all add: application_inv_def)
qed

lemma reaper_application:
  assumes "application_inv ext d"
  shows "application_inv ext (fst (snd (reap_abandoned_uploads st ttl fa now (d, b))))"
proof -
  have "base (fst (snd (fold (reap_one st fa) us (n, d, b)))) = base d" for us n
    by (rule fold_inv [where P = "\<lambda>s. base (fst (snd s)) = base d"])
      (auto simp: reap_one_def split: prod.split sum.split)
  then have "base (fst (snd (reap_abandoned_uploads st ttl fa now (d, b)))) = base d"
    by (simp add: reap_abandoned_uploads_def)
  with assms reap_inv [of d st ttl fa now b] show ?thesis
    by (intro base_keeps [OF assms]) (simp_all add: application_inv_def)
qed

section \<open>Every request, every state\<close>

lemmas app_layers = enforce_state [where P = "\<lambda>s. application_inv ext (fst s)" for ext]
  authenticated_state [where P = "\<lambda>s. application_inv ext (fst s)" for ext]
  on_db_state [where P = "application_inv ext" for ext]

lemma public_router_application:
  assumes "application_inv ext (fst s)"
  shows "application_inv ext (fst (snd (public_router c public r s)))"
proof (cases r)
  case GetDefinition
  then show ?thesis
    by (simp only: public_router.simps tenant_answer_snd)
      (intro app_layers assms; simp add: definition_handler_def answer_defs)
next
  case (PostSubmission referer payload)
  then show ?thesis
    by (simp only: public_router.simps tenant_answer_snd) (intro app_layers assms submit_application)
next
  case (PostFile field_key filename content_type body)
  obtain d q b where s: "s = (d, q, b)" by (cases s)
  show ?thesis
    using upload_application [of ext d "env_of c b" "unat (upload_max_bytes (c_config c))" "c_form_within c"
        public field_key filename content_type body b] assms
    by (cases "upload_handler (env_of c b) (unat (upload_max_bytes (c_config c))) (c_form_within c)
          public field_key filename content_type body (d, b)")
      (auto simp: PostFile s on_files_def split: prod.split)
qed

lemma list_organizations_snd [simp]: "snd (list_organizations_handler a q d) = d"
  by (simp add: list_organizations_handler_def answer_defs split: prod.split)

lemma app_keeps:
  assumes "c_ext c = ext" and "application_inv ext (fst s)"
  shows "application_inv ext (fst (snd (app c r s)))"
proof -
  have "application_inv ext (fst (snd (routes c r s)))" if inv: "application_inv ext (fst s)" for s
  proof (cases r)
    case GetHealth
    with inv show ?thesis by (simp add: health_check_def)
  next
    case (ToAuth q)
    with inv show ?thesis by (simp add: application_accounts.auth_router_keeps [OF assms(1)])
  next
    case (ToIdentity q)
    with inv show ?thesis by (simp add: application_accounts.identity_router_keeps [OF assms(1)])
  next
    case (GetOrganizations q)
    then show ?thesis
      by (simp only: routes.simps) (intro app_layers inv; simp only: tenant_answer_snd; intro app_layers; simp)
  next
    case (PostOrganization name)
    then show ?thesis
      by (simp only: routes.simps)
        (intro app_layers inv; simp only: tenant_answer_snd; intro app_layers create_organization_application)
  next
    case (ToTenant oid q)
    then show ?thesis
      by (simp only: routes.simps)
        (intro app_layers inv; simp only: tenant_answer_snd; intro app_layers serve_application)
  next
    case (ToAdmin q)
    then show ?thesis
      by (simp only: routes.simps)
        (intro app_layers inv application_accounts.admin_routes_keep assms(1))
  next
    case (ToPublic public q)
    then show ?thesis
      by (simp only: routes.simps) (intro app_layers inv public_router_application)
  qed
  then show ?thesis
    unfolding app_def by (intro app_layers assms(2))
qed

text \<open>
  The states of the database: from the migrated, empty one by requests to the application, by the command
  that grants a role, and by passes of the three workers that write to it. The configuration may differ from
  step to step; what the database collates addresses by may not.
\<close>

inductive application_state :: "externals \<Rightarrow> db \<Rightarrow> bool" for ext where
  migrated: "application_state ext empty_db"
| request: "application_state ext d \<Longrightarrow> c_ext c = ext \<Longrightarrow>
    application_state ext (fst (snd (app c r (d, q, b))))"
| granted: "application_state ext d \<Longrightarrow> application_state ext (snd (grant_role_by_email ext email role now d))"
| dispatched: "application_state ext d \<Longrightarrow>
    application_state ext (fst (snd (dispatcher_run_once ext batch redis draw clock now (d, q))))"
| delivered: "application_state ext d \<Longrightarrow>
    application_state ext (snd (deliverer_run_once ext batch receiver clock now d))"
| collected: "application_state ext d \<Longrightarrow>
    application_state ext (fst (snd (reap_abandoned_uploads storage ttl faults now (d, b))))"

lemma empty_application: "application_inv ext empty_db"
  by (simp add: application_inv_def empty_db_inv)
    (simp add: accounts_inv_def forms_inv_def tenant_inv_def ledger_keys_def session_keys_def link_keys_def
      empty_db_def)

lemma application_state_inv: "application_state ext d \<Longrightarrow> application_inv ext d"
proof (induction rule: application_state.induct)
  case migrated
  show ?case by (rule empty_application)
next
  case (request d c r q b)
  then show ?case using app_keeps [of c ext "(d, q, b)"] by simp
next
  case (granted d email role now)
  show ?case by (rule application_accounts.grant_role_by_email_keeps [OF granted.IH])
qed (simp_all add: dispatcher_application deliverer_application reaper_application)

text \<open>A call that carries the token of \<open>sample_jwt\<close>, and has no budget left to sign in.\<close>

definition sample_call :: call where
  "sample_call =
     \<lparr>c_ext = sample_externals,
      c_config = (default_config ''postgres://db'' ''redis://q'' ''a-development-secret-that-is-long-enough'')
        \<lparr>jwt_issuer := ''iss'', jwt_audience := ''aud''\<rparr>,
      c_storage = file_storage.Disabled, c_jwt = sample_jwt, c_header_ok = (\<lambda>_. True),
      c_parse_json = (\<lambda>_. None), c_faults = no_faults, c_within = (\<lambda>b _. b \<noteq> LoginBudget),
      c_form_within = True, c_queue_up = (\<lambda>_. True), c_alive = None, c_peer = Some ''203.0.113.9'',
      c_user_agent = None, c_authorization = Some ''Bearer jwt'', c_access_cookie = None,
      c_refresh_cookie = None, c_now = 6, c_draws = sample_draws, c_id = 1, c_event_id = 2,
      c_token = ''t'', c_reads = []\<rparr>"

definition no_jobs :: email_queue where
  "no_jobs = \<lparr>jobs = [], dead_letters = []\<rparr>"

text \<open>C1: In every state the application can be in, whatever was requested of it, by whoever, and whatever the
  workers did: accounts have distinct identifiers and distinct addresses, and every role, session, refresh
  token and mailed link belongs to a row that exists, under a hash of its own; every organization has an owner
  and every membership joins an organization and an account that exist; every stored form has a well-formed
  definition and a public handle of its own; and every submission, endpoint, upload and delivery refers to rows
  of its own organization.\<close>

theorem application_is_sound:
  assumes "application_state ext d"
  shows "distinct (map usr_id (users d)) \<and> distinct (map (\<lambda>u. sql_lower ext (usr_email u)) (users d)) \<and>
    (\<forall>(u, r) \<in> set (user_roles d). user_exists d u \<and> r \<in> set (roles d)) \<and>
    (\<forall>s \<in> set (sessions d). user_exists d (ses_user s)) \<and>
    (\<forall>t \<in> set (session_tokens d). stk_session t \<in> ses_id ` set (sessions d)) \<and>
    (\<forall>t \<in> set (one_time_tokens d). user_exists d (ott_user t)) \<and>
    distinct (map stk_hash (session_tokens d)) \<and> distinct (map ott_hash (one_time_tokens d)) \<and>
    (\<forall>r \<in> set (organizations d). has_owner d (org_id r)) \<and>
    (\<forall>m \<in> set (organization_members d). organization_exists d (mem_organization m) \<and> user_exists d (mem_user m)) \<and>
    distinct (map frm_public_id (forms d)) \<and>
    (\<forall>f \<in> set (forms d). well_formed_schema (frm_schema f) \<and> organization_exists d (frm_organization f)) \<and>
    tenant_inv d"
  using application_state_inv [OF assms]
  unfolding application_inv_def accounts_inv_def session_keys_def link_keys_def organization_inv_def
    membership_keys_def owned_def forms_inv_def storable_def
  by blast

lemma application_is_sound_witness:
  "\<exists>d. application_state sample_externals d \<and> map usr_email (users d) = [''a@x.org''] \<and>
     (\<forall>t \<in> set (one_time_tokens d). user_exists d (ott_user t)) \<and> tenant_inv d"
proof -
  let ?d = "fst (snd (app sample_call (ToAuth (PostRegister ''a@x.org'' ''correct horse'')) (empty_db, no_jobs, Map.empty)))"
  let ?r = "register_handler (c_ext sample_call) (c_auth_config sample_call) (c_queue_up sample_call)
    (c_id sample_call) (dr_salt (c_draws sample_call)) (c_token sample_call) (dr_token (c_draws sample_call))
    ''a@x.org'' ''correct horse'' (c_client sample_call) (c_now sample_call) (empty_db, no_jobs)"
  have within: "c_within sample_call bg ip \<longleftrightarrow> bg \<noteq> LoginBudget" for bg ip by (simp add: sample_call_def)
  have "fst (snd (app sample_call (ToAuth (PostRegister ''a@x.org'' ''correct horse'')) (empty_db, no_jobs, Map.empty))) =
      fst (snd ?r)"
    by (simp add: app_def enforce_def within account_answer_def on_mail_def split: prod.split)
  moreover have "map usr_email (users (fst (snd ?r))) = [''a@x.org'']" by code_simp
  ultimately have u: "map usr_email (users ?d) = [''a@x.org'']" by simp
  have "c_ext sample_call = sample_externals" by (simp add: sample_call_def)
  from application_state.request [OF application_state.migrated this]
  have reached: "application_state sample_externals ?d" .
  show ?thesis
    by (rule exI [of _ ?d]) (use u reached application_is_sound [OF reached] in simp)
qed


section \<open>What stands in front of the handlers\<close>

text \<open>The budget of a route besides the global one, and the routes that need a session.\<close>

fun route_budget :: "route_request \<Rightarrow> budget option" where
  "route_budget (ToAuth (PostRegister email pw)) = Some RegisterBudget"
| "route_budget (ToAuth (PostLogin email pw)) = Some LoginBudget"
| "route_budget (ToAuth (PostDashboardLogin email pw)) = Some LoginBudget"
| "route_budget (ToAuth (PostRefresh body)) = Some LoginBudget"
| "route_budget (ToIdentity q) = Some SensitiveBudget"
| "route_budget (ToPublic public q) = Some SubmissionBudget"
| "route_budget r = None"

fun needs_session :: "route_request \<Rightarrow> bool" where
  "needs_session GetHealth = False"
| "needs_session (ToPublic public q) = False"
| "needs_session (ToIdentity q) = False"
| "needs_session (ToAuth (PostRegister email pw)) = False"
| "needs_session (ToAuth (PostLogin email pw)) = False"
| "needs_session (ToAuth (PostDashboardLogin email pw)) = False"
| "needs_session (ToAuth (PostRefresh body)) = False"
| "needs_session r = True"

abbreviation asks :: "call \<Rightarrow> server_state \<Rightarrow> identity_error app_error + authenticated_user" where
  "asks c s \<equiv> authenticated_request (c_ext c) (c_jwt c) (c_auth_config c) (c_now c) (c_authorization c)
     (c_access_cookie c) (fst s)"

lemma authenticate_Inl: "authenticate ext jwt cfg now token d = Inl e \<Longrightarrow> e = auth_error.InvalidToken"
  by (auto simp: authenticate_def verify_access_token_def session_user_def and_then_def ok_or_def
      split: sum.splits option.splits if_splits)

lemma asks_Inl: "asks c s = Inl e \<Longrightarrow> e = app_error.Unauthorized"
  by (auto simp: authenticated_request_def and_then_def ok_or_def map_err_def
      split: sum.splits option.splits dest!: authenticate_Inl)

lemma over_budget: "route_budget r = Some b \<Longrightarrow> \<not> c_within c b (client_ip c) \<Longrightarrow>
  routes c r s = (Inl app_error.TooManyRequests, s)"
  by (cases r rule: route_budget.cases) (auto simp: enforce_def identity_router_def)

lemma without_session:
  assumes "needs_session r" and "asks c s = Inl e"
  shows "routes c r s = (Inl app_error.Unauthorized, s)"
  using assms asks_Inl [OF assms(2)]
  by (cases r rule: needs_session.cases) (auto simp: authenticated_def)

lemma admin_only_refuses:
  assumes "ADMIN_ROLE \<notin> set (pub_roles (au_user a))"
  shows "\<exists>err. admin_routes c a q d = (Inl err, d) \<and> app_status err = 403"
proof -
  have r: "require_role a ADMIN_ROLE = Inl app_error.Forbidden"
    using assms by (simp add: require_role_def has_role_def)
  show ?thesis
    by (cases q)
      (simp_all add: account_answer_def tenant_answer_def list_users_handler_def get_user_handler_def
        set_user_status_handler_def set_user_roles_handler_def unlock_user_handler_def
        revoke_user_sessions_handler_def delete_user_handler_def list_audit_events_handler_def
        admin_list_organizations_handler_def admin_get_organization_handler_def as_administrator_def
        admin_only_def r)
qed

text \<open>C7: Before anything is read or written: a client over a budget of the route is told so; on every route
  but registration, sign-in, refresh, the mailed links, the public forms and the health check, a request
  without a valid access token of a live session is refused as unauthorized; and on every administrative route
  so is, as forbidden, a caller whose account does not hold the role. None of these requests changes the
  database, the mail queue or the bucket.\<close>

theorem gates_come_first:
  assumes "c_within c GlobalBudget (client_ip c)"
  shows "(\<forall>b. route_budget r = Some b \<and> \<not> c_within c b (client_ip c) \<longrightarrow>
      app c r s = (Inl app_error.TooManyRequests, s)) \<and>
    (needs_session r \<and> isl (asks c s) \<longrightarrow> app c r s = (Inl app_error.Unauthorized, s)) \<and>
    (\<forall>a q. r = ToAdmin q \<and> asks c s = Inr a \<and> ADMIN_ROLE \<notin> set (pub_roles (au_user a)) \<longrightarrow>
      (\<exists>err. app c r s = (Inl err, s) \<and> app_status err = 403)) \<and>
    (\<forall>c'. \<not> c_within c' GlobalBudget (client_ip c') \<longrightarrow> app c' r s = (Inl app_error.TooManyRequests, s))"
proof -
  have inside: "app c r s = routes c r s" using assms by (simp add: app_def enforce_def)
  have "\<exists>err. app c r s = (Inl err, s) \<and> app_status err = 403"
    if to: "r = ToAdmin q" and caller: "asks c s = Inr a" and
      out: "ADMIN_ROLE \<notin> set (pub_roles (au_user a))" for a q
  proof -
    obtain err where e: "admin_routes c a q (fst s) = (Inl err, fst s)" "app_status err = 403"
      using admin_only_refuses [OF out] by blast
    have "routes c (ToAdmin q) s = (Inl err, s)"
      using e(1) caller by (cases s) (simp add: authenticated_def on_db_def)
    then show ?thesis using e(2) to inside by simp
  qed
  then show ?thesis
    using over_budget [of r _ c s] without_session [of r c s]
    by (auto simp: inside isl_def) (simp add: app_def enforce_def)
qed

lemma gates_come_first_witness:
  "app sample_call (ToAuth (PostLogin ''a@x.org'' ''guess'')) (signed_in_db, no_jobs, Map.empty) =
     (Inl app_error.TooManyRequests, signed_in_db, no_jobs, Map.empty) \<and>
   app (sample_call\<lparr>c_authorization := None\<rparr>) (ToAuth GetMe) (signed_in_db, no_jobs, Map.empty) =
     (Inl app_error.Unauthorized, signed_in_db, no_jobs, Map.empty) \<and>
   (\<exists>err. app sample_call (ToAdmin (DeleteUser 1 ''a@example.com'')) (signed_in_db, no_jobs, Map.empty) =
      (Inl err, signed_in_db, no_jobs, Map.empty) \<and> app_status err = 403)"
proof -
  let ?s = "(signed_in_db, no_jobs, Map.empty) :: server_state"
  have budget: "c_within sample_call GlobalBudget (client_ip sample_call)"
    "c_within (sample_call\<lparr>c_authorization := None\<rparr>) GlobalBudget
       (client_ip (sample_call\<lparr>c_authorization := None\<rparr>))"
    "\<not> c_within sample_call LoginBudget (client_ip sample_call)"
    by (simp_all add: sample_call_def)
  have "isl (asks (sample_call\<lparr>c_authorization := None\<rparr>) ?s)"
    by (simp add: sample_call_def authenticated_request_def bearer_token_def and_then_def ok_or_def map_err_def)
  moreover have "(case asks sample_call ?s of Inl e \<Rightarrow> False | Inr a \<Rightarrow> ADMIN_ROLE \<notin> set (pub_roles (au_user a)))"
    by code_simp
  then obtain a where "asks sample_call ?s = Inr a" "ADMIN_ROLE \<notin> set (pub_roles (au_user a))"
    by (auto split: sum.splits)
  ultimately show ?thesis
    using gates_come_first [OF budget(1), of "ToAuth (PostLogin ''a@x.org'' ''guess'')" ?s]
      gates_come_first [OF budget(2), of "ToAuth GetMe" ?s]
      gates_come_first [OF budget(1), of "ToAdmin (DeleteUser 1 ''a@example.com'')" ?s] budget(3)
    by auto
qed


subsection \<open>Headers\<close>

lemma header_layer_keeps: "h \<in> set hs \<Longrightarrow> fst h \<noteq> name \<Longrightarrow> h \<in> set (header_layer name v hs)"
  by (simp add: header_layer_def)

text \<open>Every answer the global budget lets through and that is ready in time carries the protections, and under the API is not stored.\<close>

lemma answers_are_protected:
  assumes "c_within c GlobalBudget (client_ip c)"
  shows "{(''x-content-type-options'', ''nosniff''), (''x-frame-options'', ''DENY''),
      (''referrer-policy'', ''no-referrer'')} \<subseteq> set (answer_headers c r s)"
    and "under_api r \<Longrightarrow> (''cache-control'', ''no-store'') \<in> set (answer_headers c r s)"
    and "cookie_secure (c_config c) \<Longrightarrow> (''strict-transport-security'', ''max-age=31536000; includeSubDomains'')
      \<in> set (answer_headers c r s)"
  using assms by (auto simp: answer_headers_def transport_def no_store_def header_layer_def Let_def)

text \<open>The answer of the global budget carries none of them: its layer is outside theirs.\<close>

lemma global_refusal_is_bare:
  "\<not> c_within c GlobalBudget (client_ip c) \<Longrightarrow> answer_headers c r s = []"
  by (simp add: answer_headers_def)

end
