(* ===== verification/Startup.thy ===== *)
theory Startup
  imports Config
begin

text \<open>
  What a process tells its operator as it starts: \<open>src/src/shared/banner.rs\<close>, and the choice of the log
  format in \<open>src/src/shared/logging.rs\<close>. Whether the terminal takes colour is an argument.
\<close>

section \<open>Log format\<close>

datatype log_format = Pretty | JsonLog

definition log_format_from_str :: "string \<Rightarrow> string + log_format" where
  "log_format_from_str value =
     (let mode = to_ascii_lowercase (trim value)
      in if mode = ''pretty'' \<or> mode = ''text'' \<or> mode = ''human'' then Inr Pretty
         else if mode = ''json'' then Inr JsonLog
         else Inl mode)"

definition configured_format :: "string option \<Rightarrow> log_format" where
  "configured_format var =
     (case var of
        None \<Rightarrow> Pretty
      | Some v \<Rightarrow> (case log_format_from_str v of Inr f \<Rightarrow> f | Inl _ \<Rightarrow> Pretty))"


section \<open>The banner\<close>

definition paint :: "bool \<Rightarrow> string \<Rightarrow> string \<Rightarrow> string" where
  "paint color code s =
     (if color then CHR 0x1B # ''['' @ code @ ''m'' @ s @ CHR 0x1B # ''[0m'' else s)"

definition email_summary :: "'x app_config_scheme \<Rightarrow> string" where
  "email_summary c =
     (if \<not> uses_smtp c then ''disabled (outgoing messages are discarded)''
      else ''smtp '' @ (case smtp_host c of Some h \<Rightarrow> h | None \<Rightarrow> ''unset'') @ '':'' @
           show_nat (unat (smtp_port c)) @ '' ('' @ to_ascii_lowercase (smtp_tls_mode c) @ '')'')"

definition storage_summary :: "'x app_config_scheme \<Rightarrow> bool \<Rightarrow> string" where
  "storage_summary c color =
     (if \<not> file_uploads_enabled c then paint color ''2'' ''disabled (file fields cannot be published)''
      else
        (let bucket = trim (case s3_bucket c of Some b \<Rightarrow> b | None \<Rightarrow> ''unset'');
             destination = (case non_empty (s3_endpoint c) of
                              Some e \<Rightarrow> bucket @ '' via '' @ e
                            | None \<Rightarrow> bucket)
         in if sublist ''http://'' destination
            then destination @ '' '' @ paint color ''33'' ''(unencrypted)'' else destination))"

definition middle_dot :: string where
  "middle_dot = ''  '' @ [CHR 0xC2, CHR 0xB7] @ ''  ''"

definition summary_line :: "'x app_config_scheme \<Rightarrow> string" where
  "summary_line c =
     join middle_dot
       ([if require_email_verification c then ''email verification required''
         else ''email verification optional'',
         if cookie_secure c then ''secure cookies'' else ''insecure cookies (COOKIE_SECURE=false)''] @
        (if password_pepper c \<noteq> None then [''peppered passwords''] else []))"

text \<open>
  The first \<open>://\<close> and the last \<open>@\<close>; the latter comes after the former exactly when it is in what
  follows the scheme.
\<close>

definition redact_url :: "string \<Rightarrow> string" where
  "redact_url url =
     (case split_once ''://'' url of
        None \<Rightarrow> url
      | Some (scheme, rest) \<Rightarrow>
          if CHR ''@'' \<in> set rest then scheme @ ''://***@'' @ last_piece [CHR ''@''] rest else url)"


text \<open>
  \<open>{:<10}\<close> pads on the right to ten characters, of which the colour codes are some. A line is one
  element; the version of the package and the bound address, printed, are arguments.
\<close>

definition pad10 :: "string \<Rightarrow> string" where
  "pad10 s = s @ replicate (10 - char_count s) CHR 0x20"

definition labelled :: "bool \<Rightarrow> string \<Rightarrow> string \<Rightarrow> string" where
  "labelled color name value = ''  '' @ pad10 (paint color ''1'' name) @ '' '' @ value"

definition banner_print :: "bool \<Rightarrow> string \<Rightarrow> string \<Rightarrow> 'x app_config_scheme \<Rightarrow> bool \<Rightarrow> string list" where
  "banner_print color version address c queue_reachable =
     (let base = ''http://'' @ address
      in [[],
          ''  '' @ paint color ''1;36'' (''SubmitSnap Core '' @ version),
          [],
          labelled color ''API'' (paint color ''36'' base),
          labelled color ''Health'' (base @ ''/health'')] @
         (if api_docs_enabled c
          then [labelled color ''Swagger UI'' (paint color ''36'' (base @ ''/docs'')),
                labelled color ''OpenAPI'' (base @ ''/api-docs/openapi.json'')]
          else [labelled color ''Docs'' (paint color ''2'' ''disabled (API_DOCS_ENABLED=false)'')]) @
         [[],
          labelled color ''Database'' (paint color ''2'' (redact_url (database_url c))),
          labelled color ''Queue''
            ((if queue_reachable then paint color ''32'' ''reachable'' else paint color ''31'' ''unreachable'') @
             '' '' @ paint color ''2'' (redact_url (redis_url c))),
          labelled color ''Email'' (email_summary c),
          labelled color ''Storage'' (storage_summary c color),
          [],
          ''  '' @ paint color ''2'' (summary_line c),
          [],
          ''  '' @ paint color ''2'' ''Press Ctrl+C to stop'',
          []])"


section \<open>What the banner shows of a connection string\<close>

lemma split_once_scheme:
  assumes "CHR '':'' \<notin> set scheme"
  shows "split_once ''://'' (scheme @ ''://'' @ rest) = Some (scheme, rest)"
  using assms by (induction scheme) (auto simp: starts_with_def)

text \<open>Whatever stands between the scheme and the host is replaced: the line does not depend on it.\<close>

lemma redact_url_hides_credentials:
  assumes "CHR '':'' \<notin> set scheme" and "CHR ''@'' \<notin> set host"
  shows "redact_url (scheme @ ''://'' @ credentials @ ''@'' @ host) = scheme @ ''://***@'' @ host"
  using split_once_scheme [OF assms(1), of "credentials @ ''@'' @ host"] last_piece_after [OF assms(2), of credentials]
  by (simp add: redact_url_def)

text \<open>Only the place before the host is looked at: a password given as a parameter is printed.\<close>

lemma redact_url_shows_parameters:
  "redact_url ''postgres://db/app?user=svc&password=hunter2'' = ''postgres://db/app?user=svc&password=hunter2''"
  by code_simp

end
