(* ===== verification/Boot.thy ===== *)
theory Boot
  imports Application Startup ConfigGuarantees IpAddr
begin

text \<open>
  The processes: \<open>src/src/main.rs\<close>, the background worker \<open>src/src/bin/worker.rs\<close> and the two commands
  \<open>src/src/bin/grant_admin.rs\<close> and \<open>src/src/bin/check_email.rs\<close>, with what they build before they serve
  (\<open>ApiState::new\<close> of \<open>modules/mod.rs\<close>, \<open>AppState::new\<close>, \<open>PasswordHasher::new\<close>) and the cross-origin
  policies of \<open>shared/security.rs\<close>.

  A process is a list of steps of which each may end it: what it has said so far, and the error it ended
  with or what it runs. The record \<open>platform\<close> holds the answers of the crates and of the machine: whether
  the database can be reached, whether a URL makes a pool of connections, and so on.
\<close>

record platform =
  p_envy :: "(string \<times> string) list \<Rightarrow> string + app_config"
  p_connects :: "string \<Rightarrow> 32 word \<Rightarrow> bool"
  p_pools :: "string \<Rightarrow> bool"
  p_argon2_params :: "nat \<Rightarrow> nat \<Rightarrow> nat \<Rightarrow> bool"
  p_ext :: externals
  p_salt :: string
  p_builds_s3 :: "s3_settings \<Rightarrow> bool"
  p_lettre :: lettre
  p_smtp :: "smtp_sender \<Rightarrow> email_job \<Rightarrow> bool"
  p_http_client :: "64 word \<Rightarrow> bool"
  p_header_value :: "string \<Rightarrow> bool"
  p_allow_list :: "string list \<Rightarrow> bool"
  p_listens :: "ip_addr \<Rightarrow> nat \<Rightarrow> bool"
  p_bound :: string
  p_pings :: bool
  p_color :: bool
  p_version :: string

datatype start_error =
    Usage string
  | ConfigRefused string
  | NoDatabase
  | NoQueuePool
  | NoPasswordHasher
  | NoStorage string
  | NoMailClient mail_setup_error
  | NoHttpClient
  | InvalidAddress
  | NotListening
  | InvalidOrigin string
  | Panicked string
  | SmtpNotConfigured string
  | NotSent
  | NotGranted identity_error

datatype log_line =
    Warn string
  | Info string "(string \<times> string) list"
  | Printed "string list"


section \<open>The address to listen on\<close>

text \<open>\<open>str::parse::<SocketAddr>\<close>: an IPv4 address, or an IPv6 one in brackets, perhaps with a scope, and a port.\<close>

definition read_port :: "string \<Rightarrow> (nat \<times> string) option" where
  "read_port s = do { s \<leftarrow> read_given_char (CHR '':'') s; read_number 10 (length s) 65535 True s }"

definition read_scope :: "string \<Rightarrow> string" where
  "read_scope s =
     (case do { t \<leftarrow> read_given_char (CHR ''%'') s; read_number 10 (length t) 4294967295 True t } of
        Some (_, rest) \<Rightarrow> rest
      | None \<Rightarrow> s)"

definition parse_socket_addr :: "string \<Rightarrow> (ip_addr \<times> nat) option" where
  "parse_socket_addr s =
     (case (case do { (v4, s) \<leftarrow> read_ipv4 s; (port, rest) \<leftarrow> read_port s; Some ((V4 v4, port), rest) } of
              Some r \<Rightarrow> Some r
            | None \<Rightarrow>
                do { s \<leftarrow> read_given_char (CHR ''['') s;
                     (v6, s) \<leftarrow> read_ipv6 s;
                     s \<leftarrow> read_given_char (CHR '']'') (read_scope s);
                     (port, rest) \<leftarrow> read_port s;
                     Some ((V6 v6, port), rest) }) of
        Some (address, []) \<Rightarrow> Some address
      | _ \<Rightarrow> None)"

definition bind_address :: "'x app_config_scheme \<Rightarrow> start_error + ip_addr \<times> nat" where
  "bind_address c =
     ok_or InvalidAddress (parse_socket_addr (server_host c @ '':'' @ show_nat (unat (server_port c))))"


section \<open>What both processes build\<close>

definition MEMORY_COST_KIB :: nat where "MEMORY_COST_KIB = 19 * 1024"
definition TIME_COST :: nat where "TIME_COST = 2"
definition PARALLELISM :: nat where "PARALLELISM = 1"
definition CANARY_PASSWORD :: string where "CANARY_PASSWORD = ''submitsnap-timing-canary''"

text \<open>\<open>PasswordHasher::new\<close>: the hash of the canary, or nothing.\<close>

definition password_hasher_new :: "platform \<Rightarrow> app_config \<Rightarrow> start_error + string" where
  "password_hasher_new p c =
     (if \<not> p_argon2_params p MEMORY_COST_KIB TIME_COST PARALLELISM then Inl NoPasswordHasher
      else map_err (\<lambda>_. NoPasswordHasher)
             (hash_with (p_ext p) (auth_config.truncate c) (p_salt p) CANARY_PASSWORD))"

definition from_env :: "platform \<Rightarrow> (string \<times> string) list \<Rightarrow> start_error + app_config" where
  "from_env p vars = map_err ConfigRefused (from_settings (p_envy p) vars)"

definition db_connect :: "platform \<Rightarrow> app_config \<Rightarrow> start_error + unit" where
  "db_connect p c = (if p_connects p (database_url c) (database_max_connections c) then Inr () else Inl NoDatabase)"

definition queue_connect :: "platform \<Rightarrow> app_config \<Rightarrow> start_error + queue_keys" where
  "queue_connect p c =
     (if p_pools p (redis_url c) then Inr (queue_keys_new (redis_key_prefix c)) else Inl NoQueuePool)"

text \<open>\<open>ApiState::new\<close>: the services are wired from the same connection, queue and configuration; two of them may fail.\<close>

definition api_state_new :: "platform \<Rightarrow> app_config \<Rightarrow> start_error + file_storage" where
  "api_state_new p c =
     and_then (password_hasher_new p c) (\<lambda>_.
       map_err NoStorage (file_storage_from_config (p_builds_s3 p) c))"


section \<open>Cross-origin policies\<close>

text \<open>No list of origins stands for any.\<close>

record cors_policy =
  cp_origins :: "string list option"
  cp_credentials :: bool
  cp_methods :: "string list"
  cp_headers :: "string list"
  cp_max_age :: "nat option"

text \<open>\<open>AllowOrigin::list\<close> returns a layer or panics.\<close>

definition allowlisted :: "platform \<Rightarrow> string list \<Rightarrow> start_error + cors_policy" where
  "allowlisted p origins =
     (case find (\<lambda>origin. \<not> p_header_value p origin) origins of
        Some origin \<Rightarrow> Inl (InvalidOrigin origin)
      | None \<Rightarrow>
          if \<not> p_allow_list p origins then Inl (Panicked ''AllowOrigin::list'')
          else Inr \<lparr>cp_origins = Some origins, cp_credentials = True,
                    cp_methods = [''GET'', ''POST'', ''PUT'', ''PATCH'', ''DELETE'', ''OPTIONS''],
                    cp_headers = [''content-type'', ''authorization''], cp_max_age = Some 600\<rparr>)"

definition api_cors :: "platform \<Rightarrow> app_config \<Rightarrow> start_error + cors_policy option" where
  "api_cors p c =
     (case cors_origins c of
        Some origins \<Rightarrow> and_then (allowlisted p origins) (\<lambda>policy. Inr (Some policy))
      | None \<Rightarrow> Inr None)"

definition public_cors :: cors_policy where
  "public_cors =
     \<lparr>cp_origins = None, cp_credentials = False, cp_methods = [''GET'', ''POST'', ''OPTIONS''],
      cp_headers = [''content-type''], cp_max_age = None\<rparr>"


section \<open>The server\<close>

record service =
  sv_config :: app_config
  sv_limiters :: rate_limiters
  sv_storage :: file_storage
  sv_api_cors :: "cors_policy option"
  sv_public_cors :: cors_policy
  sv_docs :: bool

text \<open>\<open>app\<close> of \<open>src/src/lib.rs\<close> as it is built; \<open>Server.app\<close> is what it answers.\<close>

definition build_app :: "platform \<Rightarrow> app_config \<Rightarrow> start_error + service" where
  "build_app p c =
     and_then (api_state_new p c) (\<lambda>storage.
     and_then (api_cors p c) (\<lambda>policy.
       Inr \<lparr>sv_config = c, sv_limiters = rate_limiters_from_config c, sv_storage = storage,
            sv_api_cors = policy, sv_public_cors = public_cors, sv_docs = api_docs_enabled c\<rparr>))"

definition announcement :: "platform \<Rightarrow> log_format \<Rightarrow> app_config \<Rightarrow> log_line" where
  "announcement p format c =
     (case format of
        Pretty \<Rightarrow> Printed (banner_print (p_color p) (p_version p) (p_bound p) c (p_pings p))
      | JsonLog \<Rightarrow> Info ''HTTP server listening''
          [(''address'', p_bound p), (''queue_reachable'', if p_pings p then ''true'' else ''false'')])"

definition unreachable_queue :: string where
  "unreachable_queue =
     ''the email queue is unreachable; verification and reset messages cannot be delivered''"

definition server_main ::
  "platform \<Rightarrow> string option \<Rightarrow> (string \<times> string) list \<Rightarrow> log_line list \<times> (start_error + service)" where
  "server_main p log_var vars =
     (let format = configured_format log_var
      in case from_env p vars of
           Inl e \<Rightarrow> ([], Inl e)
         | Inr c \<Rightarrow>
             (let said = map Warn (deployment_warnings c)
              in case and_then (db_connect p c) (\<lambda>_.
                      and_then (queue_connect p c) (\<lambda>_. bind_address c)) of
                   Inl e \<Rightarrow> (said, Inl e)
                 | Inr (ip, port) \<Rightarrow>
                     if \<not> p_listens p ip port then (said, Inl NotListening)
                     else (said @ (if p_pings p then [] else [Warn unreachable_queue]) @
                             [announcement p format c],
                           build_app p c)))"


section \<open>The worker\<close>

definition BATCH_SIZE :: int where "BATCH_SIZE = 20"
definition IDLE_SLEEP :: nat where "IDLE_SLEEP = 2"
definition ERROR_SLEEP :: nat where "ERROR_SLEEP = 5"
definition REAP_INTERVAL :: nat where "REAP_INTERVAL = 900"

text \<open>\<open>describe\<close>; the bytes \<open>C2 B7\<close> are the middle dot.\<close>

definition describe_worker :: "app_config \<Rightarrow> log_format \<Rightarrow> log_line list" where
  "describe_worker c format =
     (if uses_smtp c
      then Info ''email loop started''
             [(''smtp_host'', case smtp_host c of Some h \<Rightarrow> h | None \<Rightarrow> ''unset''),
              (''smtp_port'', show_nat (unat (smtp_port c))),
              (''tls'', to_ascii_lowercase (smtp_tls_mode c))]
      else Warn ''EMAIL_PROVIDER is disabled; queued mail will be discarded'') #
     Info ''outbox dispatcher and webhook delivery started''
       [(''timeout_seconds'', show_nat (unat (webhook_timeout_seconds c)))] #
     (if format = Pretty then
        [Printed
           [[], ''  SubmitSnap Core worker'', [],
            ''  loops   email '' @ [CHR 0xC2, CHR 0xB7] @ '' outbox '' @ [CHR 0xC2, CHR 0xB7] @
              '' webhooks'',
            ''  Email   '' @ (if uses_smtp c then ''SMTP'' else ''disabled''),
            ''  Webhooks  '' @ show_nat (unat (webhook_timeout_seconds c)) @ ''s timeout'', [],
            ''  Press Ctrl+C to stop'', []]]
      else [])"

record workers =
  wk_config :: app_config
  wk_mail :: email_client
  wk_storage :: file_storage

definition worker_main ::
  "platform \<Rightarrow> string option \<Rightarrow> (string \<times> string) list \<Rightarrow> log_line list \<times> (start_error + workers)" where
  "worker_main p log_var vars =
     (let format = configured_format log_var
      in case from_env p vars of
           Inl e \<Rightarrow> ([], Inl e)
         | Inr c \<Rightarrow>
             (let said = map Warn (deployment_warnings c)
              in case and_then (db_connect p c) (\<lambda>_.
                      and_then (queue_connect p c) (\<lambda>_.
                      and_then (map_err NoMailClient (email_client_from_config (p_lettre p) (email_settings c))) (\<lambda>mail.
                      and_then (password_hasher_new p c) (\<lambda>_.
                      and_then (map_err NoStorage (file_storage_from_config (p_builds_s3 p) c)) (\<lambda>storage.
                        if p_http_client p (webhook_timeout_seconds c)
                        then Inr \<lparr>wk_config = c, wk_mail = mail, wk_storage = storage\<rparr>
                        else Inl NoHttpClient))))) of
                   Inl e \<Rightarrow> (said, Inl e)
                 | Inr w \<Rightarrow> (said @ describe_worker c format, Inr w)))"


section \<open>The loops of the worker\<close>

text \<open>
  One pass of each loop: how many seconds it sleeps before the next, and what it did. \<open>run_email_loop\<close>
  also yields the message handed to the mail server, if any.
\<close>

definition email_pass ::
  "platform \<Rightarrow> workers \<Rightarrow> bool \<Rightarrow> (email_job \<Rightarrow> bool) \<Rightarrow> email_queue \<Rightarrow> nat \<times> email_job option \<times> email_queue" where
  "email_pass p w queue_up dead_letter_up q =
     (if \<not> queue_up then (ERROR_SLEEP, None, q)
      else case queue_dequeue q of
        (None, q') \<Rightarrow> (IDLE_SLEEP, None, q')
      | (Some job, q') \<Rightarrow>
          (case send_job (p_lettre p) (p_smtp p) (wk_mail w) job of
             (sent, handed) \<Rightarrow>
               (0, handed, if sent then q' else if dead_letter_up job then queue_dead_letter job q' else q')))"

definition outbox_pass ::
  "platform \<Rightarrow> (email_job \<Rightarrow> string option) \<Rightarrow> (int \<Rightarrow> uuid \<Rightarrow> uuid) \<Rightarrow> (int \<Rightarrow> instant) \<Rightarrow> instant \<Rightarrow>
   db \<times> email_queue \<Rightarrow> nat \<times> db \<times> email_queue" where
  "outbox_pass p redis draw clock now s =
     (case dispatcher_run_once (p_ext p) BATCH_SIZE redis draw clock now s of
        (n, s') \<Rightarrow> (if n = 0 then IDLE_SLEEP else 0, s'))"

definition webhook_pass ::
  "platform \<Rightarrow> (http_request \<Rightarrow> http_outcome) \<Rightarrow> (uuid \<Rightarrow> instant) \<Rightarrow> instant \<Rightarrow> db \<Rightarrow> nat \<times> db" where
  "webhook_pass p receiver clock now d =
     (case deliverer_run_once (p_ext p) BATCH_SIZE receiver clock now d of
        (Inr n, d') \<Rightarrow> (if n = 0 then IDLE_SLEEP else 0, d')
      | (Inl e, d') \<Rightarrow> (ERROR_SLEEP, d'))"

text \<open>
  The age at which an upload counts as abandoned, in seconds, as \<open>FormService::new\<close> computes it in a
  \<open>u64\<close>, which wraps in a release build. Without storage the loop ends before its first pass.
\<close>

definition upload_ttl :: "app_config \<Rightarrow> 64 word" where
  "upload_ttl c = upload_ttl_hours c * 60 * 60"

definition upload_pass ::
  "workers \<Rightarrow> bucket_faults \<Rightarrow> instant \<Rightarrow> db \<times> bucket \<Rightarrow> (nat \<times> db \<times> bucket) option" where
  "upload_pass w faults now s =
     (if \<not> is_enabled (wk_storage w) then None
      else case reap_abandoned_uploads (wk_storage w) (unat (upload_ttl (wk_config w))) faults now s of
        (collected, s') \<Rightarrow> Some (REAP_INTERVAL, s'))"

text \<open>The four tasks run side by side.\<close>

inductive worker_step :: "platform \<Rightarrow> workers \<Rightarrow> server_state \<Rightarrow> server_state \<Rightarrow> bool" for p w where
  mail: "email_pass p w queue_up dead_letter_up q = (pause, handed, q') \<Longrightarrow>
    worker_step p w (d, q, b) (d, q', b)"
| outbox: "outbox_pass p redis draw clock now (d, q) = (pause, d', q') \<Longrightarrow>
    worker_step p w (d, q, b) (d', q', b)"
| webhooks: "webhook_pass p receiver clock now d = (pause, d') \<Longrightarrow>
    worker_step p w (d, q, b) (d', q, b)"
| uploads: "upload_pass w faults now (d, b) = Some (pause, d', b') \<Longrightarrow>
    worker_step p w (d, q, b) (d', q, b')"


section \<open>The commands\<close>

text \<open>What the command hands to the mail server, and whom it reports to have written to.\<close>

definition check_message :: "string \<Rightarrow> email_job" where
  "check_message recipient =
     \<lparr>job_to = recipient, job_subject = ''SubmitSnap SMTP check'',
      job_text_body = ''If you are reading this, the configured SMTP settings work.'' @ [CHR 0x0A]\<rparr>"

definition check_email_main ::
  "platform \<Rightarrow> string option \<Rightarrow> (string \<times> string) list \<Rightarrow> email_job option \<times> (start_error + string)" where
  "check_email_main p arg vars =
     (case arg of
        None \<Rightarrow> (None, Inl (Usage ''usage: check_email <recipient@example.com>''))
      | Some recipient \<Rightarrow>
          (case and_then (from_env p vars) (\<lambda>c.
                  if \<not> uses_smtp c then Inl (SmtpNotConfigured (email_provider c))
                  else map_err NoMailClient (email_client_from_config (p_lettre p) (email_settings c))) of
             Inl e \<Rightarrow> (None, Inl e)
           | Inr client \<Rightarrow>
               (case send_job (p_lettre p) (p_smtp p) client (check_message recipient) of
                  (sent, handed) \<Rightarrow> (handed, if sent then Inr recipient else Inl NotSent))))"

definition grant_admin_main ::
  "platform \<Rightarrow> string option \<Rightarrow> (string \<times> string) list \<Rightarrow> instant \<Rightarrow> db \<Rightarrow> (start_error + uuid) \<times> db" where
  "grant_admin_main p arg vars now d =
     (case arg of
        None \<Rightarrow> (Inl (Usage ''usage: grant_admin <email>''), d)
      | Some email \<Rightarrow>
          guard_st (and_then (from_env p vars) (\<lambda>c.
                    and_then (db_connect p c) (\<lambda>_.
                    and_then (queue_connect p c) (\<lambda>_. password_hasher_new p c)))) d (\<lambda>_.
            case grant_role_by_email (p_ext p) email ADMIN_ROLE now d of
              (r, d') \<Rightarrow> (map_err NotGranted r, d')))"


section \<open>Hosts that can be listened on\<close>

lemma to_digit_decimal: "is_ascii_digit c \<Longrightarrow> to_digit 10 c = Some (byte c - 48)"
  by (auto simp: to_digit_def is_ascii_digit_def)

lemma read_digits_all:
  "list_all is_ascii_digit ds \<Longrightarrow> k + length ds \<le> m \<Longrightarrow>
   read_digits 10 m n k ds = Some (foldl (\<lambda>n c. n * 10 + (byte c - 48)) n ds, k + length ds, [])"
  by (induction ds arbitrary: n k) (simp_all add: to_digit_decimal)

lemma read_port_show_nat:
  assumes "n \<le> 65535"
  shows "read_port (CHR '':'' # show_nat n) = Some (n, [])"
proof -
  have "list_all is_ascii_digit (show_nat n)" by (simp add: list_all_iff show_nat_digits)
  then have "read_digits 10 (length (show_nat n)) 0 0 (show_nat n) = Some (n, length (show_nat n), [])"
    using read_digits_all [of "show_nat n" 0] read_show_nat [of n] by (simp add: read_nat_def)
  with assms show ?thesis by (simp add: read_port_def read_number_def)
qed

lemma port_bound: "unat (p :: 16 word) \<le> 65535"
proof -
  have "unat p < 2 ^ LENGTH(16)" by (rule unsigned_less)
  then show ?thesis by simp
qed

text \<open>An IPv4 address in dotted form is listened on as written; of the other hosts that count as this
  machine alone (\<open>is_loopback_only\<close>), two are no address whatever the port.\<close>

lemma dotted_host_binds:
  "is_octets v \<Longrightarrow> server_host c = dotted v \<Longrightarrow> bind_address c = Inr (V4 v, unat (server_port c))"
  by (simp add: bind_address_def parse_socket_addr_def read_ipv4_dotted read_port_show_nat port_bound
      no_digit_ahead_def to_digit_def is_ascii_digit_def is_ascii_lowercase_def is_ascii_uppercase_def byte_def)

lemma nameless_hosts_refused:
  "server_host c = ''localhost'' \<or> server_host c = ''::1'' \<Longrightarrow>
   bind_address c = Inl InvalidAddress \<and> is_loopback_only c"
  by (auto simp: bind_address_def parse_socket_addr_def read_ipv4_def read_separator_def read_octet_def
      read_number_def to_digit_def is_ascii_digit_def is_ascii_lowercase_def is_ascii_uppercase_def byte_def
      is_loopback_only_def trim_def is_whitespace_def is_cont_def)


section \<open>What can still fail at startup\<close>

lemma from_env_Inr: "from_env p vars = Inr c \<longleftrightarrow> p_envy p vars = Inr c \<and> validate_config c = Inr ()"
  by (auto simp: from_env_def from_settings_def)

text \<open>The environment a process expects.\<close>

definition hospitable :: "platform \<Rightarrow> app_config \<Rightarrow> bool" where
  "hospitable p c \<longleftrightarrow>
     p_connects p (database_url c) (database_max_connections c) \<and> p_pools p (redis_url c) \<and>
     p_argon2_params p MEMORY_COST_KIB TIME_COST PARALLELISM \<and>
     (\<forall>m. hash_password (p_ext p) (p_salt p) m \<noteq> None) \<and> (\<forall>s. p_builds_s3 p s) \<and>
     (\<forall>ip port. p_listens p ip port)"

lemma hospitable_new:
  assumes "hospitable p c"
  shows "db_connect p c = Inr ()" and "queue_connect p c = Inr (queue_keys_new (redis_key_prefix c))"
    and "\<exists>h. password_hasher_new p c = Inr h"
    and "file_storage_from_config (p_builds_s3 p) c = Inr (if file_uploads_enabled c then S3 else file_storage.Disabled)"
proof -
  show "db_connect p c = Inr ()" "queue_connect p c = Inr (queue_keys_new (redis_key_prefix c))"
    using assms by (simp_all add: hospitable_def db_connect_def queue_connect_def)
  show "\<exists>h. password_hasher_new p c = Inr h"
    using assms by (auto simp: hospitable_def password_hasher_new_def hash_with_def ok_or_def map_err_def
        split: option.split)
  show "file_storage_from_config (p_builds_s3 p) c = Inr (if file_uploads_enabled c then S3 else file_storage.Disabled)"
    using assms by (auto simp: hospitable_def file_storage_from_config_def s3_settings_of_def non_empty_def
        file_uploads_enabled_def Let_def split: option.split)
qed

lemma allowlisted_Inr:
  "allowlisted p os = Inr policy \<Longrightarrow> cp_origins policy = Some os \<and> list_all (p_header_value p) os \<and> p_allow_list p os"
  by (auto simp: allowlisted_def find_None_iff list_all_iff split: option.splits if_splits)

lemma allowlisted_isl: "isl (allowlisted p os) \<longleftrightarrow> \<not> (list_all (p_header_value p) os \<and> p_allow_list p os)"
  by (auto simp: allowlisted_def find_None_iff find_Some_iff list_all_iff split: option.split)

text \<open>A machine on which everything works.\<close>

definition sample_platform :: "app_config \<Rightarrow> platform" where
  "sample_platform c =
     \<lparr>p_envy = (\<lambda>_. Inr c), p_connects = (\<lambda>_ _. True), p_pools = (\<lambda>_. True), p_argon2_params = (\<lambda>_ _ _. True),
      p_ext = sample_externals, p_salt = ''salt'', p_builds_s3 = (\<lambda>_. True), p_lettre = agreeable,
      p_smtp = (\<lambda>_ _. True), p_http_client = (\<lambda>_. True), p_header_value = (\<lambda>s. CHR 0x0A \<notin> set s),
      p_allow_list = (\<lambda>os. ''*'' \<notin> set os), p_listens = (\<lambda>_ _. True), p_bound = ''127.0.0.1:8080'',
      p_pings = True, p_color = False, p_version = ''0.1.0''\<rparr>"

text \<open>C33: The check of the settings leaves two things that stop a server in a sound environment: a host that
  is not an address to listen on, and a list of origins with one that is no header value, or with the
  wildcard, on which \<open>tower-http\<close> panics. The second is noticed only after the server has said that it
  listens. Otherwise it serves, with the budgets, the storage and the origins of its configuration.\<close>

theorem accepted_config_serves:
  assumes "p_envy p vars = Inr c" and "validate_config c = Inr ()" and "hospitable p c"
    and "\<forall>os. p_allow_list p os \<longleftrightarrow> ''*'' \<notin> set os"
  shows "(\<not> isl (snd (server_main p l vars)) \<longleftrightarrow>
      \<not> isl (bind_address c) \<and>
      (\<forall>os. cors_origins c = Some os \<longrightarrow> list_all (p_header_value p) os \<and> ''*'' \<notin> set os)) \<and>
    (\<forall>sv. snd (server_main p l vars) = Inr sv \<longrightarrow>
      sv_config sv = c \<and> sv_limiters sv = rate_limiters_from_config c \<and>
      sv_storage sv = (if file_uploads_enabled c then S3 else file_storage.Disabled) \<and>
      map_option cp_origins (sv_api_cors sv) = map_option Some (cors_origins c)) \<and>
    (\<not> isl (bind_address c) \<longrightarrow>
      announcement p (configured_format l) c \<in> set (fst (server_main p l vars)))"
proof -
  note new = hospitable_new [OF assms(3)]
  have env: "from_env p vars = Inr c" using assms(1,2) by (simp add: from_env_Inr)
  have listens: "p_listens p ip port" for ip port using assms(3) by (simp add: hospitable_def)
  obtain h where h: "password_hasher_new p c = Inr h" using new(3) by blast
  let ?storage = "if file_uploads_enabled c then S3 else file_storage.Disabled"
  have built: "build_app p c = and_then (api_cors p c) (\<lambda>policy.
      Inr \<lparr>sv_config = c, sv_limiters = rate_limiters_from_config c, sv_storage = ?storage,
           sv_api_cors = policy, sv_public_cors = public_cors, sv_docs = api_docs_enabled c\<rparr>)"
    by (simp add: build_app_def api_state_new_def h new(4))
  have policy: "isl (api_cors p c) \<longleftrightarrow>
      \<not> (\<forall>os. cors_origins c = Some os \<longrightarrow> list_all (p_header_value p) os \<and> ''*'' \<notin> set os)"
  proof (cases "cors_origins c")
    case (Some os)
    then show ?thesis
      using allowlisted_isl [of p os] assms(4) by (cases "allowlisted p os") (simp_all add: api_cors_def)
  qed (simp add: api_cors_def)
  have origins: "map_option cp_origins policy = map_option Some (cors_origins c)"
    if "api_cors p c = Inr policy" for policy
    using that by (auto simp: api_cors_def dest: allowlisted_Inr split: option.splits)
  show ?thesis
  proof (cases "bind_address c")
    case (Inl e)
    then show ?thesis by (simp add: server_main_def env new(1,2) Let_def)
  next
    case (Inr address)
    then have run: "snd (server_main p l vars) = build_app p c"
      "announcement p (configured_format l) c \<in> set (fst (server_main p l vars))"
      by (simp_all add: server_main_def env new(1,2) listens Let_def split: prod.split)
    show ?thesis
      using policy origins Inr run by (cases "api_cors p c") (auto simp: built)
  qed
qed

lemma accepted_config_serves_witness:
  "let p = sample_platform (deployed_config\<lparr>cors_allowed_origins := Some ''https://a.example, *''\<rparr>)
   in validate_config (deployed_config\<lparr>cors_allowed_origins := Some ''https://a.example, *''\<rparr>) = Inr () \<and>
      isl (snd (server_main p None [])) \<and>
      announcement p Pretty (deployed_config\<lparr>cors_allowed_origins := Some ''https://a.example, *''\<rparr>)
        \<in> set (fst (server_main p None []))"
proof -
  let ?c = "deployed_config\<lparr>cors_allowed_origins := Some ''https://a.example, *''\<rparr>"
  let ?p = "sample_platform ?c"
  have c: "validate_config ?c = Inr ()" "cors_origins ?c = Some [''https://a.example'', ''*'']"
    "server_host ?c = dotted (127, 0, 0, 1)" "configured_format None = Pretty"
    by code_simp+
  have bound: "\<not> isl (bind_address ?c)"
    using dotted_host_binds [OF _ c(3)] by (simp add: is_octets_def)
  have p: "p_envy ?p [] = Inr ?c" "hospitable ?p ?c" "\<forall>os. p_allow_list ?p os \<longleftrightarrow> ''*'' \<notin> set os"
    by (simp_all add: sample_platform_def hospitable_def sample_externals_def)
  show ?thesis
    using accepted_config_serves [OF p(1) c(1) p(2,3), of None] c bound by (auto simp: Let_def)
qed

section \<open>The worker and the commands\<close>

text \<open>A pass of the mail loop over a reachable queue is \<open>email_loop_step\<close> with the configured client.\<close>

lemma email_pass_queue:
  "snd (snd (email_pass p w True dead_letter_up q)) =
     snd (email_loop_step (\<lambda>job. fst (send_job (p_lettre p) (p_smtp p) (wk_mail w) job)) dead_letter_up q)"
  by (simp add: email_pass_def email_loop_step_def split: prod.split option.split)

text \<open>No pass of the worker, and no run of the bootstrap command, leaves the states of the application.\<close>

lemma worker_step_application:
  assumes "worker_step p w s s'" and "application_state (p_ext p) (fst s)"
  shows "application_state (p_ext p) (fst s')"
  using assms
proof (cases rule: worker_step.cases)
  case (outbox redis draw clock now d q pause d' q' b)
  then show ?thesis
    using application_state.dispatched [of "p_ext p" d BATCH_SIZE redis draw clock now q] assms(2)
    by (auto simp: outbox_pass_def split: prod.splits)
next
  case (webhooks receiver clock now d pause d' q b)
  then show ?thesis
    using application_state.delivered [of "p_ext p" d BATCH_SIZE receiver clock now] assms(2)
    by (auto simp: webhook_pass_def split: prod.splits sum.splits)
next
  case (uploads faults now d b pause d' b' q)
  then show ?thesis
    using application_state.collected [of "p_ext p" d "wk_storage w" "unat (upload_ttl (wk_config w))" faults now b] assms(2)
    by (auto simp: upload_pass_def split: prod.splits if_splits)
qed simp

lemma worker_run_application:
  "(worker_step p w)\<^sup>*\<^sup>* s s' \<Longrightarrow> application_state (p_ext p) (fst s) \<Longrightarrow> application_state (p_ext p) (fst s')"
  by (induction rule: rtranclp_induct) (auto intro: worker_step_application)

lemma grant_admin_application:
  "application_state (p_ext p) d \<Longrightarrow> application_state (p_ext p) (snd (grant_admin_main p arg vars now d))"
  using application_state.granted [of "p_ext p" d _ ADMIN_ROLE now]
  by (auto simp: grant_admin_main_def guard_st_def split: option.split sum.split prod.split)
     (metis snd_conv)

text \<open>A lifetime of uploads longer than \<open>chrono\<close> can hold passes the check of the settings and is none at
  all: every unclaimed upload is abandoned as soon as it is made.\<close>

lemma long_lifetime_is_none:
  "validate_config (deployed_config\<lparr>upload_ttl_hours := 3000000000000\<rparr>) = Inr () \<and>
   reap_age (unat (upload_ttl (deployed_config\<lparr>upload_ttl_hours := 3000000000000\<rparr>))) = 0"
proof
  show "validate_config (deployed_config\<lparr>upload_ttl_hours := 3000000000000\<rparr>) = Inr ()" by code_simp
  show "reap_age (unat (upload_ttl (deployed_config\<lparr>upload_ttl_hours := 3000000000000\<rparr>))) = 0"
    by (simp add: upload_ttl_def reap_age_def I64_MAX_def)
qed

text \<open>Without storage the worker never touches the bucket.\<close>

lemma disabled_storage_untouched:
  "worker_step p w s s' \<Longrightarrow> wk_storage w = file_storage.Disabled \<Longrightarrow> snd (snd s') = snd (snd s)"
  by (cases rule: worker_step.cases) (auto simp: upload_pass_def is_enabled_def)

text \<open>\<open>check_email\<close> reports only a message the configured server took: never one the disabled client dropped.\<close>

lemma check_email_is_honest:
  assumes "check_email_main p arg vars = (handed, Inr recipient)"
  shows "arg = Some recipient \<and> handed = Some (check_message recipient) \<and>
    (\<exists>c sender. from_env p vars = Inr c \<and> email_client_from_config (p_lettre p) (email_settings c) = Inr (Smtp sender) \<and>
       p_smtp p sender (check_message recipient))"
proof -
  obtain c client where
    c: "arg = Some recipient" "from_env p vars = Inr c" "uses_smtp c"
      "email_client_from_config (p_lettre p) (email_settings c) = Inr client"
      "send_job (p_lettre p) (p_smtp p) client (check_message recipient) = (True, handed)"
    using assms
    by (auto simp: check_email_main_def and_then_Inr map_err_Inr split: option.splits sum.splits prod.splits if_splits)
  from c(3) have "to_ascii_lowercase (trim (ec_provider (email_settings c))) = ''smtp''"
    by (simp add: uses_smtp_def eq_ignore_ascii_case_def email_settings_def)
  with c(4) obtain sender where s: "client = Smtp sender"
    by (auto simp: email_client_from_config_def and_then_Inr split: if_splits)
  with c show ?thesis by (auto simp: send_job_def split: if_splits)
qed

end
