(* ===== verification/Spec2Isabelle.thy ===== *)
theory Spec2Isabelle
  imports Interleaving Dispatching ExportGuarantees UploadGuarantees AdminGuarantees ConfigGuarantees
    Boot
begin

text \<open>
  SubmitSnap core, a multi-tenant form back end in Rust (\<open>src/src/\<close>). Accounts sign in and belong to
  organizations; an organization owns forms and webhook endpoints; strangers submit answers and files to a
  published form; a background worker turns each accepted submission into e-mail and signed webhook
  deliveries. The HTTP server (\<open>main.rs\<close>, \<open>lib.rs\<close>) and the worker (\<open>bin/worker.rs\<close>) share PostgreSQL, a
  Redis list of mails and a bucket of files.

  \<^bold>\<open>Reading the model.\<close> The state is one \<open>db\<close> (\<open>Database\<close>), a record of tables, each the list of its rows,
  with the e-mail queue and the bucket beside it where an operation needs them. A repository query is a
  function of the database. A service operation takes the database and returns \<open>(error + result) \<times> db\<close>, so
  that every \<open>?\<close> and early return of the source is a branch; the order of statements is the order of the
  code, so that what a failing operation has already written is in the database it returns. A string is its
  UTF-8 bytes; sizes and lifetimes that can wrap are \<open>w word\<close>; \<open>i64\<close> counters that only grow by one are
  \<open>int\<close>. Clocks, fresh identifiers, salts and tokens are arguments, and so is what a client, a receiver, the
  bucket or Redis answers. Crates are fields of records (\<open>externals\<close>, \<open>jwt_lib\<close>, \<open>lettre\<close>, \<open>platform\<close>), of
  which nothing is assumed but what a theorem says in its hypotheses.

  \<^bold>\<open>Theories\<close>, with what they model below \<open>src/src/\<close>.
  \<^item> Ground: \<open>Prelude\<close> (\<open>Result\<close>, SQL statements on a table, rules for what an operation keeps), \<open>RustStr\<close>
    (\<open>str\<close>), \<open>Json\<close> (\<open>serde_json::Value\<close>), \<open>IpAddr\<close> (the address parser of the standard library),
    \<open>Externals\<close>, \<open>Database\<close> (rows, tables and cascades of \<open>src/migrations/\<close>), \<open>Shared\<close> (\<open>shared/error.rs\<close>,
    \<open>pagination.rs\<close>, \<open>request.rs\<close>, \<open>time.rs\<close>, \<open>queue.rs\<close>), \<open>Samples\<close> (states to evaluate on).
  \<^item> Accounts: \<open>Users\<close> (\<open>modules/identity/repository.rs\<close>, \<open>model.rs\<close>), \<open>Sessions\<close> (\<open>modules/session/\<close>), \<open>Roles\<close>
    (\<open>modules/rbac/\<close>), \<open>Identity\<close> (\<open>identity/service.rs\<close>, \<open>tokens.rs\<close>, \<open>password.rs\<close>), \<open>Administration\<close>
    (\<open>identity/administration.rs\<close>), \<open>Auth\<close> (\<open>modules/auth/\<close>), \<open>AuthHandlers\<close> (the endpoints of both).
  \<^item> Tenants: \<open>Organization\<close> (\<open>modules/organization/\<close>), \<open>Access\<close> (the guard every tenant operation starts
    with), \<open>Schema\<close> (\<open>modules/form/validation.rs\<close>), \<open>Forms\<close>, \<open>Submissions\<close>, \<open>Uploads\<close>, \<open>Export\<close>
    (\<open>modules/form/\<close>, \<open>shared/storage.rs\<close>, \<open>sniff.rs\<close>), \<open>Webhooks\<close>, \<open>Deliveries\<close> (\<open>modules/webhook/\<close>), \<open>Api\<close>
    (the handlers and routers of the three modules).
  \<^item> Background: \<open>Leases\<close> (the claim both queues are read with), \<open>Dispatcher\<close> (\<open>shared/outbox.rs\<close>,
    \<open>dispatcher/\<close>), \<open>Deliveries\<close>, the reaper of \<open>Uploads\<close>.
  \<^item> Processes: \<open>Config\<close> (\<open>shared/config.rs\<close>, \<open>email/\<close>, the settings of \<open>storage.rs\<close> and \<open>ratelimit.rs\<close>),
    \<open>Startup\<close> (\<open>shared/banner.rs\<close>, \<open>logging.rs\<close>), \<open>Server\<close> (\<open>lib.rs\<close>, the routers, \<open>ratelimit.rs\<close>,
    \<open>security.rs\<close>, \<open>health.rs\<close>: \<open>app\<close> answers one request from one \<open>call\<close>), \<open>Boot\<close> (\<open>main.rs\<close>, the worker with
    its four loops, the commands \<open>grant_admin\<close> and \<open>check_email\<close>, \<open>modules/mod.rs\<close>).

  \<^bold>\<open>What is shown.\<close>
  \<^item> Definitions and answers (\<open>Schema\<close>): the two validators accept exactly what a declarative reading of a
    definition says. \<open>FormLifecycle\<close>: stored definitions are sound, and how a form moves between its states.
    \<open>Ingestion\<close>: an accepted submission is stored once and in full, claims the files it names, and the
    honeypot gives nothing away; the inbox is exact.
  \<^item> Organizations (\<open>Ownership\<close>): the three membership operations implement an abstract contract, and an owner
    always remains; \<open>Interleaving\<close> runs the transactions statement by statement, and shows what the row lock is
    worth and where account deletion goes past it.
  \<^item> Accounts (\<open>SingleUse\<close>, \<open>SessionGuarantees\<close>, \<open>AccountGuarantees\<close>, \<open>AdminGuarantees\<close>): a refresh token and a
    mailed link work once, replay ends a session, signing out is immediate, the lock and the reset, what a
    sign-in decides, and that an administrator remains while those who act are active and act one at a time -
    and how one can be lost otherwise.
  \<^item> Queues (\<open>DeliverySafety\<close>, \<open>DeliveryRuns\<close>, \<open>WebhookGuarantees\<close>, \<open>Dispatching\<close>): no event is dropped, a
    healthy loop drains the outbox, signatures; and over runs in which workers overlap, die and outlive their
    leases and members redeliver, how often a delivery is tried and how long it belongs to its worker.
  \<^item> Files and exports (\<open>UploadGuarantees\<close>, \<open>ExportGuarantees\<close>): uploads are checked as they arrive, the ledger
    covers the bucket but for the files of deleted forms and organizations, an export ends and reads back.
  \<^item> Composition: \<open>ApiGuarantees\<close> quantifies over every tenant route; \<open>Tenants\<close> and \<open>Isolation\<close> show that no
    request below one organization reaches the rows of another, in every state the service reaches;
    \<open>AccountState\<close> and \<open>Application\<close> put the invariants of all tables together over every request of the
    application, the workers and the commands, and show what stands in front of the handlers;
    \<open>ConfigGuarantees\<close> and \<open>Boot\<close> say what an accepted configuration promises, and what it does not.

  \<^bold>\<open>Interfaces.\<close> Each is a locale, interpreted on the model: \<open>access_control\<close> and \<open>tenant_table\<close> (\<open>Access\<close>: the
  guard, and a lookup scoped by organization), \<open>lease_queue\<close> (\<open>Leases\<close>: both background queues), \<open>single_use\<close>
  (\<open>SingleUse\<close>: refresh tokens and mailed links), \<open>account_statements\<close> (\<open>AccountState\<close>: from what the
  statements on the account tables keep to what every endpoint keeps), \<open>tenant_operations\<close> (\<open>Tenants\<close>: the same
  for the routes below an organization; interpreted for isolation, for references and for \<open>application_inv\<close>).

  \<^bold>\<open>Loops.\<close> Recursion is structural or has its measure (\<open>sql_like\<close>, \<open>json_contains\<close>), so every definition is
  total and nothing runs on fuel. A loop that runs for as long as its process does takes the list of what its passes meet:
  \<open>run_outbox_loop\<close> one instant and one behaviour of Redis per pass (\<open>healthy_loop_drains\<close>: as many passes as
  the batch size needs), \<open>export_loop\<close> one read per page (\<open>export_ends\<close>: one more than the pages the rows
  fill); an export whose reads run out is \<open>None\<close>. The three attempts to queue a mail are unrolled by
  recursion on their number.

  \<^bold>\<open>Not modelled.\<close> Cryptography, password hashing, the JWT, SMTP, HTTP and object-store clients and the rate
  limiter (crates: arguments); faults of the database other than those of its constraints, as every query may
  fail and almost always does so by ending its request with a 500; the isolation level of transactions, except
  where \<open>Interleaving\<close> and the double requests of \<open>AdminGuarantees\<close> take them apart; the extraction of paths,
  queries and bodies and their size limits, the request deadline, preflight answers and tracing (axum and
  tower-http); the texts the crate \<open>validator\<close> composes; the reading of the environment (\<open>envy\<close>, \<open>dotenvy\<close>); the
  OpenAPI document (\<open>openapi.rs\<close>, macros); the bytes of secrets (\<open>shared/tokens.rs\<close>); PostgreSQL's refusal
  of the character U+0000 in other texts than those of forms and submissions; pauses, except as the
  number of seconds a pass of the worker asks for.
\<close>

end
